theory Spec2Isabelle
  imports Complex_Main
begin

section \<open>The Number type of the host language\<close>

text \<open>
  Every component of a vector is an ECMAScript Number: an IEEE-754 binary64 value.
  A finite value is kept as sign, mantissa and exponent, \<open>Finite s m e\<close> standing for
  \<open>(-1)^s * m * 2^e\<close>; the sign is \<open>True\<close> for a negative value, so both zeros exist.
  The canonical form has an odd mantissa (or mantissa and exponent 0 for a zero); it is
  what every operation returns.  Operations compute the exact result on integers and
  round it once, to nearest with ties to even, as the standard prescribes.
\<close>

datatype number = NaN | Infinity bool | Finite bool nat int

fun bitlen :: "nat \<Rightarrow> nat" where
  "bitlen n = (if n = 0 then 0 else Suc (bitlen (n div 2)))"

declare bitlen.simps [simp del]

fun normalize_me :: "nat \<Rightarrow> int \<Rightarrow> nat \<times> int" where
  "normalize_me m e =
     (if m = 0 then (0, 0)
      else if even m then normalize_me (m div 2) (e + 1)
      else (m, e))"

declare normalize_me.simps [simp del]

definition round_pick :: "nat \<Rightarrow> nat \<Rightarrow> nat \<Rightarrow> nat" where
  "round_pick q r d =
     (if 2 * r < d then q
      else if 2 * r > d then q + 1
      else if even q then q else q + 1)"

definition round_half_even :: "nat \<Rightarrow> nat \<Rightarrow> nat" where
  "round_half_even M k = round_pick (M div 2 ^ k) (M mod 2 ^ k) (2 ^ k)"

text \<open>
  \<open>fround s M E\<close> is the double nearest to \<open>(-1)^s * M * 2^E\<close>: 53 significant bits,
  no bit below \<open>2^-1074\<close>, and infinity from \<open>2^1024\<close> on.
\<close>

definition round_to :: "nat \<Rightarrow> int \<Rightarrow> int \<Rightarrow> nat \<times> int"
    where
  "round_to M E te =
     (if te \<le> E then normalize_me M E
      else normalize_me (round_half_even M (nat (te - E))) te)"

fun pack :: "bool \<Rightarrow> nat \<times> int \<Rightarrow> number" where
  "pack s (m, e) = (if e + int (bitlen m) > 1024 then Infinity s else Finite s m e)"

definition fround :: "bool \<Rightarrow> nat \<Rightarrow> int \<Rightarrow> number" where
  "fround s M E = pack s (round_to M E (max (- 1074) (E + int (bitlen M) - 53)))"

definition is_double :: "number \<Rightarrow> bool" where
  "is_double x =
     (case x of
        Finite s m e \<Rightarrow>
          (if m = 0 then e = 0
           else odd m \<and> bitlen m \<le> 53 \<and> - 1074 \<le> e
               \<and> e + int (bitlen m) \<le> 1024)
      | _ \<Rightarrow> True)"

definition js_zero :: number where
  "js_zero = Finite False 0 0"

definition js_one :: number where
  "js_one = Finite False 1 0"

definition signed :: "bool \<Rightarrow> nat \<Rightarrow> int" where
  "signed s m = (if s then - int m else int m)"

fun js_neg :: "number \<Rightarrow> number" where
  "js_neg NaN = NaN"
| "js_neg (Infinity s) = Infinity (\<not> s)"
| "js_neg (Finite s m e) = Finite (\<not> s) m e"

text \<open>
  A sum is exact once both mantissas are brought to the smaller exponent.  An exact zero
  sum is \<open>-0\<close> only when both operands are negative.
\<close>

definition sum_result :: "bool \<Rightarrow> int \<Rightarrow> int \<Rightarrow> number" where
  "sum_result sz c E = (if c = 0 then Finite sz 0 0 else fround (c < 0) (nat \<bar>c\<bar>) E)"

fun js_add :: "number \<Rightarrow> number \<Rightarrow> number" where
  "js_add NaN _ = NaN"
| "js_add _ NaN = NaN"
| "js_add (Infinity s) (Infinity s') = (if s = s' then Infinity s else NaN)"
| "js_add (Infinity s) (Finite _ _ _) = Infinity s"
| "js_add (Finite _ _ _) (Infinity s) = Infinity s"
| "js_add (Finite s1 m1 e1) (Finite s2 m2 e2) =
     sum_result (s1 \<and> s2)
       (signed s1 (m1 * 2 ^ nat (e1 - min e1 e2)) + signed s2 (m2 * 2 ^ nat (e2 - min e1 e2)))
       (min e1 e2)"

definition js_sub :: "number \<Rightarrow> number \<Rightarrow> number" where
  "js_sub a b = js_add a (js_neg b)"

fun js_mul :: "number \<Rightarrow> number \<Rightarrow> number" where
  "js_mul NaN _ = NaN"
| "js_mul _ NaN = NaN"
| "js_mul (Infinity s) (Infinity s') = Infinity (s \<noteq> s')"
| "js_mul (Infinity s) (Finite s' m _) = (if m = 0 then NaN else Infinity (s \<noteq> s'))"
| "js_mul (Finite s m _) (Infinity s') = (if m = 0 then NaN else Infinity (s \<noteq> s'))"
| "js_mul (Finite s1 m1 e1) (Finite s2 m2 e2) = fround (s1 \<noteq> s2) (m1 * m2) (e1 + e2)"

text \<open>
  The quotient and the square root are not finite binary fractions in general.  They are
  cut after more than 55 bits and a last bit records whether anything was cut off, which
  rounds like the exact value.
\<close>

definition div_sticky :: "nat \<Rightarrow> nat \<Rightarrow> nat" where
  "div_sticky N d = 2 * (N div d) + (if N mod d = 0 then 0 else 1)"

fun js_div :: "number \<Rightarrow> number \<Rightarrow> number" where
  "js_div NaN _ = NaN"
| "js_div _ NaN = NaN"
| "js_div (Infinity s) (Infinity s') = NaN"
| "js_div (Infinity s) (Finite s' _ _) = Infinity (s \<noteq> s')"
| "js_div (Finite s _ _) (Infinity s') = Finite (s \<noteq> s') 0 0"
| "js_div (Finite s1 m1 e1) (Finite s2 m2 e2) =
     (if m2 = 0 then (if m1 = 0 then NaN else Infinity (s1 \<noteq> s2))
      else fround (s1 \<noteq> s2) (div_sticky (m1 * 2 ^ (bitlen m2 + 55)) m2)
             (e1 - e2 - int (bitlen m2 + 55) - 1))"

definition isqrt_step :: "nat \<Rightarrow> nat \<Rightarrow> nat" where
  "isqrt_step n r = (if (2 * r + 1) * (2 * r + 1) \<le> n then 2 * r + 1 else 2 * r)"

fun isqrt :: "nat \<Rightarrow> nat" where
  "isqrt n = (if n < 2 then n else isqrt_step n (isqrt (n div 4)))"

declare isqrt.simps [simp del]

definition sqrt_shift :: "int \<Rightarrow> nat" where
  "sqrt_shift e = (if even e then 110 else 111)"

definition sqrt_sticky :: "nat \<Rightarrow> nat \<Rightarrow> nat" where
  "sqrt_sticky N r = 2 * r + (if r * r = N then 0 else 1)"

fun Math_sqrt :: "number \<Rightarrow> number" where
  "Math_sqrt NaN = NaN"
| "Math_sqrt (Infinity s) = (if s then NaN else Infinity False)"
| "Math_sqrt (Finite s m e) =
     (if m = 0 then Finite s 0 0
      else if s then NaN
      else fround False (sqrt_sticky (m * 2 ^ sqrt_shift e) (isqrt (m * 2 ^ sqrt_shift e)))
             ((e - int (sqrt_shift e)) div 2 - 1))"

text \<open>Comparisons: any comparison with \<open>NaN\<close> is false, and the two zeros are
    equal.\<close>

fun js_lt :: "number \<Rightarrow> number \<Rightarrow> bool" where
  "js_lt NaN _ = False"
| "js_lt _ NaN = False"
| "js_lt (Infinity s) (Infinity s') = (s \<and> \<not> s')"
| "js_lt (Infinity s) (Finite _ _ _) = s"
| "js_lt (Finite _ _ _) (Infinity s) = (\<not> s)"
| "js_lt (Finite s1 m1 e1) (Finite s2 m2 e2) =
     (signed s1 (m1 * 2 ^ nat (e1 - min e1 e2)) < signed s2 (m2 * 2 ^ nat (e2 - min e1 e2)))"

fun js_eq :: "number \<Rightarrow> number \<Rightarrow> bool" where
  "js_eq NaN _ = False"
| "js_eq _ NaN = False"
| "js_eq (Infinity s) (Infinity s') = (s = s')"
| "js_eq (Infinity s) (Finite _ _ _) = False"
| "js_eq (Finite _ _ _) (Infinity s) = False"
| "js_eq (Finite s1 m1 e1) (Finite s2 m2 e2) =
     (signed s1 (m1 * 2 ^ nat (e1 - min e1 e2)) = signed s2 (m2 * 2 ^ nat (e2 - min e1 e2)))"

definition js_gt :: "number \<Rightarrow> number \<Rightarrow> bool" where
  "js_gt a b = js_lt b a"

definition js_le :: "number \<Rightarrow> number \<Rightarrow> bool" where
  "js_le a b = (js_lt a b \<or> js_eq a b)"

definition js_ge :: "number \<Rightarrow> number \<Rightarrow> bool" where
  "js_ge a b = js_le b a"

text \<open>\<open>if (x)\<close> on a number: zero of either sign and \<open>NaN\<close> are
    falsy.\<close>

fun truthy :: "number \<Rightarrow> bool" where
  "truthy NaN = False"
| "truthy (Infinity _) = True"
| "truthy (Finite _ m _) = (m \<noteq> 0)"

definition isNaN :: "number \<Rightarrow> bool" where
  "isNaN x = (x = NaN)"

section \<open>The vector classes\<close>

text \<open>
  Each class is a record of its public fields; a field is written with the suffix of its
  class (\<open>x2\<close> is the \<open>x\<close> of a \<open>Vector2\<close>).  Constructor arguments are optional, so
  they are options, \<open>None\<close> being an argument left out.  A field starts at its default
  and is overwritten only when the argument is truthy.  The second operand of the
  arithmetic functions is a number or a vector.  \<open>Angle\<close> and the two read-only epsilon
  constants of \<open>Vector2\<close> are left out: nothing below depends on them.
\<close>

definition init_field :: "number \<Rightarrow> number option \<Rightarrow> number" where
  "init_field d arg = (case arg of None \<Rightarrow> d | Some v \<Rightarrow> if truthy v then v
      else d)"

datatype 'v operand = Num number | Vec 'v

subsection \<open>Vector2\<close>

record vector2 =
  x2 :: number
  y2 :: number

definition new_Vector2 :: "number option \<Rightarrow> number option \<Rightarrow> vector2" where
  "new_Vector2 x y =
     \<lparr>x2 = init_field js_zero x,
      y2 = init_field js_zero y\<rparr>"

definition Vector2_right :: vector2 where
  "Vector2_right = new_Vector2 (Some js_one) (Some js_zero)"

definition Vector2_left :: vector2 where
  "Vector2_left = new_Vector2 (Some (js_neg js_one)) (Some js_zero)"

definition Vector2_up :: vector2 where
  "Vector2_up = new_Vector2 (Some js_zero) (Some js_one)"

definition Vector2_down :: vector2 where
  "Vector2_down = new_Vector2 (Some js_zero) (Some (js_neg js_one))"

definition Vector2_one :: vector2 where
  "Vector2_one = new_Vector2 (Some js_one) (Some js_one)"

definition Vector2_zero :: vector2 where
  "Vector2_zero = new_Vector2 (Some js_zero) (Some js_zero)"

definition Vector2_negativeInfinity :: vector2 where
  "Vector2_negativeInfinity = new_Vector2 (Some (Infinity True)) (Some (Infinity True))"

definition Vector2_positiveInfinity :: vector2 where
  "Vector2_positiveInfinity = new_Vector2 (Some (Infinity False)) (Some (Infinity False))"

definition Vector2_magnitude :: "vector2 \<Rightarrow> number" where
  "Vector2_magnitude v = Math_sqrt (js_add (js_mul (x2 v) (x2 v)) (js_mul (y2 v) (y2 v)))"

definition Vector2_sqrMagnitude :: "vector2 \<Rightarrow> number" where
  "Vector2_sqrMagnitude v = Math_sqrt (Vector2_magnitude v)"

definition Vector2_normalized :: "vector2 \<Rightarrow> vector2" where
  "Vector2_normalized v =
     (let mag = Vector2_magnitude v
      in if js_gt mag js_zero
         then new_Vector2
                (Some (js_div (x2 v) mag))
                (Some (js_div (y2 v) mag))
         else Vector2_zero)"

definition Vector2_Dot :: "vector2 \<Rightarrow> vector2 \<Rightarrow> number" where
  "Vector2_Dot lhs rhs =
     js_add (js_mul (x2 lhs) (x2 rhs)) (js_mul (y2 lhs) (y2 rhs))"

definition Vector2_ClampMagnitude :: "vector2 \<Rightarrow> number \<Rightarrow> vector2" where
  "Vector2_ClampMagnitude vector maxLength =
     (let mag = Vector2_magnitude vector;
          multiplier = (if js_gt mag maxLength then js_div maxLength mag else js_one)
      in new_Vector2
           (Some (js_mul (x2 vector) multiplier))
           (Some (js_mul (y2 vector) multiplier)))"

definition Vector2_Cross :: "vector2 \<Rightarrow> vector2 \<Rightarrow> vector2" where
  "Vector2_Cross lhs rhs =
     new_Vector2 (Some (js_sub (js_mul (x2 lhs) (y2 rhs)) (js_mul (x2 rhs) (y2 lhs)))) None"

definition Vector2_Add :: "vector2 \<Rightarrow> vector2 operand \<Rightarrow> vector2" where
  "Vector2_Add a b =
     (case b of
        Num k \<Rightarrow>
          new_Vector2
            (Some (js_add (x2 a) k))
            (Some (js_add (y2 a) k))
      | Vec u \<Rightarrow>
          new_Vector2
            (Some (js_add (x2 a) (x2 u)))
            (Some (js_add (y2 a) (y2 u))))"

definition Vector2_Subtract :: "vector2 \<Rightarrow> vector2 operand \<Rightarrow> vector2" where
  "Vector2_Subtract a b =
     (case b of
        Num k \<Rightarrow>
          new_Vector2
            (Some (js_sub (x2 a) k))
            (Some (js_sub (y2 a) k))
      | Vec u \<Rightarrow>
          new_Vector2
            (Some (js_sub (x2 a) (x2 u)))
            (Some (js_sub (y2 a) (y2 u))))"

definition Vector2_Multiply :: "vector2 \<Rightarrow> vector2 operand \<Rightarrow> vector2" where
  "Vector2_Multiply a b =
     (case b of
        Num k \<Rightarrow>
          new_Vector2
            (Some (js_mul (x2 a) k))
            (Some (js_mul (y2 a) k))
      | Vec u \<Rightarrow>
          new_Vector2
            (Some (js_mul (x2 a) (x2 u)))
            (Some (js_mul (y2 a) (y2 u))))"

definition Vector2_Divide :: "vector2 \<Rightarrow> vector2 operand \<Rightarrow> vector2" where
  "Vector2_Divide a b =
     (case b of
        Num k \<Rightarrow>
          new_Vector2
            (Some (js_div (x2 a) k))
            (Some (js_div (y2 a) k))
      | Vec u \<Rightarrow>
          new_Vector2
            (Some (js_div (x2 a) (x2 u)))
            (Some (js_div (y2 a) (y2 u))))"

definition Vector2_Distance :: "vector2 \<Rightarrow> vector2 \<Rightarrow> number" where
  "Vector2_Distance a b = Vector2_magnitude (Vector2_Subtract a (Vec b))"

definition Vector2_DoLerp :: "vector2 \<Rightarrow> vector2 \<Rightarrow> number \<Rightarrow>
    vector2" where
  "Vector2_DoLerp a b t =
     (let subtracted = Vector2_Subtract b (Vec a);
          multiplied = Vector2_Multiply subtracted (Num t);
          added = Vector2_Add a (Vec multiplied)
      in added)"

definition Vector2_Lerp :: "vector2 \<Rightarrow> vector2 \<Rightarrow> number \<Rightarrow>
    vector2" where
  "Vector2_Lerp a b t =
     (if js_lt t js_zero then a
      else if js_gt t js_one then b
      else Vector2_DoLerp a b t)"

definition Vector2_LerpUnclamped :: "vector2 \<Rightarrow> vector2 \<Rightarrow> number
    \<Rightarrow> vector2" where
  "Vector2_LerpUnclamped a b t = Vector2_DoLerp a b t"

definition Vector2_Magnitude :: "vector2 \<Rightarrow> number" where
  "Vector2_Magnitude vector = Vector2_magnitude vector"

definition Vector2_Max :: "vector2 \<Rightarrow> vector2 \<Rightarrow> vector2" where
  "Vector2_Max lhs rhs =
     new_Vector2
       (Some (if js_ge (x2 lhs) (x2 rhs) then x2 lhs else x2 rhs))
       (Some (if js_ge (y2 lhs) (y2 rhs) then y2 lhs else y2 rhs))"

definition Vector2_Min :: "vector2 \<Rightarrow> vector2 \<Rightarrow> vector2" where
  "Vector2_Min lhs rhs =
     new_Vector2
       (Some (if js_le (x2 lhs) (x2 rhs) then x2 lhs else x2 rhs))
       (Some (if js_le (y2 lhs) (y2 rhs) then y2 lhs else y2 rhs))"

definition Vector2_MoveTowards :: "vector2 \<Rightarrow> vector2 \<Rightarrow> number
    \<Rightarrow> vector2" where
  "Vector2_MoveTowards current target maxDistanceDelta =
     (let distance = Vector2_Distance target current
      in Vector2_Lerp current target (js_div maxDistanceDelta distance))"


subsection \<open>Vector3\<close>

record vector3 =
  x3 :: number
  y3 :: number
  z3 :: number

definition new_Vector3 :: "number option \<Rightarrow> number option \<Rightarrow> number option
    \<Rightarrow> vector3" where
  "new_Vector3 x y z =
     \<lparr>x3 = init_field js_zero x,
      y3 = init_field js_zero y,
      z3 = init_field js_zero z\<rparr>"

definition Vector3_right :: vector3 where
  "Vector3_right = new_Vector3 (Some js_one) (Some js_zero) (Some js_zero)"

definition Vector3_left :: vector3 where
  "Vector3_left = new_Vector3 (Some (js_neg js_one)) (Some js_zero) (Some js_zero)"

definition Vector3_up :: vector3 where
  "Vector3_up = new_Vector3 (Some js_zero) (Some js_one) (Some js_zero)"

definition Vector3_down :: vector3 where
  "Vector3_down = new_Vector3 (Some js_zero) (Some (js_neg js_one)) (Some js_zero)"

definition Vector3_forward :: vector3 where
  "Vector3_forward = new_Vector3 (Some js_zero) (Some js_zero) (Some js_one)"

definition Vector3_back :: vector3 where
  "Vector3_back = new_Vector3 (Some js_zero) (Some js_zero) (Some (js_neg js_one))"

definition Vector3_one :: vector3 where
  "Vector3_one = new_Vector3 (Some js_one) (Some js_one) (Some js_one)"

definition Vector3_zero :: vector3 where
  "Vector3_zero = new_Vector3 (Some js_zero) (Some js_zero) (Some js_zero)"

definition Vector3_negativeInfinity :: vector3 where
  "Vector3_negativeInfinity = new_Vector3 (Some (Infinity True)) (Some (Infinity True)) (Some
      (Infinity True))"

definition Vector3_positiveInfinity :: vector3 where
  "Vector3_positiveInfinity = new_Vector3 (Some (Infinity False)) (Some (Infinity False)) (Some
      (Infinity False))"

definition Vector3_magnitude :: "vector3 \<Rightarrow> number" where
  "Vector3_magnitude v =
     Math_sqrt
       (js_add (js_add (js_mul (x3 v) (x3 v))
          (js_mul (y3 v) (y3 v)))
          (js_mul (z3 v) (z3 v)))"

definition Vector3_sqrMagnitude :: "vector3 \<Rightarrow> number" where
  "Vector3_sqrMagnitude v = Math_sqrt (Vector3_magnitude v)"

definition Vector3_normalized :: "vector3 \<Rightarrow> vector3" where
  "Vector3_normalized v =
     (let mag = Vector3_magnitude v
      in if js_gt mag js_zero
         then new_Vector3
                (Some (js_div (x3 v) mag))
                (Some (js_div (y3 v) mag))
                (Some (js_div (z3 v) mag))
         else Vector3_zero)"

definition Vector3_Dot :: "vector3 \<Rightarrow> vector3 \<Rightarrow> number" where
  "Vector3_Dot lhs rhs =
     js_add (js_add (js_mul (x3 lhs) (x3 rhs)) (js_mul (y3 lhs) (y3 rhs))) (js_mul (z3 lhs) (z3
         rhs))"

definition Vector3_ClampMagnitude :: "vector3 \<Rightarrow> number \<Rightarrow> vector3" where
  "Vector3_ClampMagnitude vector maxLength =
     (let mag = Vector3_magnitude vector;
          multiplier = (if js_gt mag maxLength then js_div maxLength mag else js_one)
      in new_Vector3
           (Some (js_mul (x3 vector) multiplier))
           (Some (js_mul (y3 vector) multiplier))
           (Some (js_mul (z3 vector) multiplier)))"

definition Vector3_Cross :: "vector3 \<Rightarrow> vector3 \<Rightarrow> vector3" where
  "Vector3_Cross lhs rhs =
     new_Vector3
       (Some (js_sub (js_mul (y3 lhs) (z3 rhs)) (js_mul (z3 lhs) (y3 rhs))))
       (Some (js_sub (js_mul (z3 lhs) (x3 rhs)) (js_mul (x3 lhs) (z3 rhs))))
       (Some (js_sub (js_mul (x3 lhs) (y3 rhs)) (js_mul (y3 lhs) (x3 rhs))))"

definition Vector3_Add :: "vector3 \<Rightarrow> vector3 operand \<Rightarrow> vector3" where
  "Vector3_Add a b =
     (case b of
        Num k \<Rightarrow>
          new_Vector3
            (Some (js_add (x3 a) k))
            (Some (js_add (y3 a) k))
            (Some (js_add (z3 a) k))
      | Vec u \<Rightarrow>
          new_Vector3
            (Some (js_add (x3 a) (x3 u)))
            (Some (js_add (y3 a) (y3 u)))
            (Some (js_add (z3 a) (z3 u))))"

definition Vector3_Subtract :: "vector3 \<Rightarrow> vector3 operand \<Rightarrow> vector3" where
  "Vector3_Subtract a b =
     (case b of
        Num k \<Rightarrow>
          new_Vector3
            (Some (js_sub (x3 a) k))
            (Some (js_sub (y3 a) k))
            (Some (js_sub (z3 a) k))
      | Vec u \<Rightarrow>
          new_Vector3
            (Some (js_sub (x3 a) (x3 u)))
            (Some (js_sub (y3 a) (y3 u)))
            (Some (js_sub (z3 a) (z3 u))))"

definition Vector3_Multiply :: "vector3 \<Rightarrow> vector3 operand \<Rightarrow> vector3" where
  "Vector3_Multiply a b =
     (case b of
        Num k \<Rightarrow>
          new_Vector3
            (Some (js_mul (x3 a) k))
            (Some (js_mul (y3 a) k))
            (Some (js_mul (z3 a) k))
      | Vec u \<Rightarrow>
          new_Vector3
            (Some (js_mul (x3 a) (x3 u)))
            (Some (js_mul (y3 a) (y3 u)))
            (Some (js_mul (z3 a) (z3 u))))"

definition Vector3_Divide :: "vector3 \<Rightarrow> vector3 operand \<Rightarrow> vector3" where
  "Vector3_Divide a b =
     (case b of
        Num k \<Rightarrow>
          new_Vector3
            (Some (js_div (x3 a) k))
            (Some (js_div (y3 a) k))
            (Some (js_div (z3 a) k))
      | Vec u \<Rightarrow>
          new_Vector3
            (Some (js_div (x3 a) (x3 u)))
            (Some (js_div (y3 a) (y3 u)))
            (Some (js_div (z3 a) (z3 u))))"

definition Vector3_Distance :: "vector3 \<Rightarrow> vector3 \<Rightarrow> number" where
  "Vector3_Distance a b = Vector3_magnitude (Vector3_Subtract a (Vec b))"

definition Vector3_DoLerp :: "vector3 \<Rightarrow> vector3 \<Rightarrow> number \<Rightarrow>
    vector3" where
  "Vector3_DoLerp a b t =
     (let subtracted = Vector3_Subtract b (Vec a);
          multiplied = Vector3_Multiply subtracted (Num t);
          added = Vector3_Add a (Vec multiplied)
      in added)"

definition Vector3_Lerp :: "vector3 \<Rightarrow> vector3 \<Rightarrow> number \<Rightarrow>
    vector3" where
  "Vector3_Lerp a b t =
     (if js_lt t js_zero then a
      else if js_gt t js_one then b
      else Vector3_DoLerp a b t)"

definition Vector3_LerpUnclamped :: "vector3 \<Rightarrow> vector3 \<Rightarrow> number
    \<Rightarrow> vector3" where
  "Vector3_LerpUnclamped a b t = Vector3_DoLerp a b t"

definition Vector3_Magnitude :: "vector3 \<Rightarrow> number" where
  "Vector3_Magnitude vector = Vector3_magnitude vector"

definition Vector3_Max :: "vector3 \<Rightarrow> vector3 \<Rightarrow> vector3" where
  "Vector3_Max lhs rhs =
     new_Vector3
       (Some (if js_ge (x3 lhs) (x3 rhs) then x3 lhs else x3 rhs))
       (Some (if js_ge (y3 lhs) (y3 rhs) then y3 lhs else y3 rhs))
       (Some (if js_ge (z3 lhs) (z3 rhs) then z3 lhs else z3 rhs))"

definition Vector3_Min :: "vector3 \<Rightarrow> vector3 \<Rightarrow> vector3" where
  "Vector3_Min lhs rhs =
     new_Vector3
       (Some (if js_le (x3 lhs) (x3 rhs) then x3 lhs else x3 rhs))
       (Some (if js_le (y3 lhs) (y3 rhs) then y3 lhs else y3 rhs))
       (Some (if js_le (z3 lhs) (z3 rhs) then z3 lhs else z3 rhs))"

definition Vector3_MoveTowards :: "vector3 \<Rightarrow> vector3 \<Rightarrow> number
    \<Rightarrow> vector3" where
  "Vector3_MoveTowards current target maxDistanceDelta =
     (let distance = Vector3_Distance target current
      in Vector3_Lerp current target (js_div maxDistanceDelta distance))"


subsection \<open>Vector4\<close>

record vector4 =
  x4 :: number
  y4 :: number
  z4 :: number
  w4 :: number

definition new_Vector4 :: "number option \<Rightarrow> number option \<Rightarrow> number option
    \<Rightarrow> number option \<Rightarrow> vector4" where
  "new_Vector4 x y z w =
     \<lparr>x4 = init_field js_zero x,
      y4 = init_field js_zero y,
      z4 = init_field js_zero z,
      w4 = init_field js_one w\<rparr>"

definition Vector4_one :: vector4 where
  "Vector4_one = new_Vector4 (Some js_one) (Some js_one) (Some js_one) (Some js_one)"

definition Vector4_zero :: vector4 where
  "Vector4_zero = new_Vector4 (Some js_zero) (Some js_zero) (Some js_zero) (Some js_zero)"

definition Vector4_negativeInfinity :: vector4 where
  "Vector4_negativeInfinity = new_Vector4 (Some (Infinity True)) (Some (Infinity True)) (Some
      (Infinity True)) (Some (Infinity True))"

definition Vector4_positiveInfinity :: vector4 where
  "Vector4_positiveInfinity = new_Vector4 (Some (Infinity False)) (Some (Infinity False)) (Some
      (Infinity False)) (Some (Infinity False))"

definition Vector4_magnitude :: "vector4 \<Rightarrow> number" where
  "Vector4_magnitude v =
     Math_sqrt
       (js_add (js_add (js_add (js_mul (x4 v) (x4 v))
          (js_mul (y4 v) (y4 v)))
          (js_mul (z4 v) (z4 v)))
          (js_mul (w4 v) (w4 v)))"

definition Vector4_sqrMagnitude :: "vector4 \<Rightarrow> number" where
  "Vector4_sqrMagnitude v = Math_sqrt (Vector4_magnitude v)"

definition Vector4_normalized :: "vector4 \<Rightarrow> vector4" where
  "Vector4_normalized v =
     (let mag = Vector4_magnitude v
      in if js_gt mag js_zero
         then new_Vector4
                (Some (js_div (x4 v) mag))
                (Some (js_div (y4 v) mag))
                (Some (js_div (z4 v) mag))
                (Some (js_div (w4 v) mag))
         else Vector4_zero)"

definition Vector4_Dot :: "vector4 \<Rightarrow> vector4 \<Rightarrow> number" where
  "Vector4_Dot lhs rhs =
     js_add (js_add (js_add (js_mul (x4 lhs) (x4 rhs)) (js_mul (y4 lhs) (y4 rhs))) (js_mul (z4
         lhs) (z4 rhs))) (js_mul (w4 lhs) (w4 rhs))"

definition Vector4_ClampMagnitude :: "vector4 \<Rightarrow> number \<Rightarrow> vector4" where
  "Vector4_ClampMagnitude vector maxLength =
     (let mag = Vector4_magnitude vector;
          multiplier = (if js_gt mag maxLength then js_div maxLength mag else js_one)
      in new_Vector4
           (Some (js_mul (x4 vector) multiplier))
           (Some (js_mul (y4 vector) multiplier))
           (Some (js_mul (z4 vector) multiplier))
           (Some (js_mul (w4 vector) multiplier)))"

definition Vector4_Add :: "vector4 \<Rightarrow> vector4 operand \<Rightarrow> vector4" where
  "Vector4_Add a b =
     (case b of
        Num k \<Rightarrow>
          new_Vector4
            (Some (js_add (x4 a) k))
            (Some (js_add (y4 a) k))
            (Some (js_add (z4 a) k))
            (Some (js_add (w4 a) k))
      | Vec u \<Rightarrow>
          new_Vector4
            (Some (js_add (x4 a) (x4 u)))
            (Some (js_add (y4 a) (y4 u)))
            (Some (js_add (z4 a) (z4 u)))
            (Some (js_add (w4 a) (w4 u))))"

definition Vector4_Subtract :: "vector4 \<Rightarrow> vector4 operand \<Rightarrow> vector4" where
  "Vector4_Subtract a b =
     (case b of
        Num k \<Rightarrow>
          new_Vector4
            (Some (js_sub (x4 a) k))
            (Some (js_sub (y4 a) k))
            (Some (js_sub (z4 a) k))
            (Some (js_sub (w4 a) k))
      | Vec u \<Rightarrow>
          new_Vector4
            (Some (js_sub (x4 a) (x4 u)))
            (Some (js_sub (y4 a) (y4 u)))
            (Some (js_sub (z4 a) (z4 u)))
            (Some (js_sub (w4 a) (w4 u))))"

definition Vector4_Multiply :: "vector4 \<Rightarrow> vector4 operand \<Rightarrow> vector4" where
  "Vector4_Multiply a b =
     (case b of
        Num k \<Rightarrow>
          new_Vector4
            (Some (js_mul (x4 a) k))
            (Some (js_mul (y4 a) k))
            (Some (js_mul (z4 a) k))
            (Some (js_mul (w4 a) k))
      | Vec u \<Rightarrow>
          new_Vector4
            (Some (js_mul (x4 a) (x4 u)))
            (Some (js_mul (y4 a) (y4 u)))
            (Some (js_mul (z4 a) (z4 u)))
            (Some (js_mul (w4 a) (w4 u))))"

definition Vector4_Divide :: "vector4 \<Rightarrow> vector4 operand \<Rightarrow> vector4" where
  "Vector4_Divide a b =
     (case b of
        Num k \<Rightarrow>
          new_Vector4
            (Some (js_div (x4 a) k))
            (Some (js_div (y4 a) k))
            (Some (js_div (z4 a) k))
            (Some (js_div (w4 a) k))
      | Vec u \<Rightarrow>
          new_Vector4
            (Some (js_div (x4 a) (x4 u)))
            (Some (js_div (y4 a) (y4 u)))
            (Some (js_div (z4 a) (z4 u)))
            (Some (js_div (w4 a) (w4 u))))"

definition Vector4_Distance :: "vector4 \<Rightarrow> vector4 \<Rightarrow> number" where
  "Vector4_Distance a b = Vector4_magnitude (Vector4_Subtract a (Vec b))"

definition Vector4_DoLerp :: "vector4 \<Rightarrow> vector4 \<Rightarrow> number \<Rightarrow>
    vector4" where
  "Vector4_DoLerp a b t =
     (let subtracted = Vector4_Subtract b (Vec a);
          multiplied = Vector4_Multiply subtracted (Num t);
          added = Vector4_Add a (Vec multiplied)
      in added)"

definition Vector4_Lerp :: "vector4 \<Rightarrow> vector4 \<Rightarrow> number \<Rightarrow>
    vector4" where
  "Vector4_Lerp a b t =
     (if js_lt t js_zero then a
      else if js_gt t js_one then b
      else Vector4_DoLerp a b t)"

definition Vector4_LerpUnclamped :: "vector4 \<Rightarrow> vector4 \<Rightarrow> number
    \<Rightarrow> vector4" where
  "Vector4_LerpUnclamped a b t = Vector4_DoLerp a b t"

definition Vector4_Magnitude :: "vector4 \<Rightarrow> number" where
  "Vector4_Magnitude vector = Vector4_magnitude vector"

definition Vector4_Max :: "vector4 \<Rightarrow> vector4 \<Rightarrow> vector4" where
  "Vector4_Max lhs rhs =
     new_Vector4
       (Some (if js_ge (x4 lhs) (x4 rhs) then x4 lhs else x4 rhs))
       (Some (if js_ge (y4 lhs) (y4 rhs) then y4 lhs else y4 rhs))
       (Some (if js_ge (z4 lhs) (z4 rhs) then z4 lhs else z4 rhs))
       (Some (if js_ge (w4 lhs) (w4 rhs) then w4 lhs else w4 rhs))"

definition Vector4_Min :: "vector4 \<Rightarrow> vector4 \<Rightarrow> vector4" where
  "Vector4_Min lhs rhs =
     new_Vector4
       (Some (if js_le (x4 lhs) (x4 rhs) then x4 lhs else x4 rhs))
       (Some (if js_le (y4 lhs) (y4 rhs) then y4 lhs else y4 rhs))
       (Some (if js_le (z4 lhs) (z4 rhs) then z4 lhs else z4 rhs))
       (Some (if js_le (w4 lhs) (w4 rhs) then w4 lhs else w4 rhs))"

definition Vector4_MoveTowards :: "vector4 \<Rightarrow> vector4 \<Rightarrow> number
    \<Rightarrow> vector4" where
  "Vector4_MoveTowards current target maxDistanceDelta =
     (let distance = Vector4_Distance target current
      in Vector4_Lerp current target (js_div maxDistanceDelta distance))"


section \<open>Objects and references\<close>

text \<open>
  Where identity matters an object is a position in a store and a vector argument is its
  reference; \<open>new\<close> appends to the store.  The static functions read their arguments
  and allocate their result, \<open>Lerp\<close> may hand back one of its arguments, and the
  instance methods assign the fields of the receiver one after the other.
\<close>

datatype arg = NumArg number | RefArg nat

definition alloc :: "'v list \<Rightarrow> 'v \<Rightarrow> nat \<times> 'v list" where
  "alloc h v = (length h, h @ [v])"

fun operand_of :: "'v list \<Rightarrow> arg \<Rightarrow> 'v operand" where
  "operand_of h (NumArg k) = Num k"
| "operand_of h (RefArg r) = Vec (h ! r)"

subsection \<open>Vector2 on references\<close>

definition Vector2_Add_ref :: "vector2 list \<Rightarrow> nat \<Rightarrow> arg \<Rightarrow> nat
    \<times> vector2 list" where
  "Vector2_Add_ref h a b = alloc h (Vector2_Add (h ! a) (operand_of h b))"

definition Vector2_Subtract_ref :: "vector2 list \<Rightarrow> nat \<Rightarrow> arg \<Rightarrow>
    nat \<times> vector2 list" where
  "Vector2_Subtract_ref h a b = alloc h (Vector2_Subtract (h ! a) (operand_of h b))"

definition Vector2_Multiply_ref :: "vector2 list \<Rightarrow> nat \<Rightarrow> arg \<Rightarrow>
    nat \<times> vector2 list" where
  "Vector2_Multiply_ref h a b = alloc h (Vector2_Multiply (h ! a) (operand_of h b))"

definition Vector2_Divide_ref :: "vector2 list \<Rightarrow> nat \<Rightarrow> arg \<Rightarrow>
    nat \<times> vector2 list" where
  "Vector2_Divide_ref h a b = alloc h (Vector2_Divide (h ! a) (operand_of h b))"

definition Vector2_ClampMagnitude_ref ::
  "vector2 list \<Rightarrow> nat \<Rightarrow> number \<Rightarrow> nat \<times> vector2 list"
      where
  "Vector2_ClampMagnitude_ref h vector maxLength =
     alloc h (Vector2_ClampMagnitude (h ! vector) maxLength)"

definition Vector2_Distance_ref :: "vector2 list \<Rightarrow> nat \<Rightarrow> nat \<Rightarrow>
    number \<times> vector2 list" where
  "Vector2_Distance_ref h a b =
     (case Vector2_Subtract_ref h a (RefArg b) of
        (d, h1) \<Rightarrow> (Vector2_magnitude (h1 ! d), h1))"

definition Vector2_DoLerp_ref :: "vector2 list \<Rightarrow> nat \<Rightarrow> nat \<Rightarrow>
    number \<Rightarrow> nat \<times> vector2 list" where
  "Vector2_DoLerp_ref h a b t =
     (case Vector2_Subtract_ref h b (RefArg a) of
        (subtracted, h1) \<Rightarrow>
          (case Vector2_Multiply_ref h1 subtracted (NumArg t) of
             (multiplied, h2) \<Rightarrow> Vector2_Add_ref h2 a (RefArg multiplied)))"

definition Vector2_Lerp_ref :: "vector2 list \<Rightarrow> nat \<Rightarrow> nat \<Rightarrow>
    number \<Rightarrow> nat \<times> vector2 list" where
  "Vector2_Lerp_ref h a b t =
     (if js_lt t js_zero then (a, h)
      else if js_gt t js_one then (b, h)
      else Vector2_DoLerp_ref h a b t)"

definition Vector2_MoveTowards_ref ::
  "vector2 list \<Rightarrow> nat \<Rightarrow> nat \<Rightarrow> number \<Rightarrow> nat
      \<times> vector2 list" where
  "Vector2_MoveTowards_ref h current target maxDistanceDelta =
     (case Vector2_Distance_ref h target current of
        (distance, h1) \<Rightarrow>
          Vector2_Lerp_ref h1 current target (js_div maxDistanceDelta distance))"

definition Vector2_Add_method :: "vector2 list \<Rightarrow> nat \<Rightarrow> arg \<Rightarrow>
    vector2 list" where
  "Vector2_Add_method h this rhs =
     (case rhs of
        NumArg k \<Rightarrow>
          (let h1 = h[this := (h ! this)\<lparr>x2 := js_add (x2 (h ! this)) k\<rparr>];
               h2 = h1[this := (h1 ! this)\<lparr>y2 := js_add (y2 (h1 ! this)) k\<rparr>]
           in h2)
      | RefArg r \<Rightarrow>
          (let h1 = h[this := (h ! this)\<lparr>x2 := js_add (x2 (h ! this)) (x2 (h ! r))\<rparr>];
               h2 = h1[this := (h1 ! this)\<lparr>y2 := js_add (y2 (h1 ! this)) (y2 (h1 !
                   r))\<rparr>]
           in h2))"

definition Vector2_Subtract_method :: "vector2 list \<Rightarrow> nat \<Rightarrow> arg
    \<Rightarrow> vector2 list" where
  "Vector2_Subtract_method h this rhs =
     (case rhs of
        NumArg k \<Rightarrow>
          (let h1 = h[this := (h ! this)\<lparr>x2 := js_sub (x2 (h ! this)) k\<rparr>];
               h2 = h1[this := (h1 ! this)\<lparr>y2 := js_sub (y2 (h1 ! this)) k\<rparr>]
           in h2)
      | RefArg r \<Rightarrow>
          (let h1 = h[this := (h ! this)\<lparr>x2 := js_sub (x2 (h ! this)) (x2 (h ! r))\<rparr>];
               h2 = h1[this := (h1 ! this)\<lparr>y2 := js_sub (y2 (h1 ! this)) (y2 (h1 !
                   r))\<rparr>]
           in h2))"

definition Vector2_Multiply_method :: "vector2 list \<Rightarrow> nat \<Rightarrow> arg
    \<Rightarrow> vector2 list" where
  "Vector2_Multiply_method h this rhs =
     (case rhs of
        NumArg k \<Rightarrow>
          (let h1 = h[this := (h ! this)\<lparr>x2 := js_mul (x2 (h ! this)) k\<rparr>];
               h2 = h1[this := (h1 ! this)\<lparr>y2 := js_mul (y2 (h1 ! this)) k\<rparr>]
           in h2)
      | RefArg r \<Rightarrow>
          (let h1 = h[this := (h ! this)\<lparr>x2 := js_mul (x2 (h ! this)) (x2 (h ! r))\<rparr>];
               h2 = h1[this := (h1 ! this)\<lparr>y2 := js_mul (y2 (h1 ! this)) (y2 (h1 !
                   r))\<rparr>]
           in h2))"

definition Vector2_Divide_method :: "vector2 list \<Rightarrow> nat \<Rightarrow> arg
    \<Rightarrow> vector2 list" where
  "Vector2_Divide_method h this rhs =
     (case rhs of
        NumArg k \<Rightarrow>
          (let h1 = h[this := (h ! this)\<lparr>x2 := js_div (x2 (h ! this)) k\<rparr>];
               h2 = h1[this := (h1 ! this)\<lparr>y2 := js_div (y2 (h1 ! this)) k\<rparr>]
           in h2)
      | RefArg r \<Rightarrow>
          (let h1 = h[this := (h ! this)\<lparr>x2 := js_div (x2 (h ! this)) (x2 (h ! r))\<rparr>];
               h2 = h1[this := (h1 ! this)\<lparr>y2 := js_div (y2 (h1 ! this)) (y2 (h1 !
                   r))\<rparr>]
           in h2))"


subsection \<open>Vector3 on references\<close>

definition Vector3_Add_ref :: "vector3 list \<Rightarrow> nat \<Rightarrow> arg \<Rightarrow> nat
    \<times> vector3 list" where
  "Vector3_Add_ref h a b = alloc h (Vector3_Add (h ! a) (operand_of h b))"

definition Vector3_Subtract_ref :: "vector3 list \<Rightarrow> nat \<Rightarrow> arg \<Rightarrow>
    nat \<times> vector3 list" where
  "Vector3_Subtract_ref h a b = alloc h (Vector3_Subtract (h ! a) (operand_of h b))"

definition Vector3_Multiply_ref :: "vector3 list \<Rightarrow> nat \<Rightarrow> arg \<Rightarrow>
    nat \<times> vector3 list" where
  "Vector3_Multiply_ref h a b = alloc h (Vector3_Multiply (h ! a) (operand_of h b))"

definition Vector3_Divide_ref :: "vector3 list \<Rightarrow> nat \<Rightarrow> arg \<Rightarrow>
    nat \<times> vector3 list" where
  "Vector3_Divide_ref h a b = alloc h (Vector3_Divide (h ! a) (operand_of h b))"

definition Vector3_ClampMagnitude_ref ::
  "vector3 list \<Rightarrow> nat \<Rightarrow> number \<Rightarrow> nat \<times> vector3 list"
      where
  "Vector3_ClampMagnitude_ref h vector maxLength =
     alloc h (Vector3_ClampMagnitude (h ! vector) maxLength)"

definition Vector3_Distance_ref :: "vector3 list \<Rightarrow> nat \<Rightarrow> nat \<Rightarrow>
    number \<times> vector3 list" where
  "Vector3_Distance_ref h a b =
     (case Vector3_Subtract_ref h a (RefArg b) of
        (d, h1) \<Rightarrow> (Vector3_magnitude (h1 ! d), h1))"

definition Vector3_DoLerp_ref :: "vector3 list \<Rightarrow> nat \<Rightarrow> nat \<Rightarrow>
    number \<Rightarrow> nat \<times> vector3 list" where
  "Vector3_DoLerp_ref h a b t =
     (case Vector3_Subtract_ref h b (RefArg a) of
        (subtracted, h1) \<Rightarrow>
          (case Vector3_Multiply_ref h1 subtracted (NumArg t) of
             (multiplied, h2) \<Rightarrow> Vector3_Add_ref h2 a (RefArg multiplied)))"

definition Vector3_Lerp_ref :: "vector3 list \<Rightarrow> nat \<Rightarrow> nat \<Rightarrow>
    number \<Rightarrow> nat \<times> vector3 list" where
  "Vector3_Lerp_ref h a b t =
     (if js_lt t js_zero then (a, h)
      else if js_gt t js_one then (b, h)
      else Vector3_DoLerp_ref h a b t)"

definition Vector3_MoveTowards_ref ::
  "vector3 list \<Rightarrow> nat \<Rightarrow> nat \<Rightarrow> number \<Rightarrow> nat
      \<times> vector3 list" where
  "Vector3_MoveTowards_ref h current target maxDistanceDelta =
     (case Vector3_Distance_ref h target current of
        (distance, h1) \<Rightarrow>
          Vector3_Lerp_ref h1 current target (js_div maxDistanceDelta distance))"

definition Vector3_Add_method :: "vector3 list \<Rightarrow> nat \<Rightarrow> arg \<Rightarrow>
    vector3 list" where
  "Vector3_Add_method h this rhs =
     (case rhs of
        NumArg k \<Rightarrow>
          (let h1 = h[this := (h ! this)\<lparr>x3 := js_add (x3 (h ! this)) k\<rparr>];
               h2 = h1[this := (h1 ! this)\<lparr>y3 := js_add (y3 (h1 ! this)) k\<rparr>];
               h3 = h2[this := (h2 ! this)\<lparr>z3 := js_add (z3 (h2 ! this)) k\<rparr>]
           in h3)
      | RefArg r \<Rightarrow>
          (let h1 = h[this := (h ! this)\<lparr>x3 := js_add (x3 (h ! this)) (x3 (h ! r))\<rparr>];
               h2 = h1[this := (h1 ! this)\<lparr>y3 := js_add (y3 (h1 ! this)) (y3 (h1 !
                   r))\<rparr>];
               h3 = h2[this := (h2 ! this)\<lparr>z3 := js_add (z3 (h2 ! this)) (z3 (h2 !
                   r))\<rparr>]
           in h3))"

definition Vector3_Subtract_method :: "vector3 list \<Rightarrow> nat \<Rightarrow> arg
    \<Rightarrow> vector3 list" where
  "Vector3_Subtract_method h this rhs =
     (case rhs of
        NumArg k \<Rightarrow>
          (let h1 = h[this := (h ! this)\<lparr>x3 := js_sub (x3 (h ! this)) k\<rparr>];
               h2 = h1[this := (h1 ! this)\<lparr>y3 := js_sub (y3 (h1 ! this)) k\<rparr>];
               h3 = h2[this := (h2 ! this)\<lparr>z3 := js_sub (z3 (h2 ! this)) k\<rparr>]
           in h3)
      | RefArg r \<Rightarrow>
          (let h1 = h[this := (h ! this)\<lparr>x3 := js_sub (x3 (h ! this)) (x3 (h ! r))\<rparr>];
               h2 = h1[this := (h1 ! this)\<lparr>y3 := js_sub (y3 (h1 ! this)) (y3 (h1 !
                   r))\<rparr>];
               h3 = h2[this := (h2 ! this)\<lparr>z3 := js_sub (z3 (h2 ! this)) (z3 (h2 !
                   r))\<rparr>]
           in h3))"

definition Vector3_Multiply_method :: "vector3 list \<Rightarrow> nat \<Rightarrow> arg
    \<Rightarrow> vector3 list" where
  "Vector3_Multiply_method h this rhs =
     (case rhs of
        NumArg k \<Rightarrow>
          (let h1 = h[this := (h ! this)\<lparr>x3 := js_mul (x3 (h ! this)) k\<rparr>];
               h2 = h1[this := (h1 ! this)\<lparr>y3 := js_mul (y3 (h1 ! this)) k\<rparr>];
               h3 = h2[this := (h2 ! this)\<lparr>z3 := js_mul (z3 (h2 ! this)) k\<rparr>]
           in h3)
      | RefArg r \<Rightarrow>
          (let h1 = h[this := (h ! this)\<lparr>x3 := js_mul (x3 (h ! this)) (x3 (h ! r))\<rparr>];
               h2 = h1[this := (h1 ! this)\<lparr>y3 := js_mul (y3 (h1 ! this)) (y3 (h1 !
                   r))\<rparr>];
               h3 = h2[this := (h2 ! this)\<lparr>z3 := js_mul (z3 (h2 ! this)) (z3 (h2 !
                   r))\<rparr>]
           in h3))"

definition Vector3_Divide_method :: "vector3 list \<Rightarrow> nat \<Rightarrow> arg
    \<Rightarrow> vector3 list" where
  "Vector3_Divide_method h this rhs =
     (case rhs of
        NumArg k \<Rightarrow>
          (let h1 = h[this := (h ! this)\<lparr>x3 := js_div (x3 (h ! this)) k\<rparr>];
               h2 = h1[this := (h1 ! this)\<lparr>y3 := js_div (y3 (h1 ! this)) k\<rparr>];
               h3 = h2[this := (h2 ! this)\<lparr>z3 := js_div (z3 (h2 ! this)) k\<rparr>]
           in h3)
      | RefArg r \<Rightarrow>
          (let h1 = h[this := (h ! this)\<lparr>x3 := js_div (x3 (h ! this)) (x3 (h ! r))\<rparr>];
               h2 = h1[this := (h1 ! this)\<lparr>y3 := js_div (y3 (h1 ! this)) (y3 (h1 !
                   r))\<rparr>];
               h3 = h2[this := (h2 ! this)\<lparr>z3 := js_div (z3 (h2 ! this)) (z3 (h2 !
                   r))\<rparr>]
           in h3))"


subsection \<open>Vector4 on references\<close>

definition Vector4_Add_ref :: "vector4 list \<Rightarrow> nat \<Rightarrow> arg \<Rightarrow> nat
    \<times> vector4 list" where
  "Vector4_Add_ref h a b = alloc h (Vector4_Add (h ! a) (operand_of h b))"

definition Vector4_Subtract_ref :: "vector4 list \<Rightarrow> nat \<Rightarrow> arg \<Rightarrow>
    nat \<times> vector4 list" where
  "Vector4_Subtract_ref h a b = alloc h (Vector4_Subtract (h ! a) (operand_of h b))"

definition Vector4_Multiply_ref :: "vector4 list \<Rightarrow> nat \<Rightarrow> arg \<Rightarrow>
    nat \<times> vector4 list" where
  "Vector4_Multiply_ref h a b = alloc h (Vector4_Multiply (h ! a) (operand_of h b))"

definition Vector4_Divide_ref :: "vector4 list \<Rightarrow> nat \<Rightarrow> arg \<Rightarrow>
    nat \<times> vector4 list" where
  "Vector4_Divide_ref h a b = alloc h (Vector4_Divide (h ! a) (operand_of h b))"

definition Vector4_ClampMagnitude_ref ::
  "vector4 list \<Rightarrow> nat \<Rightarrow> number \<Rightarrow> nat \<times> vector4 list"
      where
  "Vector4_ClampMagnitude_ref h vector maxLength =
     alloc h (Vector4_ClampMagnitude (h ! vector) maxLength)"

definition Vector4_Distance_ref :: "vector4 list \<Rightarrow> nat \<Rightarrow> nat \<Rightarrow>
    number \<times> vector4 list" where
  "Vector4_Distance_ref h a b =
     (case Vector4_Subtract_ref h a (RefArg b) of
        (d, h1) \<Rightarrow> (Vector4_magnitude (h1 ! d), h1))"

definition Vector4_DoLerp_ref :: "vector4 list \<Rightarrow> nat \<Rightarrow> nat \<Rightarrow>
    number \<Rightarrow> nat \<times> vector4 list" where
  "Vector4_DoLerp_ref h a b t =
     (case Vector4_Subtract_ref h b (RefArg a) of
        (subtracted, h1) \<Rightarrow>
          (case Vector4_Multiply_ref h1 subtracted (NumArg t) of
             (multiplied, h2) \<Rightarrow> Vector4_Add_ref h2 a (RefArg multiplied)))"

definition Vector4_Lerp_ref :: "vector4 list \<Rightarrow> nat \<Rightarrow> nat \<Rightarrow>
    number \<Rightarrow> nat \<times> vector4 list" where
  "Vector4_Lerp_ref h a b t =
     (if js_lt t js_zero then (a, h)
      else if js_gt t js_one then (b, h)
      else Vector4_DoLerp_ref h a b t)"

definition Vector4_MoveTowards_ref ::
  "vector4 list \<Rightarrow> nat \<Rightarrow> nat \<Rightarrow> number \<Rightarrow> nat
      \<times> vector4 list" where
  "Vector4_MoveTowards_ref h current target maxDistanceDelta =
     (case Vector4_Distance_ref h target current of
        (distance, h1) \<Rightarrow>
          Vector4_Lerp_ref h1 current target (js_div maxDistanceDelta distance))"

definition Vector4_Add_method :: "vector4 list \<Rightarrow> nat \<Rightarrow> arg \<Rightarrow>
    vector4 list" where
  "Vector4_Add_method h this rhs =
     (case rhs of
        NumArg k \<Rightarrow>
          (let h1 = h[this := (h ! this)\<lparr>x4 := js_add (x4 (h ! this)) k\<rparr>];
               h2 = h1[this := (h1 ! this)\<lparr>y4 := js_add (y4 (h1 ! this)) k\<rparr>];
               h3 = h2[this := (h2 ! this)\<lparr>z4 := js_add (z4 (h2 ! this)) k\<rparr>];
               h4 = h3[this := (h3 ! this)\<lparr>w4 := js_add (w4 (h3 ! this)) k\<rparr>]
           in h4)
      | RefArg r \<Rightarrow>
          (let h1 = h[this := (h ! this)\<lparr>x4 := js_add (x4 (h ! this)) (x4 (h ! r))\<rparr>];
               h2 = h1[this := (h1 ! this)\<lparr>y4 := js_add (y4 (h1 ! this)) (y4 (h1 !
                   r))\<rparr>];
               h3 = h2[this := (h2 ! this)\<lparr>z4 := js_add (z4 (h2 ! this)) (z4 (h2 !
                   r))\<rparr>];
               h4 = h3[this := (h3 ! this)\<lparr>w4 := js_add (w4 (h3 ! this)) (w4 (h3 !
                   r))\<rparr>]
           in h4))"

definition Vector4_Subtract_method :: "vector4 list \<Rightarrow> nat \<Rightarrow> arg
    \<Rightarrow> vector4 list" where
  "Vector4_Subtract_method h this rhs =
     (case rhs of
        NumArg k \<Rightarrow>
          (let h1 = h[this := (h ! this)\<lparr>x4 := js_sub (x4 (h ! this)) k\<rparr>];
               h2 = h1[this := (h1 ! this)\<lparr>y4 := js_sub (y4 (h1 ! this)) k\<rparr>];
               h3 = h2[this := (h2 ! this)\<lparr>z4 := js_sub (z4 (h2 ! this)) k\<rparr>];
               h4 = h3[this := (h3 ! this)\<lparr>w4 := js_sub (w4 (h3 ! this)) k\<rparr>]
           in h4)
      | RefArg r \<Rightarrow>
          (let h1 = h[this := (h ! this)\<lparr>x4 := js_sub (x4 (h ! this)) (x4 (h ! r))\<rparr>];
               h2 = h1[this := (h1 ! this)\<lparr>y4 := js_sub (y4 (h1 ! this)) (y4 (h1 !
                   r))\<rparr>];
               h3 = h2[this := (h2 ! this)\<lparr>z4 := js_sub (z4 (h2 ! this)) (z4 (h2 !
                   r))\<rparr>];
               h4 = h3[this := (h3 ! this)\<lparr>w4 := js_sub (w4 (h3 ! this)) (w4 (h3 !
                   r))\<rparr>]
           in h4))"

definition Vector4_Multiply_method :: "vector4 list \<Rightarrow> nat \<Rightarrow> arg
    \<Rightarrow> vector4 list" where
  "Vector4_Multiply_method h this rhs =
     (case rhs of
        NumArg k \<Rightarrow>
          (let h1 = h[this := (h ! this)\<lparr>x4 := js_mul (x4 (h ! this)) k\<rparr>];
               h2 = h1[this := (h1 ! this)\<lparr>y4 := js_mul (y4 (h1 ! this)) k\<rparr>];
               h3 = h2[this := (h2 ! this)\<lparr>z4 := js_mul (z4 (h2 ! this)) k\<rparr>];
               h4 = h3[this := (h3 ! this)\<lparr>w4 := js_mul (w4 (h3 ! this)) k\<rparr>]
           in h4)
      | RefArg r \<Rightarrow>
          (let h1 = h[this := (h ! this)\<lparr>x4 := js_mul (x4 (h ! this)) (x4 (h ! r))\<rparr>];
               h2 = h1[this := (h1 ! this)\<lparr>y4 := js_mul (y4 (h1 ! this)) (y4 (h1 !
                   r))\<rparr>];
               h3 = h2[this := (h2 ! this)\<lparr>z4 := js_mul (z4 (h2 ! this)) (z4 (h2 !
                   r))\<rparr>];
               h4 = h3[this := (h3 ! this)\<lparr>w4 := js_mul (w4 (h3 ! this)) (w4 (h3 !
                   r))\<rparr>]
           in h4))"

definition Vector4_Divide_method :: "vector4 list \<Rightarrow> nat \<Rightarrow> arg
    \<Rightarrow> vector4 list" where
  "Vector4_Divide_method h this rhs =
     (case rhs of
        NumArg k \<Rightarrow>
          (let h1 = h[this := (h ! this)\<lparr>x4 := js_div (x4 (h ! this)) k\<rparr>];
               h2 = h1[this := (h1 ! this)\<lparr>y4 := js_div (y4 (h1 ! this)) k\<rparr>];
               h3 = h2[this := (h2 ! this)\<lparr>z4 := js_div (z4 (h2 ! this)) k\<rparr>];
               h4 = h3[this := (h3 ! this)\<lparr>w4 := js_div (w4 (h3 ! this)) k\<rparr>]
           in h4)
      | RefArg r \<Rightarrow>
          (let h1 = h[this := (h ! this)\<lparr>x4 := js_div (x4 (h ! this)) (x4 (h ! r))\<rparr>];
               h2 = h1[this := (h1 ! this)\<lparr>y4 := js_div (y4 (h1 ! this)) (y4 (h1 !
                   r))\<rparr>];
               h3 = h2[this := (h2 ! this)\<lparr>z4 := js_div (z4 (h2 ! this)) (z4 (h2 !
                   r))\<rparr>];
               h4 = h3[this := (h3 ! this)\<lparr>w4 := js_div (w4 (h3 ! this)) (w4 (h3 !
                   r))\<rparr>]
           in h4))"

section \<open>Predicates of the statements\<close>

text \<open>
  The sign bit, the two zeros, the finite values, and the vectors none of whose
  components is \<open>NaN\<close>, respectively all of whose components are canonical doubles.
\<close>

fun negative :: "number \<Rightarrow> bool" where
  "negative NaN = False"
| "negative (Infinity s) = s"
| "negative (Finite s _ _) = s"

fun is_zero :: "number \<Rightarrow> bool" where
  "is_zero (Finite _ m _) = (m = 0)"
| "is_zero _ = False"

fun is_finite :: "number \<Rightarrow> bool" where
  "is_finite (Finite _ _ _) = True"
| "is_finite _ = False"

definition nonneg :: "number \<Rightarrow> bool" where
  "nonneg x = (\<not> isNaN x \<and> \<not> negative x)"

definition no_NaN2 :: "vector2 \<Rightarrow> bool" where
  "no_NaN2 v = (\<not> isNaN (x2 v) \<and> \<not> isNaN (y2 v))"

definition no_NaN3 :: "vector3 \<Rightarrow> bool" where
  "no_NaN3 v = (\<not> isNaN (x3 v) \<and> \<not> isNaN (y3 v) \<and> \<not> isNaN (z3 v))"

definition no_NaN4 :: "vector4 \<Rightarrow> bool" where
  "no_NaN4 v = (\<not> isNaN (x4 v) \<and> \<not> isNaN (y4 v) \<and> \<not> isNaN (z4 v)
      \<and> \<not> isNaN (w4 v))"

definition doubles2 :: "vector2 \<Rightarrow> bool" where
  "doubles2 v = (is_double (x2 v) \<and> is_double (y2 v))"

definition doubles3 :: "vector3 \<Rightarrow> bool" where
  "doubles3 v = (is_double (x3 v) \<and> is_double (y3 v) \<and> is_double (z3 v))"

definition doubles4 :: "vector4 \<Rightarrow> bool" where
  "doubles4 v = (is_double (x4 v) \<and> is_double (y4 v) \<and> is_double (z4 v)
      \<and> is_double (w4 v))"

text \<open>
  The real number a finite value stands for.  It is used to say how far a computed
  magnitude is from the exact one; \<open>NaN\<close> and the infinities stand for no real number and
  are given 0, and every statement that reads them also states that the value is finite.
\<close>

fun valof :: "number \<Rightarrow> real" where
  "valof (Finite s m e) = (if s then - 1 else 1) * (real m * 2 powi e)"
| "valof (Infinity s) = 0"
| "valof NaN = 0"

section \<open>Evaluation and basic facts\<close>

lemmas number_eval =
  fround_def round_to_def round_half_even_def round_pick_def bitlen.simps normalize_me.simps
  div_sticky_def isqrt.simps isqrt_step_def sqrt_shift_def sqrt_sticky_def sum_result_def
  signed_def js_one_def js_zero_def js_sub_def js_gt_def js_le_def js_ge_def

lemma init_field_Some [simp]: "init_field d (Some v) = (if truthy v then v else d)"
  by (simp add: init_field_def)

lemma init_field_None [simp]: "init_field d None = d"
  by (simp add: init_field_def)

section \<open>Facts about rounding and arithmetic\<close>

lemma bitlen_0: "bitlen 0 = 0"
  by (simp add: bitlen.simps)

lemma bitlen_pos: "n \<noteq> 0 \<Longrightarrow> bitlen n = Suc (bitlen (n div 2))"
  by (subst bitlen.simps) simp

lemma bitlen_le_iff: "bitlen n \<le> k \<longleftrightarrow> n < 2 ^ k"
proof (induction n arbitrary: k rule: bitlen.induct)
  case (1 n)
  show ?case
  proof (cases "n = 0")
    case True
    then show ?thesis by (simp add: bitlen_0)
  next
    case False
    show ?thesis
    proof (cases k)
      case 0
      with False show ?thesis by (simp add: bitlen_pos)
    next
      case (Suc j)
      have "bitlen n \<le> Suc j \<longleftrightarrow> bitlen (n div 2) \<le> j"
        using False by (simp add: bitlen_pos)
      also have "\<dots> \<longleftrightarrow> n div 2 < 2 ^ j"
        using 1 False by simp
      also have "\<dots> \<longleftrightarrow> n < 2 ^ Suc j"
        by auto
      finally show ?thesis using Suc by simp
    qed
  qed
qed

lemma bitlen_1: "bitlen (Suc 0) = 1"
  by (simp add: bitlen.simps)

lemma normalize_me_0: "normalize_me 0 e = (0, 0)"
  by (simp add: normalize_me.simps)

lemma normalize_me_odd: "odd m \<Longrightarrow> normalize_me m e = (m, e)"
  by (subst normalize_me.simps) auto

lemma normalize_me_shift: "odd m \<Longrightarrow> normalize_me (m * 2 ^ j) e = (m, e + int j)"
proof (induction j arbitrary: e)
  case 0
  then show ?case by (simp add: normalize_me_odd)
next
  case (Suc j)
  have "normalize_me (m * 2 ^ Suc j) e = normalize_me (m * 2 ^ j) (e + 1)"
    using Suc.prems by (subst normalize_me.simps) auto
  then show ?case using Suc by simp
qed

lemma normalize_me_spec:
  "m \<noteq> 0 \<Longrightarrow> normalize_me m e = (m', e') \<Longrightarrow> odd m'
      \<and> e \<le> e' \<and> m = m' * 2 ^ nat (e' - e)"
proof (induction m e rule: normalize_me.induct)
  case (1 m e)
  show ?case
  proof (cases "even m")
    case True
    from True 1(2) have d: "m div 2 \<noteq> 0" by auto
    from True 1(2,3) have n: "normalize_me (m div 2) (e + 1) = (m', e')"
      by (subst (asm) normalize_me.simps) simp
    from 1(1)[OF 1(2) True d n]
    have o: "odd m'" and le: "e + 1 \<le> e'" and eq: "m div 2 = m' * 2 ^ nat (e' - (e + 1))"
      by auto
    have "nat (e' - e) = Suc (nat (e' - (e + 1)))" using le by simp
    then have "m' * 2 ^ nat (e' - e) = 2 * (m div 2)" using eq by simp
    also have "\<dots> = m" using True by simp
    finally show ?thesis using o le by simp
  next
    case False
    with 1(3) show ?thesis by (simp add: normalize_me_odd)
  qed
qed

lemma fround_not_NaN: "fround s M E \<noteq> NaN"
  by (cases "round_to M E (max (- 1074) (E + int (bitlen M) - 53))") (simp add: fround_def)

lemma js_neg_fround: "js_neg (fround s M E) = fround (\<not> s) M E"
  by (cases "round_to M E (max (- 1074) (E + int (bitlen M) - 53))") (simp add: fround_def)

lemma truthy_fround: "truthy (fround s M E) = truthy (fround s' M E)"
  by (cases "round_to M E (max (- 1074) (E + int (bitlen M) - 53))") (simp add: fround_def)

lemma fround_cases:
  "fround s M E = Infinity s \<or> (\<exists>m e. fround s M E = Finite s m e)"
  by (cases "round_to M E (max (- 1074) (E + int (bitlen M) - 53))") (simp add: fround_def)

lemma fround_0: "fround s 0 E = Finite s 0 0"
  by (simp add: fround_def round_to_def round_half_even_def round_pick_def bitlen_0 normalize_me_0)

lemma fround_id:
  assumes "is_double (Finite s m e)"
  shows "fround s m e = Finite s m e"
proof (cases "m = 0")
  case True
  with assms show ?thesis by (simp add: is_double_def fround_0)
next
  case False
  with assms have o: "odd m" and b: "bitlen m \<le> 53" and lo: "- 1074 \<le> e"
    and hi: "e + int (bitlen m) \<le> 1024"
    by (auto simp: is_double_def)
  have "max (- 1074) (e + int (bitlen m) - 53) \<le> e" using b lo by simp
  then show ?thesis using o hi by (simp add: fround_def round_to_def normalize_me_odd)
qed

lemma bitlen_double: "n \<noteq> 0 \<Longrightarrow> bitlen (2 * n) = Suc (bitlen n)"
  by (subst bitlen.simps) simp

lemma bitlen_shift: "n \<noteq> 0 \<Longrightarrow> bitlen (n * 2 ^ j) = bitlen n + j"
proof (induction j)
  case 0
  then show ?case by simp
next
  case (Suc j)
  have "bitlen (n * 2 ^ Suc j) = bitlen (2 * (n * 2 ^ j))"
      by (simp add: mult.commute mult.left_commute)
  also have "\<dots> = Suc (bitlen (n * 2 ^ j))" using Suc.prems by (intro bitlen_double) simp
  finally show ?case using Suc by simp
qed

lemma round_half_even_le: "round_half_even M k \<le> M div 2 ^ k + 1"
  by (simp add: round_half_even_def round_pick_def)

lemma round_half_even_exact: "round_half_even (q * 2 ^ k) k = q"
  by (simp add: round_half_even_def round_pick_def)

lemma round_to_canonical:
  assumes te: "te = max (- 1074) (E + int (bitlen M) - 53)"
    and r: "round_to M E te = (m, e)"
  shows "(m = 0 \<and> e = 0) \<or> (odd m \<and> m < 2 ^ 53 \<and> - 1074 \<le> e)"
proof (cases "te \<le> E")
  case True
  with r have n: "normalize_me M E = (m, e)" by (simp add: round_to_def)
  show ?thesis
  proof (cases "M = 0")
    case True
    with n show ?thesis by (simp add: normalize_me_0)
  next
    case False
    from normalize_me_spec[OF False n]
    have o: "odd m" and le: "E \<le> e" and eq: "M = m * 2 ^ nat (e - E)" by auto
    from True te have "int (bitlen M) \<le> 53" by simp
    then have "M < 2 ^ 53" using bitlen_le_iff[of M 53] by simp
    moreover have "m \<le> M" using eq by simp
    moreover have "- 1074 \<le> E" using True te by simp
    ultimately show ?thesis using o le by simp
  qed
next
  case False
  define k where "k = nat (te - E)"
  define q where "q = round_half_even M k"
  from False r have n: "normalize_me q te = (m, e)" by (simp add: round_to_def q_def k_def)
  have "E + int (bitlen M) - 53 \<le> te" using te by simp
  moreover have "int k = te - E" using False by (simp add: k_def)
  ultimately have "int (bitlen M) \<le> 53 + int k" by linarith
  then have "bitlen M \<le> 53 + k" by simp
  then have "M < 2 ^ (53 + k)" using bitlen_le_iff by blast
  then have "M < 2 ^ 53 * 2 ^ k" by (simp add: power_add)
  then have "M div 2 ^ k < 2 ^ 53" by (rule less_mult_imp_div_less)
  then have qle: "q \<le> 2 ^ 53" using round_half_even_le[of M k] by (simp add: q_def)
  show ?thesis
  proof (cases "q = 0")
    case True
    with n show ?thesis by (simp add: normalize_me_0)
  next
    case False
    from normalize_me_spec[OF False n]
    have o: "odd m" and le: "te \<le> e" and eq: "q = m * 2 ^ nat (e - te)" by auto
    have "m \<le> q" using eq by simp
    then have "m \<le> 2 ^ 53" using qle by simp
    moreover have "m \<noteq> 2 ^ 53" using o by auto
    ultimately have "m < 2 ^ 53" by simp
    moreover have "- 1074 \<le> te" using te by simp
    ultimately show ?thesis using o le by simp
  qed
qed

lemma is_double_fround: "is_double (fround s M E)"
proof -
  obtain m e where r: "round_to M E (max (- 1074) (E + int (bitlen M) - 53)) = (m, e)"
    by (cases "round_to M E (max (- 1074) (E + int (bitlen M) - 53))")
  from round_to_canonical[OF refl r]
  have c: "(m = 0 \<and> e = 0) \<or> (odd m \<and> m < 2 ^ 53 \<and> - 1074 \<le> e)" .
  have f: "fround s M E = (if e + int (bitlen m) > 1024 then Infinity s else Finite s m e)"
    by (simp add: fround_def r)
  show ?thesis
  proof (cases "e + int (bitlen m) > 1024")
    case True
    with f show ?thesis by (simp add: is_double_def)
  next
    case False
    with f c show ?thesis
      using bitlen_le_iff[of m 53] by (auto simp: is_double_def)
  qed
qed

lemma fround_shift:
  assumes o: "odd m" and b: "bitlen m \<le> 53" and lo: "- 1074 \<le> e"
  shows "fround s (m * 2 ^ j) (e - int j) = pack s (m, e)"
proof -
  from o have nz: "m \<noteq> 0" by (rule_tac ccontr) simp
  define te where "te = max (- 1074) (e + int (bitlen m) - 53)"
  have te_le: "te \<le> e" using b lo by (simp add: te_def)
  have bl: "int (bitlen (m * 2 ^ j)) = int (bitlen m) + int j"
    using bitlen_shift[OF nz] by simp
  have te_eq: "max (- 1074) (e - int j + int (bitlen (m * 2 ^ j)) - 53) = te"
    by (simp add: bl te_def)
  have "round_to (m * 2 ^ j) (e - int j) te = (m, e)"
  proof (cases "te \<le> e - int j")
    case True
    then show ?thesis using normalize_me_shift[OF o, of j "e - int j"] by (simp add: round_to_def)
  next
    case False
    define k where "k = nat (te - (e - int j))"
    have kj: "k \<le> j" and kpos: "int k = te - (e - int j)" using False te_le
        by (auto simp: k_def)
    have "m * 2 ^ j = (m * 2 ^ (j - k)) * 2 ^ k"
      using kj by (simp add: mult.assoc flip: power_add)
    then have "round_half_even (m * 2 ^ j) k = m * 2 ^ (j - k)"
      using round_half_even_exact[of "m * 2 ^ (j - k)" k] by (simp only:)
    moreover have "normalize_me (m * 2 ^ (j - k)) te = (m, te + int (j - k))"
      by (rule normalize_me_shift[OF o])
    moreover have "te + int (j - k) = e" using kj kpos by simp
    ultimately show ?thesis using False by (simp add: round_to_def k_def)
  qed
  then show ?thesis by (simp add: fround_def te_eq)
qed

lemma js_mul_one:
  assumes "is_double x"
  shows "js_mul x js_one = x"
proof (cases x)
  case (Finite s m e)
  with assms have "fround s m e = Finite s m e" by (simp add: fround_id)
  with Finite show ?thesis by (simp add: js_one_def)
qed (simp_all add: js_one_def)

lemma js_add_zero_right:
  assumes d: "is_double x" and t: "truthy x"
  shows "js_add x (Finite s' 0 e') = x"
proof (cases x)
  case NaN
  with t show ?thesis by simp
next
  case (Infinity s)
  then show ?thesis by simp
next
  case (Finite s m e)
  with t have nz: "m \<noteq> 0" by simp
  with d Finite have o: "odd m" and b: "bitlen m \<le> 53" and lo: "- 1074 \<le> e"
    and hi: "e + int (bitlen m) \<le> 1024"
    by (auto simp: is_double_def)
  define j where "j = nat (e - min e e')"
  have E: "min e e' = e - int j" by (simp add: j_def)
  have z: "signed s' 0 = 0" by (simp add: signed_def)
  have cnz: "signed s (m * 2 ^ j) \<noteq> 0" using nz by (simp add: signed_def)
  have cneg: "(signed s (m * 2 ^ j) < 0) = s" using nz by (simp add: signed_def not_less)
  have "\<bar>signed s (m * 2 ^ j)\<bar> = int (m * 2 ^ j)" by (simp add: signed_def)
  then have cabs: "nat \<bar>signed s (m * 2 ^ j)\<bar> = m * 2 ^ j" by (simp only: nat_int)
  have "js_add (Finite s m e) (Finite s' 0 e') = fround s (m * 2 ^ j) (e - int j)"
    using cnz cneg cabs by (simp add: sum_result_def E z flip: j_def)
  also have "\<dots> = pack s (m, e)" by (rule fround_shift[OF o b lo])
  also have "\<dots> = Finite s m e" using hi by simp
  finally show ?thesis using Finite by simp
qed

lemma truthy_js_add_zero_right:
  assumes "\<not> truthy x"
  shows "\<not> truthy (js_add x (Finite s' 0 e'))"
proof (cases x)
  case (Finite s m e)
  with assms have "m = 0" by simp
  with Finite show ?thesis by (simp add: sum_result_def signed_def)
qed (use assms in simp_all)

lemma xor_commute: "(p \<noteq> q) = (q \<noteq> (p::bool))"
  by auto

lemma js_mul_commute: "js_mul a b = js_mul b a"
proof (cases a; cases b)
  fix s1 m1 e1 s2 m2 e2
  assume "a = Finite s1 m1 e1" and "b = Finite s2 m2 e2"
  moreover have "(s1 \<noteq> s2) = (s2 \<noteq> s1)" by auto
  ultimately show ?thesis
    by (simp only: js_mul.simps mult.commute[of m1 m2] add.commute[of e1 e2])
qed (auto simp: xor_commute)

lemma js_mul_neg_neg: "js_mul (js_neg a) (js_neg b) = js_mul a b"
  by (cases a; cases b) auto

lemma signed_not: "signed (\<not> s) m = - signed s m"
  by (simp add: signed_def)

lemma sum_result_neg:
  "c \<noteq> 0 \<Longrightarrow> sum_result sz' (- c) E = js_neg (sum_result sz c E)"
  by (simp add: sum_result_def js_neg_fround) (smt (verit))

lemma truthy_sum_result_neg: "truthy (sum_result sz' (- c) E) = truthy (sum_result sz c E)"
  using truthy_fround[of "c < 0" "nat \<bar>c\<bar>" E "- c < 0"]
  by (simp add: sum_result_def)

lemma js_sub_swap_truthy: "truthy (js_sub b a) = truthy (js_sub a b)"
proof (cases a; cases b)
  fix s1 m1 e1 s2 m2 e2
  assume a: "a = Finite s1 m1 e1" and b: "b = Finite s2 m2 e2"
  show ?thesis
    using truthy_sum_result_neg[of "s2 \<and> \<not> s1"
        "signed s1 (m1 * 2 ^ nat (e1 - min e1 e2)) + signed (\<not> s2) (m2 * 2 ^ nat (e2 - min e1
            e2))"
        "min e1 e2" "s1 \<and> \<not> s2"]
    by (simp add: a b js_sub_def signed_not min.commute)
qed (auto simp: js_sub_def)

lemma js_sub_swap: "truthy (js_sub a b) \<Longrightarrow> js_sub b a = js_neg (js_sub a b)"
proof (cases a; cases b)
  fix s1 m1 e1 s2 m2 e2
  assume t: "truthy (js_sub a b)"
  assume a: "a = Finite s1 m1 e1" and b: "b = Finite s2 m2 e2"
  define c where
    "c = signed s1 (m1 * 2 ^ nat (e1 - min e1 e2)) + signed (\<not> s2) (m2 * 2 ^ nat (e2 - min e1
        e2))"
  have ab: "js_sub a b = sum_result (s1 \<and> \<not> s2) c (min e1 e2)"
    by (simp add: a b js_sub_def c_def)
  have ba: "js_sub b a = sum_result (s2 \<and> \<not> s1) (- c) (min e1 e2)"
    by (simp add: a b js_sub_def c_def signed_not min.commute)
  from t ab have "c \<noteq> 0" by (auto simp: sum_result_def)
  then show ?thesis using ab ba sum_result_neg by simp
qed (auto simp: js_sub_def)

section \<open>The zero vector of Vector4\<close>

text \<open>
  C2.  \<open>Vector4.zero\<close> is documented as \<open>Vector4(0, 0, 0, 0)\<close> and a vector of magnitude 0
  is to normalise to it.  The accessor passes four zeros to the constructor, which takes
  a zero for an argument left out: \<open>w\<close> keeps its default 1.  The value returned has
  magnitude 1, and it is also what \<open>normalized\<close> returns for the vector whose four
  components are 0.
\<close>

theorem Vector4_zero_has_w_one:
  "Vector4_zero = \<lparr>x4 = js_zero, y4 = js_zero, z4 = js_zero, w4 = js_one\<rparr>
   \<and> w4 Vector4_zero \<noteq> js_zero
   \<and> Vector4_magnitude Vector4_zero = js_one
   \<and> Vector4_magnitude \<lparr>x4 = js_zero, y4 = js_zero, z4 = js_zero, w4 = js_zero\<rparr>
       = js_zero
   \<and> Vector4_normalized \<lparr>x4 = js_zero, y4 = js_zero, z4 = js_zero, w4 = js_zero\<rparr>
       = \<lparr>x4 = js_zero, y4 = js_zero, z4 = js_zero, w4 = js_one\<rparr>"
  by (simp add: Vector4_zero_def new_Vector4_def Vector4_magnitude_def Vector4_normalized_def
      number_eval Let_def)

section \<open>sqrMagnitude\<close>

text \<open>
  C3.  For a vector of any of the three classes \<open>sqrMagnitude\<close> is \<open>Math.sqrt\<close> of
  \<open>magnitude\<close>, that is the square root taken twice of the sum of the squared
  components, and not that sum: for \<open>(0, 16)\<close> the sum is 256, the magnitude 16 and
  \<open>sqrMagnitude\<close> 4.
\<close>

theorem sqrMagnitude_is_sqrt_of_magnitude:
  "Vector2_sqrMagnitude a = Math_sqrt (Vector2_magnitude a)
   \<and> Vector2_sqrMagnitude a
       = Math_sqrt (Math_sqrt (js_add (js_mul (x2 a) (x2 a)) (js_mul (y2 a) (y2 a))))
   \<and> Vector3_sqrMagnitude b = Math_sqrt (Vector3_magnitude b)
   \<and> Vector3_sqrMagnitude b
       = Math_sqrt (Math_sqrt (js_add (js_add (js_mul (x3 b) (x3 b)) (js_mul (y3 b) (y3 b)))
                                 (js_mul (z3 b) (z3 b))))
   \<and> Vector4_sqrMagnitude c = Math_sqrt (Vector4_magnitude c)
   \<and> Vector4_sqrMagnitude c
       = Math_sqrt (Math_sqrt
           (js_add (js_add (js_add (js_mul (x4 c) (x4 c)) (js_mul (y4 c) (y4 c)))
                      (js_mul (z4 c) (z4 c)))
              (js_mul (w4 c) (w4 c))))
   \<and> js_add (js_mul js_zero js_zero) (js_mul (Finite False 1 4) (Finite False 1 4))
       = Finite False 1 8
   \<and> Vector2_magnitude \<lparr>x2 = js_zero, y2 = Finite False 1 4\<rparr> = Finite False 1 4
   \<and> Vector2_sqrMagnitude \<lparr>x2 = js_zero, y2 = Finite False 1 4\<rparr>
       = Finite False 1 2"
proof -
  have e: "js_add (js_mul js_zero js_zero) (js_mul (Finite False 1 4) (Finite False 1 4))
      = Finite False 1 8"
    "Vector2_magnitude \<lparr>x2 = js_zero, y2 = Finite False 1 4\<rparr> = Finite False 1 4"
    "Vector2_sqrMagnitude \<lparr>x2 = js_zero, y2 = Finite False 1 4\<rparr> = Finite False 1 2"
    by (simp_all add: Vector2_sqrMagnitude_def Vector2_magnitude_def number_eval)
  show ?thesis
    unfolding e
    by (simp add: Vector2_sqrMagnitude_def Vector2_magnitude_def Vector3_sqrMagnitude_def
        Vector3_magnitude_def Vector4_sqrMagnitude_def Vector4_magnitude_def)
qed

section \<open>Signs and NaN through the operations\<close>

lemma isNaN_simps [simp]: "isNaN NaN" "\<not> isNaN (Infinity s)" "\<not> isNaN (Finite s m e)"
  by (simp_all add: isNaN_def)

lemma isNaN_fround [simp]: "\<not> isNaN (fround s M E)"
  by (simp add: isNaN_def fround_not_NaN)

lemma js_eq_refl: "\<not> isNaN x \<Longrightarrow> js_eq x x"
  by (cases x) simp_all

lemma truthy_not_NaN: "truthy x \<Longrightarrow> \<not> isNaN x"
  by (cases x) simp_all

lemma truthy_js_neg [simp]: "truthy (js_neg x) = truthy x"
  by (cases x) simp_all

lemma isNaN_js_neg [simp]: "isNaN (js_neg x) = isNaN x"
  by (cases x) simp_all

lemma js_neg_js_neg [simp]: "js_neg (js_neg x) = x"
  by (cases x) simp_all

lemma negative_fround: "negative (fround s M E) = s"
  using fround_cases[of s M E] by auto

lemma nonneg_fround: "nonneg (fround False M E)"
  by (simp add: nonneg_def negative_fround)

lemma isNaN_square: "isNaN (js_mul x x) = isNaN x"
  by (cases x) simp_all

lemma nonneg_square: "\<not> isNaN x \<Longrightarrow> nonneg (js_mul x x)"
  by (cases x) (simp_all add: nonneg_def negative_fround)

lemma nonneg_cases: "nonneg x \<Longrightarrow> x = Infinity False \<or> (\<exists>m e. x
    = Finite False m e)"
  by (cases x) (simp_all add: nonneg_def)

lemma signed_False_nonneg: "0 \<le> signed False m"
  by (simp add: signed_def)

lemma nonneg_sum_result: "0 \<le> c \<Longrightarrow> nonneg (sum_result False c E)"
  by (simp add: sum_result_def nonneg_def negative_fround)

lemma nonneg_add: "nonneg a \<Longrightarrow> nonneg b \<Longrightarrow> nonneg (js_add a b)"
proof -
  assume a: "nonneg a" and b: "nonneg b"
  from nonneg_cases[OF a] nonneg_cases[OF b] show ?thesis
  proof (elim disjE exE)
    fix m e m' e'
    assume "a = Finite False m e" "b = Finite False m' e'"
    then show ?thesis
      by (simp add: nonneg_sum_result signed_False_nonneg)
  qed (simp_all add: nonneg_def)
qed

lemma isNaN_add_left: "isNaN a \<Longrightarrow> isNaN (js_add a b)"
  by (cases a) simp_all

lemma isNaN_add_right: "isNaN b \<Longrightarrow> isNaN (js_add a b)"
  by (cases a; cases b) simp_all

lemma nonneg_sqrt: "nonneg a \<Longrightarrow> nonneg (Math_sqrt a)"
  using nonneg_cases[of a] by (auto simp: nonneg_def negative_fround split: if_splits)

lemma isNaN_sqrt: "isNaN a \<Longrightarrow> isNaN (Math_sqrt a)"
  by (cases a) simp_all

lemma nonneg_not_NaN: "nonneg a \<Longrightarrow> \<not> isNaN a"
  by (simp add: nonneg_def)

lemma init_field_not_NaN: "\<not> isNaN d \<Longrightarrow> \<not> isNaN (init_field d arg)"
  by (cases arg) (auto simp: init_field_def dest: truthy_not_NaN)

text \<open>The square of a difference, as the constructor stores the difference.\<close>

lemma square_diff_swap:
  "js_mul (init_field d (Some (js_sub x y))) (init_field d (Some (js_sub x y)))
   = js_mul (init_field d (Some (js_sub y x))) (init_field d (Some (js_sub y x)))"
proof (cases "truthy (js_sub x y)")
  case True
  then have "js_sub y x = js_neg (js_sub x y)" by (rule js_sub_swap)
  with True show ?thesis by (simp add: js_mul_neg_neg)
next
  case False
  then have "\<not> truthy (js_sub y x)" by (simp add: js_sub_swap_truthy)
  with False show ?thesis by simp
qed

lemma Vector2_Distance_commute: "Vector2_Distance a b = Vector2_Distance b a"
  by (simp add: Vector2_Distance_def Vector2_magnitude_def Vector2_Subtract_def new_Vector2_def
      square_diff_swap[of _ "x2 a" "x2 b"] square_diff_swap[of _ "y2 a" "y2 b"]
      del: init_field_Some)

lemma Vector3_Distance_commute: "Vector3_Distance a b = Vector3_Distance b a"
  by (simp add: Vector3_Distance_def Vector3_magnitude_def Vector3_Subtract_def new_Vector3_def
      square_diff_swap[of _ "x3 a" "x3 b"] square_diff_swap[of _ "y3 a" "y3 b"]
      square_diff_swap[of _ "z3 a" "z3 b"]
      del: init_field_Some)

lemma Vector4_Distance_commute: "Vector4_Distance a b = Vector4_Distance b a"
  by (simp add: Vector4_Distance_def Vector4_magnitude_def Vector4_Subtract_def new_Vector4_def
      square_diff_swap[of _ "x4 a" "x4 b"] square_diff_swap[of _ "y4 a" "y4 b"]
      square_diff_swap[of _ "z4 a" "z4 b"] square_diff_swap[of _ "w4 a" "w4 b"]
      del: init_field_Some)

lemma nonneg_Vector2_magnitude: "no_NaN2 v \<Longrightarrow> nonneg (Vector2_magnitude v)"
  by (simp add: Vector2_magnitude_def no_NaN2_def nonneg_sqrt nonneg_add nonneg_square)

lemma nonneg_Vector3_magnitude: "no_NaN3 v \<Longrightarrow> nonneg (Vector3_magnitude v)"
  by (simp add: Vector3_magnitude_def no_NaN3_def nonneg_sqrt nonneg_add nonneg_square)

lemma nonneg_Vector4_magnitude: "no_NaN4 v \<Longrightarrow> nonneg (Vector4_magnitude v)"
  by (simp add: Vector4_magnitude_def no_NaN4_def nonneg_sqrt nonneg_add nonneg_square)

lemma no_NaN2_new [simp]: "no_NaN2 (new_Vector2 x y)"
  by (simp add: no_NaN2_def new_Vector2_def init_field_not_NaN js_zero_def)

lemma no_NaN3_new [simp]: "no_NaN3 (new_Vector3 x y z)"
  by (simp add: no_NaN3_def new_Vector3_def init_field_not_NaN js_zero_def)

lemma no_NaN4_new [simp]: "no_NaN4 (new_Vector4 x y z w)"
  by (simp add: no_NaN4_def new_Vector4_def init_field_not_NaN js_zero_def js_one_def)

lemma no_NaN2_Subtract [simp]: "no_NaN2 (Vector2_Subtract a b)"
  by (cases b) (simp_all add: Vector2_Subtract_def)

lemma no_NaN3_Subtract [simp]: "no_NaN3 (Vector3_Subtract a b)"
  by (cases b) (simp_all add: Vector3_Subtract_def)

lemma no_NaN4_Subtract [simp]: "no_NaN4 (Vector4_Subtract a b)"
  by (cases b) (simp_all add: Vector4_Subtract_def)

section \<open>Distance\<close>

text \<open>
  C10.  \<open>Distance\<close> is symmetric for the three classes, whatever the components are,
  infinities and \<open>NaN\<close> included: the two results are the same value and they compare
  equal, since a distance is never \<open>NaN\<close>.
\<close>

theorem Distance_symmetric:
  "Vector2_Distance a2 b2 = Vector2_Distance b2 a2
   \<and> js_eq (Vector2_Distance a2 b2) (Vector2_Distance b2 a2)
   \<and> Vector3_Distance a3 b3 = Vector3_Distance b3 a3
   \<and> js_eq (Vector3_Distance a3 b3) (Vector3_Distance b3 a3)
   \<and> Vector4_Distance a4 b4 = Vector4_Distance b4 a4
   \<and> js_eq (Vector4_Distance a4 b4) (Vector4_Distance b4 a4)"
proof -
  have n2: "\<not> isNaN (Vector2_Distance a2 b2)"
    by (simp add: Vector2_Distance_def nonneg_Vector2_magnitude nonneg_not_NaN)
  have n3: "\<not> isNaN (Vector3_Distance a3 b3)"
    by (simp add: Vector3_Distance_def nonneg_Vector3_magnitude nonneg_not_NaN)
  have n4: "\<not> isNaN (Vector4_Distance a4 b4)"
    by (simp add: Vector4_Distance_def nonneg_Vector4_magnitude nonneg_not_NaN)
  show ?thesis
    using n2 n3 n4
    by (simp add: Vector2_Distance_commute[of b2 a2] Vector3_Distance_commute[of b3 a3]
        Vector4_Distance_commute[of b4 a4] js_eq_refl)
qed

section \<open>Cross\<close>

lemma js_eq_zero_neg_zero: "js_eq js_zero (js_neg js_zero)"
  by (simp add: js_zero_def signed_def)

lemma stored_diff_swap:
  "js_eq (init_field js_zero (Some (js_sub p q)))
         (js_neg (init_field js_zero (Some (js_sub q p))))"
proof (cases "truthy (js_sub p q)")
  case True
  then have "js_sub q p = js_neg (js_sub p q)" by (rule js_sub_swap)
  with True show ?thesis by (simp add: js_eq_refl truthy_not_NaN)
next
  case False
  then have "\<not> truthy (js_sub q p)" by (simp add: js_sub_swap_truthy)
  with False show ?thesis by (simp add: js_eq_zero_neg_zero)
qed

text \<open>
  C8.  \<open>Cross\<close> is anticommutative.  Each component of \<open>Vector3.Cross(a, b)\<close> compares
  equal to the negated component of \<open>Vector3.Cross(b, a)\<close>; the \<open>x\<close> of
  \<open>Vector2.Cross(a, b)\<close> compares equal to the negated \<open>x\<close> of \<open>Vector2.Cross(b, a)\<close>,
  and its \<open>y\<close> is the default 0.
\<close>

theorem Cross_anticommutative:
  "js_eq (x3 (Vector3_Cross a b)) (js_neg (x3 (Vector3_Cross b a)))
   \<and> js_eq (y3 (Vector3_Cross a b)) (js_neg (y3 (Vector3_Cross b a)))
   \<and> js_eq (z3 (Vector3_Cross a b)) (js_neg (z3 (Vector3_Cross b a)))
   \<and> js_eq (x2 (Vector2_Cross c d)) (js_neg (x2 (Vector2_Cross d c)))
   \<and> y2 (Vector2_Cross c d) = js_zero"
proof -
  have x: "js_eq (x3 (Vector3_Cross a b)) (js_neg (x3 (Vector3_Cross b a)))"
    using stored_diff_swap[of "js_mul (y3 a) (z3 b)" "js_mul (z3 a) (y3 b)"]
    by (simp add: Vector3_Cross_def new_Vector3_def js_mul_commute[of "y3 b"] js_mul_commute[of
        "z3 b"]
        del: init_field_Some)
  have y: "js_eq (y3 (Vector3_Cross a b)) (js_neg (y3 (Vector3_Cross b a)))"
    using stored_diff_swap[of "js_mul (z3 a) (x3 b)" "js_mul (x3 a) (z3 b)"]
    by (simp add: Vector3_Cross_def new_Vector3_def js_mul_commute[of "z3 b"] js_mul_commute[of
        "x3 b"]
        del: init_field_Some)
  have z: "js_eq (z3 (Vector3_Cross a b)) (js_neg (z3 (Vector3_Cross b a)))"
    using stored_diff_swap[of "js_mul (x3 a) (y3 b)" "js_mul (y3 a) (x3 b)"]
    by (simp add: Vector3_Cross_def new_Vector3_def js_mul_commute[of "x3 b"] js_mul_commute[of
        "y3 b"]
        del: init_field_Some)
  have v: "js_eq (x2 (Vector2_Cross c d)) (js_neg (x2 (Vector2_Cross d c)))"
    using stored_diff_swap[of "js_mul (x2 c) (y2 d)" "js_mul (x2 d) (y2 c)"]
    by (simp add: Vector2_Cross_def new_Vector2_def js_mul_commute[of "x2 d"] js_mul_commute[of
        "y2 d"]
        del: init_field_Some)
  have w: "y2 (Vector2_Cross c d) = js_zero"
    by (simp add: Vector2_Cross_def new_Vector2_def)
  from x y z v w show ?thesis by simp
qed

section \<open>What the constructor lets through\<close>

lemma no_NaN2_Add [simp]: "no_NaN2 (Vector2_Add a b)"
  by (cases b) (simp_all add: Vector2_Add_def)

lemma no_NaN3_Add [simp]: "no_NaN3 (Vector3_Add a b)"
  by (cases b) (simp_all add: Vector3_Add_def)

lemma no_NaN4_Add [simp]: "no_NaN4 (Vector4_Add a b)"
  by (cases b) (simp_all add: Vector4_Add_def)

lemma no_NaN2_Multiply [simp]: "no_NaN2 (Vector2_Multiply a b)"
  by (cases b) (simp_all add: Vector2_Multiply_def)

lemma no_NaN3_Multiply [simp]: "no_NaN3 (Vector3_Multiply a b)"
  by (cases b) (simp_all add: Vector3_Multiply_def)

lemma no_NaN4_Multiply [simp]: "no_NaN4 (Vector4_Multiply a b)"
  by (cases b) (simp_all add: Vector4_Multiply_def)

lemma no_NaN2_Divide [simp]: "no_NaN2 (Vector2_Divide a b)"
  by (cases b) (simp_all add: Vector2_Divide_def)

lemma no_NaN3_Divide [simp]: "no_NaN3 (Vector3_Divide a b)"
  by (cases b) (simp_all add: Vector3_Divide_def)

lemma no_NaN4_Divide [simp]: "no_NaN4 (Vector4_Divide a b)"
  by (cases b) (simp_all add: Vector4_Divide_def)

lemma no_NaN2_DoLerp [simp]: "no_NaN2 (Vector2_DoLerp a b t)"
  by (simp add: Vector2_DoLerp_def)

lemma no_NaN3_DoLerp [simp]: "no_NaN3 (Vector3_DoLerp a b t)"
  by (simp add: Vector3_DoLerp_def)

lemma no_NaN4_DoLerp [simp]: "no_NaN4 (Vector4_DoLerp a b t)"
  by (simp add: Vector4_DoLerp_def)

lemma no_NaN2_normalized [simp]: "no_NaN2 (Vector2_normalized v)"
  by (simp add: Vector2_normalized_def Vector2_zero_def Let_def)

lemma no_NaN3_normalized [simp]: "no_NaN3 (Vector3_normalized v)"
  by (simp add: Vector3_normalized_def Vector3_zero_def Let_def)

lemma no_NaN4_normalized [simp]: "no_NaN4 (Vector4_normalized v)"
  by (simp add: Vector4_normalized_def Vector4_zero_def Let_def)

lemma no_NaN2_static:
  "no_NaN2 (Vector2_Add a b) \<and> no_NaN2 (Vector2_Subtract a b)
      \<and> no_NaN2 (Vector2_Multiply a b)
   \<and> no_NaN2 (Vector2_Divide a b) \<and> no_NaN2 (Vector2_LerpUnclamped a c t)
   \<and> no_NaN2 (Vector2_Max a c) \<and> no_NaN2 (Vector2_Min a c)
       \<and> no_NaN2 (Vector2_Cross a c)
   \<and> no_NaN2 (Vector2_ClampMagnitude a k) \<and> no_NaN2 (Vector2_normalized a)"
  by (simp add: Vector2_LerpUnclamped_def Vector2_Max_def Vector2_Min_def Vector2_Cross_def
      Vector2_ClampMagnitude_def Let_def del: init_field_Some)

lemma no_NaN3_static:
  "no_NaN3 (Vector3_Add a b) \<and> no_NaN3 (Vector3_Subtract a b)
      \<and> no_NaN3 (Vector3_Multiply a b)
   \<and> no_NaN3 (Vector3_Divide a b) \<and> no_NaN3 (Vector3_LerpUnclamped a c t)
   \<and> no_NaN3 (Vector3_Max a c) \<and> no_NaN3 (Vector3_Min a c)
       \<and> no_NaN3 (Vector3_Cross a c)
   \<and> no_NaN3 (Vector3_ClampMagnitude a k) \<and> no_NaN3 (Vector3_normalized a)"
  by (simp add: Vector3_LerpUnclamped_def Vector3_Max_def Vector3_Min_def Vector3_Cross_def
      Vector3_ClampMagnitude_def Let_def del: init_field_Some)

lemma no_NaN4_static:
  "no_NaN4 (Vector4_Add a b) \<and> no_NaN4 (Vector4_Subtract a b)
      \<and> no_NaN4 (Vector4_Multiply a b)
   \<and> no_NaN4 (Vector4_Divide a b) \<and> no_NaN4 (Vector4_LerpUnclamped a c t)
   \<and> no_NaN4 (Vector4_Max a c) \<and> no_NaN4 (Vector4_Min a c)
   \<and> no_NaN4 (Vector4_ClampMagnitude a k) \<and> no_NaN4 (Vector4_normalized a)"
  by (simp add: Vector4_LerpUnclamped_def Vector4_Max_def Vector4_Min_def
      Vector4_ClampMagnitude_def Let_def del: init_field_Some)

lemma Lerp_interpolates:
  "\<not> js_lt t js_zero \<Longrightarrow> \<not> js_gt t js_one
      \<Longrightarrow> Vector2_Lerp a2 b2 t = Vector2_DoLerp a2 b2 t"
  "\<not> js_lt t js_zero \<Longrightarrow> \<not> js_gt t js_one
      \<Longrightarrow> Vector3_Lerp a3 b3 t = Vector3_DoLerp a3 b3 t"
  "\<not> js_lt t js_zero \<Longrightarrow> \<not> js_gt t js_one
      \<Longrightarrow> Vector4_Lerp a4 b4 t = Vector4_DoLerp a4 b4 t"
  by (simp_all add: Vector2_Lerp_def Vector3_Lerp_def Vector4_Lerp_def)

lemma nth_list_update_same: "i < length h \<Longrightarrow> h[i := v] ! i = v"
  by simp

lemma Vector2_Divide_method_Num:
  "this < length h \<Longrightarrow>
   Vector2_Divide_method h this (NumArg k)
   = h[this := \<lparr>x2 = js_div (x2 (h ! this)) k, y2 = js_div (y2 (h ! this)) k\<rparr>]"
  by (cases "h ! this") (simp add: Vector2_Divide_method_def Let_def)

lemma Vector3_Divide_method_Num:
  "this < length h \<Longrightarrow>
   Vector3_Divide_method h this (NumArg k)
   = h[this := \<lparr>x3 = js_div (x3 (h ! this)) k, y3 = js_div (y3 (h ! this)) k,
                 z3 = js_div (z3 (h ! this)) k\<rparr>]"
  by (cases "h ! this") (simp add: Vector3_Divide_method_def Let_def)

lemma Vector4_Divide_method_Num:
  "this < length h \<Longrightarrow>
   Vector4_Divide_method h this (NumArg k)
   = h[this := \<lparr>x4 = js_div (x4 (h ! this)) k, y4 = js_div (y4 (h ! this)) k,
                 z4 = js_div (z4 (h ! this)) k, w4 = js_div (w4 (h ! this)) k\<rparr>]"
  by (cases "h ! this") (simp add: Vector4_Divide_method_def Let_def)

lemma constructor_examples:
  "new_Vector2 (Some NaN) (Some NaN) = \<lparr>x2 = js_zero, y2 = js_zero\<rparr>"
  "new_Vector3 (Some NaN) (Some NaN) (Some NaN) = \<lparr>x3 = js_zero, y3 = js_zero, z3
      = js_zero\<rparr>"
  "new_Vector4 (Some NaN) (Some NaN) (Some NaN) (Some NaN)
   = \<lparr>x4 = js_zero, y4 = js_zero, z4 = js_zero, w4 = js_one\<rparr>"
  "Vector2_Divide Vector2_zero (Num js_zero) = \<lparr>x2 = js_zero, y2 = js_zero\<rparr>"
  "w4 (Vector4_Multiply Vector4_one (Num NaN)) = js_one"
  by (simp_all add: new_Vector2_def new_Vector3_def new_Vector4_def Vector2_Divide_def
      Vector2_zero_def Vector4_Multiply_def Vector4_one_def js_zero_def js_one_def)

text \<open>
  C9 as stated fails for \<open>Lerp\<close>: outside the interval it hands back its argument, and an
  instance method may have stored \<open>NaN\<close> there.
\<close>

theorem Lerp_returns_NaN_of_argument:
  "Vector2_Lerp_ref (Vector2_Divide_method [Vector2_zero, Vector2_one] 0 (NumArg js_zero)) 0 1
     (js_neg js_one)
   = (0, [\<lparr>x2 = NaN, y2 = NaN\<rparr>, \<lparr>x2 = js_one, y2 = js_one\<rparr>])
   \<and> \<not> no_NaN2 (Vector2_Lerp \<lparr>x2 = NaN, y2
       = NaN\<rparr> Vector2_one (js_neg js_one))"
  by (simp add: Vector2_Lerp_ref_def Vector2_Lerp_def Vector2_Divide_method_def Vector2_zero_def
      Vector2_one_def new_Vector2_def no_NaN2_def Let_def number_eval)

text \<open>
  C9, amended.  The static functions that build their result with the constructor return no
  \<open>NaN\<close> component: \<open>Add\<close>, \<open>Subtract\<close>, \<open>Multiply\<close>, \<open>Divide\<close> with a number or a vector,
  \<open>LerpUnclamped\<close>, \<open>Max\<close>, \<open>Min\<close>, \<open>Cross\<close>, \<open>ClampMagnitude\<close>, \<open>normalized\<close>, and \<open>Lerp\<close>
  when \<open>t\<close> is neither below 0 nor above 1.  A \<open>NaN\<close> argument leaves the
      field at its
  default, 0 for \<open>x\<close>, \<open>y\<close>, \<open>z\<close> and 1 for \<open>w\<close>;
      so \<open>Vector2.Divide(Vector2.zero, 0)\<close> is
  \<open>(0, 0)\<close> and \<open>Vector4.Multiply(Vector4.one, NaN)\<close> has \<open>w
      = 1\<close>.  The instance method
  \<open>Divide\<close> stores the quotients as they are, and on the zero vector divided
      by 0 they are
  \<open>NaN\<close>.
\<close>

theorem constructor_drops_NaN:
  "(no_NaN2 (Vector2_Add a2 b2) \<and> no_NaN2 (Vector2_Subtract a2 b2)
    \<and> no_NaN2 (Vector2_Multiply a2 b2) \<and> no_NaN2 (Vector2_Divide a2 b2)
    \<and> no_NaN2 (Vector2_LerpUnclamped a2 c2 t) \<and> no_NaN2 (Vector2_Max a2 c2)
    \<and> no_NaN2 (Vector2_Min a2 c2) \<and> no_NaN2 (Vector2_Cross a2 c2)
    \<and> no_NaN2 (Vector2_ClampMagnitude a2 k) \<and> no_NaN2 (Vector2_normalized a2))
   \<and> (no_NaN3 (Vector3_Add a3 b3) \<and> no_NaN3 (Vector3_Subtract a3 b3)
    \<and> no_NaN3 (Vector3_Multiply a3 b3) \<and> no_NaN3 (Vector3_Divide a3 b3)
    \<and> no_NaN3 (Vector3_LerpUnclamped a3 c3 t) \<and> no_NaN3 (Vector3_Max a3 c3)
    \<and> no_NaN3 (Vector3_Min a3 c3) \<and> no_NaN3 (Vector3_Cross a3 c3)
    \<and> no_NaN3 (Vector3_ClampMagnitude a3 k) \<and> no_NaN3 (Vector3_normalized a3))
   \<and> (no_NaN4 (Vector4_Add a4 b4) \<and> no_NaN4 (Vector4_Subtract a4 b4)
    \<and> no_NaN4 (Vector4_Multiply a4 b4) \<and> no_NaN4 (Vector4_Divide a4 b4)
    \<and> no_NaN4 (Vector4_LerpUnclamped a4 c4 t) \<and> no_NaN4 (Vector4_Max a4 c4)
    \<and> no_NaN4 (Vector4_Min a4 c4)
    \<and> no_NaN4 (Vector4_ClampMagnitude a4 k) \<and> no_NaN4 (Vector4_normalized a4))
   \<and> (\<not> js_lt t js_zero \<and> \<not> js_gt t js_one \<longrightarrow>
        no_NaN2 (Vector2_Lerp a2 c2 t) \<and> no_NaN3 (Vector3_Lerp a3 c3 t)
        \<and> no_NaN4 (Vector4_Lerp a4 c4 t))
   \<and> new_Vector2 (Some NaN) (Some NaN) = \<lparr>x2 = js_zero, y2 = js_zero\<rparr>
   \<and> new_Vector3 (Some NaN) (Some NaN) (Some NaN) = \<lparr>x3 = js_zero, y3 = js_zero, z3
       = js_zero\<rparr>
   \<and> new_Vector4 (Some NaN) (Some NaN) (Some NaN) (Some NaN)
       = \<lparr>x4 = js_zero, y4 = js_zero, z4 = js_zero, w4 = js_one\<rparr>
   \<and> Vector2_Divide Vector2_zero (Num js_zero) = \<lparr>x2 = js_zero, y2 = js_zero\<rparr>
   \<and> w4 (Vector4_Multiply Vector4_one (Num NaN)) = js_one
   \<and> (this < length h2 \<longrightarrow>
        Vector2_Divide_method h2 this (NumArg d)
        = h2[this := \<lparr>x2 = js_div (x2 (h2 ! this)) d, y2
            = js_div (y2 (h2 ! this)) d\<rparr>])
   \<and> (this < length h3 \<longrightarrow>
        Vector3_Divide_method h3 this (NumArg d)
        = h3[this := \<lparr>x3 = js_div (x3 (h3 ! this)) d, y3 = js_div (y3 (h3 ! this)) d,
                       z3 = js_div (z3 (h3 ! this)) d\<rparr>])
   \<and> (this < length h4 \<longrightarrow>
        Vector4_Divide_method h4 this (NumArg d)
        = h4[this := \<lparr>x4 = js_div (x4 (h4 ! this)) d, y4 = js_div (y4 (h4 ! this)) d,
                       z4 = js_div (z4 (h4 ! this)) d, w4 = js_div (w4 (h4 ! this)) d\<rparr>])
   \<and> Vector2_Divide_method [Vector2_zero] 0 (NumArg js_zero) = [\<lparr>x2 = NaN, y2
       = NaN\<rparr>]"
proof -
  have m: "Vector2_Divide_method [Vector2_zero] 0 (NumArg js_zero) = [\<lparr>x2 = NaN, y2
      = NaN\<rparr>]"
    by (simp add: Vector2_Divide_method_Num Vector2_zero_def new_Vector2_def js_zero_def)
  have l: "\<not> js_lt t js_zero \<and> \<not> js_gt t js_one \<longrightarrow>
        no_NaN2 (Vector2_Lerp a2 c2 t) \<and> no_NaN3 (Vector3_Lerp a3 c3 t)
        \<and> no_NaN4 (Vector4_Lerp a4 c4 t)"
    by (simp add: Lerp_interpolates)
  show ?thesis
    using no_NaN2_static[of a2 b2 c2 t k] no_NaN3_static[of a3 b3 c3 t k]
      no_NaN4_static[of a4 b4 c4 t k] l m constructor_examples
      Vector2_Divide_method_Num[of this h2 d] Vector3_Divide_method_Num[of this h3 d]
      Vector4_Divide_method_Num[of this h4 d]
    by blast
qed

theorem constructor_drops_NaN_witness:
  "\<not> js_lt (Finite False 1 (- 1)) js_zero \<and> \<not> js_gt (Finite False 1 (- 1)) js_one
   \<and> no_NaN2 (Vector2_Lerp \<lparr>x2 = NaN, y2
       = NaN\<rparr> Vector2_one (Finite False 1 (- 1)))
   \<and> no_NaN3 (Vector3_Lerp \<lparr>x3 = NaN, y3 = NaN, z3
       = NaN\<rparr> Vector3_one (Finite False 1 (- 1)))
   \<and> no_NaN4 (Vector4_Lerp \<lparr>x4 = NaN, y4 = NaN, z4 = NaN, w4 = NaN\<rparr> Vector4_one
        (Finite False 1 (- 1)))
   \<and> (0::nat) < length [Vector2_zero]
   \<and> Vector2_Divide_method [Vector2_zero] 0 (NumArg js_zero)
       = [Vector2_zero][0 := \<lparr>x2 = js_div (x2 ([Vector2_zero] ! 0)) js_zero,
                               y2 = js_div (y2 ([Vector2_zero] ! 0)) js_zero\<rparr>]
   \<and> (0::nat) < length [Vector3_zero]
   \<and> Vector3_Divide_method [Vector3_zero] 0 (NumArg js_zero)
       = [Vector3_zero][0 := \<lparr>x3 = js_div (x3 ([Vector3_zero] ! 0)) js_zero,
                               y3 = js_div (y3 ([Vector3_zero] ! 0)) js_zero,
                               z3 = js_div (z3 ([Vector3_zero] ! 0)) js_zero\<rparr>]
   \<and> (0::nat) < length [Vector4_zero]
   \<and> Vector4_Divide_method [Vector4_zero] 0 (NumArg js_zero)
       = [Vector4_zero][0 := \<lparr>x4 = js_div (x4 ([Vector4_zero] ! 0)) js_zero,
                               y4 = js_div (y4 ([Vector4_zero] ! 0)) js_zero,
                               z4 = js_div (z4 ([Vector4_zero] ! 0)) js_zero,
                               w4 = js_div (w4 ([Vector4_zero] ! 0)) js_zero\<rparr>]"
proof -
  have t: "\<not> js_lt (Finite False 1 (- 1)) js_zero
      \<and> \<not> js_gt (Finite False 1 (- 1)) js_one"
    by (simp add: number_eval)
  have l2: "(0::nat) < length [Vector2_zero]" and l3: "(0::nat) < length [Vector3_zero]"
    and l4: "(0::nat) < length [Vector4_zero]"
    by simp_all
  show ?thesis
    using t l2 l3 l4
      constructor_drops_NaN[of "\<lparr>x2 = NaN, y2
          = NaN\<rparr>" _ Vector2_one "Finite False 1 (- 1)" _
        "\<lparr>x3 = NaN, y3 = NaN, z3 = NaN\<rparr>" _ Vector3_one
        "\<lparr>x4 = NaN, y4 = NaN, z4 = NaN, w4 = NaN\<rparr>" _ Vector4_one
        0 "[Vector2_zero]" js_zero "[Vector3_zero]" "[Vector4_zero]"]
    by blast
qed

section \<open>Division by zero\<close>

lemma js_div_by_zero:
  "is_zero k \<Longrightarrow> js_div x k = (if truthy x then Infinity (negative x \<noteq>
      negative k) else NaN)"
  by (cases k; cases x) auto

lemma stored_div_by_zero:
  "is_zero k \<Longrightarrow>
   init_field d (Some (js_div x k)) = (if truthy x then Infinity (negative x \<noteq> negative k)
       else d)"
  by (simp add: js_div_by_zero)

text \<open>
  C1 as stated fails: the quotient 0 / 0 is \<open>NaN\<close>, and \<open>Vector2.Divide(Vector2.zero, 0)\<close>
  is \<open>(0, 0)\<close>.
\<close>

theorem Divide_zero_by_zero_is_zero:
  "js_div (x2 Vector2_zero) js_zero = NaN \<and> js_div (y2 Vector2_zero) js_zero = NaN
   \<and> Vector2_Divide Vector2_zero (Num js_zero) = \<lparr>x2 = js_zero, y2 = js_zero\<rparr>
   \<and> \<not> isNaN (x2 (Vector2_Divide Vector2_zero (Num js_zero)))
   \<and> \<not> isNaN (y2 (Vector2_Divide Vector2_zero (Num js_zero)))"
  by (simp add: Vector2_Divide_def Vector2_zero_def new_Vector2_def js_zero_def)

text \<open>
  C1, amended.  The static \<open>Divide\<close> of the three classes makes no zero check.  Where the
  divisor (the number, or the component of the vector) is a zero, the quotient is an
  infinity when the component of \<open>a\<close> is neither zero nor \<open>NaN\<close>, of the sign of the two
  operands, and it reaches the caller as it is; it is \<open>NaN\<close> when the component of \<open>a\<close>
  is zero or \<open>NaN\<close>, and then the component of the result is the default of the
  constructor, 0 for \<open>x\<close>, \<open>y\<close>, \<open>z\<close> and 1 for
      \<open>w\<close>.
\<close>

theorem Divide_by_zero:
  "(is_zero k \<longrightarrow>
      js_div q k = (if truthy q then Infinity (negative q \<noteq> negative k) else NaN)
      \<and> Vector2_Divide a2 (Num k)
          = \<lparr>x2 = (if truthy (x2 a2) then Infinity (negative (x2 a2) \<noteq> negative k)
              else js_zero),
             y2 = (if truthy (y2 a2) then Infinity (negative (y2 a2) \<noteq> negative k) else
                 js_zero)\<rparr>
      \<and> Vector3_Divide a3 (Num k)
          = \<lparr>x3 = (if truthy (x3 a3) then Infinity (negative (x3 a3) \<noteq> negative k)
              else js_zero),
             y3 = (if truthy (y3 a3) then Infinity (negative (y3 a3) \<noteq> negative k) else
                 js_zero),
             z3 = (if truthy (z3 a3) then Infinity (negative (z3 a3) \<noteq> negative k) else
                 js_zero)\<rparr>
      \<and> Vector4_Divide a4 (Num k)
          = \<lparr>x4 = (if truthy (x4 a4) then Infinity (negative (x4 a4) \<noteq> negative k)
              else js_zero),
             y4 = (if truthy (y4 a4) then Infinity (negative (y4 a4) \<noteq> negative k) else
                 js_zero),
             z4 = (if truthy (z4 a4) then Infinity (negative (z4 a4) \<noteq> negative k) else
                 js_zero),
             w4 = (if truthy (w4 a4) then Infinity (negative (w4 a4) \<noteq> negative k) else
                 js_one)\<rparr>)
   \<and> (is_zero (x2 b2) \<longrightarrow>
        x2 (Vector2_Divide a2 (Vec b2))
        = (if truthy (x2 a2) then Infinity (negative (x2 a2) \<noteq> negative (x2 b2)) else
            js_zero))
   \<and> (is_zero (y2 b2) \<longrightarrow>
        y2 (Vector2_Divide a2 (Vec b2))
        = (if truthy (y2 a2) then Infinity (negative (y2 a2) \<noteq> negative (y2 b2)) else
            js_zero))
   \<and> (is_zero (x3 b3) \<longrightarrow>
        x3 (Vector3_Divide a3 (Vec b3))
        = (if truthy (x3 a3) then Infinity (negative (x3 a3) \<noteq> negative (x3 b3)) else
            js_zero))
   \<and> (is_zero (y3 b3) \<longrightarrow>
        y3 (Vector3_Divide a3 (Vec b3))
        = (if truthy (y3 a3) then Infinity (negative (y3 a3) \<noteq> negative (y3 b3)) else
            js_zero))
   \<and> (is_zero (z3 b3) \<longrightarrow>
        z3 (Vector3_Divide a3 (Vec b3))
        = (if truthy (z3 a3) then Infinity (negative (z3 a3) \<noteq> negative (z3 b3)) else
            js_zero))
   \<and> (is_zero (x4 b4) \<longrightarrow>
        x4 (Vector4_Divide a4 (Vec b4))
        = (if truthy (x4 a4) then Infinity (negative (x4 a4) \<noteq> negative (x4 b4)) else
            js_zero))
   \<and> (is_zero (y4 b4) \<longrightarrow>
        y4 (Vector4_Divide a4 (Vec b4))
        = (if truthy (y4 a4) then Infinity (negative (y4 a4) \<noteq> negative (y4 b4)) else
            js_zero))
   \<and> (is_zero (z4 b4) \<longrightarrow>
        z4 (Vector4_Divide a4 (Vec b4))
        = (if truthy (z4 a4) then Infinity (negative (z4 a4) \<noteq> negative (z4 b4)) else
            js_zero))
   \<and> (is_zero (w4 b4) \<longrightarrow>
        w4 (Vector4_Divide a4 (Vec b4))
        = (if truthy (w4 a4) then Infinity (negative (w4 a4) \<noteq> negative (w4 b4)) else
            js_one))"
proof -
  have s1: "is_zero k \<Longrightarrow>
      js_div q k = (if truthy q then Infinity (negative q \<noteq> negative k) else NaN)"
    by (rule js_div_by_zero)
  have s2: "is_zero k \<Longrightarrow> Vector2_Divide a2 (Num k)
          = \<lparr>x2 = (if truthy (x2 a2) then Infinity (negative (x2 a2) \<noteq> negative k)
              else js_zero),
             y2 = (if truthy (y2 a2) then Infinity (negative (y2 a2) \<noteq> negative k) else
                 js_zero)\<rparr>"
    by (simp add: Vector2_Divide_def new_Vector2_def stored_div_by_zero del: init_field_Some)
  have s3: "is_zero k \<Longrightarrow> Vector3_Divide a3 (Num k)
          = \<lparr>x3 = (if truthy (x3 a3) then Infinity (negative (x3 a3) \<noteq> negative k)
              else js_zero),
             y3 = (if truthy (y3 a3) then Infinity (negative (y3 a3) \<noteq> negative k) else
                 js_zero),
             z3 = (if truthy (z3 a3) then Infinity (negative (z3 a3) \<noteq> negative k) else
                 js_zero)\<rparr>"
    by (simp add: Vector3_Divide_def new_Vector3_def stored_div_by_zero del: init_field_Some)
  have s4: "is_zero k \<Longrightarrow> Vector4_Divide a4 (Num k)
          = \<lparr>x4 = (if truthy (x4 a4) then Infinity (negative (x4 a4) \<noteq> negative k)
              else js_zero),
             y4 = (if truthy (y4 a4) then Infinity (negative (y4 a4) \<noteq> negative k) else
                 js_zero),
             z4 = (if truthy (z4 a4) then Infinity (negative (z4 a4) \<noteq> negative k) else
                 js_zero),
             w4 = (if truthy (w4 a4) then Infinity (negative (w4 a4) \<noteq> negative k) else
                 js_one)\<rparr>"
    by (simp add: Vector4_Divide_def new_Vector4_def stored_div_by_zero del: init_field_Some)
  have v2: "is_zero (x2 b2) \<longrightarrow>
        x2 (Vector2_Divide a2 (Vec b2))
        = (if truthy (x2 a2) then Infinity (negative (x2 a2) \<noteq> negative (x2 b2)) else
            js_zero)"
    "is_zero (y2 b2) \<longrightarrow>
        y2 (Vector2_Divide a2 (Vec b2))
        = (if truthy (y2 a2) then Infinity (negative (y2 a2) \<noteq> negative (y2 b2)) else
            js_zero)"
    by (simp_all add: Vector2_Divide_def new_Vector2_def stored_div_by_zero del: init_field_Some)
  have v3: "is_zero (x3 b3) \<longrightarrow>
        x3 (Vector3_Divide a3 (Vec b3))
        = (if truthy (x3 a3) then Infinity (negative (x3 a3) \<noteq> negative (x3 b3)) else
            js_zero)"
    "is_zero (y3 b3) \<longrightarrow>
        y3 (Vector3_Divide a3 (Vec b3))
        = (if truthy (y3 a3) then Infinity (negative (y3 a3) \<noteq> negative (y3 b3)) else
            js_zero)"
    "is_zero (z3 b3) \<longrightarrow>
        z3 (Vector3_Divide a3 (Vec b3))
        = (if truthy (z3 a3) then Infinity (negative (z3 a3) \<noteq> negative (z3 b3)) else
            js_zero)"
    by (simp_all add: Vector3_Divide_def new_Vector3_def stored_div_by_zero del: init_field_Some)
  have v4: "is_zero (x4 b4) \<longrightarrow>
        x4 (Vector4_Divide a4 (Vec b4))
        = (if truthy (x4 a4) then Infinity (negative (x4 a4) \<noteq> negative (x4 b4)) else
            js_zero)"
    "is_zero (y4 b4) \<longrightarrow>
        y4 (Vector4_Divide a4 (Vec b4))
        = (if truthy (y4 a4) then Infinity (negative (y4 a4) \<noteq> negative (y4 b4)) else
            js_zero)"
    "is_zero (z4 b4) \<longrightarrow>
        z4 (Vector4_Divide a4 (Vec b4))
        = (if truthy (z4 a4) then Infinity (negative (z4 a4) \<noteq> negative (z4 b4)) else
            js_zero)"
    "is_zero (w4 b4) \<longrightarrow>
        w4 (Vector4_Divide a4 (Vec b4))
        = (if truthy (w4 a4) then Infinity (negative (w4 a4) \<noteq> negative (w4 b4)) else
            js_one)"
    by (simp_all add: Vector4_Divide_def new_Vector4_def stored_div_by_zero del: init_field_Some)
  from s1 s2 s3 s4 v2 v3 v4 show ?thesis by blast
qed

theorem Divide_by_zero_witness:
  "is_zero js_zero
   \<and> js_div (js_neg js_one) js_zero = Infinity True
   \<and> Vector2_Divide \<lparr>x2 = js_one, y2 = js_zero\<rparr> (Num js_zero)
       = \<lparr>x2 = Infinity False, y2 = js_zero\<rparr>
   \<and> Vector3_Divide \<lparr>x3 = js_neg js_one, y3 = NaN, z3
       = Infinity False\<rparr> (Num js_zero)
       = \<lparr>x3 = Infinity True, y3 = js_zero, z3 = Infinity False\<rparr>
   \<and> Vector4_Divide \<lparr>x4 = js_one, y4 = js_zero, z4 = js_zero, w4
       = js_zero\<rparr> (Num js_zero)
       = \<lparr>x4 = Infinity False, y4 = js_zero, z4 = js_zero, w4 = js_one\<rparr>
   \<and> is_zero (x2 \<lparr>x2 = js_neg js_zero, y2 = js_zero\<rparr>)
   \<and> x2 (Vector2_Divide \<lparr>x2 = js_one, y2 = js_zero\<rparr> (Vec \<lparr>x2
       = js_neg js_zero, y2 = js_zero\<rparr>))
       = Infinity True
   \<and> is_zero (y2 \<lparr>x2 = js_neg js_zero, y2 = js_zero\<rparr>)
   \<and> y2 (Vector2_Divide \<lparr>x2 = js_one, y2 = js_zero\<rparr> (Vec \<lparr>x2
       = js_neg js_zero, y2 = js_zero\<rparr>))
       = js_zero
   \<and> is_zero (x3 Vector3_zero) \<and> is_zero (y3 Vector3_zero)
       \<and> is_zero (z3 Vector3_zero)
   \<and> Vector3_Divide Vector3_one (Vec Vector3_zero)
       = \<lparr>x3 = Infinity False, y3 = Infinity False, z3 = Infinity False\<rparr>
   \<and> is_zero (x4 Vector4_zero) \<and> is_zero (y4 Vector4_zero)
       \<and> is_zero (z4 Vector4_zero)
   \<and> x4 (Vector4_Divide Vector4_one (Vec Vector4_zero)) = Infinity False
   \<and> y4 (Vector4_Divide Vector4_one (Vec Vector4_zero)) = Infinity False
   \<and> z4 (Vector4_Divide Vector4_one (Vec Vector4_zero)) = Infinity False
   \<and> is_zero (w4 \<lparr>x4 = js_zero, y4 = js_zero, z4 = js_zero, w4 = js_zero\<rparr>)
   \<and> w4 (Vector4_Divide \<lparr>x4 = js_zero, y4 = js_zero, z4 = js_zero, w4 = js_zero\<rparr>
            (Vec \<lparr>x4 = js_zero, y4 = js_zero, z4 = js_zero, w4 = js_zero\<rparr>)) = js_one"
proof -
  have z: "is_zero js_zero" by (simp add: js_zero_def)
  note ev = js_zero_def js_one_def Vector3_zero_def Vector3_one_def new_Vector3_def
    Vector4_zero_def Vector4_one_def new_Vector4_def
  show ?thesis
    using z
      Divide_by_zero[of js_zero "js_neg js_one" "\<lparr>x2 = js_one, y2 = js_zero\<rparr>"
        "\<lparr>x3 = js_neg js_one, y3 = NaN, z3 = Infinity False\<rparr>"
        "\<lparr>x4 = js_one, y4 = js_zero, z4 = js_zero, w4 = js_zero\<rparr>"
        "\<lparr>x2 = js_neg js_zero, y2 = js_zero\<rparr>"]
      Divide_by_zero[of js_zero js_one _ Vector3_one Vector4_one _ Vector3_zero Vector4_zero]
      Divide_by_zero[of js_zero js_one _ _ "\<lparr>x4 = js_zero, y4 = js_zero, z4 = js_zero, w4
          = js_zero\<rparr>"
         _ _ "\<lparr>x4 = js_zero, y4 = js_zero, z4 = js_zero, w4 = js_zero\<rparr>"]
    by (simp add: ev vector3.equality)
qed

section \<open>Interpolation\<close>

lemma is_double_specials [simp]: "is_double NaN" "is_double (Infinity s)" "is_double (Finite s 0 0)"
  by (simp_all add: is_double_def)

lemma is_double_js_zero [simp]: "is_double js_zero"
  by (simp add: js_zero_def)

lemma is_double_js_one [simp]: "is_double js_one"
  by (simp add: js_one_def is_double_def bitlen_1)

lemma is_double_sum_result [simp]: "is_double (sum_result sz c E)"
  by (simp add: sum_result_def is_double_fround)

lemma is_double_js_add [simp]: "is_double (js_add x y)"
  by (cases x; cases y) simp_all

lemma is_double_js_sub [simp]: "is_double (js_sub x y)"
  by (simp add: js_sub_def)

lemma is_double_js_mul [simp]: "is_double (js_mul x y)"
  by (cases x; cases y) (simp_all add: is_double_fround)

lemma is_double_js_div [simp]: "is_double (js_div x y)"
  by (cases x; cases y) (simp_all add: is_double_fround)

lemma is_double_Math_sqrt [simp]: "is_double (Math_sqrt x)"
  by (cases x) (simp_all add: is_double_fround)

lemma is_double_init_field:
  "is_double d \<Longrightarrow> is_double v \<Longrightarrow> is_double (init_field d (Some v))"
  by simp

lemma signed_pos_sign: "0 < signed s m \<Longrightarrow> \<not> s"
  by (cases s) (simp_all add: signed_def)

lemma signed_neg_sign: "signed s m < 0 \<Longrightarrow> s"
  by (cases s) (simp_all add: signed_def)


lemma js_lt_asym: "js_lt a b \<Longrightarrow> \<not> js_lt b a"
  by (cases a; cases b) (auto simp: min.commute)

lemma js_eq_not_lt: "js_eq a b \<Longrightarrow> \<not> js_lt b a"
  by (cases a; cases b) (auto simp: min.commute)

lemma js_le_not_gt: "js_le a b \<Longrightarrow> \<not> js_lt b a"
  by (auto simp: js_le_def dest: js_lt_asym js_eq_not_lt)




lemma js_eq_zero_any: "\<not> isNaN x \<Longrightarrow> \<not> truthy x
    \<Longrightarrow> js_eq js_zero x"
  by (cases x) (simp_all add: js_zero_def signed_def)

lemma stored_add_zero:
  assumes "is_double x" and "\<not> isNaN x"
  shows "js_eq (init_field js_zero (Some (js_add x js_zero))) x"
proof (cases "truthy x")
  case True
  with assms have "js_add x js_zero = x" by (simp add: js_zero_def js_add_zero_right)
  with True assms show ?thesis by (simp add: js_eq_refl)
next
  case False
  then have "\<not> truthy (js_add x js_zero)"
    by (simp add: js_zero_def truthy_js_add_zero_right)
  with False assms show ?thesis by (simp add: js_eq_zero_any)
qed




















section \<open>MoveTowards\<close>

lemma not_truthy_js_sub_self: "\<not> truthy (js_sub x x)"
  by (cases x) (simp_all add: js_sub_def sum_result_def signed_def)

lemma mul_zero_zero: "js_mul js_zero js_zero = js_zero"
  by (simp add: js_zero_def fround_0)

lemma mul_one_one: "js_mul js_one js_one = js_one"
  by (simp add: js_mul_one)

lemma add_zero_zero: "js_add js_zero js_zero = js_zero"
  by (simp add: js_zero_def sum_result_def signed_def)

lemma sqrt_zero: "Math_sqrt js_zero = js_zero"
  by (simp add: js_zero_def)

lemma js_mul_NaN_right [simp]: "js_mul c NaN = NaN"
  by (cases c) simp_all

lemma js_lt_NaN_right [simp]: "\<not> js_lt x NaN"
  by (cases x) simp_all

lemma js_gt_zero_positive:
  assumes "js_gt d js_zero"
  shows "truthy d \<and> \<not> negative d"
proof (cases d)
  case (Finite s m e)
  with assms have "signed False 0 < signed s (m * 2 ^ nat (e - min 0 e))"
    by (simp add: js_gt_def js_zero_def)
  moreover have "signed False 0 = 0" by (simp add: signed_def)
  ultimately have pos: "0 < signed s (m * 2 ^ nat (e - min 0 e))" by simp
  then have "\<not> s" by (rule signed_pos_sign)
  moreover have "m \<noteq> 0"
  proof
    assume "m = 0"
    with pos show False by (cases s) (simp_all add: signed_def)
  qed
  ultimately show ?thesis using Finite by simp
qed (use assms in \<open>simp_all add: js_gt_def js_zero_def\<close>)

lemma div_positive_by_zero:
  assumes "is_zero z" and "js_gt d js_zero" and "nonneg z"
  shows "js_div d z = Infinity False"
proof -
  from assms(2) have "truthy d" and "\<not> negative d" by (simp_all add: js_gt_zero_positive)
  moreover from assms(3) have "\<not> negative z" by (simp add: nonneg_def)
  ultimately show ?thesis using assms(1) by (simp add: js_div_by_zero)
qed

lemma div_zero_by_zero: "is_zero z \<Longrightarrow> is_zero d \<Longrightarrow> js_div d z = NaN"
  by (cases z; cases d) simp_all

lemma Vector2_DoLerp_at_NaN:
  "Vector2_DoLerp a b NaN
    = \<lparr>x2 = init_field js_zero (Some (js_add (x2 a) js_zero)),
       y2 = init_field js_zero (Some (js_add (y2 a) js_zero))\<rparr>"
  by (simp add: Vector2_DoLerp_def Vector2_Add_def Vector2_Multiply_def new_Vector2_def)

lemma nonneg_Vector2_Distance: "nonneg (Vector2_Distance a b)"
  by (simp add: Vector2_Distance_def nonneg_Vector2_magnitude)

lemma Vector2_MoveTowards_ref_eq:
  assumes "c < length h" and "t < length h"
  shows "Vector2_MoveTowards_ref h c t d
    = Vector2_Lerp_ref (h @ [Vector2_Subtract (h ! t) (Vec (h ! c))]) c t
        (js_div d (Vector2_Distance (h ! t) (h ! c)))"
  using assms
  by (simp add: Vector2_MoveTowards_ref_def Vector2_Distance_ref_def Vector2_Subtract_ref_def
      alloc_def
      Vector2_Distance_def nth_append)

lemma Vector2_Distance_self: "Vector2_Distance v v = js_zero"
  by (simp add: Vector2_Distance_def Vector2_Subtract_def new_Vector2_def Vector2_magnitude_def
      not_truthy_js_sub_self mul_zero_zero add_zero_zero sqrt_zero)

lemma Vector3_DoLerp_at_NaN:
  "Vector3_DoLerp a b NaN
    = \<lparr>x3 = init_field js_zero (Some (js_add (x3 a) js_zero)),
       y3 = init_field js_zero (Some (js_add (y3 a) js_zero)),
       z3 = init_field js_zero (Some (js_add (z3 a) js_zero))\<rparr>"
  by (simp add: Vector3_DoLerp_def Vector3_Add_def Vector3_Multiply_def new_Vector3_def)

lemma nonneg_Vector3_Distance: "nonneg (Vector3_Distance a b)"
  by (simp add: Vector3_Distance_def nonneg_Vector3_magnitude)

lemma Vector3_MoveTowards_ref_eq:
  assumes "c < length h" and "t < length h"
  shows "Vector3_MoveTowards_ref h c t d
    = Vector3_Lerp_ref (h @ [Vector3_Subtract (h ! t) (Vec (h ! c))]) c t
        (js_div d (Vector3_Distance (h ! t) (h ! c)))"
  using assms
  by (simp add: Vector3_MoveTowards_ref_def Vector3_Distance_ref_def Vector3_Subtract_ref_def
      alloc_def
      Vector3_Distance_def nth_append)

lemma Vector3_Distance_self: "Vector3_Distance v v = js_zero"
  by (simp add: Vector3_Distance_def Vector3_Subtract_def new_Vector3_def Vector3_magnitude_def
      not_truthy_js_sub_self mul_zero_zero add_zero_zero sqrt_zero)

lemma Vector4_DoLerp_at_NaN:
  "Vector4_DoLerp a b NaN
    = \<lparr>x4 = init_field js_zero (Some (js_add (x4 a) js_zero)),
       y4 = init_field js_zero (Some (js_add (y4 a) js_zero)),
       z4 = init_field js_zero (Some (js_add (z4 a) js_zero)),
       w4 = init_field js_one (Some (js_add (w4 a) js_one))\<rparr>"
  by (simp add: Vector4_DoLerp_def Vector4_Add_def Vector4_Multiply_def new_Vector4_def)

lemma nonneg_Vector4_Distance: "nonneg (Vector4_Distance a b)"
  by (simp add: Vector4_Distance_def nonneg_Vector4_magnitude)

lemma Vector4_MoveTowards_ref_eq:
  assumes "c < length h" and "t < length h"
  shows "Vector4_MoveTowards_ref h c t d
    = Vector4_Lerp_ref (h @ [Vector4_Subtract (h ! t) (Vec (h ! c))]) c t
        (js_div d (Vector4_Distance (h ! t) (h ! c)))"
  using assms
  by (simp add: Vector4_MoveTowards_ref_def Vector4_Distance_ref_def Vector4_Subtract_ref_def
      alloc_def
      Vector4_Distance_def nth_append)


lemma Vector2_MoveTowards_facts:
  "(Vector2_MoveTowards u2 v2 d
      = Vector2_Lerp u2 v2 (js_div d (Vector2_Distance v2 u2))
   \<and> Vector2_Distance u2 u2 = js_zero
   \<and> (is_zero (Vector2_Distance (h2 ! t) (h2 ! c)) \<and> js_gt d js_zero
       \<and> c < length h2 \<and> t < length h2 \<longrightarrow>
        Vector2_MoveTowards_ref h2 c t d
        = (t, h2 @ [Vector2_Subtract (h2 ! t) (Vec (h2 ! c))]))
   \<and> (is_zero (Vector2_Distance v2 u2) \<and> is_zero d0 \<longrightarrow>
        js_div d0 (Vector2_Distance v2 u2) = NaN
        \<and> Vector2_MoveTowards u2 v2 d0 = Vector2_LerpUnclamped u2 v2 NaN
        \<and> no_NaN2 (Vector2_MoveTowards u2 v2 d0))
   \<and> (is_zero (Vector2_Distance v2 u2) \<and> is_zero d0 \<and> no_NaN2 u2 \<and> doubles2 u2
       \<longrightarrow>
        js_eq (x2 (Vector2_MoveTowards u2 v2 d0)) (x2 u2)
        \<and> js_eq (y2 (Vector2_MoveTowards u2 v2 d0)) (y2 u2)))"
proof -
  have p0: "Vector2_MoveTowards u2 v2 d
      = Vector2_Lerp u2 v2 (js_div d (Vector2_Distance v2 u2))"
    by (simp add: Vector2_MoveTowards_def)
  have p1: "Vector2_Distance u2 u2 = js_zero"
    by (rule Vector2_Distance_self)
  have p2: "is_zero (Vector2_Distance (h2 ! t) (h2 ! c)) \<Longrightarrow> js_gt d js_zero
      \<Longrightarrow> c < length h2 \<Longrightarrow> t < length h2 \<Longrightarrow>
      Vector2_MoveTowards_ref h2 c t d
        = (t, h2 @ [Vector2_Subtract (h2 ! t) (Vec (h2 ! c))])"
  proof -
    assume z: "is_zero (Vector2_Distance (h2 ! t) (h2 ! c))" and g: "js_gt d js_zero"
      and c: "c < length h2" and t: "t < length h2"
    have "js_div d (Vector2_Distance (h2 ! t) (h2 ! c)) = Infinity False"
      using z g nonneg_Vector2_Distance by (rule div_positive_by_zero)
    then show ?thesis
      using c t by (simp add: Vector2_MoveTowards_ref_eq Vector2_Lerp_ref_def js_gt_def js_one_def
          js_zero_def)
  qed
  have p3: "is_zero (Vector2_Distance v2 u2) \<Longrightarrow> is_zero d0 \<Longrightarrow>
      js_div d0 (Vector2_Distance v2 u2) = NaN
        \<and> Vector2_MoveTowards u2 v2 d0 = Vector2_LerpUnclamped u2 v2 NaN
        \<and> no_NaN2 (Vector2_MoveTowards u2 v2 d0)"
  proof -
    assume z: "is_zero (Vector2_Distance v2 u2)" and g: "is_zero d0"
    have n: "js_div d0 (Vector2_Distance v2 u2) = NaN"
      using z g by (rule div_zero_by_zero)
    then show ?thesis
      by (simp add: Vector2_MoveTowards_def Vector2_Lerp_def Vector2_LerpUnclamped_def js_gt_def)
  qed
  have p4: "is_zero (Vector2_Distance v2 u2) \<Longrightarrow> is_zero d0
      \<Longrightarrow> no_NaN2 u2 \<Longrightarrow> doubles2 u2 \<Longrightarrow>
      js_eq (x2 (Vector2_MoveTowards u2 v2 d0)) (x2 u2)
        \<and> js_eq (y2 (Vector2_MoveTowards u2 v2 d0)) (y2 u2)"
  proof -
    assume z: "is_zero (Vector2_Distance v2 u2)" and g: "is_zero d0"
      and n: "no_NaN2 u2" and d: "doubles2 u2"
    have "js_div d0 (Vector2_Distance v2 u2) = NaN"
      using z g by (rule div_zero_by_zero)
    then have "Vector2_MoveTowards u2 v2 d0 = Vector2_DoLerp u2 v2 NaN"
      by (simp add: Vector2_MoveTowards_def Vector2_Lerp_def js_gt_def)
    then show ?thesis
      using n d by (simp add: Vector2_DoLerp_at_NaN no_NaN2_def doubles2_def stored_add_zero
          del: init_field_Some)
  qed
  from p0 p1 p2 p3 p4 show ?thesis by blast
qed

lemma Vector3_MoveTowards_facts:
  "(Vector3_MoveTowards u3 v3 d
      = Vector3_Lerp u3 v3 (js_div d (Vector3_Distance v3 u3))
   \<and> Vector3_Distance u3 u3 = js_zero
   \<and> (is_zero (Vector3_Distance (h3 ! t) (h3 ! c)) \<and> js_gt d js_zero
       \<and> c < length h3 \<and> t < length h3 \<longrightarrow>
        Vector3_MoveTowards_ref h3 c t d
        = (t, h3 @ [Vector3_Subtract (h3 ! t) (Vec (h3 ! c))]))
   \<and> (is_zero (Vector3_Distance v3 u3) \<and> is_zero d0 \<longrightarrow>
        js_div d0 (Vector3_Distance v3 u3) = NaN
        \<and> Vector3_MoveTowards u3 v3 d0 = Vector3_LerpUnclamped u3 v3 NaN
        \<and> no_NaN3 (Vector3_MoveTowards u3 v3 d0))
   \<and> (is_zero (Vector3_Distance v3 u3) \<and> is_zero d0 \<and> no_NaN3 u3 \<and> doubles3 u3
       \<longrightarrow>
        js_eq (x3 (Vector3_MoveTowards u3 v3 d0)) (x3 u3)
        \<and> js_eq (y3 (Vector3_MoveTowards u3 v3 d0)) (y3 u3)
        \<and> js_eq (z3 (Vector3_MoveTowards u3 v3 d0)) (z3 u3)))"
proof -
  have p0: "Vector3_MoveTowards u3 v3 d
      = Vector3_Lerp u3 v3 (js_div d (Vector3_Distance v3 u3))"
    by (simp add: Vector3_MoveTowards_def)
  have p1: "Vector3_Distance u3 u3 = js_zero"
    by (rule Vector3_Distance_self)
  have p2: "is_zero (Vector3_Distance (h3 ! t) (h3 ! c)) \<Longrightarrow> js_gt d js_zero
      \<Longrightarrow> c < length h3 \<Longrightarrow> t < length h3 \<Longrightarrow>
      Vector3_MoveTowards_ref h3 c t d
        = (t, h3 @ [Vector3_Subtract (h3 ! t) (Vec (h3 ! c))])"
  proof -
    assume z: "is_zero (Vector3_Distance (h3 ! t) (h3 ! c))" and g: "js_gt d js_zero"
      and c: "c < length h3" and t: "t < length h3"
    have "js_div d (Vector3_Distance (h3 ! t) (h3 ! c)) = Infinity False"
      using z g nonneg_Vector3_Distance by (rule div_positive_by_zero)
    then show ?thesis
      using c t by (simp add: Vector3_MoveTowards_ref_eq Vector3_Lerp_ref_def js_gt_def js_one_def
          js_zero_def)
  qed
  have p3: "is_zero (Vector3_Distance v3 u3) \<Longrightarrow> is_zero d0 \<Longrightarrow>
      js_div d0 (Vector3_Distance v3 u3) = NaN
        \<and> Vector3_MoveTowards u3 v3 d0 = Vector3_LerpUnclamped u3 v3 NaN
        \<and> no_NaN3 (Vector3_MoveTowards u3 v3 d0)"
  proof -
    assume z: "is_zero (Vector3_Distance v3 u3)" and g: "is_zero d0"
    have n: "js_div d0 (Vector3_Distance v3 u3) = NaN"
      using z g by (rule div_zero_by_zero)
    then show ?thesis
      by (simp add: Vector3_MoveTowards_def Vector3_Lerp_def Vector3_LerpUnclamped_def js_gt_def)
  qed
  have p4: "is_zero (Vector3_Distance v3 u3) \<Longrightarrow> is_zero d0
      \<Longrightarrow> no_NaN3 u3 \<Longrightarrow> doubles3 u3 \<Longrightarrow>
      js_eq (x3 (Vector3_MoveTowards u3 v3 d0)) (x3 u3)
        \<and> js_eq (y3 (Vector3_MoveTowards u3 v3 d0)) (y3 u3)
        \<and> js_eq (z3 (Vector3_MoveTowards u3 v3 d0)) (z3 u3)"
  proof -
    assume z: "is_zero (Vector3_Distance v3 u3)" and g: "is_zero d0"
      and n: "no_NaN3 u3" and d: "doubles3 u3"
    have "js_div d0 (Vector3_Distance v3 u3) = NaN"
      using z g by (rule div_zero_by_zero)
    then have "Vector3_MoveTowards u3 v3 d0 = Vector3_DoLerp u3 v3 NaN"
      by (simp add: Vector3_MoveTowards_def Vector3_Lerp_def js_gt_def)
    then show ?thesis
      using n d by (simp add: Vector3_DoLerp_at_NaN no_NaN3_def doubles3_def stored_add_zero
          del: init_field_Some)
  qed
  from p0 p1 p2 p3 p4 show ?thesis by blast
qed

lemma Vector4_MoveTowards_facts:
  "(Vector4_MoveTowards u4 v4 d
      = Vector4_Lerp u4 v4 (js_div d (Vector4_Distance v4 u4))
   \<and> (is_zero (Vector4_Distance (h4 ! t) (h4 ! c)) \<and> js_gt d js_zero
       \<and> c < length h4 \<and> t < length h4 \<longrightarrow>
        Vector4_MoveTowards_ref h4 c t d
        = (t, h4 @ [Vector4_Subtract (h4 ! t) (Vec (h4 ! c))]))
   \<and> (is_zero (Vector4_Distance v4 u4) \<and> is_zero d0 \<longrightarrow>
        js_div d0 (Vector4_Distance v4 u4) = NaN
        \<and> Vector4_MoveTowards u4 v4 d0 = Vector4_LerpUnclamped u4 v4 NaN
        \<and> no_NaN4 (Vector4_MoveTowards u4 v4 d0))
   \<and> (is_zero (Vector4_Distance v4 u4) \<and> is_zero d0 \<and> no_NaN4 u4 \<and> doubles4 u4
       \<longrightarrow>
        js_eq (x4 (Vector4_MoveTowards u4 v4 d0)) (x4 u4)
        \<and> js_eq (y4 (Vector4_MoveTowards u4 v4 d0)) (y4 u4)
        \<and> js_eq (z4 (Vector4_MoveTowards u4 v4 d0)) (z4 u4)))"
proof -
  have p0: "Vector4_MoveTowards u4 v4 d
      = Vector4_Lerp u4 v4 (js_div d (Vector4_Distance v4 u4))"
    by (simp add: Vector4_MoveTowards_def)
  have p1: "is_zero (Vector4_Distance (h4 ! t) (h4 ! c)) \<Longrightarrow> js_gt d js_zero
      \<Longrightarrow> c < length h4 \<Longrightarrow> t < length h4 \<Longrightarrow>
      Vector4_MoveTowards_ref h4 c t d
        = (t, h4 @ [Vector4_Subtract (h4 ! t) (Vec (h4 ! c))])"
  proof -
    assume z: "is_zero (Vector4_Distance (h4 ! t) (h4 ! c))" and g: "js_gt d js_zero"
      and c: "c < length h4" and t: "t < length h4"
    have "js_div d (Vector4_Distance (h4 ! t) (h4 ! c)) = Infinity False"
      using z g nonneg_Vector4_Distance by (rule div_positive_by_zero)
    then show ?thesis
      using c t by (simp add: Vector4_MoveTowards_ref_eq Vector4_Lerp_ref_def js_gt_def js_one_def
          js_zero_def)
  qed
  have p2: "is_zero (Vector4_Distance v4 u4) \<Longrightarrow> is_zero d0 \<Longrightarrow>
      js_div d0 (Vector4_Distance v4 u4) = NaN
        \<and> Vector4_MoveTowards u4 v4 d0 = Vector4_LerpUnclamped u4 v4 NaN
        \<and> no_NaN4 (Vector4_MoveTowards u4 v4 d0)"
  proof -
    assume z: "is_zero (Vector4_Distance v4 u4)" and g: "is_zero d0"
    have n: "js_div d0 (Vector4_Distance v4 u4) = NaN"
      using z g by (rule div_zero_by_zero)
    then show ?thesis
      by (simp add: Vector4_MoveTowards_def Vector4_Lerp_def Vector4_LerpUnclamped_def js_gt_def)
  qed
  have p3: "is_zero (Vector4_Distance v4 u4) \<Longrightarrow> is_zero d0
      \<Longrightarrow> no_NaN4 u4 \<Longrightarrow> doubles4 u4 \<Longrightarrow>
      js_eq (x4 (Vector4_MoveTowards u4 v4 d0)) (x4 u4)
        \<and> js_eq (y4 (Vector4_MoveTowards u4 v4 d0)) (y4 u4)
        \<and> js_eq (z4 (Vector4_MoveTowards u4 v4 d0)) (z4 u4)"
  proof -
    assume z: "is_zero (Vector4_Distance v4 u4)" and g: "is_zero d0"
      and n: "no_NaN4 u4" and d: "doubles4 u4"
    have "js_div d0 (Vector4_Distance v4 u4) = NaN"
      using z g by (rule div_zero_by_zero)
    then have "Vector4_MoveTowards u4 v4 d0 = Vector4_DoLerp u4 v4 NaN"
      by (simp add: Vector4_MoveTowards_def Vector4_Lerp_def js_gt_def)
    then show ?thesis
      using n d by (simp add: Vector4_DoLerp_at_NaN no_NaN4_def doubles4_def stored_add_zero
          del: init_field_Some)
  qed
  from p0 p1 p2 p3 show ?thesis by blast
qed


text \<open>
  C5 as stated fails where \<open>current\<close> equals \<open>target\<close> and the step is 0: the ratio 0 / 0 is
  \<open>NaN\<close>, and the result is \<open>current\<close>, with no \<open>NaN\<close> in it.
\<close>

theorem MoveTowards_zero_step_is_current:
  "Vector2_Distance \<lparr>x2 = js_one, y2 = Finite False 1 1\<rparr> \<lparr>x2 = js_one, y2
      = Finite False 1 1\<rparr>
   = js_zero
   \<and> js_div js_zero js_zero = NaN
   \<and> Vector2_MoveTowards \<lparr>x2 = js_one, y2 = Finite False 1 1\<rparr>
        \<lparr>x2 = js_one, y2 = Finite False 1 1\<rparr> js_zero
       = \<lparr>x2 = js_one, y2 = Finite False 1 1\<rparr>
   \<and> no_NaN2 (Vector2_MoveTowards \<lparr>x2 = js_one, y2 = Finite False 1 1\<rparr>
        \<lparr>x2 = js_one, y2 = Finite False 1 1\<rparr> js_zero)"
  by (simp add: Vector2_MoveTowards_def Vector2_Distance_self Vector2_Lerp_def
      Vector2_DoLerp_at_NaN no_NaN2_def number_eval)

text \<open>
  C5, amended.  For the three classes \<open>MoveTowards(current, target, d)\<close> is
  \<open>Lerp(current, target, d / Distance(target, current))\<close>.  For \<open>Vector2\<close> and \<open>Vector3\<close> the
  distance of a vector to itself is 0.  Where the distance is 0, a positive \<open>d\<close> gives the
  ratio \<open>+Infinity\<close> and the reference \<open>target\<close> is returned; a \<open>d\<close> that is 0 gives the ratio
  \<open>NaN\<close>, the interpolation is carried out with it, and the result has no \<open>NaN\<close> component:
  its \<open>x\<close>, \<open>y\<close> and \<open>z\<close> compare equal to those of \<open>current\<close> when \<open>current\<close> has no \<open>NaN\<close>.
\<close>

theorem MoveTowards_cases:
  "(Vector2_MoveTowards u2 v2 d
       = Vector2_Lerp u2 v2 (js_div d (Vector2_Distance v2 u2))
    \<and> Vector2_Distance u2 u2 = js_zero
    \<and> (is_zero (Vector2_Distance (h2 ! t) (h2 ! c)) \<and> js_gt d js_zero
        \<and> c < length h2 \<and> t < length h2 \<longrightarrow>
         Vector2_MoveTowards_ref h2 c t d
         = (t, h2 @ [Vector2_Subtract (h2 ! t) (Vec (h2 ! c))]))
    \<and> (is_zero (Vector2_Distance v2 u2) \<and> is_zero d0 \<longrightarrow>
         js_div d0 (Vector2_Distance v2 u2) = NaN
         \<and> Vector2_MoveTowards u2 v2 d0 = Vector2_LerpUnclamped u2 v2 NaN
         \<and> no_NaN2 (Vector2_MoveTowards u2 v2 d0))
    \<and> (is_zero (Vector2_Distance v2 u2) \<and> is_zero d0 \<and> no_NaN2 u2
        \<and> doubles2 u2 \<longrightarrow>
         js_eq (x2 (Vector2_MoveTowards u2 v2 d0)) (x2 u2)
         \<and> js_eq (y2 (Vector2_MoveTowards u2 v2 d0)) (y2 u2)))
   \<and> (Vector3_MoveTowards u3 v3 d
       = Vector3_Lerp u3 v3 (js_div d (Vector3_Distance v3 u3))
    \<and> Vector3_Distance u3 u3 = js_zero
    \<and> (is_zero (Vector3_Distance (h3 ! t) (h3 ! c)) \<and> js_gt d js_zero
        \<and> c < length h3 \<and> t < length h3 \<longrightarrow>
         Vector3_MoveTowards_ref h3 c t d
         = (t, h3 @ [Vector3_Subtract (h3 ! t) (Vec (h3 ! c))]))
    \<and> (is_zero (Vector3_Distance v3 u3) \<and> is_zero d0 \<longrightarrow>
         js_div d0 (Vector3_Distance v3 u3) = NaN
         \<and> Vector3_MoveTowards u3 v3 d0 = Vector3_LerpUnclamped u3 v3 NaN
         \<and> no_NaN3 (Vector3_MoveTowards u3 v3 d0))
    \<and> (is_zero (Vector3_Distance v3 u3) \<and> is_zero d0 \<and> no_NaN3 u3
        \<and> doubles3 u3 \<longrightarrow>
         js_eq (x3 (Vector3_MoveTowards u3 v3 d0)) (x3 u3)
         \<and> js_eq (y3 (Vector3_MoveTowards u3 v3 d0)) (y3 u3)
         \<and> js_eq (z3 (Vector3_MoveTowards u3 v3 d0)) (z3 u3)))
   \<and> (Vector4_MoveTowards u4 v4 d
       = Vector4_Lerp u4 v4 (js_div d (Vector4_Distance v4 u4))
    \<and> (is_zero (Vector4_Distance (h4 ! t) (h4 ! c)) \<and> js_gt d js_zero
        \<and> c < length h4 \<and> t < length h4 \<longrightarrow>
         Vector4_MoveTowards_ref h4 c t d
         = (t, h4 @ [Vector4_Subtract (h4 ! t) (Vec (h4 ! c))]))
    \<and> (is_zero (Vector4_Distance v4 u4) \<and> is_zero d0 \<longrightarrow>
         js_div d0 (Vector4_Distance v4 u4) = NaN
         \<and> Vector4_MoveTowards u4 v4 d0 = Vector4_LerpUnclamped u4 v4 NaN
         \<and> no_NaN4 (Vector4_MoveTowards u4 v4 d0))
    \<and> (is_zero (Vector4_Distance v4 u4) \<and> is_zero d0 \<and> no_NaN4 u4
        \<and> doubles4 u4 \<longrightarrow>
         js_eq (x4 (Vector4_MoveTowards u4 v4 d0)) (x4 u4)
         \<and> js_eq (y4 (Vector4_MoveTowards u4 v4 d0)) (y4 u4)
         \<and> js_eq (z4 (Vector4_MoveTowards u4 v4 d0)) (z4 u4)))"
  by (rule conjI[OF Vector2_MoveTowards_facts
        conjI[OF Vector3_MoveTowards_facts Vector4_MoveTowards_facts]])


theorem MoveTowards_cases_witness:
  "is_zero (Vector2_Distance ([Vector2_one, Vector2_one] ! 1) ([Vector2_one, Vector2_one] ! 0))
   \<and> js_gt js_one js_zero
   \<and> 0 < length [Vector2_one, Vector2_one]
   \<and> 1 < length [Vector2_one, Vector2_one]
   \<and> is_zero (Vector2_Distance Vector2_one Vector2_one)
   \<and> is_zero js_zero
   \<and> no_NaN2 Vector2_one
   \<and> doubles2 Vector2_one
   \<and> is_zero (Vector3_Distance ([Vector3_one, Vector3_one] ! 1) ([Vector3_one, Vector3_one] !
       0))
   \<and> 0 < length [Vector3_one, Vector3_one]
   \<and> 1 < length [Vector3_one, Vector3_one]
   \<and> is_zero (Vector3_Distance Vector3_one Vector3_one)
   \<and> no_NaN3 Vector3_one
   \<and> doubles3 Vector3_one
   \<and> is_zero (Vector4_Distance ([\<lparr>x4 = js_zero, y4 = js_zero, z4 = js_zero, w4
       = Finite False 1 (- 600)\<rparr>, \<lparr>x4 = js_zero, y4 = js_zero, z4 = js_zero, w4
           = Finite False 1 (- 599)\<rparr>] ! 1) ([\<lparr>x4 = js_zero, y4 = js_zero, z4
               = js_zero, w4 = Finite False 1 (- 600)\<rparr>, \<lparr>x4 = js_zero, y4
                   = js_zero, z4 = js_zero, w4 = Finite False 1 (- 599)\<rparr>] ! 0))
   \<and> 0 < length [\<lparr>x4 = js_zero, y4 = js_zero, z4 = js_zero, w4
       = Finite False 1 (- 600)\<rparr>, \<lparr>x4 = js_zero, y4 = js_zero, z4 = js_zero, w4
           = Finite False 1 (- 599)\<rparr>]
   \<and> 1 < length [\<lparr>x4 = js_zero, y4 = js_zero, z4 = js_zero, w4
       = Finite False 1 (- 600)\<rparr>, \<lparr>x4 = js_zero, y4 = js_zero, z4 = js_zero, w4
           = Finite False 1 (- 599)\<rparr>]
   \<and> is_zero (Vector4_Distance (\<lparr>x4 = js_zero, y4 = js_zero, z4 = js_zero, w4
       = Finite False 1 (- 599)\<rparr>) (\<lparr>x4 = js_zero, y4 = js_zero, z4 = js_zero, w4
           = Finite False 1 (- 600)\<rparr>))
   \<and> no_NaN4 (\<lparr>x4 = js_zero, y4 = js_zero, z4 = js_zero, w4
       = Finite False 1 (- 600)\<rparr>)
   \<and> doubles4 (\<lparr>x4 = js_zero, y4 = js_zero, z4 = js_zero, w4
       = Finite False 1 (- 600)\<rparr>)
   \<and> Vector2_MoveTowards_ref [Vector2_one, Vector2_one] 0 1 js_one
       = (1, [Vector2_one, Vector2_one] @ [Vector2_Subtract ([Vector2_one, Vector2_one] ! 1) (Vec
           ([Vector2_one, Vector2_one] ! 0))])
   \<and> js_div js_zero (Vector2_Distance Vector2_one Vector2_one) = NaN
       \<and> Vector2_MoveTowards Vector2_one Vector2_one js_zero
           = Vector2_LerpUnclamped Vector2_one Vector2_one NaN
       \<and> no_NaN2 (Vector2_MoveTowards Vector2_one Vector2_one js_zero)
   \<and> js_eq (x2 (Vector2_MoveTowards Vector2_one Vector2_one js_zero)) (x2 Vector2_one)
       \<and> js_eq (y2 (Vector2_MoveTowards Vector2_one Vector2_one js_zero)) (y2 Vector2_one)
   \<and> Vector3_MoveTowards_ref [Vector3_one, Vector3_one] 0 1 js_one
       = (1, [Vector3_one, Vector3_one] @ [Vector3_Subtract ([Vector3_one, Vector3_one] ! 1) (Vec
           ([Vector3_one, Vector3_one] ! 0))])
   \<and> js_div js_zero (Vector3_Distance Vector3_one Vector3_one) = NaN
       \<and> Vector3_MoveTowards Vector3_one Vector3_one js_zero
           = Vector3_LerpUnclamped Vector3_one Vector3_one NaN
       \<and> no_NaN3 (Vector3_MoveTowards Vector3_one Vector3_one js_zero)
   \<and> js_eq (x3 (Vector3_MoveTowards Vector3_one Vector3_one js_zero)) (x3 Vector3_one)
       \<and> js_eq (y3 (Vector3_MoveTowards Vector3_one Vector3_one js_zero)) (y3 Vector3_one)
       \<and> js_eq (z3 (Vector3_MoveTowards Vector3_one Vector3_one js_zero)) (z3 Vector3_one)
   \<and> Vector4_MoveTowards_ref [\<lparr>x4 = js_zero, y4 = js_zero, z4 = js_zero, w4
       = Finite False 1 (- 600)\<rparr>, \<lparr>x4 = js_zero, y4 = js_zero, z4 = js_zero, w4
           = Finite False 1 (- 599)\<rparr>] 0 1 js_one
       = (1, [\<lparr>x4 = js_zero, y4 = js_zero, z4 = js_zero, w4
           = Finite False 1 (- 600)\<rparr>, \<lparr>x4 = js_zero, y4 = js_zero, z4 = js_zero, w4
               = Finite False 1 (- 599)\<rparr>] @ [Vector4_Subtract ([\<lparr>x4 = js_zero, y4
                   = js_zero, z4 = js_zero, w4 = Finite False 1 (- 600)\<rparr>, \<lparr>x4
                       = js_zero, y4 = js_zero, z4 = js_zero, w4
                           = Finite False 1 (- 599)\<rparr>] ! 1) (Vec ([\<lparr>x4 = js_zero, y4
                               = js_zero, z4 = js_zero, w4 = Finite False 1 (- 600)\<rparr>,
                                   \<lparr>x4 = js_zero, y4 = js_zero, z4 = js_zero, w4
                                       = Finite False 1 (- 599)\<rparr>] ! 0))])
   \<and> js_div js_zero (Vector4_Distance (\<lparr>x4 = js_zero, y4 = js_zero, z4 = js_zero, w4
       = Finite False 1 (- 599)\<rparr>) (\<lparr>x4 = js_zero, y4 = js_zero, z4 = js_zero, w4
           = Finite False 1 (- 600)\<rparr>)) = NaN
       \<and> Vector4_MoveTowards (\<lparr>x4 = js_zero, y4 = js_zero, z4 = js_zero, w4
           = Finite False 1 (- 600)\<rparr>) (\<lparr>x4 = js_zero, y4 = js_zero, z4 = js_zero, w4
               = Finite False 1 (- 599)\<rparr>) js_zero = Vector4_LerpUnclamped (\<lparr>x4
                   = js_zero, y4 = js_zero, z4 = js_zero, w4
                       = Finite False 1 (- 600)\<rparr>) (\<lparr>x4 = js_zero, y4 = js_zero, z4
                           = js_zero, w4 = Finite False 1 (- 599)\<rparr>) NaN
       \<and> no_NaN4 (Vector4_MoveTowards (\<lparr>x4 = js_zero, y4 = js_zero, z4 = js_zero, w4
           = Finite False 1 (- 600)\<rparr>) (\<lparr>x4 = js_zero, y4 = js_zero, z4 = js_zero, w4
               = Finite False 1 (- 599)\<rparr>) js_zero)
   \<and> js_eq (x4 (Vector4_MoveTowards (\<lparr>x4 = js_zero, y4 = js_zero, z4 = js_zero, w4
       = Finite False 1 (- 600)\<rparr>) (\<lparr>x4 = js_zero, y4 = js_zero, z4 = js_zero, w4
           = Finite False 1 (- 599)\<rparr>) js_zero)) (x4 (\<lparr>x4 = js_zero, y4 = js_zero, z4
               = js_zero, w4 = Finite False 1 (- 600)\<rparr>))
       \<and> js_eq (y4 (Vector4_MoveTowards (\<lparr>x4 = js_zero, y4 = js_zero, z4 = js_zero, w4
           = Finite False 1 (- 600)\<rparr>) (\<lparr>x4 = js_zero, y4 = js_zero, z4 = js_zero, w4
               = Finite False 1 (- 599)\<rparr>) js_zero)) (y4 (\<lparr>x4 = js_zero, y4
                   = js_zero, z4 = js_zero, w4 = Finite False 1 (- 600)\<rparr>))
       \<and> js_eq (z4 (Vector4_MoveTowards (\<lparr>x4 = js_zero, y4 = js_zero, z4 = js_zero, w4
           = Finite False 1 (- 600)\<rparr>) (\<lparr>x4 = js_zero, y4 = js_zero, z4 = js_zero, w4
               = Finite False 1 (- 599)\<rparr>) js_zero)) (z4 (\<lparr>x4 = js_zero, y4
                   = js_zero, z4 = js_zero, w4 = Finite False 1 (- 600)\<rparr>))"
proof -
  have hyps: "is_zero (Vector2_Distance ([Vector2_one, Vector2_one] ! 1) ([Vector2_one,
      Vector2_one] ! 0))
      \<and> js_gt js_one js_zero
      \<and> 0 < length [Vector2_one, Vector2_one]
      \<and> 1 < length [Vector2_one, Vector2_one]
      \<and> is_zero (Vector2_Distance Vector2_one Vector2_one)
      \<and> is_zero js_zero
      \<and> no_NaN2 Vector2_one
      \<and> doubles2 Vector2_one
      \<and> is_zero (Vector3_Distance ([Vector3_one, Vector3_one] ! 1) ([Vector3_one,
          Vector3_one] ! 0))
      \<and> 0 < length [Vector3_one, Vector3_one]
      \<and> 1 < length [Vector3_one, Vector3_one]
      \<and> is_zero (Vector3_Distance Vector3_one Vector3_one)
      \<and> no_NaN3 Vector3_one
      \<and> doubles3 Vector3_one
      \<and> is_zero (Vector4_Distance ([\<lparr>x4 = js_zero, y4 = js_zero, z4 = js_zero, w4
          = Finite False 1 (- 600)\<rparr>, \<lparr>x4 = js_zero, y4 = js_zero, z4 = js_zero, w4
              = Finite False 1 (- 599)\<rparr>] ! 1) ([\<lparr>x4 = js_zero, y4 = js_zero, z4
                  = js_zero, w4 = Finite False 1 (- 600)\<rparr>, \<lparr>x4 = js_zero, y4
                      = js_zero, z4 = js_zero, w4 = Finite False 1 (- 599)\<rparr>] ! 0))
      \<and> 0 < length [\<lparr>x4 = js_zero, y4 = js_zero, z4 = js_zero, w4
          = Finite False 1 (- 600)\<rparr>, \<lparr>x4 = js_zero, y4 = js_zero, z4 = js_zero, w4
              = Finite False 1 (- 599)\<rparr>]
      \<and> 1 < length [\<lparr>x4 = js_zero, y4 = js_zero, z4 = js_zero, w4
          = Finite False 1 (- 600)\<rparr>, \<lparr>x4 = js_zero, y4 = js_zero, z4 = js_zero, w4
              = Finite False 1 (- 599)\<rparr>]
      \<and> is_zero (Vector4_Distance (\<lparr>x4 = js_zero, y4 = js_zero, z4 = js_zero, w4
          = Finite False 1 (- 599)\<rparr>) (\<lparr>x4 = js_zero, y4 = js_zero, z4 = js_zero, w4
              = Finite False 1 (- 600)\<rparr>))
      \<and> no_NaN4 (\<lparr>x4 = js_zero, y4 = js_zero, z4 = js_zero, w4
          = Finite False 1 (- 600)\<rparr>)
      \<and> doubles4 (\<lparr>x4 = js_zero, y4 = js_zero, z4 = js_zero, w4
          = Finite False 1 (- 600)\<rparr>)"
    by (simp add: Vector2_Distance_self Vector3_Distance_self Vector2_one_def Vector3_one_def
        new_Vector2_def new_Vector3_def no_NaN2_def no_NaN3_def no_NaN4_def doubles2_def
        doubles3_def doubles4_def is_double_def Vector4_Distance_def Vector4_Subtract_def
        Vector4_magnitude_def new_Vector4_def number_eval)
  show ?thesis
    using hyps
      MoveTowards_cases[of Vector2_one Vector2_one js_one "[Vector2_one, Vector2_one]" 1 0 js_zero
        Vector3_one Vector3_one "[Vector3_one, Vector3_one]"
        "\<lparr>x4 = js_zero, y4 = js_zero, z4 = js_zero, w4 = Finite False 1 (- 600)\<rparr>"
        "\<lparr>x4 = js_zero, y4 = js_zero, z4 = js_zero, w4 = Finite False 1 (- 599)\<rparr>"
        "[\<lparr>x4 = js_zero, y4 = js_zero, z4 = js_zero, w4
            = Finite False 1 (- 600)\<rparr>, \<lparr>x4 = js_zero, y4 = js_zero, z4 = js_zero, w4
                = Finite False 1 (- 599)\<rparr>]"]
    by blast
qed

section \<open>Rounding error of the arithmetic\<close>

text \<open>
  How far the result of an operation is from the exact real result.  One rounding moves a
  value by at most the fraction \<open>2^-53\<close> of itself where the result is a normal number and
  by at most \<open>2^-1075\<close> where it is subnormal; a value up to \<open>2^1023\<close> rounds to a finite
  number.  From this follow the bounds for the product, the sum, the quotient and the
  square root, then for the magnitude of a vector, and last for the magnitude of a vector
  whose components were divided by, or multiplied by a ratio of, that magnitude.
\<close>

subsection \<open>The rounding step\<close>

lemma pow2_pos [simp]: "0 < (2::real) powi e"
  by (simp add: zero_less_power_int)

lemma pow2_add: "(2::real) powi (a + b) = 2 powi a * 2 powi b"
  by (simp add: power_int_add)

lemma pow2_nat: "0 \<le> e \<Longrightarrow> (2::real) powi e = 2 ^ nat e"
  by (simp add: power_int_def)

lemma pow2_mono: "a \<le> b \<Longrightarrow> (2::real) powi a \<le> 2 powi b"
  by (rule power_int_increasing) simp_all

lemma normalize_me_val:
  assumes "normalize_me m0 e0 = (m, e)"
  shows "real m * 2 powi e = real m0 * 2 powi e0"
proof (cases "m0 = 0")
  case True
  with assms show ?thesis by (simp add: normalize_me_0)
next
  case False
  from normalize_me_spec[OF False assms]
  have le: "e0 \<le> e" and eq: "m0 = m * 2 ^ nat (e - e0)" by auto
  have "real m0 = real m * 2 ^ nat (e - e0)" by (subst eq) simp
  also have "(2::real) ^ nat (e - e0) = 2 powi (e - e0)" using le by (simp add: pow2_nat)
  finally have "real m0 * 2 powi e0 = real m * (2 powi (e - e0) * 2 powi e0)" by simp
  also have "2 powi (e - e0) * 2 powi e0 = (2::real) powi e" by (simp flip: pow2_add)
  finally show ?thesis by simp
qed

lemma round_half_even_nearest:
  "2 * \<bar>int (round_half_even M k * 2 ^ k) - int M\<bar> \<le> 2 ^ k"
proof -
  define q where "q = M div 2 ^ k"
  define r where "r = M mod 2 ^ k"
  have M: "M = q * 2 ^ k + r" unfolding q_def r_def by (rule div_mult_mod_eq[symmetric])
  have r: "r < 2 ^ k" by (simp add: r_def)
  have c: "round_half_even M k = q \<or> (round_half_even M k = q + 1 \<and> 2 ^ k \<le> 2 * r)"
    "round_half_even M k = q \<longrightarrow> 2 * r \<le> 2 ^ k"
    by (auto simp: round_half_even_def round_pick_def q_def r_def)
  from c(1) show ?thesis
  proof
    assume e: "round_half_even M k = q"
    with c(2) have "2 * r \<le> 2 ^ k" by simp
    then have "int (2 * r) \<le> int (2 ^ k)" by (simp only: of_nat_le_iff)
    then have h1: "2 * int r \<le> 2 ^ k" by simp
    have d: "int (round_half_even M k * 2 ^ k) - int M = - int r"
      using e by (simp add: M)
    from h1 show ?thesis unfolding d by linarith
  next
    assume e: "round_half_even M k = q + 1 \<and> 2 ^ k \<le> 2 * r"
    then have "int (2 ^ k) \<le> int (2 * r)" by (simp only: of_nat_le_iff)
    then have h1: "2 ^ k \<le> 2 * int r" by simp
    have "int r < int (2 ^ k)" using r by (simp only: of_nat_less_iff)
    then have h2: "int r < 2 ^ k" by simp
    have d: "int (round_half_even M k * 2 ^ k) - int M = 2 ^ k - int r"
      using e by (simp add: M algebra_simps)
    from h1 h2 show ?thesis unfolding d by (simp add: abs_if)
  qed
qed

lemma round_to_exact:
  assumes "round_to M E te = (m, e)" and "te \<le> E"
  shows "real m * 2 powi e = real M * 2 powi E"
  using assms by (simp add: round_to_def normalize_me_val)

lemma round_to_error:
  assumes r: "round_to M E te = (m, e)" and lt: "E < te"
  shows "\<bar>real m * 2 powi e - real M * 2 powi E\<bar> \<le> 2 powi (te - 1)"
proof -
  define k where "k = nat (te - E)"
  define q where "q = round_half_even M k"
  from r lt have n: "normalize_me q te = (m, e)" by (simp add: round_to_def q_def k_def)
  have v: "real m * 2 powi e = real q * 2 powi te" using n by (rule normalize_me_val)
  have kE: "int k = te - E" using lt by (simp add: k_def)
  have te: "(2::real) powi te = 2 ^ k * 2 powi E"
  proof -
    have "te = int k + E" using kE by simp
    then have "(2::real) powi te = 2 powi (int k) * 2 powi E" by (simp only: pow2_add)
    then show ?thesis by simp
  qed
  have "2 * \<bar>int (q * 2 ^ k) - int M\<bar> \<le> 2 ^ k"
    unfolding q_def by (rule round_half_even_nearest)
  then have "real_of_int (2 * \<bar>int (q * 2 ^ k) - int M\<bar>) \<le> real_of_int (2 ^ k)"
    by (simp only: of_int_le_iff)
  then have h: "2 * \<bar>real q * 2 ^ k - real M\<bar> \<le> 2 ^ k" by simp
  have "\<bar>real m * 2 powi e - real M * 2 powi E\<bar>
      = \<bar>real q * 2 ^ k - real M\<bar> * 2 powi E"
    by (simp add: v te abs_mult flip: left_diff_distrib mult.assoc)
  also have "\<dots> \<le> (2 ^ k / 2) * 2 powi E"
    using h by (intro mult_right_mono) simp_all
  also have "\<dots> = 2 powi te / 2" by (simp add: te)
  also have "\<dots> = 2 powi (te - 1)" by (simp add: power_int_diff)
  finally show ?thesis .
qed

lemma bitlen_lower: "M \<noteq> 0 \<Longrightarrow> 2 ^ (bitlen M - 1) \<le> M"
proof -
  assume nz: "M \<noteq> 0"
  then have p: "bitlen M \<noteq> 0" by (simp add: bitlen_pos)
  have "\<not> bitlen M \<le> bitlen M - 1" using p by simp
  then have "\<not> M < 2 ^ (bitlen M - 1)" using bitlen_le_iff[of M "bitlen M - 1"] by blast
  then show ?thesis by simp
qed

lemma bitlen_upper: "M < 2 ^ bitlen M"
  using bitlen_le_iff[of M "bitlen M"] by simp


lemma pow2_neg: "(2::real) powi (- int n) = 1 / 2 ^ n"
  by (simp only: power_int_minus power_int_of_nat inverse_eq_divide)

lemma pow2_m53: "(2::real) powi (- 53) = 1 / 2 ^ 53"
  using pow2_neg[of 53] by simp

lemma pow2_m1075: "(2::real) powi (- 1075) = 1 / 2 ^ 1075"
  using pow2_neg[of 1075] by simp

lemma half_ulp_normal:
  assumes nz: "M \<noteq> 0"
  shows "2 powi (E + int (bitlen M) - 53 - 1) \<le> real M * 2 powi E / 2 ^ 53"
proof -
  have p: "bitlen M \<noteq> 0" using nz by (simp add: bitlen_pos)
  have "E + int (bitlen M) - 53 - 1 = int (bitlen M - 1) + E + (- 53)" using p by simp
  then have "(2::real) powi (E + int (bitlen M) - 53 - 1)
      = 2 powi (int (bitlen M - 1)) * 2 powi E * 2 powi (- 53)"
    by (simp only: pow2_add)
  also have "\<dots> = 2 ^ (bitlen M - 1) * 2 powi E / 2 ^ 53"
    by (simp only: pow2_m53 power_int_of_nat) simp
  also have "\<dots> \<le> real M * 2 powi E / 2 ^ 53"
  proof -
    have "real (2 ^ (bitlen M - 1)) \<le> real M"
      using bitlen_lower[OF nz] by (simp only: of_nat_le_iff)
    then have "(2::real) ^ (bitlen M - 1) \<le> real M" by simp
    then show ?thesis by (intro divide_right_mono mult_right_mono) simp_all
  qed
  finally show ?thesis .
qed

lemma round_to_dist:
  assumes te: "te = max (- 1074) (E + int (bitlen M) - 53)"
    and r: "round_to M E te = (m, e)"
  shows "\<bar>real m * 2 powi e - real M * 2 powi E\<bar>
          \<le> real M * 2 powi E / 2 ^ 53 + 1 / 2 ^ 1075
      \<and> (- 1074 \<le> E \<longrightarrow>
          \<bar>real m * 2 powi e - real M * 2 powi E\<bar> \<le> real M * 2 powi E / 2 ^ 53)"
proof (cases "te \<le> E")
  case True
  have nn: "0 \<le> real M * 2 powi E / 2 ^ 53" by simp
  from round_to_exact[OF r True] show ?thesis using nn by simp
next
  case False
  have nn: "0 \<le> real M * 2 powi E / 2 ^ 53" by simp
  from False have lt: "E < te" by simp
  note err = round_to_error[OF r lt]
  show ?thesis
  proof (cases "E + int (bitlen M) - 53 \<le> - 1074")
    case True
    then have t: "te - 1 = - 1075" by (simp add: te)
    have "\<bar>real m * 2 powi e - real M * 2 powi E\<bar> \<le> 1 / 2 ^ 1075"
      using err unfolding t pow2_m1075 .
    then have "\<bar>real m * 2 powi e - real M * 2 powi E\<bar>
        \<le> real M * 2 powi E / 2 ^ 53 + 1 / 2 ^ 1075" using nn by linarith
    moreover have "\<not> - 1074 \<le> E" using lt t by simp
    ultimately show ?thesis by blast
  next
    case False
    then have t: "te = E + int (bitlen M) - 53" by (simp add: te)
    have nz: "M \<noteq> 0"
    proof
      assume "M = 0"
      then have "te = E - 53" using t by (simp add: bitlen_0)
      with lt show False by simp
    qed
    from err half_ulp_normal[OF nz, of E]
    have a: "\<bar>real m * 2 powi e - real M * 2 powi E\<bar> \<le> real M * 2 powi E / 2 ^ 53"
      unfolding t by linarith
    have z: "(0::real) \<le> 1 / 2 ^ 1075" by simp
    from a z have "\<bar>real m * 2 powi e - real M * 2 powi E\<bar>
        \<le> real M * 2 powi E / 2 ^ 53 + 1 / 2 ^ 1075" by linarith
    with a show ?thesis by blast
  qed
qed

lemma fround_error:
  assumes f: "fround s M E = Finite s' m e"
  shows "s' = s"
    and "\<bar>real m * 2 powi e - real M * 2 powi E\<bar>
          \<le> real M * 2 powi E / 2 ^ 53 + 1 / 2 ^ 1075"
    and "- 1074 \<le> E \<Longrightarrow>
          \<bar>real m * 2 powi e - real M * 2 powi E\<bar> \<le> real M * 2 powi E / 2 ^ 53"
proof -
  define te where "te = max (- 1074) (E + int (bitlen M) - 53)"
  obtain m0 e0 where r0: "round_to M E te = (m0, e0)" by (cases "round_to M E te")
  from f have p: "pack s (m0, e0) = Finite s' m e" by (simp add: fround_def r0 flip: te_def)
  then show "s' = s" by (simp split: if_splits)
  from p have "m0 = m" "e0 = e" by (simp_all split: if_splits)
  with r0 have r: "round_to M E te = (m, e)" by simp
  note both = round_to_dist[OF te_def r]
  from both show "\<bar>real m * 2 powi e - real M * 2 powi E\<bar>
          \<le> real M * 2 powi E / 2 ^ 53 + 1 / 2 ^ 1075" by (rule conjunct1)
  from both show "- 1074 \<le> E \<Longrightarrow>
          \<bar>real m * 2 powi e - real M * 2 powi E\<bar> \<le> real M * 2 powi E / 2 ^ 53"
    by blast
qed

lemma below_2_1024:
  assumes "(x::real) \<le> 2 ^ 1023"
  shows "x + x / 2 ^ 53 + 1 / 2 ^ 1075 < 2 ^ 1024"
proof -
  define A :: real where "A = 2 ^ 1023"
  have A1: "1 \<le> A" unfolding A_def by (rule one_le_power) simp
  have e: "(2::real) ^ 1024 = 2 * A" unfolding A_def by (simp only: power_Suc[symmetric]) simp
  have "x / 2 ^ 53 \<le> A / 2 ^ 53" using assms unfolding A_def
      by (intro divide_right_mono) simp_all
  also have "\<dots> \<le> A / 4"
  proof -
    have "(4::real) \<le> 2 ^ 53" using power_increasing[of 2 53 "2::real"] by simp
    then show ?thesis using A1 by (intro divide_left_mono) simp_all
  qed
  finally have a: "x / 2 ^ 53 \<le> A / 4" .
  have "(1::real) / 2 ^ 1075 \<le> 1 / 4"
  proof -
    have "(4::real) \<le> 2 ^ 1075" using power_increasing[of 2 1075 "2::real"] by simp
    then show ?thesis by (intro divide_left_mono) simp_all
  qed
  then have b: "(1::real) / 2 ^ 1075 \<le> A / 4" using A1 by linarith
  have "x \<le> A" using assms by (simp add: A_def)
  then show ?thesis unfolding e using a b A1 by linarith
qed

lemma fround_finite:
  assumes b: "real M * 2 powi E \<le> 2 ^ 1023"
  shows "is_finite (fround s M E)"
proof -
  define te where "te = max (- 1074) (E + int (bitlen M) - 53)"
  obtain m e where r: "round_to M E te = (m, e)" by (cases "round_to M E te")
  have f: "fround s M E = pack s (m, e)" by (simp add: fround_def r flip: te_def)
  have "\<not> e + int (bitlen m) > 1024"
  proof
    assume big: "e + int (bitlen m) > 1024"
    have nz: "m \<noteq> 0"
    proof
      assume "m = 0"
      with round_to_canonical[OF te_def r] have "e = 0" by simp
      with big \<open>m = 0\<close> show False by (simp add: bitlen_0)
    qed
    then have bp: "bitlen m \<noteq> 0" by (simp add: bitlen_pos)
    have le: "int 1024 \<le> int (bitlen m - 1) + e" using big bp by simp
    have "(2::real) ^ 1024 = 2 powi (int 1024)" by (simp only: power_int_of_nat)
    also have "\<dots> \<le> 2 powi (int (bitlen m - 1) + e)" using le by (rule pow2_mono)
    also have "\<dots> = 2 ^ (bitlen m - 1) * 2 powi e" by (simp only: pow2_add power_int_of_nat)
    also have "\<dots> \<le> real m * 2 powi e"
    proof -
      have "real (2 ^ (bitlen m - 1)) \<le> real m"
        using bitlen_lower[OF nz] by (simp only: of_nat_le_iff)
      then have "(2::real) ^ (bitlen m - 1) \<le> real m" by simp
      then show ?thesis by (intro mult_right_mono) simp_all
    qed
    finally have lo: "(2::real) ^ 1024 \<le> real m * 2 powi e" .
    from round_to_dist[OF te_def r]
    have d: "\<bar>real m * 2 powi e - real M * 2 powi E\<bar>
          \<le> real M * 2 powi E / 2 ^ 53 + 1 / 2 ^ 1075" by (rule conjunct1)
    have "real m * 2 powi e \<le> real M * 2 powi E + real M * 2 powi E / 2 ^ 53 + 1 / 2 ^ 1075"
      using d by linarith
    also have "\<dots> < 2 ^ 1024" using b by (rule below_2_1024)
    finally show False using lo by simp
  qed
  then show ?thesis by (simp add: f)
qed

subsection \<open>Products and sums\<close>

text \<open>
  The product of two finite numbers is rounded once.  A sum of two doubles is a multiple
  of \<open>2^-1074\<close>, so it is exact where it is subnormal and its error is relative only.
\<close>

lemma is_double_exp: "is_double (Finite s m e) \<Longrightarrow> - 1074 \<le> e"
  by (simp add: is_double_def split: if_splits)

lemma valof_fround:
  assumes f: "is_finite (fround s M E)"
    and x: "x = (if s then - 1 else 1) * (real M * 2 powi E)"
  shows "\<bar>valof (fround s M E) - x\<bar> \<le> \<bar>x\<bar> / 2 ^ 53 + 1 / 2 ^ 1075"
    and "- 1074 \<le> E \<Longrightarrow> \<bar>valof (fround s M E) - x\<bar> \<le> \<bar>x\<bar>
        / 2 ^ 53"
proof -
  from f obtain s' m e where r: "fround s M E = Finite s' m e" by (cases "fround s M E") simp_all
  note e = fround_error[OF r]
  have ax: "\<bar>x\<bar> = real M * 2 powi E" by (simp add: x abs_mult)
  have d: "\<bar>valof (fround s M E) - x\<bar> = \<bar>real m * 2 powi e - real M * 2 powi E\<bar>"
    by (simp add: r x e(1) abs_minus_commute)
  show "\<bar>valof (fround s M E) - x\<bar> \<le> \<bar>x\<bar> / 2 ^ 53 + 1 / 2 ^ 1075"
    unfolding d ax by (rule e(2))
  show "- 1074 \<le> E \<Longrightarrow> \<bar>valof (fround s M E) - x\<bar> \<le> \<bar>x\<bar>
      / 2 ^ 53"
    unfolding d ax by (rule e(3))
qed

lemma js_mul_finite_args: "is_finite (js_mul a b) \<Longrightarrow> is_finite a \<and> is_finite b"
  by (cases a; cases b) (simp_all split: if_splits)

lemma valof_mult:
  "valof (Finite s1 m1 e1) * valof (Finite s2 m2 e2)
   = (if s1 \<noteq> s2 then - 1 else 1) * (real (m1 * m2) * 2 powi (e1 + e2))"
  by (simp add: pow2_add)

lemma valof_js_mul:
  assumes f: "is_finite (js_mul a b)"
  shows "\<bar>valof (js_mul a b) - valof a * valof b\<bar>
      \<le> \<bar>valof a * valof b\<bar> / 2 ^ 53 + 1 / 2 ^ 1075"
proof -
  from js_mul_finite_args[OF f] obtain s1 m1 e1 s2 m2 e2
    where a: "a = Finite s1 m1 e1" and b: "b = Finite s2 m2 e2"
    by (cases a; cases b) simp_all
  from f have ff: "is_finite (fround (s1 \<noteq> s2) (m1 * m2) (e1 + e2))" by (simp add: a b)
  show ?thesis
    unfolding a b js_mul.simps by (rule valof_fround(1)[OF ff valof_mult])
qed

lemma js_mul_finite:
  assumes a: "is_finite a" and b: "is_finite b" and le: "\<bar>valof a * valof b\<bar> \<le> 2 ^
      1023"
  shows "is_finite (js_mul a b)"
proof -
  from a b obtain s1 m1 e1 s2 m2 e2
    where a: "a = Finite s1 m1 e1" and b: "b = Finite s2 m2 e2"
    by (cases a; cases b) simp_all
  have "\<bar>valof a * valof b\<bar> = real (m1 * m2) * 2 powi (e1 + e2)"
    unfolding a b valof_mult by (simp add: abs_mult)
  with le have "real (m1 * m2) * 2 powi (e1 + e2) \<le> 2 ^ 1023" by simp
  then show ?thesis unfolding a b js_mul.simps by (rule fround_finite)
qed

lemma js_add_finite_args: "is_finite (js_add a b) \<Longrightarrow> is_finite a \<and> is_finite b"
  by (cases a; cases b) (simp_all split: if_splits)

lemma real_signed: "real_of_int (signed s m) = (if s then - 1 else 1) * real m"
  by (simp add: signed_def)

lemma shifted_val:
  assumes "E \<le> e"
  shows "real (m * 2 ^ nat (e - E)) * 2 powi E = real m * 2 powi e"
proof -
  have "(2::real) ^ nat (e - E) = 2 powi (e - E)" using assms by (simp add: pow2_nat)
  then have "real (m * 2 ^ nat (e - E)) * 2 powi E = real m * (2 powi (e - E) * 2 powi E)"
    by simp
  also have "2 powi (e - E) * 2 powi E = (2::real) powi e" by (simp flip: pow2_add)
  finally show ?thesis .
qed

lemma valof_sum:
  "real_of_int (signed s1 (m1 * 2 ^ nat (e1 - min e1 e2))
      + signed s2 (m2 * 2 ^ nat (e2 - min e1 e2))) * 2 powi (min e1 e2)
   = valof (Finite s1 m1 e1) + valof (Finite s2 m2 e2)"
proof -
  have 1: "real (m1 * 2 ^ nat (e1 - min e1 e2)) * 2 powi (min e1 e2) = real m1 * 2 powi e1"
    by (rule shifted_val) simp
  have 2: "real (m2 * 2 ^ nat (e2 - min e1 e2)) * 2 powi (min e1 e2) = real m2 * 2 powi e2"
    by (rule shifted_val) simp
  show ?thesis
    unfolding of_int_add real_signed distrib_right mult.assoc 1 2 valof.simps ..
qed

lemma valof_sum_result:
  assumes f: "is_finite (sum_result sz c E)" and x: "x = real_of_int c * 2 powi E"
  shows "\<bar>valof (sum_result sz c E) - x\<bar> \<le> \<bar>x\<bar> / 2 ^ 53 + 1 / 2 ^ 1075"
    and "- 1074 \<le> E \<Longrightarrow> \<bar>valof (sum_result sz c E) - x\<bar> \<le>
        \<bar>x\<bar> / 2 ^ 53"
proof -
  have both: "\<bar>valof (sum_result sz c E) - x\<bar> \<le> \<bar>x\<bar> / 2 ^ 53 + 1 / 2 ^ 1075
      \<and> (- 1074 \<le> E \<longrightarrow> \<bar>valof (sum_result sz c E) - x\<bar> \<le>
          \<bar>x\<bar> / 2 ^ 53)"
  proof (cases "c = 0")
    case True
    then show ?thesis by (simp add: sum_result_def x)
  next
    case False
    then have s: "sum_result sz c E = fround (c < 0) (nat \<bar>c\<bar>) E"
        by (simp add: sum_result_def)
    have xx: "x = (if c < 0 then - 1 else 1) * (real (nat \<bar>c\<bar>) * 2 powi E)"
      by (simp add: x)
    from f have ff: "is_finite (fround (c < 0) (nat \<bar>c\<bar>) E)" by (simp add: s)
    from valof_fround[OF ff xx] show ?thesis unfolding s by blast
  qed
  from both show "\<bar>valof (sum_result sz c E) - x\<bar> \<le> \<bar>x\<bar> / 2 ^ 53 + 1 / 2 ^
      1075"
    by (rule conjunct1)
  from both show "- 1074 \<le> E \<Longrightarrow> \<bar>valof (sum_result sz c E) - x\<bar> \<le>
      \<bar>x\<bar> / 2 ^ 53"
    by blast
qed

lemma valof_js_add:
  assumes da: "is_double a" and db: "is_double b" and f: "is_finite (js_add a b)"
  shows "\<bar>valof (js_add a b) - (valof a + valof b)\<bar> \<le> \<bar>valof a + valof b\<bar>
      / 2 ^ 53"
proof -
  from js_add_finite_args[OF f] obtain s1 m1 e1 s2 m2 e2
    where a: "a = Finite s1 m1 e1" and b: "b = Finite s2 m2 e2"
    by (cases a; cases b) simp_all
  have lo: "- 1074 \<le> min e1 e2"
    using is_double_exp[OF da[unfolded a]] is_double_exp[OF db[unfolded b]] by simp
  show ?thesis
    using f unfolding a b js_add.simps
    by (rule valof_sum_result(2)[OF _ valof_sum[symmetric] lo])
qed

lemma js_add_finite:
  assumes a: "is_finite a" and b: "is_finite b" and le: "\<bar>valof a + valof b\<bar> \<le> 2 ^
      1023"
  shows "is_finite (js_add a b)"
proof -
  from a b obtain s1 m1 e1 s2 m2 e2
    where a: "a = Finite s1 m1 e1" and b: "b = Finite s2 m2 e2"
    by (cases a; cases b) simp_all
  define c where "c = signed s1 (m1 * 2 ^ nat (e1 - min e1 e2))
      + signed s2 (m2 * 2 ^ nat (e2 - min e1 e2))"
  have v: "real_of_int c * 2 powi (min e1 e2) = valof a + valof b"
    unfolding c_def a b by (rule valof_sum)
  have s: "js_add a b = sum_result (s1 \<and> s2) c (min e1 e2)" by (simp add: a b c_def)
  show ?thesis
  proof (cases "c = 0")
    case True
    then show ?thesis by (simp add: s sum_result_def)
  next
    case False
    have "real (nat \<bar>c\<bar>) * 2 powi (min e1 e2)
        = \<bar>real_of_int c * 2 powi (min e1 e2)\<bar>"
      by (simp add: abs_mult)
    also have "\<dots> \<le> 2 ^ 1023" using le by (simp only: v)
    finally have "is_finite (fround (c < 0) (nat \<bar>c\<bar>) (min e1 e2))"
        by (rule fround_finite)
    then show ?thesis using False by (simp add: s sum_result_def)
  qed
qed

subsection \<open>Quotients\<close>

text \<open>
  The quotient is cut after at least 55 bits and the cut is recorded in one more bit; the
  value with that bit is within the fraction \<open>2^-56\<close> of the exact quotient, and it is rounded
  once.
\<close>

lemma pow2_split: "a = b + c \<Longrightarrow> (2::real) powi a = 2 powi b * 2 powi c"
  by (simp only: pow2_add)

lemma div_sticky_close:
  assumes m2: "m2 \<noteq> 0" and N: "N = m1 * 2 ^ (bitlen m2 + 55)"
  shows "\<bar>real (div_sticky N m2) / 2 - real N / real m2\<bar> \<le> (real N / real m2) / 2 ^
      56"
proof -
  define d where "d = N div m2"
  define r where "r = N mod m2"
  have Neq: "N = d * m2 + r" unfolding d_def r_def by simp
  have rlt: "r < m2" using m2 by (simp add: r_def)
  have m2r: "0 < real m2" using m2 by simp
  have t: "real N / real m2 = real d + real r / real m2"
    using m2 by (simp add: Neq field_simps)
  have nn: "0 \<le> real N / real m2" by simp
  show ?thesis
  proof (cases "r = 0")
    case True
    then have "real (div_sticky N m2) / 2 = real d" by (simp add: div_sticky_def d_def r_def)
    moreover have "real N / real m2 = real d" using True t by simp
    ultimately show ?thesis using nn by simp
  next
    case False
    then have s: "real (div_sticky N m2) / 2 = real d + 1 / 2"
      by (simp add: div_sticky_def d_def r_def field_simps)
    have r0: "0 < real r / real m2" using False m2 by simp
    have r1: "real r / real m2 < 1" using rlt m2 by simp
    have h: "\<bar>real (div_sticky N m2) / 2 - real N / real m2\<bar> \<le> 1 / 2"
      unfolding s t using r0 r1 by linarith
    have m1: "m1 \<noteq> 0" using False N by (rule_tac ccontr) (simp add: r_def)
    have "m2 * 2 ^ 55 \<le> 2 ^ bitlen m2 * 2 ^ 55"
      using bitlen_upper[of m2] by simp
    also have "\<dots> = 2 ^ (bitlen m2 + 55)" by (simp add: power_add)
    also have "\<dots> \<le> N" using m1 by (simp add: N)
    finally have "real (m2 * 2 ^ 55) \<le> real N" by (simp only: of_nat_le_iff)
    then have "real m2 * 2 ^ 55 \<le> real N" by simp
    then have "2 ^ 55 \<le> real N / real m2" using m2r by (simp add: field_simps)
    then have "1 / 2 \<le> (real N / real m2) / 2 ^ 56" by simp
    with h show ?thesis by linarith
  qed
qed

lemma abs_scaled_diff:
  fixes A B c :: real
  assumes "0 < c"
  shows "\<bar>(if s then - 1 else 1) * (A * c) - (if s then - 1 else 1) * (B * c)\<bar>
      = \<bar>A - B\<bar> * c"
proof -
  have "(if s then - 1 else 1) * (A * c) - (if s then - 1 else 1) * (B * c)
      = (if s then - 1 else 1) * ((A - B) * c)"
    by (simp add: algebra_simps)
  then show ?thesis using assms by (simp add: abs_mult)
qed

lemma two_step:
  fixes y p x h :: real
  assumes 1: "\<bar>y - p\<bar> \<le> \<bar>p\<bar> / 2 ^ 53 + h" and 2: "\<bar>p - x\<bar> \<le>
      \<bar>x\<bar> / 2 ^ 56"
  shows "\<bar>y - x\<bar> \<le> \<bar>x\<bar> / 2 ^ 52 + h"
proof -
  have "\<bar>p\<bar> \<le> \<bar>x\<bar> + \<bar>x\<bar> / 2 ^ 56" using 2 by linarith
  then have "\<bar>p\<bar> / 2 ^ 53 \<le> (\<bar>x\<bar> + \<bar>x\<bar> / 2 ^ 56) / 2 ^ 53"
    by (intro divide_right_mono) simp_all
  then have "\<bar>p\<bar> / 2 ^ 53 \<le> \<bar>x\<bar> / 2 ^ 53 + \<bar>x\<bar> / 2 ^ 109"
      by (simp add: add_divide_distrib)
  moreover have "\<bar>x\<bar> / 2 ^ 109 \<le> \<bar>x\<bar> / 2 ^ 56"
      by (intro divide_left_mono) simp_all
  moreover have "\<bar>x\<bar> / 2 ^ 52 = 2 * (\<bar>x\<bar> / 2 ^ 53)" by simp
  moreover have "\<bar>x\<bar> / 2 ^ 53 = 8 * (\<bar>x\<bar> / 2 ^ 56)" by simp
  moreover have "0 \<le> \<bar>x\<bar> / 2 ^ 56" by simp
  ultimately show ?thesis using 1 2 by linarith
qed

lemma js_div_quotient:
  assumes m2: "m2 \<noteq> 0"
    and x_def: "x = valof (Finite s1 m1 e1) / valof (Finite s2 m2 e2)"
    and K_def: "K = bitlen m2 + 55"
    and p_def: "p = (if s1 \<noteq> s2 then - 1 else 1)
      * (real (div_sticky (m1 * 2 ^ K) m2) * 2 powi (e1 - e2 - int K - 1))"
  shows "\<bar>p - x\<bar> \<le> \<bar>x\<bar> / 2 ^ 56"
proof -
  define N where "N = m1 * 2 ^ K"
  define c where "c = (2::real) powi (e1 - e2 - int K)"
  have cpos: "0 < c" by (simp add: c_def)
  have sx: "x = (if s1 \<noteq> s2 then - 1 else 1) * (real N / real m2 * c)"
  proof -
    have "(2::real) powi (e1 - e2) = 2 powi (int K) * 2 powi (e1 - e2 - int K)"
      by (rule pow2_split) simp
    then have "(2::real) powi (e1 - e2) = 2 powi (int K) * c"
      by (simp only: c_def)
    then have e: "(2::real) powi e1 / 2 powi e2 = 2 ^ K * c"
      by (simp add: power_int_diff)
    have "real m1 * 2 powi e1 / (real m2 * 2 powi e2) = real m1 / real m2 * (2 powi e1 / 2 powi e2)"
      by simp
    also have "\<dots> = real N / real m2 * c" by (simp add: e N_def)
    finally show ?thesis by (auto simp: x_def)
  qed
  have sp: "p = (if s1 \<noteq> s2 then - 1 else 1) * (real (div_sticky N m2) / 2 * c)"
  proof -
    have "(2::real) powi (e1 - e2 - int K - 1) = c * 2 powi (- 1)"
      unfolding c_def by (rule pow2_split) simp
    then have "(2::real) powi (e1 - e2 - int K - 1) = c / 2" by simp
    then show ?thesis by (simp add: p_def N_def)
  qed
  have "\<bar>p - x\<bar> = \<bar>real (div_sticky N m2) / 2 - real N / real m2\<bar> * c"
    unfolding sp sx by (rule abs_scaled_diff[OF cpos])
  also have "\<dots> \<le> (real N / real m2) / 2 ^ 56 * c"
    using div_sticky_close[OF m2, of N m1] cpos
    by (intro mult_right_mono) (simp_all add: N_def K_def)
  also have "\<dots> = \<bar>x\<bar> / 2 ^ 56" unfolding sx using cpos by (simp add: abs_mult)
  finally show ?thesis .
qed

lemma valof_nonzero: "valof (Finite s m e) \<noteq> 0 \<longleftrightarrow> m \<noteq> 0"
  by simp

lemma valof_js_div:
  assumes a: "is_finite a" and b: "is_finite b" and nz: "valof b \<noteq> 0"
    and f: "is_finite (js_div a b)"
  shows "\<bar>valof (js_div a b) - valof a / valof b\<bar>
      \<le> \<bar>valof a / valof b\<bar> / 2 ^ 52 + 1 / 2 ^ 1075"
proof -
  from a b obtain s1 m1 e1 s2 m2 e2
    where a: "a = Finite s1 m1 e1" and b: "b = Finite s2 m2 e2"
    by (cases a; cases b) simp_all
  from nz have m2: "m2 \<noteq> 0" by (simp add: b)
  define K where "K = bitlen m2 + 55"
  define M where "M = div_sticky (m1 * 2 ^ K) m2"
  define E where "E = e1 - e2 - int K - 1"
  define p where "p = (if s1 \<noteq> s2 then - 1 else 1) * (real M * 2 powi E)"
  have d: "js_div a b = fround (s1 \<noteq> s2) M E"
    using m2 by (simp add: a b M_def E_def K_def)
  from f have ff: "is_finite (fround (s1 \<noteq> s2) M E)" by (simp add: d)
  have 1: "\<bar>valof (js_div a b) - p\<bar> \<le> \<bar>p\<bar> / 2 ^ 53 + 1 / 2 ^ 1075"
    unfolding d by (rule valof_fround(1)[OF ff p_def])
  have 2: "\<bar>p - valof a / valof b\<bar> \<le> \<bar>valof a / valof b\<bar> / 2 ^ 56"
    by (rule js_div_quotient[OF m2 _ K_def]) (simp_all only: a b p_def M_def E_def)
  from 1 2 show ?thesis by (rule two_step)
qed

lemma js_div_finite:
  assumes a: "is_finite a" and b: "is_finite b" and nz: "valof b \<noteq> 0"
    and le: "\<bar>valof a / valof b\<bar> \<le> 2 ^ 1022"
  shows "is_finite (js_div a b)"
proof -
  from a b obtain s1 m1 e1 s2 m2 e2
    where a: "a = Finite s1 m1 e1" and b: "b = Finite s2 m2 e2"
    by (cases a; cases b) simp_all
  from nz have m2: "m2 \<noteq> 0" by (simp add: b)
  define K where "K = bitlen m2 + 55"
  define M where "M = div_sticky (m1 * 2 ^ K) m2"
  define E where "E = e1 - e2 - int K - 1"
  define p where "p = (if s1 \<noteq> s2 then - 1 else 1) * (real M * 2 powi E)"
  have d: "js_div a b = fround (s1 \<noteq> s2) M E"
    using m2 by (simp add: a b M_def E_def K_def)
  have 2: "\<bar>p - valof a / valof b\<bar> \<le> \<bar>valof a / valof b\<bar> / 2 ^ 56"
    by (rule js_div_quotient[OF m2 _ K_def]) (simp_all only: a b p_def M_def E_def)
  have "\<bar>valof a / valof b\<bar> / 2 ^ 56 \<le> 2 ^ 1022 / 2 ^ 56"
    using le by (intro divide_right_mono) simp_all
  also have "\<dots> \<le> (2::real) ^ 1022" by (simp add: field_simps)
  finally have "\<bar>p\<bar> \<le> 2 ^ 1022 + 2 ^ 1022" using 2 le by linarith
  then have "\<bar>p\<bar> \<le> 2 ^ 1023" by simp
  moreover have "\<bar>p\<bar> = real M * 2 powi E" by (simp add: p_def abs_mult)
  ultimately have "real M * 2 powi E \<le> 2 ^ 1023" by simp
  then show ?thesis unfolding d by (rule fround_finite)
qed

subsection \<open>Square roots\<close>

text \<open>
  The integer square root is the floor of the real one.  The bounds are on the square of
  the result, which keeps the real square root out of the statements.
\<close>

lemma isqrt_correct: "isqrt n * isqrt n \<le> n \<and> n < (isqrt n + 1) * (isqrt n + 1)"
proof (induction n rule: isqrt.induct)
  case (1 n)
  show ?case
  proof (cases "n < 2")
    case True
    then have "isqrt n = n" by (subst isqrt.simps) simp
    moreover from True have "n = 0 \<or> n = 1" by auto
    ultimately show ?thesis by auto
  next
    case False
    define r where "r = isqrt (n div 4)"
    from 1[OF False] have lo: "r * r \<le> n div 4" and hi: "n div 4 < (r + 1) * (r + 1)"
      by (simp_all add: r_def)
    have n4: "4 * (n div 4) \<le> n" and n4': "n < 4 * (n div 4) + 4" by auto
    have a: "(2 * r) * (2 * r) \<le> n"
    proof -
      have "(2 * r) * (2 * r) = 4 * (r * r)" by simp
      also have "\<dots> \<le> 4 * (n div 4)" using lo by simp
      finally show ?thesis using n4 by simp
    qed
    have b: "n < (2 * r + 2) * (2 * r + 2)"
    proof -
      have "n div 4 + 1 \<le> (r + 1) * (r + 1)" using hi by simp
      then have "4 * (n div 4) + 4 \<le> 4 * ((r + 1) * (r + 1))" by simp
      also have "\<dots> = (2 * r + 2) * (2 * r + 2)" by (simp add: algebra_simps)
      finally show ?thesis using n4' by simp
    qed
    have e: "isqrt n = isqrt_step n r"
      using False by (subst isqrt.simps) (simp add: r_def)
    show ?thesis
    proof (cases "(2 * r + 1) * (2 * r + 1) \<le> n")
      case True
      then have "isqrt n = 2 * r + 1" by (simp add: e isqrt_step_def)
      moreover have "2 * r + 1 + 1 = 2 * r + 2" by simp
      ultimately show ?thesis using True b by (simp del: mult_Suc mult_Suc_right)
    next
      case False
      then have "isqrt n = 2 * r" by (simp add: e isqrt_step_def)
      then show ?thesis using False a by (simp del: mult_Suc mult_Suc_right)
    qed
  qed
qed

lemma isqrt_big:
  assumes big: "2 ^ 110 \<le> N"
  shows "2 ^ 55 \<le> isqrt N"
proof (rule ccontr)
  assume "\<not> 2 ^ 55 \<le> isqrt N"
  then have "isqrt N + 1 \<le> 2 ^ 55" by simp
  then have "(isqrt N + 1) * (isqrt N + 1) \<le> 2 ^ 55 * 2 ^ 55" by (intro mult_mono) simp_all
  also have "\<dots> = (2::nat) ^ 110" by (simp flip: power_add)
  finally show False using isqrt_correct[of N] big by simp
qed

lemma sqrt_sticky_close:
  assumes big: "2 ^ 110 \<le> N"
  shows "\<bar>(real (sqrt_sticky N (isqrt N)) / 2)\<^sup>2 - real N\<bar> \<le> real N / 2 ^ 55"
proof -
  define r where "r = isqrt N"
  have lo: "r * r \<le> N" and hi: "N < (r + 1) * (r + 1)"
    using isqrt_correct[of N] by (simp_all add: r_def)
  have rb: "2 ^ 55 \<le> r" unfolding r_def using big by (rule isqrt_big)
  show ?thesis
  proof (cases "r * r = N")
    case True
    then have "real (sqrt_sticky N r) / 2 = real r" by (simp add: sqrt_sticky_def)
    moreover have "real (r * r) = real N" using True by (simp only:)
    then have "(real r)\<^sup>2 = real N" by (simp add: power2_eq_square)
    ultimately have "(real (sqrt_sticky N r) / 2)\<^sup>2 - real N = 0" by simp
    then have "\<bar>(real (sqrt_sticky N r) / 2)\<^sup>2 - real N\<bar> = 0" by simp
    moreover have "0 \<le> real N / 2 ^ 55" by simp
    ultimately show ?thesis unfolding r_def by linarith
  next
    case False
    then have "sqrt_sticky N r = 2 * r + 1" by (simp add: sqrt_sticky_def)
    then have "real (sqrt_sticky N r) = 2 * real r + 1" by simp
    then have s: "real (sqrt_sticky N r) / 2 = real r + 1 / 2" by simp
    have "r * r + 1 \<le> N" using False lo by simp
    then have "real (r * r + 1) \<le> real N" by (simp only: of_nat_le_iff)
    then have l: "real r * real r + 1 \<le> real N" by simp
    have "N \<le> r * r + 2 * r" using hi by simp
    then have "real N \<le> real (r * r + 2 * r)" by (simp only: of_nat_le_iff)
    then have h: "real N \<le> real r * real r + 2 * real r" by simp
    have e: "(real r + 1 / 2)\<^sup>2 = real r * real r + real r + 1 / 4"
      by (simp add: power2_eq_square algebra_simps)
    have d: "\<bar>(real r + 1 / 2)\<^sup>2 - real N\<bar> \<le> real r" unfolding e using l h
        by linarith
    have "r * 2 ^ 55 \<le> r * r" using rb by (intro mult_left_mono) simp_all
    also have "\<dots> \<le> N" by (rule lo)
    finally have "real (r * 2 ^ 55) \<le> real N" by (simp only: of_nat_le_iff)
    then have "real r * 2 ^ 55 \<le> real N" by simp
    then have "real r \<le> real N / 2 ^ 55" by (simp add: field_simps)
    with d show ?thesis unfolding s[unfolded r_def] r_def by linarith
  qed
qed

lemma scale_up: "(a::real) * (1 + b / c) = a + a * b / c"
  by (simp add: algebra_simps)

lemma scale_down: "(a::real) * (1 - b / c) = a - a * b / c"
  by (simp add: algebra_simps)

lemma sqrt_bounds:
  fixes y p v :: real
  assumes p: "0 \<le> p" and 1: "\<bar>y - p\<bar> \<le> p / 2 ^ 53" and 2: "\<bar>p\<^sup>2 -
      v\<bar> \<le> v / 2 ^ 55"
  shows "0 \<le> y" and "v * (1 - 3 / 2 ^ 53) \<le> y\<^sup>2" and "y\<^sup>2 \<le> v * (1 + 3 / 2
      ^ 53)"
proof -
  have "0 \<le> v / 2 ^ 55" using 2 by linarith
  then have v: "0 \<le> v" by simp
  have ylo: "p * (1 - 1 / 2 ^ 53) \<le> y" and yhi: "y \<le> p * (1 + 1 / 2 ^ 53)"
    unfolding scale_up scale_down mult_1_right using 1 by linarith+
  have plo: "v * (1 - 1 / 2 ^ 55) \<le> p\<^sup>2" and phi: "p\<^sup>2 \<le> v * (1 + 1 / 2 ^ 55)"
    unfolding scale_up scale_down mult_1_right using 2 by linarith+
  have c: "(0::real) \<le> 1 - 1 / 2 ^ 53" by simp
  then have "0 \<le> p * (1 - 1 / 2 ^ 53)" using p by (intro mult_nonneg_nonneg)
  with ylo show y0: "0 \<le> y" by linarith
  have "y\<^sup>2 \<le> (p * (1 + 1 / 2 ^ 53))\<^sup>2" using y0 yhi by (intro power_mono)
  also have "\<dots> = p\<^sup>2 * (1 + 1 / 2 ^ 53)\<^sup>2" by (simp only: power_mult_distrib)
  also have "\<dots> \<le> (v * (1 + 1 / 2 ^ 55)) * (1 + 1 / 2 ^ 53)\<^sup>2"
    using phi by (intro mult_right_mono) simp_all
  also have "\<dots> = v * ((1 + 1 / 2 ^ 55) * (1 + 1 / 2 ^ 53)\<^sup>2)" by (simp only: mult.assoc)
  also have "\<dots> \<le> v * (1 + 3 / 2 ^ 53)"
    using v by (intro mult_left_mono) (simp_all add: power2_eq_square)
  finally show "y\<^sup>2 \<le> v * (1 + 3 / 2 ^ 53)" .
  have "v * (1 - 3 / 2 ^ 53) \<le> v * ((1 - 1 / 2 ^ 55) * (1 - 1 / 2 ^ 53)\<^sup>2)"
    using v by (intro mult_left_mono) (simp_all add: power2_eq_square)
  also have "\<dots> = (v * (1 - 1 / 2 ^ 55)) * (1 - 1 / 2 ^ 53)\<^sup>2" by (simp only: mult.assoc)
  also have "\<dots> \<le> p\<^sup>2 * (1 - 1 / 2 ^ 53)\<^sup>2"
    using plo by (intro mult_right_mono) simp_all
  also have "\<dots> = (p * (1 - 1 / 2 ^ 53))\<^sup>2" by (simp only: power_mult_distrib)
  also have "\<dots> \<le> y\<^sup>2" using ylo p c by (intro power_mono mult_nonneg_nonneg)
  finally show "v * (1 - 3 / 2 ^ 53) \<le> y\<^sup>2" .
qed

lemma Math_sqrt_finite_arg:
  "is_finite (Math_sqrt x) \<Longrightarrow> is_finite x \<and> 0 \<le> valof x"
  by (cases x) (simp_all split: if_splits)

lemma is_double_below:
  assumes d: "is_double (Finite s m e)"
  shows "real m * 2 powi e \<le> 2 ^ 1024"
proof (cases "m = 0")
  case True
  then show ?thesis by simp
next
  case False
  with d have hi: "e + int (bitlen m) \<le> 1024" by (simp add: is_double_def)
  have "m \<le> 2 ^ bitlen m" using bitlen_upper[of m] by simp
  then have "real m \<le> real (2 ^ bitlen m)" by (simp only: of_nat_le_iff)
  then have "real m \<le> 2 powi (int (bitlen m))" by (simp add: power_int_of_nat)
  then have "real m * 2 powi e \<le> 2 powi (int (bitlen m)) * 2 powi e"
    by (intro mult_right_mono) simp_all
  also have "\<dots> = 2 powi (int (bitlen m) + e)" by (simp only: pow2_add)
  also have "\<dots> \<le> 2 powi (int 1024)" using hi by (intro pow2_mono) simp
  also have "\<dots> = 2 ^ 1024" by (simp only: power_int_of_nat)
  finally show ?thesis .
qed

lemma valof_abs_below: "is_double x \<Longrightarrow> \<bar>valof x\<bar> \<le> 2 ^ 1024"
proof (cases x)
  case (Finite s m e)
  assume "is_double x"
  with Finite have "is_double (Finite s m e)" by simp
  then have "real m * 2 powi e \<le> 2 ^ 1024" by (rule is_double_below)
  moreover have "\<bar>valof x\<bar> = real m * 2 powi e" by (simp add: Finite abs_mult)
  ultimately show ?thesis by (simp only:)
qed simp_all

lemma sqrt_shift_facts: "even (e - int (sqrt_shift e))" "110 \<le> sqrt_shift e" "sqrt_shift e
    \<le> 111"
  by (simp_all add: sqrt_shift_def)

lemma sq_le_imp_le_2_1023:
  fixes p :: real
  assumes p: "0 \<le> p" and sq: "p\<^sup>2 \<le> 2 ^ 1026"
  shows "p \<le> 2 ^ 1023"
proof (rule ccontr)
  assume "\<not> p \<le> 2 ^ 1023"
  then have "2 ^ 1023 < p" by simp
  then have "(2 ^ 1023)\<^sup>2 < p\<^sup>2" by (intro power_strict_mono) simp_all
  moreover have "((2::real) ^ 1023)\<^sup>2 = 2 ^ 2046" by (simp only: power_mult[symmetric]) simp
  moreover have "(2::real) ^ 1026 \<le> 2 ^ 2046" by (intro power_increasing) simp_all
  ultimately show False using sq by linarith
qed

lemma valof_Math_sqrt:
  assumes d: "is_double x" and f: "is_finite x" and nn: "0 \<le> valof x"
  shows "is_finite (Math_sqrt x) \<and> 0 \<le> valof (Math_sqrt x)
    \<and> valof x * (1 - 3 / 2 ^ 53) \<le> (valof (Math_sqrt x))\<^sup>2
    \<and> (valof (Math_sqrt x))\<^sup>2 \<le> valof x * (1 + 3 / 2 ^ 53)"
proof -
  from f obtain s m e where x: "x = Finite s m e" by (cases x) simp_all
  show ?thesis
  proof (cases "m = 0")
    case True
    then show ?thesis by (simp add: x)
  next
    case False
    have s: "\<not> s"
    proof
      assume s
      then have "valof x = - (real m * 2 powi e)" by (simp add: x)
      moreover have "0 < real m * 2 powi e" using False by simp
      ultimately show False using nn by linarith
    qed
    define sh where "sh = sqrt_shift e"
    define N where "N = m * 2 ^ sh"
    define M where "M = sqrt_sticky N (isqrt N)"
    define h where "h = (e - int sh) div 2"
    define c where "c = (2::real) powi h"
    define p where "p = real M * 2 powi (h - 1)"
    define y where "y = valof (fround False M (h - 1))"
    have cpos: "0 < c" by (simp add: c_def)
    have r: "Math_sqrt x = fround False M (h - 1)"
      using False s by (simp add: x M_def N_def sh_def h_def)
    have ev: "e - int sh = h + h"
      using sqrt_shift_facts(1)[of e] by (simp add: h_def sh_def)
    have shb: "110 \<le> sh" "sh \<le> 111" using sqrt_shift_facts(2,3)[of e]
        by (simp_all add: sh_def)
    have elo: "- 1074 \<le> e" using d by (simp add: x is_double_exp)
    have hlo: "- 1074 \<le> h - 1" using ev elo shb by linarith
    have vx: "valof x = real N * c\<^sup>2"
    proof -
      have "(2::real) powi e = 2 powi (int sh) * 2 powi (h + h)"
        by (rule pow2_split) (simp add: ev[symmetric])
      also have "\<dots> = 2 ^ sh * c\<^sup>2"
        by (simp only: pow2_add power_int_of_nat c_def power2_eq_square)
      finally show ?thesis using s by (simp add: x N_def)
    qed
    have pc: "p = real M / 2 * c"
    proof -
      have "(2::real) powi (h - 1) = c * 2 powi (- 1)" unfolding c_def by (rule pow2_split) simp
      then show ?thesis by (simp add: p_def)
    qed
    have p0: "0 \<le> p" by (simp add: p_def)
    have big: "2 ^ 110 \<le> N"
    proof -
      have "(2::nat) ^ 110 \<le> 2 ^ sh" using shb by (intro power_increasing) simp_all
      also have "\<dots> \<le> m * 2 ^ sh" using False by simp
      finally show ?thesis by (simp add: N_def)
    qed
    have "\<bar>p\<^sup>2 - valof x\<bar> = \<bar>(real M / 2)\<^sup>2 - real N\<bar> * c\<^sup>2"
    proof -
      have "p\<^sup>2 - valof x = ((real M / 2)\<^sup>2 - real N) * c\<^sup>2"
        unfolding pc vx power_mult_distrib by (simp only: left_diff_distrib)
      then show ?thesis by (simp add: abs_mult)
    qed
    also have "\<dots> \<le> real N / 2 ^ 55 * c\<^sup>2"
      unfolding M_def using sqrt_sticky_close[OF big] by (intro mult_right_mono) simp_all
    also have "\<dots> = valof x / 2 ^ 55" by (simp add: vx)
    finally have close: "\<bar>p\<^sup>2 - valof x\<bar> \<le> valof x / 2 ^ 55" .
    have vb: "valof x \<le> 2 ^ 1024" using valof_abs_below[OF d] by linarith
    have "p\<^sup>2 \<le> valof x + valof x / 2 ^ 55" using close by linarith
    also have "\<dots> \<le> 2 ^ 1024 + 2 ^ 1024 / 2 ^ 55"
      using vb by (intro add_mono divide_right_mono) simp_all
    also have "\<dots> \<le> (2::real) ^ 1024 + 2 ^ 1024" by (simp add: field_simps)
    also have "\<dots> \<le> (2::real) ^ 1026" by simp
    finally have "p \<le> 2 ^ 1023" using p0 by (intro sq_le_imp_le_2_1023)
    then have fin: "is_finite (fround False M (h - 1))" unfolding p_def by (rule fround_finite)
    have pp: "p = (if False then - 1 else 1) * (real M * 2 powi (h - 1))" by (simp add: p_def)
    have "\<bar>y - p\<bar> \<le> \<bar>p\<bar> / 2 ^ 53"
      unfolding y_def by (rule valof_fround(2)[OF fin pp hlo])
    then have yp: "\<bar>y - p\<bar> \<le> p / 2 ^ 53" using p0 by simp
    note b = sqrt_bounds[OF p0 yp close]
    show ?thesis unfolding r using fin b by (simp add: y_def)
  qed
qed

subsection \<open>The magnitude of four components\<close>

text \<open>
  The magnitude is the square root of three sums of four squares.  Every square and every
  partial sum is not negative, so the errors of the sums multiply.  With \<open>P\<close> the exact sum of
  squares, the square of a finite magnitude lies between \<open>(P - 5 * 2^-1075) * (1 - 2^-50)\<close>
  and \<open>(P + 5 * 2^-1075) * (1 + 2^-50)\<close>, and the magnitude is finite for
      \<open>P\<close> up to
  \<open>3 * 2^1021\<close>.
\<close>

lemma add_step:
  fixes t x s :: real
  assumes x: "0 \<le> x" and s: "0 \<le> s" and e: "\<bar>t - (x + s)\<bar> \<le> \<bar>x +
      s\<bar> / 2 ^ 53"
  shows "(x + s) * (1 - 1 / 2 ^ 53) \<le> t" and "t \<le> (x + s) * (1 + 1 / 2 ^ 53)" and "0 \<le>
      t"
proof -
  have a: "\<bar>x + s\<bar> = x + s" using x s by simp
  show l: "(x + s) * (1 - 1 / 2 ^ 53) \<le> t"
    unfolding scale_down mult_1_right using e unfolding a by linarith
  show "t \<le> (x + s) * (1 + 1 / 2 ^ 53)"
    unfolding scale_up mult_1_right using e unfolding a by linarith
  have "0 \<le> (x + s) * (1 - 1 / 2 ^ 53)" using x s by (intro mult_nonneg_nonneg) simp_all
  with l show "0 \<le> t" by linarith
qed

lemma sum4_chain:
  fixes sa sb sc sd t1 t2 t3 :: real
  assumes n: "0 \<le> sa" "0 \<le> sb" "0 \<le> sc" "0 \<le> sd"
    and e1: "\<bar>t1 - (sa + sb)\<bar> \<le> \<bar>sa + sb\<bar> / 2 ^ 53"
    and e2: "\<bar>t2 - (t1 + sc)\<bar> \<le> \<bar>t1 + sc\<bar> / 2 ^ 53"
    and e3: "\<bar>t3 - (t2 + sd)\<bar> \<le> \<bar>t2 + sd\<bar> / 2 ^ 53"
  shows "0 \<le> t1" and "0 \<le> t2" and "0 \<le> t3"
    and "(sa + sb + sc + sd) * (1 - 1 / 2 ^ 53) ^ 3 \<le> t3"
    and "t3 \<le> (sa + sb + sc + sd) * (1 + 1 / 2 ^ 53) ^ 3"
    and "t1 \<le> (sa + sb + sc + sd) * (1 + 1 / 2 ^ 53) ^ 3"
    and "t2 \<le> (sa + sb + sc + sd) * (1 + 1 / 2 ^ 53) ^ 3"
proof -
  define U :: real where "U = 1 + 1 / 2 ^ 53"
  define L :: real where "L = 1 - 1 / 2 ^ 53"
  have U1: "1 \<le> U" and L0: "0 \<le> L" and L1: "L \<le> 1" by (simp_all add: U_def L_def)
  have U0: "0 \<le> U" using U1 by linarith
  note a1 = add_step[OF n(1) n(2) e1, folded U_def L_def]
  show t1: "0 \<le> t1" by (rule a1(3))
  note a2 = add_step[OF t1 n(3) e2, folded U_def L_def]
  show t2: "0 \<le> t2" by (rule a2(3))
  note a3 = add_step[OF t2 n(4) e3, folded U_def L_def]
  show "0 \<le> t3" by (rule a3(3))
  have sU: "\<And>s. 0 \<le> s \<Longrightarrow> s \<le> s * U" using U1
      by (simp add: mult_le_cancel_left1)
  have sL: "\<And>s. 0 \<le> s \<Longrightarrow> s * L \<le> s" using L1
      by (simp add: mult_le_cancel_left2)
  have u2: "t2 \<le> (sa + sb + sc) * U ^ 2"
  proof -
    have "t1 + sc \<le> (sa + sb) * U + sc * U" using a1(2) sU[OF n(3)] by linarith
    also have "\<dots> = (sa + sb + sc) * U" by (simp add: algebra_simps)
    finally have "(t1 + sc) * U \<le> ((sa + sb + sc) * U) * U" using U0 by (rule mult_right_mono)
    with a2(2) show ?thesis by (simp add: power2_eq_square mult.assoc)
  qed
  have u3: "t3 \<le> (sa + sb + sc + sd) * U ^ 3"
  proof -
    have "sd \<le> sd * U ^ 2" using n(4) U1 by (simp add: mult_le_cancel_left1 one_le_power)
    then have "t2 + sd \<le> (sa + sb + sc) * U ^ 2 + sd * U ^ 2" using u2 by linarith
    also have "\<dots> = (sa + sb + sc + sd) * U ^ 2" by (simp add: algebra_simps)
    finally have "(t2 + sd) * U \<le> ((sa + sb + sc + sd) * U ^ 2) * U"
      using U0 by (rule mult_right_mono)
    with a3(2) show ?thesis by (simp add: power3_eq_cube power2_eq_square mult.assoc)
  qed
  show "t3 \<le> (sa + sb + sc + sd) * (1 + 1 / 2 ^ 53) ^ 3" using u3 by (simp only: U_def)
  have S0: "0 \<le> sa + sb + sc + sd" using n by simp
  have U13: "1 \<le> U ^ 3" using U1 by (rule one_le_power)
  have U12: "U ^ 2 \<le> U ^ 3" using U1 by (intro power_increasing) simp_all
  have "t2 \<le> (sa + sb + sc + sd) * U ^ 2"
  proof -
    have "(sa + sb + sc) * U ^ 2 \<le> (sa + sb + sc + sd) * U ^ 2"
      using n(4) U0 by (intro mult_right_mono) simp_all
    with u2 show ?thesis by linarith
  qed
  also have "\<dots> \<le> (sa + sb + sc + sd) * U ^ 3" using S0 U12
      by (rule mult_left_mono[rotated])
  finally show "t2 \<le> (sa + sb + sc + sd) * (1 + 1 / 2 ^ 53) ^ 3" by (simp only: U_def)
  have "t1 \<le> (sa + sb) * U" by (rule a1(2))
  also have "\<dots> \<le> (sa + sb + sc + sd) * U" using n U0 by (intro mult_right_mono) simp_all
  also have "\<dots> \<le> (sa + sb + sc + sd) * U ^ 3"
  proof -
    have "U ^ 1 \<le> U ^ 3" using U1 by (intro power_increasing) simp_all
    then have "U \<le> U ^ 3" by simp
    with S0 show ?thesis by (rule mult_left_mono[rotated])
  qed
  finally show "t1 \<le> (sa + sb + sc + sd) * (1 + 1 / 2 ^ 53) ^ 3" by (simp only: U_def)
  have l2: "(sa + sb + sc) * L ^ 2 \<le> t2"
  proof -
    have "(sa + sb) * L + sc * L \<le> t1 + sc" using a1(1) sL[OF n(3)] by linarith
    then have "(sa + sb + sc) * L \<le> t1 + sc" by (simp add: algebra_simps)
    then have "((sa + sb + sc) * L) * L \<le> (t1 + sc) * L" using L0 by (rule mult_right_mono)
    with a2(1) show ?thesis by (simp add: power2_eq_square mult.assoc)
  qed
  have "(sa + sb + sc + sd) * L ^ 3 \<le> t3"
  proof -
    have "L ^ 2 \<le> 1" using L0 L1 by (simp add: power_le_one)
    then have "sd * L ^ 2 \<le> sd" using n(4) by (simp add: mult_le_cancel_left2)
    then have "(sa + sb + sc) * L ^ 2 + sd * L ^ 2 \<le> t2 + sd" using l2 by linarith
    then have "(sa + sb + sc + sd) * L ^ 2 \<le> t2 + sd" by (simp add: algebra_simps)
    then have "((sa + sb + sc + sd) * L ^ 2) * L \<le> (t2 + sd) * L"
      using L0 by (rule mult_right_mono)
    with a3(1) show ?thesis by (simp add: power3_eq_cube power2_eq_square mult.assoc)
  qed
  then show "(sa + sb + sc + sd) * (1 - 1 / 2 ^ 53) ^ 3 \<le> t3" by (simp only: L_def)
qed

lemma valof_fround_False: "0 \<le> valof (fround False M E)"
proof (cases "fround False M E")
  case (Finite s m e)
  from fround_error(1)[OF Finite] have "\<not> s" by simp
  then show ?thesis by (simp add: Finite)
qed simp_all

lemma valof_square_nonneg: "0 \<le> valof (js_mul a a)"
  by (cases a) (simp_all add: valof_fround_False)

lemma valof_square:
  assumes f: "is_finite (js_mul a a)"
  shows "(valof a)\<^sup>2 - (valof a)\<^sup>2 / 2 ^ 53 - 1 / 2 ^ 1075 \<le> valof (js_mul a a)"
    and "valof (js_mul a a) \<le> (valof a)\<^sup>2 + (valof a)\<^sup>2 / 2 ^ 53 + 1 / 2 ^ 1075"
proof -
  have e: "valof a * valof a = (valof a)\<^sup>2" by (simp add: power2_eq_square)
  have n: "\<bar>(valof a)\<^sup>2\<bar> = (valof a)\<^sup>2" by simp
  note m = valof_js_mul[OF f, unfolded e n]
  from m show "(valof a)\<^sup>2 - (valof a)\<^sup>2 / 2 ^ 53 - 1 / 2 ^ 1075 \<le> valof (js_mul a
      a)"
    by linarith
  from m show "valof (js_mul a a) \<le> (valof a)\<^sup>2 + (valof a)\<^sup>2 / 2 ^ 53 + 1 / 2 ^
      1075"
    by linarith
qed

lemma magnitude_constants:
  "(1 + 1 / 2 ^ 53) * (1 + 1 / 2 ^ 53) ^ 3 * (1 + 3 / 2 ^ 53) \<le> (1 + 8 / 2 ^ 53 :: real)"
  "4 * (1 + 1 / 2 ^ 53) ^ 3 * (1 + 3 / 2 ^ 53) \<le> (5 :: real)"
  "(1 - 8 / 2 ^ 53 :: real) \<le> (1 - 1 / 2 ^ 53) * (1 - 1 / 2 ^ 53) ^ 3 * (1 - 3 / 2 ^ 53)"
  "4 * (1 - 1 / 2 ^ 53) ^ 3 * (1 - 3 / 2 ^ 53) \<le> (4 :: real)"
  "(4 :: real) \<le> 5 * (1 - 8 / 2 ^ 53)"
  by (simp_all add: power3_eq_cube)

lemma magnitude4_chain:
  fixes a b c d :: number
  defines "P \<equiv> (valof a)\<^sup>2 + (valof b)\<^sup>2 + (valof c)\<^sup>2 + (valof d)\<^sup>2"
  defines "M \<equiv> Vector4_magnitude \<lparr>x4 = a, y4 = b, z4 = c, w4 = d\<rparr>"
  assumes f: "is_finite (js_add (js_add (js_add (js_mul a a) (js_mul b b)) (js_mul c c))
      (js_mul d d))"
  shows "is_finite M" and "0 \<le> valof M"
    and "(P - 5 / 2 ^ 1075) * (1 - 8 / 2 ^ 53) \<le> (valof M)\<^sup>2"
    and "(valof M)\<^sup>2 \<le> (P + 5 / 2 ^ 1075) * (1 + 8 / 2 ^ 53)"
    and "is_finite a \<and> is_finite b \<and> is_finite c \<and> is_finite d"
proof -
  define sa where "sa = js_mul a a"
  define sb where "sb = js_mul b b"
  define sc where "sc = js_mul c c"
  define sd where "sd = js_mul d d"
  define t1 where "t1 = js_add sa sb"
  define t2 where "t2 = js_add t1 sc"
  define t3 where "t3 = js_add t2 sd"
  have Meq: "M = Math_sqrt t3"
    by (simp add: M_def Vector4_magnitude_def t3_def t2_def t1_def sa_def sb_def sc_def sd_def)
  from f have f3: "is_finite t3" by (simp add: t3_def t2_def t1_def sa_def sb_def sc_def sd_def)
  from js_add_finite_args[OF f3[unfolded t3_def]] have f2: "is_finite t2" and fd: "is_finite sd"
    by simp_all
  from js_add_finite_args[OF f2[unfolded t2_def]] have f1: "is_finite t1" and fc: "is_finite sc"
    by simp_all
  from js_add_finite_args[OF f1[unfolded t1_def]] have fa: "is_finite sa" and fb: "is_finite sb"
    by simp_all
  show "is_finite a \<and> is_finite b \<and> is_finite c \<and> is_finite d"
    using js_mul_finite_args[OF fa[unfolded sa_def]] js_mul_finite_args[OF fb[unfolded sb_def]]
      js_mul_finite_args[OF fc[unfolded sc_def]] js_mul_finite_args[OF fd[unfolded sd_def]]
    by simp
  define h :: real where "h = 1 / 2 ^ 1075"
  define U :: real where "U = 1 + 1 / 2 ^ 53"
  define L :: real where "L = 1 - 1 / 2 ^ 53"
  define U3 :: real where "U3 = (1 + 1 / 2 ^ 53) ^ 3"
  define L3 :: real where "L3 = (1 - 1 / 2 ^ 53) ^ 3"
  define ku :: real where "ku = 1 + 3 / 2 ^ 53"
  define kl :: real where "kl = 1 - 3 / 2 ^ 53"
  have h0: "0 \<le> h" by (simp add: h_def)
  have U30: "0 \<le> U3" and L30: "0 \<le> L3" and ku0: "0 \<le> ku" and kl0: "0 \<le> kl"
    by (simp_all add: U3_def L3_def ku_def kl_def)
  have c1: "U * U3 * ku \<le> 1 + 8 / 2 ^ 53" and c2: "4 * U3 * ku \<le> 5"
    and c3: "1 - 8 / 2 ^ 53 \<le> L * L3 * kl" and c4: "4 * L3 * kl \<le> 4"
    unfolding U_def U3_def L_def L3_def ku_def kl_def by (rule magnitude_constants)+
  have P0: "0 \<le> P" by (simp add: P_def)
  note n = valof_square_nonneg[of a, folded sa_def] valof_square_nonneg[of b, folded sb_def]
    valof_square_nonneg[of c, folded sc_def] valof_square_nonneg[of d, folded sd_def]
  have e1: "\<bar>valof t1 - (valof sa + valof sb)\<bar> \<le> \<bar>valof sa + valof sb\<bar> / 2
      ^ 53"
    unfolding t1_def by (rule valof_js_add) (simp_all add: sa_def sb_def f1[unfolded t1_def sa_def
        sb_def])
  have e2: "\<bar>valof t2 - (valof t1 + valof sc)\<bar> \<le> \<bar>valof t1 + valof sc\<bar> / 2
      ^ 53"
    unfolding t2_def by (rule valof_js_add) (simp_all add: t1_def sc_def f2[unfolded t2_def t1_def
        sc_def])
  have e3: "\<bar>valof t3 - (valof t2 + valof sd)\<bar> \<le> \<bar>valof t2 + valof sd\<bar> / 2
      ^ 53"
    unfolding t3_def by (rule valof_js_add) (simp_all add: t2_def sd_def f3[unfolded t3_def t2_def
        sd_def])
  note ch = sum4_chain[OF n e1 e2 e3, folded U3_def L3_def]
  define S where "S = valof sa + valof sb + valof sc + valof sd"
  have S0: "0 \<le> S" using n by (simp add: S_def)
  note sq = valof_Math_sqrt[OF _ f3 ch(3), folded Meq ku_def kl_def]
  have d3: "is_double t3" by (simp add: t3_def)
  from sq[OF d3] show "is_finite M" and M0: "0 \<le> valof M" by simp_all
  from sq[OF d3] have lo: "valof t3 * kl \<le> (valof M)\<^sup>2" and hi: "(valof M)\<^sup>2 \<le>
      valof t3 * ku"
    by simp_all
  note va = valof_square[OF fa[unfolded sa_def], folded sa_def h_def]
  note vb = valof_square[OF fb[unfolded sb_def], folded sb_def h_def]
  note vc = valof_square[OF fc[unfolded sc_def], folded sc_def h_def]
  note vd = valof_square[OF fd[unfolded sd_def], folded sd_def h_def]
  have Pd: "P / 2 ^ 53 = (valof a)\<^sup>2 / 2 ^ 53 + (valof b)\<^sup>2 / 2 ^ 53
      + (valof c)\<^sup>2 / 2 ^ 53 + (valof d)\<^sup>2 / 2 ^ 53"
    by (simp add: P_def add_divide_distrib)
  have Shi: "S \<le> P * U + 4 * h"
    unfolding U_def scale_up mult_1_right Pd unfolding S_def P_def
    using va(2) vb(2) vc(2) vd(2) by linarith
  have Slo: "P * L - 4 * h \<le> S"
    unfolding L_def scale_down mult_1_right Pd unfolding S_def P_def
    using va(1) vb(1) vc(1) vd(1) by linarith
  have "(valof M)\<^sup>2 \<le> valof t3 * ku" by (rule hi)
  also have "\<dots> \<le> (S * U3) * ku" using ch(5) ku0 unfolding S_def by (rule mult_right_mono)
  also have "\<dots> \<le> ((P * U + 4 * h) * U3) * ku"
    using Shi U30 ku0 by (intro mult_right_mono)
  also have "\<dots> = P * (U * U3 * ku) + h * (4 * U3 * ku)" by (simp add: algebra_simps)
  also have "\<dots> \<le> P * (1 + 8 / 2 ^ 53) + h * 5"
    using P0 h0 c1 c2 by (intro add_mono mult_left_mono)
  also have "\<dots> \<le> (P + 5 * h) * (1 + 8 / 2 ^ 53)"
  proof -
    define w :: real where "w = 8 / 2 ^ 53"
    have "0 \<le> h * w" using h0 by (simp add: w_def)
    then have "P * (1 + w) + h * 5 \<le> (P + 5 * h) * (1 + w)" by (simp add: algebra_simps)
    then show ?thesis by (simp only: w_def)
  qed
  finally show "(valof M)\<^sup>2 \<le> (P + 5 / 2 ^ 1075) * (1 + 8 / 2 ^ 53)" by (simp add: h_def)
  have "(P - 5 * h) * (1 - 8 / 2 ^ 53) \<le> P * (1 - 8 / 2 ^ 53) - h * 4"
  proof -
    define w :: real where "w = 1 - 8 / 2 ^ 53"
    have "4 \<le> 5 * w" unfolding w_def by (rule magnitude_constants(5))
    then have "h * 4 \<le> h * (5 * w)" using h0 by (rule mult_left_mono)
    then have "(P - 5 * h) * w \<le> P * w - h * 4" by (simp add: algebra_simps)
    then show ?thesis by (simp only: w_def)
  qed
  also have "\<dots> \<le> P * (L * L3 * kl) - h * (4 * L3 * kl)"
    using P0 h0 c3 c4 by (intro diff_mono mult_left_mono)
  also have "\<dots> = ((P * L - 4 * h) * L3) * kl" by (simp add: algebra_simps)
  also have "\<dots> \<le> (S * L3) * kl" using Slo L30 kl0 by (intro mult_right_mono)
  also have "\<dots> \<le> valof t3 * kl" using ch(4) kl0 unfolding S_def by (rule mult_right_mono)
  also have "\<dots> \<le> (valof M)\<^sup>2" by (rule lo)
  finally show "(P - 5 / 2 ^ 1075) * (1 - 8 / 2 ^ 53) \<le> (valof M)\<^sup>2" by (simp add: h_def)
qed

lemma below_2_1023:
  fixes x :: real
  assumes x0: "0 \<le> x" and x: "x \<le> 3 * 2 ^ 1021"
  shows "(x + x / 2 ^ 53 + 4 / 2 ^ 1075) * (1 + 1 / 2 ^ 53) ^ 2 \<le> 2 ^ 1023"
proof -
  define A :: real where "A = 2 ^ 1021"
  have A1: "1 \<le> A" unfolding A_def by (rule one_le_power) simp
  have e: "(2::real) ^ 1023 = 4 * A"
  proof -
    have "(2::real) ^ 1023 = 2 ^ (2 + 1021)" by simp
    also have "\<dots> = 2 ^ 2 * 2 ^ 1021" by (rule power_add)
    finally show ?thesis by (simp add: A_def)
  qed
  have xA: "x \<le> 3 * A" using x by (simp add: A_def)
  have "x / 2 ^ 53 \<le> x / 8" using x0 by (intro divide_left_mono) simp_all
  then have a: "x / 2 ^ 53 \<le> 3 * A / 8" using xA by linarith
  have "(4::real) / 2 ^ 1075 \<le> 4 / 2 ^ 5" by (intro divide_left_mono power_increasing) simp_all
  then have b: "(4::real) / 2 ^ 1075 \<le> A / 8" using A1 by simp
  have B: "x + x / 2 ^ 53 + 4 / 2 ^ 1075 \<le> 7 / 2 * A" using xA a b by linarith
  have U: "(1 + 1 / 2 ^ 53 :: real) ^ 2 \<le> 8 / 7" by (simp add: power2_eq_square)
  have "(x + x / 2 ^ 53 + 4 / 2 ^ 1075) * (1 + 1 / 2 ^ 53) ^ 2 \<le> (7 / 2 * A) * (8 / 7)"
    using B U A1 by (intro mult_mono) simp_all
  also have "\<dots> = 4 * A" by simp
  finally show ?thesis by (simp only: e)
qed

lemma magnitude4_sum_finite:
  fixes a b c d :: number
  defines "P \<equiv> (valof a)\<^sup>2 + (valof b)\<^sup>2 + (valof c)\<^sup>2 + (valof d)\<^sup>2"
  assumes fin: "is_finite a" "is_finite b" "is_finite c" "is_finite d"
    and P: "P \<le> 3 * 2 ^ 1021"
  shows "is_finite (js_add (js_add (js_add (js_mul a a) (js_mul b b)) (js_mul c c))
      (js_mul d d))"
proof -
  define sa where "sa = js_mul a a"
  define sb where "sb = js_mul b b"
  define sc where "sc = js_mul c c"
  define sd where "sd = js_mul d d"
  define t1 where "t1 = js_add sa sb"
  define t2 where "t2 = js_add t1 sc"
  define h :: real where "h = 1 / 2 ^ 1075"
  define U :: real where "U = 1 + 1 / 2 ^ 53"
  define B :: real where "B = P + P / 2 ^ 53 + 4 * h"
  have P0: "0 \<le> P" by (simp add: P_def)
  have h0: "0 \<le> h" by (simp add: h_def)
  have U1: "1 \<le> U" by (simp add: U_def)
  have U0: "0 \<le> U" using U1 by linarith
  have B0: "0 \<le> B" using P0 h0 by (simp add: B_def)
  have BU2: "B * U ^ 2 \<le> 2 ^ 1023"
    unfolding B_def U_def h_def using below_2_1023[OF P0 P] by simp
  have BU: "B * U \<le> 2 ^ 1023"
  proof -
    have "U ^ 1 \<le> U ^ 2" using U1 by (intro power_increasing) simp_all
    then have "B * U \<le> B * U ^ 2" using B0 by (intro mult_left_mono) simp_all
    with BU2 show ?thesis by linarith
  qed
  have B1: "B \<le> 2 ^ 1023"
  proof -
    have "B * 1 \<le> B * U" using B0 U1 by (intro mult_left_mono)
    with BU show ?thesis by simp
  qed
  have P1: "P \<le> 2 ^ 1023"
  proof -
    have "P \<le> B" using P0 h0 by (simp add: B_def)
    with B1 show ?thesis by linarith
  qed
  have sq: "\<And>x. is_finite x \<Longrightarrow> (valof x)\<^sup>2 \<le> P
      \<Longrightarrow> is_finite (js_mul x x)"
  proof -
    fix x assume fx: "is_finite x" and le: "(valof x)\<^sup>2 \<le> P"
    have "\<bar>valof x * valof x\<bar> = (valof x)\<^sup>2" by (simp add: power2_eq_square)
    then have "\<bar>valof x * valof x\<bar> \<le> 2 ^ 1023" using le P1 by linarith
    with fx fx show "is_finite (js_mul x x)" by (rule js_mul_finite)
  qed
  have fa: "is_finite sa" unfolding sa_def by (rule sq[OF fin(1)]) (simp add: P_def)
  have fb: "is_finite sb" unfolding sb_def by (rule sq[OF fin(2)]) (simp add: P_def)
  have fc: "is_finite sc" unfolding sc_def by (rule sq[OF fin(3)]) (simp add: P_def)
  have fd: "is_finite sd" unfolding sd_def by (rule sq[OF fin(4)]) (simp add: P_def)
  note n = valof_square_nonneg[of a, folded sa_def] valof_square_nonneg[of b, folded sb_def]
    valof_square_nonneg[of c, folded sc_def] valof_square_nonneg[of d, folded sd_def]
  note va = valof_square(2)[OF fa[unfolded sa_def], folded sa_def h_def]
  note vb = valof_square(2)[OF fb[unfolded sb_def], folded sb_def h_def]
  note vc = valof_square(2)[OF fc[unfolded sc_def], folded sc_def h_def]
  note vd = valof_square(2)[OF fd[unfolded sd_def], folded sd_def h_def]
  have Pd: "P / 2 ^ 53 = (valof a)\<^sup>2 / 2 ^ 53 + (valof b)\<^sup>2 / 2 ^ 53
      + (valof c)\<^sup>2 / 2 ^ 53 + (valof d)\<^sup>2 / 2 ^ 53"
    by (simp add: P_def add_divide_distrib)
  have S: "valof sa + valof sb + valof sc + valof sd \<le> B"
    unfolding B_def Pd unfolding P_def using va vb vc vd by linarith
  have "\<bar>valof sa + valof sb\<bar> \<le> 2 ^ 1023" using n S B1 by linarith
  with fa fb have f1: "is_finite t1" unfolding t1_def by (rule js_add_finite)
  have e1: "\<bar>valof t1 - (valof sa + valof sb)\<bar> \<le> \<bar>valof sa + valof sb\<bar> / 2
      ^ 53"
    unfolding t1_def by (rule valof_js_add) (simp_all add: sa_def sb_def f1[unfolded t1_def sa_def
        sb_def])
  note a1 = add_step[OF n(1) n(2) e1, folded U_def]
  have sU: "\<And>s. 0 \<le> s \<Longrightarrow> s \<le> s * U" using U1
      by (simp add: mult_le_cancel_left1)
  have u1: "valof t1 + valof sc \<le> (valof sa + valof sb + valof sc) * U"
  proof -
    have "valof t1 + valof sc \<le> (valof sa + valof sb) * U + valof sc * U"
      using a1(2) sU[OF n(3)] by linarith
    then show ?thesis by (simp add: algebra_simps)
  qed
  have "(valof sa + valof sb + valof sc) * U \<le> B * U"
    using S n(4) U0 by (intro mult_right_mono) simp_all
  then have "\<bar>valof t1 + valof sc\<bar> \<le> 2 ^ 1023" using u1 BU a1(3) n(3) by linarith
  with f1 fc have f2: "is_finite t2" unfolding t2_def by (rule js_add_finite)
  have e2: "\<bar>valof t2 - (valof t1 + valof sc)\<bar> \<le> \<bar>valof t1 + valof sc\<bar> / 2
      ^ 53"
    unfolding t2_def by (rule valof_js_add) (simp_all add: t1_def sc_def f2[unfolded t2_def t1_def
        sc_def])
  note a2 = add_step[OF a1(3) n(3) e2, folded U_def]
  have u2: "valof t2 + valof sd \<le> (valof sa + valof sb + valof sc + valof sd) * U ^ 2"
  proof -
    have "(valof t1 + valof sc) * U \<le> ((valof sa + valof sb + valof sc) * U) * U"
      using u1 U0 by (rule mult_right_mono)
    then have "valof t2 \<le> (valof sa + valof sb + valof sc) * U ^ 2"
      using a2(2) by (simp add: power2_eq_square mult.assoc)
    moreover have "valof sd \<le> valof sd * U ^ 2"
      using n(4) U1 by (simp add: mult_le_cancel_left1 one_le_power)
    ultimately have "valof t2 + valof sd
        \<le> (valof sa + valof sb + valof sc) * U ^ 2 + valof sd * U ^ 2" by linarith
    then show ?thesis by (simp add: algebra_simps)
  qed
  have "(valof sa + valof sb + valof sc + valof sd) * U ^ 2 \<le> B * U ^ 2"
    using S by (intro mult_right_mono) simp_all
  then have "\<bar>valof t2 + valof sd\<bar> \<le> 2 ^ 1023" using u2 BU2 a2(3) n(4) by linarith
  with f2 fd have "is_finite (js_add t2 sd)" by (rule js_add_finite)
  then show ?thesis by (simp add: t2_def t1_def sa_def sb_def sc_def sd_def)
qed

lemma magnitude4_of_finite:
  fixes a b c d :: number
  defines "P \<equiv> (valof a)\<^sup>2 + (valof b)\<^sup>2 + (valof c)\<^sup>2 + (valof d)\<^sup>2"
  defines "M \<equiv> Vector4_magnitude \<lparr>x4 = a, y4 = b, z4 = c, w4 = d\<rparr>"
  assumes f: "is_finite M"
  shows "is_finite a \<and> is_finite b \<and> is_finite c \<and> is_finite d"
    and "0 \<le> valof M"
    and "(P - 5 / 2 ^ 1075) * (1 - 8 / 2 ^ 53) \<le> (valof M)\<^sup>2"
    and "(valof M)\<^sup>2 \<le> (P + 5 / 2 ^ 1075) * (1 + 8 / 2 ^ 53)"
proof -
  from f have "is_finite (Math_sqrt (js_add (js_add (js_add (js_mul a a) (js_mul b b))
      (js_mul c c)) (js_mul d d)))"
    by (simp add: M_def Vector4_magnitude_def)
  then have t: "is_finite (js_add (js_add (js_add (js_mul a a) (js_mul b b))
      (js_mul c c)) (js_mul d d))"
    using Math_sqrt_finite_arg by blast
  note ch = magnitude4_chain[OF t, folded P_def M_def]
  show "is_finite a \<and> is_finite b \<and> is_finite c \<and> is_finite d" by (rule ch(5))
  show "0 \<le> valof M" by (rule ch(2))
  show "(P - 5 / 2 ^ 1075) * (1 - 8 / 2 ^ 53) \<le> (valof M)\<^sup>2" by (rule ch(3))
  show "(valof M)\<^sup>2 \<le> (P + 5 / 2 ^ 1075) * (1 + 8 / 2 ^ 53)" by (rule ch(4))
qed

lemma magnitude4_finite:
  fixes a b c d :: number
  defines "P \<equiv> (valof a)\<^sup>2 + (valof b)\<^sup>2 + (valof c)\<^sup>2 + (valof d)\<^sup>2"
  defines "M \<equiv> Vector4_magnitude \<lparr>x4 = a, y4 = b, z4 = c, w4 = d\<rparr>"
  assumes fin: "is_finite a" "is_finite b" "is_finite c" "is_finite d"
    and P: "P \<le> 3 * 2 ^ 1021"
  shows "is_finite M"
    and "0 \<le> valof M"
    and "(P - 5 / 2 ^ 1075) * (1 - 8 / 2 ^ 53) \<le> (valof M)\<^sup>2"
    and "(valof M)\<^sup>2 \<le> (P + 5 / 2 ^ 1075) * (1 + 8 / 2 ^ 53)"
proof -
  note t = magnitude4_sum_finite[OF fin P[unfolded P_def]]
  note ch = magnitude4_chain[OF t, folded P_def M_def]
  show "is_finite M" by (rule ch(1))
  show "0 \<le> valof M" by (rule ch(2))
  show "(P - 5 / 2 ^ 1075) * (1 - 8 / 2 ^ 53) \<le> (valof M)\<^sup>2" by (rule ch(3))
  show "(valof M)\<^sup>2 \<le> (P + 5 / 2 ^ 1075) * (1 + 8 / 2 ^ 53)" by (rule ch(4))
qed

subsection \<open>Components known up to rounding\<close>

text \<open>
  The magnitude of a vector each of whose components is within the fraction \<open>2^-52\<close>, and
  \<open>2^-1075\<close>, of a real number.
\<close>

lemma am_gm_536:
  fixes a :: real
  shows "a \<le> a\<^sup>2 * 2 ^ 536 + 1 / 2 ^ 538"
proof -
  define K :: real where "K = 2 ^ 536"
  have K0: "0 < K" by (simp add: K_def)
  have "0 \<le> (a * K - 1 / 2)\<^sup>2" by simp
  also have "\<dots> = (a\<^sup>2 * K - a + 1 / (4 * K)) * K"
    using K0 by (simp add: power2_eq_square field_simps)
  finally have "0 \<le> a\<^sup>2 * K - a + 1 / (4 * K)" using K0 by (simp add: zero_le_mult_iff)
  moreover have "1 / (4 * K) = 1 / 2 ^ 538"
  proof -
    have "4 * K = 2 ^ (2 + 536)" unfolding K_def by (simp only: power_add) simp
    then show ?thesis by simp
  qed
  ultimately show ?thesis unfolding K_def by linarith
qed

lemma square_close_constants:
  "(1 / 2 ^ 52)\<^sup>2 + 2 * (1 / 2 ^ 52) + (2 * (1 / 2 ^ 52) * (1 / 2 ^ 1075) + 2 * (1 / 2 ^
      1075)) * 2 ^ 536
    \<le> (5 / 2 ^ 53 :: real)"
  "(2 * (1 / 2 ^ 52) * (1 / 2 ^ 1075) + 2 * (1 / 2 ^ 1075)) * (1 / 2 ^ 538) + (1 / 2 ^ 1075)\<^sup>2
    \<le> (1 / 2 ^ 1600 :: real)"
  by (simp_all add: power2_eq_square)

lemma square_close:
  fixes v Y :: real
  assumes e: "\<bar>v - Y\<bar> \<le> \<bar>Y\<bar> / 2 ^ 52 + 1 / 2 ^ 1075"
  shows "\<bar>v\<^sup>2 - Y\<^sup>2\<bar> \<le> Y\<^sup>2 * (5 / 2 ^ 53) + 1 / 2 ^ 1600"
proof -
  define c :: real where "c = 1 / 2 ^ 52"
  define h :: real where "h = 1 / 2 ^ 1075"
  define K :: real where "K = 2 ^ 536"
  define k :: real where "k = 1 / 2 ^ 538"
  define a where "a = \<bar>Y\<bar>"
  define d where "d = \<bar>v - Y\<bar>"
  have c0: "0 \<le> c" and h0: "0 \<le> h" and a0: "0 \<le> a" and d0: "0 \<le> d"
    by (simp_all add: c_def h_def a_def d_def)
  have a2: "a\<^sup>2 = Y\<^sup>2" by (simp add: a_def)
  have dle: "d \<le> a * c + h" using e by (simp add: d_def a_def c_def h_def)
  have "\<bar>v + Y\<bar> \<le> d + 2 * a" unfolding d_def a_def by linarith
  then have "\<bar>v - Y\<bar> * \<bar>v + Y\<bar> \<le> d * (d + 2 * a)"
    unfolding d_def[symmetric] using d0 by (rule mult_left_mono)
  moreover have "\<bar>v\<^sup>2 - Y\<^sup>2\<bar> = \<bar>v - Y\<bar> * \<bar>v + Y\<bar>"
    by (simp add: power2_eq_square algebra_simps flip: abs_mult)
  ultimately have "\<bar>v\<^sup>2 - Y\<^sup>2\<bar> \<le> d * (d + 2 * a)" by simp
  also have "\<dots> \<le> (a * c + h) * ((a * c + h) + 2 * a)"
    using dle d0 a0 by (intro mult_mono) simp_all
  also have "\<dots> = a\<^sup>2 * (c\<^sup>2 + 2 * c) + (2 * c * h + 2 * h) * a + h\<^sup>2"
    by (simp add: power2_eq_square algebra_simps)
  also have "\<dots> \<le> a\<^sup>2 * (c\<^sup>2 + 2 * c) + (2 * c * h + 2 * h) * (a\<^sup>2 * K
      + k) + h\<^sup>2"
  proof -
    have "0 \<le> 2 * c * h + 2 * h" using c0 h0 by simp
    moreover have "a \<le> a\<^sup>2 * K + k" unfolding K_def k_def by (rule am_gm_536)
    ultimately have "(2 * c * h + 2 * h) * a \<le> (2 * c * h + 2 * h) * (a\<^sup>2 * K + k)"
      by (rule mult_left_mono[rotated])
    then show ?thesis by linarith
  qed
  also have "\<dots> = a\<^sup>2 * (c\<^sup>2 + 2 * c + (2 * c * h + 2 * h) * K) + ((2 * c * h + 2
      * h) * k + h\<^sup>2)"
    by (simp add: algebra_simps)
  also have "\<dots> \<le> a\<^sup>2 * (5 / 2 ^ 53) + 1 / 2 ^ 1600"
    unfolding c_def h_def K_def k_def
    using square_close_constants by (intro add_mono mult_left_mono) simp_all
  finally show ?thesis by (simp only: a2)
qed

lemma scaled_magnitude:
  fixes pa pb pc pd :: number and Ya Yb Yc Yd :: real
  defines "W \<equiv> Ya\<^sup>2 + Yb\<^sup>2 + Yc\<^sup>2 + Yd\<^sup>2"
  defines "R \<equiv> Vector4_magnitude \<lparr>x4 = pa, y4 = pb, z4 = pc, w4 = pd\<rparr>"
  assumes fin: "is_finite pa" "is_finite pb" "is_finite pc" "is_finite pd"
    and ea: "\<bar>valof pa - Ya\<bar> \<le> \<bar>Ya\<bar> / 2 ^ 52 + 1 / 2 ^ 1075"
    and eb: "\<bar>valof pb - Yb\<bar> \<le> \<bar>Yb\<bar> / 2 ^ 52 + 1 / 2 ^ 1075"
    and ec: "\<bar>valof pc - Yc\<bar> \<le> \<bar>Yc\<bar> / 2 ^ 52 + 1 / 2 ^ 1075"
    and ed: "\<bar>valof pd - Yd\<bar> \<le> \<bar>Yd\<bar> / 2 ^ 52 + 1 / 2 ^ 1075"
    and W: "W \<le> 5 * 2 ^ 1020"
  shows "is_finite R" and "0 \<le> valof R"
    and "(W * (1 - 5 / 2 ^ 53) - 6 / 2 ^ 1075) * (1 - 8 / 2 ^ 53) \<le> (valof R)\<^sup>2"
    and "(valof R)\<^sup>2 \<le> (W * (1 + 5 / 2 ^ 53) + 6 / 2 ^ 1075) * (1 + 8 / 2 ^ 53)"
proof -
  define Q where "Q = (valof pa)\<^sup>2 + (valof pb)\<^sup>2 + (valof pc)\<^sup>2 + (valof
      pd)\<^sup>2"
  define g :: real where "g = 1 / 2 ^ 1600"
  define h :: real where "h = 1 / 2 ^ 1075"
  have W0: "0 \<le> W" by (simp add: W_def)
  note sa = square_close[OF ea, folded g_def]
  note sb = square_close[OF eb, folded g_def]
  note sc = square_close[OF ec, folded g_def]
  note sd = square_close[OF ed, folded g_def]
  have Wd: "W * (5 / 2 ^ 53) = Ya\<^sup>2 * (5 / 2 ^ 53) + Yb\<^sup>2 * (5 / 2 ^ 53)
      + Yc\<^sup>2 * (5 / 2 ^ 53) + Yd\<^sup>2 * (5 / 2 ^ 53)"
    by (simp add: W_def distrib_right)
  have gh: "4 * g \<le> h" unfolding g_def h_def by simp
  have Qhi: "Q \<le> W + W * (5 / 2 ^ 53) + h"
    unfolding Wd unfolding Q_def W_def using sa sb sc sd gh by linarith
  have Qlo: "W - W * (5 / 2 ^ 53) - h \<le> Q"
    unfolding Wd unfolding Q_def W_def using sa sb sc sd gh by linarith
  have "W * (5 / 2 ^ 53) \<le> W * (1 / 2 ^ 50)" using W0 by (intro mult_left_mono) simp_all
  moreover have "W * (1 / 2 ^ 50) \<le> 5 * 2 ^ 1020 * (1 / 2 ^ 50)"
    using W by (intro mult_right_mono) simp_all
  moreover have "(5::real) * 2 ^ 1020 * (1 / 2 ^ 50) \<le> 2 ^ 1020 / 2" by simp
  moreover have "h \<le> 2 ^ 1020 / 2" unfolding h_def by simp
  moreover have "(3::real) * 2 ^ 1021 = 6 * 2 ^ 1020" by simp
  ultimately have Q3: "Q \<le> 3 * 2 ^ 1021" using Qhi W by linarith
  note m = magnitude4_finite[OF fin Q3[unfolded Q_def], folded Q_def R_def h_def]
  show "is_finite R" by (rule m(1))
  show "0 \<le> valof R" by (rule m(2))
  have k0: "(0::real) \<le> 1 + 8 / 2 ^ 53" and l0: "(0::real) \<le> 1 - 8 / 2 ^ 53" by simp_all
  have h5: "5 / 2 ^ 1075 = 5 * h" and h6: "6 / 2 ^ 1075 = 6 * h" by (simp_all add: h_def)
  have "(valof R)\<^sup>2 \<le> (Q + 5 * h) * (1 + 8 / 2 ^ 53)" using m(4) by (simp only: h5)
  also have "\<dots> \<le> (W * (1 + 5 / 2 ^ 53) + 6 * h) * (1 + 8 / 2 ^ 53)"
    using k0
  proof (rule mult_right_mono[rotated])
    show "Q + 5 * h \<le> W * (1 + 5 / 2 ^ 53) + 6 * h"
      unfolding scale_up using Qhi by (simp add: algebra_simps)
  qed
  finally show "(valof R)\<^sup>2 \<le> (W * (1 + 5 / 2 ^ 53) + 6 / 2 ^ 1075) * (1 + 8 / 2 ^ 53)"
    by (simp only: h6)
  have "(W * (1 - 5 / 2 ^ 53) - 6 * h) * (1 - 8 / 2 ^ 53) \<le> (Q - 5 * h) * (1 - 8 / 2 ^ 53)"
    using l0
  proof (rule mult_right_mono[rotated])
    show "W * (1 - 5 / 2 ^ 53) - 6 * h \<le> Q - 5 * h"
      unfolding scale_down using Qlo by (simp add: algebra_simps)
  qed
  also have "\<dots> \<le> (valof R)\<^sup>2" using m(3) by (simp only: h5)
  finally show "(W * (1 - 5 / 2 ^ 53) - 6 / 2 ^ 1075) * (1 - 8 / 2 ^ 53) \<le> (valof R)\<^sup>2"
    by (simp only: h6)
qed

subsection \<open>The magnitude against the exact sum of squares\<close>

text \<open>
  A magnitude of at least \<open>2^-511\<close> has a square of at least \<open>2^-1022\<close>, the smallest normal
  number: the absolute part of the error is then a relative one.
\<close>

lemma Math_sqrt_below:
  assumes d: "is_double x" and f: "is_finite x" and nn: "0 \<le> valof x"
  shows "valof (Math_sqrt x) \<le> 2 ^ 512 * (1 + 2 / 2 ^ 53)"
proof -
  note s = valof_Math_sqrt[OF d f nn]
  have "valof x \<le> 2 ^ 1024" using valof_abs_below[OF d] by linarith
  then have "valof x * (1 + 3 / 2 ^ 53) \<le> 2 ^ 1024 * (1 + 3 / 2 ^ 53)"
    by (intro mult_right_mono) simp_all
  also have "\<dots> \<le> 2 ^ 1024 * (1 + 2 / 2 ^ 53)\<^sup>2"
    by (intro mult_left_mono) (simp_all add: power2_eq_square)
  also have "\<dots> = (2 ^ 512 * (1 + 2 / 2 ^ 53))\<^sup>2"
  proof -
    have "((2::real) ^ 512)\<^sup>2 = 2 ^ 1024" by (simp only: power_mult[symmetric]) simp
    then show ?thesis by (simp only: power_mult_distrib)
  qed
  finally have "(valof (Math_sqrt x))\<^sup>2 \<le> (2 ^ 512 * (1 + 2 / 2 ^ 53))\<^sup>2" using s
      by linarith
  then show ?thesis by (rule power2_le_imp_le) simp
qed

lemma magnitude4_below:
  assumes f: "is_finite (Vector4_magnitude \<lparr>x4 = a, y4 = b, z4 = c, w4 = d\<rparr>)"
  shows "valof (Vector4_magnitude \<lparr>x4 = a, y4 = b, z4 = c, w4 = d\<rparr>)
      \<le> 2 ^ 512 * (1 + 2 / 2 ^ 53)"
proof -
  define t where "t = js_add (js_add (js_add (js_mul a a) (js_mul b b)) (js_mul c c)) (js_mul d d)"
  have e: "Vector4_magnitude \<lparr>x4 = a, y4 = b, z4 = c, w4 = d\<rparr> = Math_sqrt t"
    by (simp add: Vector4_magnitude_def t_def)
  from f have "is_finite (Math_sqrt t)" by (simp only: e)
  then have "is_finite t" "0 \<le> valof t" using Math_sqrt_finite_arg by blast+
  moreover have "is_double t" by (simp add: t_def)
  ultimately show ?thesis unfolding e by (intro Math_sqrt_below)
qed

lemma relative_constants:
  "(1 - 13 / 2 ^ 53) * (1 + 8 / 2 ^ 53) \<le> (1 - 5 / 2 ^ 53 * (1 + 8 / 2 ^ 53) :: real)"
  "(1 + 5 / 2 ^ 53 * (1 - 8 / 2 ^ 53) :: real) \<le> (1 + 14 / 2 ^ 53) * (1 - 8 / 2 ^ 53)"
  by simp_all

lemma magnitude4_relative:
  fixes a b c d :: number
  defines "P \<equiv> (valof a)\<^sup>2 + (valof b)\<^sup>2 + (valof c)\<^sup>2 + (valof d)\<^sup>2"
  defines "M \<equiv> Vector4_magnitude \<lparr>x4 = a, y4 = b, z4 = c, w4 = d\<rparr>"
  assumes f: "is_finite M" and lo: "1 / 2 ^ 511 \<le> valof M"
  shows "(valof M)\<^sup>2 * (1 - 13 / 2 ^ 53) \<le> P" and "P \<le> (valof M)\<^sup>2 * (1 + 14 /
      2 ^ 53)"
    and "1 / 2 ^ 1022 \<le> (valof M)\<^sup>2"
proof -
  define V2 where "V2 = (valof M)\<^sup>2"
  define h :: real where "h = 1 / 2 ^ 1075"
  define u5 :: real where "u5 = 5 / 2 ^ 53"
  define ku :: real where "ku = 1 + 8 / 2 ^ 53"
  define kl :: real where "kl = 1 - 8 / 2 ^ 53"
  note g = magnitude4_of_finite[OF f[unfolded M_def], folded M_def P_def V2_def h_def ku_def kl_def]
  have "(1 / 2 ^ 511)\<^sup>2 \<le> (valof M)\<^sup>2" using lo by (intro power_mono) simp_all
  moreover have "((1::real) / 2 ^ 511)\<^sup>2 = 1 / 2 ^ 1022"
    by (simp only: power_divide power_one power_mult[symmetric]) simp
  ultimately show V2lo: "1 / 2 ^ 1022 \<le> (valof M)\<^sup>2" by simp
  have V20: "0 \<le> V2" by (simp add: V2_def)
  have h5: "5 / 2 ^ 1075 = 5 * h" by (simp add: h_def)
  have "5 * h = 1 / 2 ^ 1022 * u5"
  proof -
    have "(2::real) ^ 1075 = 2 ^ 1022 * 2 ^ 53" by (simp only: power_add[symmetric]) simp
    then show ?thesis by (simp add: h_def u5_def)
  qed
  also have "\<dots> \<le> V2 * u5" using V2lo unfolding V2_def
    by (intro mult_right_mono) (simp_all add: u5_def)
  finally have hV: "5 * h \<le> V2 * u5" .
  have ku0: "0 < ku" and kl0: "0 < kl" by (simp_all add: ku_def kl_def)
  have c1: "(1 - 13 / 2 ^ 53) * ku \<le> 1 - u5 * ku" and c2: "1 + u5 * kl \<le> (1 + 14 / 2 ^ 53)
      * kl"
    unfolding ku_def kl_def u5_def using relative_constants by simp_all
  have "(V2 * (1 - 13 / 2 ^ 53)) * ku = V2 * ((1 - 13 / 2 ^ 53) * ku)" by simp
  also have "\<dots> \<le> V2 * (1 - u5 * ku)" using V20 c1 by (rule mult_left_mono[rotated])
  also have "\<dots> = V2 - (V2 * u5) * ku" by (simp add: algebra_simps)
  also have "\<dots> \<le> V2 - (5 * h) * ku"
    using hV ku0 by (intro diff_left_mono mult_right_mono) simp_all
  also have "\<dots> \<le> (P + 5 * h) * ku - (5 * h) * ku" using g(4)[unfolded h5] by simp
  also have "\<dots> = P * ku" by (simp add: algebra_simps)
  finally have "V2 * (1 - 13 / 2 ^ 53) \<le> P" using ku0 by simp
  then show "(valof M)\<^sup>2 * (1 - 13 / 2 ^ 53) \<le> P" by (simp only: V2_def)
  have "P * kl = (P - 5 * h) * kl + (5 * h) * kl" by (simp add: algebra_simps)
  also have "\<dots> \<le> V2 + (5 * h) * kl" using g(3)[unfolded h5] by simp
  also have "\<dots> \<le> V2 + (V2 * u5) * kl"
    using hV kl0 by (intro add_left_mono mult_right_mono) simp_all
  also have "\<dots> = V2 * (1 + u5 * kl)" by (simp add: algebra_simps)
  also have "\<dots> \<le> V2 * ((1 + 14 / 2 ^ 53) * kl)" using V20 c2
      by (rule mult_left_mono[rotated])
  also have "\<dots> = (V2 * (1 + 14 / 2 ^ 53)) * kl" by simp
  finally have "P \<le> V2 * (1 + 14 / 2 ^ 53)" using kl0 by simp
  then show "P \<le> (valof M)\<^sup>2 * (1 + 14 / 2 ^ 53)" by (simp only: V2_def)
qed

lemma near_scaled:
  fixes r m e :: real
  assumes r: "0 \<le> r" and m: "0 \<le> m" and e: "0 \<le> e" "e \<le> 1"
    and lo: "m\<^sup>2 * (1 - e)\<^sup>2 \<le> r\<^sup>2" and hi: "r\<^sup>2 \<le> m\<^sup>2 * (1
        + e)\<^sup>2"
  shows "\<bar>r - m\<bar> \<le> m * e"
proof -
  have "r\<^sup>2 \<le> (m * (1 + e))\<^sup>2" using hi by (simp only: power_mult_distrib)
  then have 1: "r \<le> m * (1 + e)" using m e by (intro power2_le_imp_le[of r]) simp_all
  have "(m * (1 - e))\<^sup>2 \<le> r\<^sup>2" using lo by (simp only: power_mult_distrib)
  then have 2: "m * (1 - e) \<le> r" using r by (rule power2_le_imp_le)
  from 1 2 show ?thesis by (simp add: algebra_simps abs_le_iff)
qed

subsection \<open>Division by the magnitude\<close>

lemma quotient_component:
  assumes fa: "is_finite a" and fM: "is_finite M" and V: "0 < valof M"
    and b: "(valof a)\<^sup>2 \<le> (valof M)\<^sup>2 * 2"
  shows "is_finite (js_div a M)"
    and "\<bar>valof (js_div a M) - valof a / valof M\<bar>
      \<le> \<bar>valof a / valof M\<bar> / 2 ^ 52 + 1 / 2 ^ 1075"
proof -
  have nz: "valof M \<noteq> 0" using V by simp
  have "(valof a / valof M)\<^sup>2 = (valof a)\<^sup>2 / (valof M)\<^sup>2" by (rule power_divide)
  also have "\<dots> \<le> 2" using b V by (simp add: divide_le_eq)
  also have "\<dots> \<le> (2::real)\<^sup>2" by simp
  finally have "\<bar>valof a / valof M\<bar>\<^sup>2 \<le> 2\<^sup>2" by (simp only: power2_abs)
  then have "\<bar>valof a / valof M\<bar> \<le> 2" by (rule power2_le_imp_le) simp
  moreover have "(2::real) ^ 1 \<le> 2 ^ 1022" by (intro power_increasing) simp_all
  ultimately have "\<bar>valof a / valof M\<bar> \<le> 2 ^ 1022" by simp
  with fa fM nz show f: "is_finite (js_div a M)" by (rule js_div_finite)
  from fa fM nz f show "\<bar>valof (js_div a M) - valof a / valof M\<bar>
      \<le> \<bar>valof a / valof M\<bar> / 2 ^ 52 + 1 / 2 ^ 1075" by (rule valof_js_div)
qed

lemma normalized_constants:
  "((1 + 14 / 2 ^ 53) * (1 + 5 / 2 ^ 53) + 6 / 2 ^ 1075) * (1 + 8 / 2 ^ 53)
    \<le> ((1 + 1 / 2 ^ 48)\<^sup>2 :: real)"
  "((1 - 1 / 2 ^ 48)\<^sup>2 :: real)
    \<le> ((1 - 13 / 2 ^ 53) * (1 - 5 / 2 ^ 53) - 6 / 2 ^ 1075) * (1 - 8 / 2 ^ 53)"
  by (simp_all add: power2_eq_square)

lemma normalized_core:
  fixes a b c d pa pb pc pd :: number
  defines "M \<equiv> Vector4_magnitude \<lparr>x4 = a, y4 = b, z4 = c, w4 = d\<rparr>"
  defines "R \<equiv> Vector4_magnitude \<lparr>x4 = pa, y4 = pb, z4 = pc, w4 = pd\<rparr>"
  assumes f: "is_finite M" and lo: "1 / 2 ^ 511 \<le> valof M"
    and pa: "valof pa = valof (js_div a M) \<and> (is_finite (js_div a M)
        \<longrightarrow> is_finite pa)"
    and pb: "valof pb = valof (js_div b M) \<and> (is_finite (js_div b M)
        \<longrightarrow> is_finite pb)"
    and pc: "valof pc = valof (js_div c M) \<and> (is_finite (js_div c M)
        \<longrightarrow> is_finite pc)"
    and pd: "valof pd = valof (js_div d M) \<and> (is_finite (js_div d M)
        \<longrightarrow> is_finite pd)"
  shows "is_finite R \<and> \<bar>valof R - 1\<bar> \<le> 1 / 2 ^ 48"
    and "\<bar>valof (js_div a M) - valof a / valof M\<bar>
      \<le> \<bar>valof a / valof M\<bar> / 2 ^ 52 + 1 / 2 ^ 1075"
    and "\<bar>valof (js_div b M) - valof b / valof M\<bar>
      \<le> \<bar>valof b / valof M\<bar> / 2 ^ 52 + 1 / 2 ^ 1075"
    and "\<bar>valof (js_div c M) - valof c / valof M\<bar>
      \<le> \<bar>valof c / valof M\<bar> / 2 ^ 52 + 1 / 2 ^ 1075"
    and "\<bar>valof (js_div d M) - valof d / valof M\<bar>
      \<le> \<bar>valof d / valof M\<bar> / 2 ^ 52 + 1 / 2 ^ 1075"
proof -
  define V where "V = valof M"
  define P where "P = (valof a)\<^sup>2 + (valof b)\<^sup>2 + (valof c)\<^sup>2 + (valof d)\<^sup>2"
  define W where "W = (valof a / V)\<^sup>2 + (valof b / V)\<^sup>2 + (valof c / V)\<^sup>2
      + (valof d / V)\<^sup>2"
  note g = magnitude4_of_finite(1)[OF f[unfolded M_def]]
  note rel = magnitude4_relative[OF f[unfolded M_def] lo[unfolded M_def], folded M_def P_def V_def]
  have V0: "0 < V" using lo unfolding V_def by (rule less_le_trans[rotated]) simp
  have V20: "0 < V\<^sup>2" using V0 by simp
  have WP: "W = P / V\<^sup>2" by (simp add: W_def P_def power_divide add_divide_distrib)
  have Wlo: "1 - 13 / 2 ^ 53 \<le> W" unfolding WP using rel(1) V20
      by (simp add: le_divide_eq mult.commute)
  have Whi: "W \<le> 1 + 14 / 2 ^ 53" unfolding WP using rel(2) V20
      by (simp add: divide_le_eq mult.commute)
  have P2: "P \<le> V\<^sup>2 * 2"
  proof -
    have "V\<^sup>2 * (1 + 14 / 2 ^ 53) \<le> V\<^sup>2 * 2" using V20
        by (intro mult_left_mono) simp_all
    with rel(2) show ?thesis by linarith
  qed
  have ba: "(valof a)\<^sup>2 \<le> V\<^sup>2 * 2" and bb: "(valof b)\<^sup>2 \<le> V\<^sup>2 * 2"
    and bc: "(valof c)\<^sup>2 \<le> V\<^sup>2 * 2" and bd: "(valof d)\<^sup>2 \<le> V\<^sup>2 * 2"
  proof -
    have "(valof a)\<^sup>2 \<le> P" "(valof b)\<^sup>2 \<le> P" "(valof c)\<^sup>2 \<le> P"
        "(valof d)\<^sup>2 \<le> P"
      by (simp_all add: P_def)
    with P2 show "(valof a)\<^sup>2 \<le> V\<^sup>2 * 2" "(valof b)\<^sup>2 \<le> V\<^sup>2 * 2"
      "(valof c)\<^sup>2 \<le> V\<^sup>2 * 2" "(valof d)\<^sup>2 \<le> V\<^sup>2 * 2" by linarith+
  qed
  from g have fa: "is_finite a" and fb: "is_finite b" and fc: "is_finite c" and fd: "is_finite d"
    by (simp_all add: M_def)
  note qa = quotient_component(2)[OF fa f V0[unfolded V_def] ba[unfolded V_def], folded V_def]
  note qb = quotient_component(2)[OF fb f V0[unfolded V_def] bb[unfolded V_def], folded V_def]
  note qc = quotient_component(2)[OF fc f V0[unfolded V_def] bc[unfolded V_def], folded V_def]
  note qd = quotient_component(2)[OF fd f V0[unfolded V_def] bd[unfolded V_def], folded V_def]
  note ra = quotient_component(1)[OF fa f V0[unfolded V_def] ba[unfolded V_def]]
  note rb = quotient_component(1)[OF fb f V0[unfolded V_def] bb[unfolded V_def]]
  note rc = quotient_component(1)[OF fc f V0[unfolded V_def] bc[unfolded V_def]]
  note rd = quotient_component(1)[OF fd f V0[unfolded V_def] bd[unfolded V_def]]
  show "\<bar>valof (js_div a M) - valof a / valof M\<bar>
      \<le> \<bar>valof a / valof M\<bar> / 2 ^ 52 + 1 / 2 ^ 1075" using qa by (simp only: V_def)
  show "\<bar>valof (js_div b M) - valof b / valof M\<bar>
      \<le> \<bar>valof b / valof M\<bar> / 2 ^ 52 + 1 / 2 ^ 1075" using qb by (simp only: V_def)
  show "\<bar>valof (js_div c M) - valof c / valof M\<bar>
      \<le> \<bar>valof c / valof M\<bar> / 2 ^ 52 + 1 / 2 ^ 1075" using qc by (simp only: V_def)
  show "\<bar>valof (js_div d M) - valof d / valof M\<bar>
      \<le> \<bar>valof d / valof M\<bar> / 2 ^ 52 + 1 / 2 ^ 1075" using qd by (simp only: V_def)
  have ea: "\<bar>valof pa - valof a / V\<bar> \<le> \<bar>valof a / V\<bar> / 2 ^ 52 + 1 / 2 ^
      1075"
    using qa pa by simp
  have eb: "\<bar>valof pb - valof b / V\<bar> \<le> \<bar>valof b / V\<bar> / 2 ^ 52 + 1 / 2 ^
      1075"
    using qb pb by simp
  have ec: "\<bar>valof pc - valof c / V\<bar> \<le> \<bar>valof c / V\<bar> / 2 ^ 52 + 1 / 2 ^
      1075"
    using qc pc by simp
  have ed: "\<bar>valof pd - valof d / V\<bar> \<le> \<bar>valof d / V\<bar> / 2 ^ 52 + 1 / 2 ^
      1075"
    using qd pd by simp
  have W5: "W \<le> 5 * 2 ^ 1020"
  proof -
    have "(1::real) + 14 / 2 ^ 53 \<le> 5 * 2 ^ 0" by simp
    also have "\<dots> \<le> (5::real) * 2 ^ 1020"
        by (intro mult_left_mono power_increasing) simp_all
    finally show ?thesis using Whi by linarith
  qed
  from pa pb pc pd ra rb rc rd
  have fin: "is_finite pa" "is_finite pb" "is_finite pc" "is_finite pd"
    by simp_all
  note sm = scaled_magnitude[OF fin ea eb ec ed W5[unfolded W_def], folded W_def R_def]
  have R0: "0 \<le> valof R" by (rule sm(2))
  have "(valof R)\<^sup>2 \<le> (W * (1 + 5 / 2 ^ 53) + 6 / 2 ^ 1075) * (1 + 8 / 2 ^ 53)"
      by (rule sm(4))
  also have "\<dots> \<le> ((1 + 14 / 2 ^ 53) * (1 + 5 / 2 ^ 53) + 6 / 2 ^ 1075) * (1 + 8 / 2 ^ 53)"
    using Whi by (intro mult_right_mono add_right_mono) simp_all
  also have "\<dots> \<le> (1 + 1 / 2 ^ 48)\<^sup>2" by (rule normalized_constants(1))
  finally have hi: "(valof R)\<^sup>2 \<le> 1\<^sup>2 * (1 + 1 / 2 ^ 48)\<^sup>2" by simp
  have "((1::real) - 1 / 2 ^ 48)\<^sup>2
      \<le> ((1 - 13 / 2 ^ 53) * (1 - 5 / 2 ^ 53) - 6 / 2 ^ 1075) * (1 - 8 / 2 ^ 53)"
    by (rule normalized_constants(2))
  also have "\<dots> \<le> (W * (1 - 5 / 2 ^ 53) - 6 / 2 ^ 1075) * (1 - 8 / 2 ^ 53)"
    using Wlo by (intro mult_right_mono diff_right_mono) simp_all
  also have "\<dots> \<le> (valof R)\<^sup>2" by (rule sm(3))
  finally have lo': "1\<^sup>2 * (1 - 1 / 2 ^ 48)\<^sup>2 \<le> (valof R)\<^sup>2" by simp
  have "\<bar>valof R - 1\<bar> \<le> 1 * (1 / 2 ^ 48)"
    using R0 _ _ _ lo' hi by (rule near_scaled) simp_all
  with sm(1) show "is_finite R \<and> \<bar>valof R - 1\<bar> \<le> 1 / 2 ^ 48" by simp
qed

subsection \<open>Multiplication by a ratio of the magnitude\<close>

lemma clamp_ratio:
  fixes a b c d m :: number
  defines "M \<equiv> Vector4_magnitude \<lparr>x4 = a, y4 = b, z4 = c, w4 = d\<rparr>"
  assumes f: "is_finite M" and fm: "is_finite m"
    and lo: "1 / 2 ^ 511 \<le> \<bar>valof m\<bar>" and hi: "\<bar>valof m\<bar> \<le> 2 ^ 511"
    and loM: "1 / 2 ^ 511 \<le> valof M"
  shows "is_finite (js_div m M)"
    and "\<bar>valof (js_div m M) - valof m / valof M\<bar> \<le> \<bar>valof m / valof M\<bar> *
        (9 / 2 ^ 54)"
proof -
  define V where "V = valof M"
  define q where "q = \<bar>valof m / V\<bar>"
  define h :: real where "h = 1 / 2 ^ 1075"
  define B :: real where "B = 2 ^ 512 * (1 + 2 / 2 ^ 53)"
  have V0: "0 < V" using loM unfolding V_def by (rule less_le_trans[rotated]) simp
  have nz: "valof M \<noteq> 0" using V0 by (simp add: V_def)
  have qV: "q * V = \<bar>valof m\<bar>" using V0 by (simp add: q_def abs_divide)
  have q0: "0 \<le> q" by (simp add: q_def)
  have "q * (1 / 2 ^ 511) \<le> q * V" using loM q0 unfolding V_def by (rule mult_left_mono)
  then have "q / 2 ^ 511 \<le> 2 ^ 511" using hi unfolding qV by simp
  then have "q \<le> 2 ^ 511 * 2 ^ 511" by (simp add: divide_le_eq)
  also have "\<dots> = (2::real) ^ 1022" by (simp only: power_add[symmetric]) simp
  finally have "\<bar>valof m / valof M\<bar> \<le> 2 ^ 1022" by (simp only: q_def V_def)
  with fm f nz show fr: "is_finite (js_div m M)" by (rule js_div_finite)
  have dr: "\<bar>valof (js_div m M) - valof m / V\<bar> \<le> q / 2 ^ 52 + h"
    unfolding q_def h_def V_def using fm f nz fr by (rule valof_js_div)
  have VB: "V \<le> B" unfolding V_def B_def M_def
    using f[unfolded M_def] by (rule magnitude4_below)
  have "1 / 2 ^ 511 \<le> q * V" using lo by (simp only: qV)
  also have "\<dots> \<le> q * B" using VB q0 by (rule mult_left_mono)
  finally have s1: "1 / 2 ^ 511 / 2 ^ 512 \<le> q * B / 2 ^ 512"
    by (intro divide_right_mono) simp_all
  have s2: "q * B / 2 ^ 512 = q * (1 + 2 / 2 ^ 53)" by (simp add: B_def)
  have s3: "(1::real) / 2 ^ 511 / 2 ^ 512 = 1 / 2 ^ 1023"
  proof -
    have "(2::real) ^ 1023 = 2 ^ 511 * 2 ^ 512" by (simp only: power_add[symmetric]) simp
    then show ?thesis by (simp only: divide_divide_eq_left)
  qed
  from s1 have "1 / 2 ^ 1023 \<le> q * (1 + 2 / 2 ^ 53)" unfolding s2 s3 .
  then have s4: "1 / 2 ^ 1023 / 2 ^ 52 \<le> q * (1 + 2 / 2 ^ 53) / 2 ^ 52"
    by (intro divide_right_mono) simp_all
  have s5: "1 / 2 ^ 1023 / 2 ^ 52 = h"
  proof -
    have "(2::real) ^ 1075 = 2 ^ 1023 * 2 ^ 52" by (simp only: power_add[symmetric]) simp
    then show ?thesis by (simp only: h_def divide_divide_eq_left)
  qed
  from s4 have hq: "h \<le> q * (1 + 2 / 2 ^ 53) / 2 ^ 52" unfolding s5 .
  have "q / 2 ^ 52 + q * (1 + 2 / 2 ^ 53) / 2 ^ 52 = q * (1 / 2 ^ 52 + (1 + 2 / 2 ^ 53) / 2 ^ 52)"
    by (simp add: algebra_simps)
  also have "\<dots> \<le> q * (9 / 2 ^ 54)" using q0 by (intro mult_left_mono) simp_all
  finally have "\<bar>valof (js_div m M) - valof m / V\<bar> \<le> q * (9 / 2 ^ 54)" using dr hq
      by linarith
  then show "\<bar>valof (js_div m M) - valof m / valof M\<bar> \<le> \<bar>valof m / valof
      M\<bar> * (9 / 2 ^ 54)"
    by (simp only: q_def V_def)
qed

lemma clamp_constants:
  "((1 + 14 / 2 ^ 53) * (1 + 9 / 2 ^ 54)\<^sup>2 * (1 + 5 / 2 ^ 53) + 6 / 2 ^ 53) * (1 + 8 / 2 ^ 53)
    \<le> ((1 + 1 / 2 ^ 48)\<^sup>2 :: real)"
  "((1 - 1 / 2 ^ 48)\<^sup>2 :: real)
    \<le> ((1 - 13 / 2 ^ 53) * (1 - 9 / 2 ^ 54)\<^sup>2 * (1 - 5 / 2 ^ 53) - 6 / 2 ^ 53) * (1 - 8
        / 2 ^ 53)"
  "(1 + 14 / 2 ^ 53) * (1 + 9 / 2 ^ 54)\<^sup>2 \<le> (5 / 4 :: real)"
  "(1 + 9 / 2 ^ 54) / 2 ^ 53 + 9 / 2 ^ 54 \<le> (1 / 2 ^ 50 :: real)"
  by (simp_all add: power2_eq_square)

lemma abs_le_2_1023:
  fixes y :: real
  assumes "y\<^sup>2 \<le> 5 * 2 ^ 1020"
  shows "\<bar>y\<bar> \<le> 2 ^ 1023"
proof -
  have "(5::real) * 2 ^ 1020 \<le> 2 ^ 3 * 2 ^ 1020" by (intro mult_right_mono) simp_all
  also have "\<dots> = (2::real) ^ 1023" by (simp only: power_add[symmetric]) simp
  also have "\<dots> \<le> (2::real) ^ 2046" by (intro power_increasing) simp_all
  also have "\<dots> = ((2::real) ^ 1023)\<^sup>2" by (simp only: power_mult[symmetric]) simp
  finally have "(5::real) * 2 ^ 1020 \<le> (2 ^ 1023)\<^sup>2" .
  with assms have "y\<^sup>2 \<le> (2 ^ 1023)\<^sup>2" by linarith
  then have "\<bar>y\<bar>\<^sup>2 \<le> (2 ^ 1023)\<^sup>2" by (simp only: power2_abs)
  then show ?thesis by (rule power2_le_imp_le) simp
qed

lemma clamp_core:
  fixes a b c d m pa pb pc pd :: number
  defines "M \<equiv> Vector4_magnitude \<lparr>x4 = a, y4 = b, z4 = c, w4 = d\<rparr>"
  defines "r \<equiv> js_div m (Vector4_magnitude \<lparr>x4 = a, y4 = b, z4 = c, w4 = d\<rparr>)"
  defines "R \<equiv> Vector4_magnitude \<lparr>x4 = pa, y4 = pb, z4 = pc, w4 = pd\<rparr>"
  assumes f: "is_finite M" and fm: "is_finite m"
    and lo: "1 / 2 ^ 511 \<le> \<bar>valof m\<bar>" and hi: "\<bar>valof m\<bar> \<le> 2 ^ 511"
    and loM: "1 / 2 ^ 511 \<le> valof M"
    and pa: "valof pa = valof (js_mul a r) \<and> (is_finite (js_mul a r)
        \<longrightarrow> is_finite pa)"
    and pb: "valof pb = valof (js_mul b r) \<and> (is_finite (js_mul b r)
        \<longrightarrow> is_finite pb)"
    and pc: "valof pc = valof (js_mul c r) \<and> (is_finite (js_mul c r)
        \<longrightarrow> is_finite pc)"
    and pd: "valof pd = valof (js_mul d r) \<and> (is_finite (js_mul d r)
        \<longrightarrow> is_finite pd)"
  shows "is_finite R \<and> \<bar>valof R - \<bar>valof m\<bar>\<bar> \<le> \<bar>valof m\<bar> /
      2 ^ 48"
    and "is_finite (js_mul a r) \<and> is_finite (js_mul b r) \<and> is_finite (js_mul c r)
      \<and> is_finite (js_mul d r)"
proof -
  define V where "V = valof M"
  define mu where "mu = \<bar>valof m\<bar>"
  define q where "q = \<bar>valof m / V\<bar>"
  define s where "s = valof r"
  define k :: real where "k = 9 / 2 ^ 54"
  define h :: real where "h = 1 / 2 ^ 1075"
  define P where "P = (valof a)\<^sup>2 + (valof b)\<^sup>2 + (valof c)\<^sup>2 + (valof d)\<^sup>2"
  define W where "W = (valof a * s)\<^sup>2 + (valof b * s)\<^sup>2 + (valof c * s)\<^sup>2
      + (valof d * s)\<^sup>2"
  define kup :: real where "kup = (1 + 14 / 2 ^ 53) * (1 + k)\<^sup>2"
  define kdn :: real where "kdn = (1 - 13 / 2 ^ 53) * (1 - k)\<^sup>2"
  note g = magnitude4_of_finite(1)[OF f[unfolded M_def]]
  from g have fa: "is_finite a" and fb: "is_finite b" and fc: "is_finite c" and fd: "is_finite d"
    by simp_all
  note rel = magnitude4_relative[OF f[unfolded M_def] loM[unfolded M_def],
      folded M_def P_def V_def]
  note cr = clamp_ratio[OF f[unfolded M_def] fm lo hi loM[unfolded M_def],
      folded M_def r_def, folded s_def V_def q_def k_def]
  have V0: "0 < V" using loM unfolding V_def by (rule less_le_trans[rotated]) simp
  have mu0: "0 \<le> mu" by (simp add: mu_def)
  have q0: "0 \<le> q" by (simp add: q_def)
  have k0: "0 \<le> k" and k1: "k \<le> 1" by (simp_all add: k_def)
  have qV: "q * V = mu" using V0 by (simp add: q_def mu_def abs_divide)
  have q2V2: "q\<^sup>2 * V\<^sup>2 = mu\<^sup>2" using qV
      by (simp add: power_mult_distrib[symmetric])
  have P0: "0 \<le> P" by (simp add: P_def)
  have WP: "W = P * s\<^sup>2" by (simp add: W_def P_def power_mult_distrib distrib_right)
  have shi: "\<bar>s\<bar> \<le> q * (1 + k)" and slo: "q * (1 - k) \<le> \<bar>s\<bar>"
  proof -
    define qk where "qk = q * k"
    have d: "\<bar>s - valof m / V\<bar> \<le> qk" using cr(2) by (simp only: qk_def q_def)
    have e: "q = \<bar>valof m / V\<bar>" by (rule q_def)
    have "\<bar>s\<bar> \<le> q + qk" using d e by linarith
    then show "\<bar>s\<bar> \<le> q * (1 + k)" by (simp add: qk_def algebra_simps)
    have "q - qk \<le> \<bar>s\<bar>" using d e by linarith
    then show "q * (1 - k) \<le> \<bar>s\<bar>" by (simp add: qk_def algebra_simps)
  qed
  have s2hi: "s\<^sup>2 \<le> q\<^sup>2 * (1 + k)\<^sup>2"
  proof -
    have "\<bar>s\<bar>\<^sup>2 \<le> (q * (1 + k))\<^sup>2" using shi
        by (intro power_mono) simp_all
    then show ?thesis by (simp only: power2_abs power_mult_distrib)
  qed
  have s2lo: "q\<^sup>2 * (1 - k)\<^sup>2 \<le> s\<^sup>2"
  proof -
    have "0 \<le> q * (1 - k)" using q0 k1 by simp
    then have "(q * (1 - k))\<^sup>2 \<le> \<bar>s\<bar>\<^sup>2" using slo by (intro power_mono)
    then show ?thesis by (simp only: power2_abs power_mult_distrib)
  qed
  have Whi: "W \<le> mu\<^sup>2 * kup"
  proof -
    have "P * s\<^sup>2 \<le> (V\<^sup>2 * (1 + 14 / 2 ^ 53)) * (q\<^sup>2 * (1 + k)\<^sup>2)"
      using rel(2) s2hi P0 by (intro mult_mono) simp_all
    also have "\<dots> = (q\<^sup>2 * V\<^sup>2) * kup" by (simp add: kup_def)
    finally show ?thesis by (simp only: WP q2V2)
  qed
  have Wlo: "mu\<^sup>2 * kdn \<le> W"
  proof -
    have "(V\<^sup>2 * (1 - 13 / 2 ^ 53)) * (q\<^sup>2 * (1 - k)\<^sup>2) \<le> P * s\<^sup>2"
      using rel(1) s2lo P0 by (intro mult_mono) simp_all
    moreover have "(V\<^sup>2 * (1 - 13 / 2 ^ 53)) * (q\<^sup>2 * (1 - k)\<^sup>2)
        = (q\<^sup>2 * V\<^sup>2) * kdn"
      by (simp add: kdn_def)
    ultimately show ?thesis by (simp only: WP q2V2)
  qed
  have mu2hi: "mu\<^sup>2 \<le> 2 ^ 1022"
  proof -
    have "mu\<^sup>2 \<le> (2 ^ 511)\<^sup>2" using hi mu0 unfolding mu_def by (intro power_mono)
    also have "\<dots> = (2::real) ^ 1022" by (simp only: power_mult[symmetric]) simp
    finally show ?thesis .
  qed
  have mu2lo: "1 / 2 ^ 1022 \<le> mu\<^sup>2"
  proof -
    have "(1 / 2 ^ 511)\<^sup>2 \<le> mu\<^sup>2" using lo unfolding mu_def
        by (intro power_mono) simp_all
    moreover have "((1::real) / 2 ^ 511)\<^sup>2 = 1 / 2 ^ 1022"
      by (simp only: power_divide power_one power_mult[symmetric]) simp
    ultimately show ?thesis by simp
  qed
  have kup54: "kup \<le> 5 / 4" unfolding kup_def k_def by (rule clamp_constants(3))
  have kup0: "0 \<le> kup" by (simp add: kup_def k_def)
  have W5: "W \<le> 5 * 2 ^ 1020"
  proof -
    have "mu\<^sup>2 * kup \<le> 2 ^ 1022 * (5 / 4)" using mu2hi kup54 kup0
        by (intro mult_mono) simp_all
    also have "\<dots> = (5::real) * 2 ^ 1020"
    proof -
      have "(2::real) ^ 1022 = 2 ^ 2 * 2 ^ 1020" by (simp only: power_add[symmetric]) simp
      then show ?thesis by simp
    qed
    finally show ?thesis using Whi by linarith
  qed
  have comp: "\<And>x. is_finite x \<Longrightarrow> (valof x * s)\<^sup>2 \<le> W \<Longrightarrow>
      is_finite (js_mul x r)
      \<and> \<bar>valof (js_mul x r) - valof x * s\<bar> \<le> \<bar>valof x * s\<bar> / 2 ^ 52 +
          1 / 2 ^ 1075"
  proof -
    fix x assume fx: "is_finite x" and le: "(valof x * s)\<^sup>2 \<le> W"
    from le W5 have "(valof x * s)\<^sup>2 \<le> 5 * 2 ^ 1020" by linarith
    then have "\<bar>valof x * valof r\<bar> \<le> 2 ^ 1023" unfolding s_def by (rule abs_le_2_1023)
    with fx cr(1) have fp: "is_finite (js_mul x r)" by (rule js_mul_finite)
    note v = valof_js_mul[OF fp, folded s_def]
    have "\<bar>valof x * s\<bar> / 2 ^ 53 \<le> \<bar>valof x * s\<bar> / 2 ^ 52"
      by (intro divide_left_mono) simp_all
    with v fp show "is_finite (js_mul x r)
      \<and> \<bar>valof (js_mul x r) - valof x * s\<bar> \<le> \<bar>valof x * s\<bar> / 2 ^ 52 +
          1 / 2 ^ 1075"
      by linarith
  qed
  have ca: "is_finite (js_mul a r)
      \<and> \<bar>valof (js_mul a r) - valof a * s\<bar> \<le> \<bar>valof a * s\<bar> / 2 ^ 52 +
          1 / 2 ^ 1075"
    by (rule comp[OF fa]) (simp add: W_def)
  have cb: "is_finite (js_mul b r)
      \<and> \<bar>valof (js_mul b r) - valof b * s\<bar> \<le> \<bar>valof b * s\<bar> / 2 ^ 52 +
          1 / 2 ^ 1075"
    by (rule comp[OF fb]) (simp add: W_def)
  have cc: "is_finite (js_mul c r)
      \<and> \<bar>valof (js_mul c r) - valof c * s\<bar> \<le> \<bar>valof c * s\<bar> / 2 ^ 52 +
          1 / 2 ^ 1075"
    by (rule comp[OF fc]) (simp add: W_def)
  have cd: "is_finite (js_mul d r)
      \<and> \<bar>valof (js_mul d r) - valof d * s\<bar> \<le> \<bar>valof d * s\<bar> / 2 ^ 52 +
          1 / 2 ^ 1075"
    by (rule comp[OF fd]) (simp add: W_def)
  from ca cb cc cd show "is_finite (js_mul a r) \<and> is_finite (js_mul b r)
      \<and> is_finite (js_mul c r)
      \<and> is_finite (js_mul d r)" by simp
  have fin: "is_finite pa" "is_finite pb" "is_finite pc" "is_finite pd"
    using pa pb pc pd ca cb cc cd by simp_all
  have ea: "\<bar>valof pa - valof a * s\<bar> \<le> \<bar>valof a * s\<bar> / 2 ^ 52 + 1 / 2 ^
      1075"
    using ca pa by simp
  have eb: "\<bar>valof pb - valof b * s\<bar> \<le> \<bar>valof b * s\<bar> / 2 ^ 52 + 1 / 2 ^
      1075"
    using cb pb by simp
  have ec: "\<bar>valof pc - valof c * s\<bar> \<le> \<bar>valof c * s\<bar> / 2 ^ 52 + 1 / 2 ^
      1075"
    using cc pc by simp
  have ed: "\<bar>valof pd - valof d * s\<bar> \<le> \<bar>valof d * s\<bar> / 2 ^ 52 + 1 / 2 ^
      1075"
    using cd pd by simp
  note sm = scaled_magnitude[OF fin ea eb ec ed W5[unfolded W_def], folded W_def R_def]
  have h6: "6 / 2 ^ 1075 \<le> mu\<^sup>2 * (6 / 2 ^ 53)"
  proof -
    have "(2::real) ^ 1075 = 2 ^ 1022 * 2 ^ 53" by (simp only: power_add[symmetric]) simp
    then have "(6::real) / 2 ^ 1075 = 1 / 2 ^ 1022 * (6 / 2 ^ 53)" by simp
    also have "\<dots> \<le> mu\<^sup>2 * (6 / 2 ^ 53)" using mu2lo
        by (intro mult_right_mono) simp_all
    finally show ?thesis .
  qed
  have mu20: "0 \<le> mu\<^sup>2" by simp
  have "(valof R)\<^sup>2 \<le> (W * (1 + 5 / 2 ^ 53) + 6 / 2 ^ 1075) * (1 + 8 / 2 ^ 53)"
      by (rule sm(4))
  also have "\<dots> \<le> ((mu\<^sup>2 * kup) * (1 + 5 / 2 ^ 53) + mu\<^sup>2 * (6 / 2 ^ 53)) *
      (1 + 8 / 2 ^ 53)"
    using Whi h6 by (intro mult_right_mono add_mono) simp_all
  also have "\<dots> = mu\<^sup>2 * ((kup * (1 + 5 / 2 ^ 53) + 6 / 2 ^ 53) * (1 + 8 / 2 ^ 53))"
    by (simp add: algebra_simps)
  also have "\<dots> \<le> mu\<^sup>2 * (1 + 1 / 2 ^ 48)\<^sup>2"
    using mu20 clamp_constants(1) unfolding kup_def k_def by (rule mult_left_mono[rotated])
  finally have up: "(valof R)\<^sup>2 \<le> mu\<^sup>2 * (1 + 1 / 2 ^ 48)\<^sup>2" .
  have "mu\<^sup>2 * (1 - 1 / 2 ^ 48)\<^sup>2
      \<le> mu\<^sup>2 * ((kdn * (1 - 5 / 2 ^ 53) - 6 / 2 ^ 53) * (1 - 8 / 2 ^ 53))"
    using mu20 clamp_constants(2) unfolding kdn_def k_def by (rule mult_left_mono[rotated])
  also have "\<dots> = ((mu\<^sup>2 * kdn) * (1 - 5 / 2 ^ 53) - mu\<^sup>2 * (6 / 2 ^ 53)) * (1 -
      8 / 2 ^ 53)"
    by (simp add: algebra_simps)
  also have "\<dots> \<le> (W * (1 - 5 / 2 ^ 53) - 6 / 2 ^ 1075) * (1 - 8 / 2 ^ 53)"
    using Wlo h6 by (intro mult_right_mono diff_mono) simp_all
  also have "\<dots> \<le> (valof R)\<^sup>2" by (rule sm(3))
  finally have dn: "mu\<^sup>2 * (1 - 1 / 2 ^ 48)\<^sup>2 \<le> (valof R)\<^sup>2" .
  have "\<bar>valof R - mu\<bar> \<le> mu * (1 / 2 ^ 48)"
    using sm(2) mu0 _ _ dn up by (rule near_scaled) simp_all
  with sm(1) show "is_finite R \<and> \<bar>valof R - \<bar>valof m\<bar>\<bar> \<le> \<bar>valof
      m\<bar> / 2 ^ 48"
    by (simp add: mu_def)
qed


lemma clamp_component:
  fixes a b c d m x :: number
  defines "M \<equiv> Vector4_magnitude \<lparr>x4 = a, y4 = b, z4 = c, w4 = d\<rparr>"
  defines "r \<equiv> js_div m (Vector4_magnitude \<lparr>x4 = a, y4 = b, z4 = c, w4 = d\<rparr>)"
  assumes f: "is_finite M" and fm: "is_finite m"
    and lo: "1 / 2 ^ 511 \<le> \<bar>valof m\<bar>" and hi: "\<bar>valof m\<bar> \<le> 2 ^ 511"
    and loM: "1 / 2 ^ 511 \<le> valof M"
    and fp: "is_finite (js_mul x r)"
  shows "\<bar>valof (js_mul x r) - valof x * (valof m / valof M)\<bar>
      \<le> \<bar>valof x * (valof m / valof M)\<bar> / 2 ^ 50 + 1 / 2 ^ 1075"
proof -
  define s where "s = valof r"
  define t where "t = valof m / valof M"
  define k :: real where "k = 9 / 2 ^ 54"
  define z where "z = \<bar>valof x * t\<bar>"
  note cr = clamp_ratio[OF f[unfolded M_def] fm lo hi loM[unfolded M_def],
      folded M_def r_def, folded s_def t_def k_def]
  note v = valof_js_mul[OF fp, folded s_def]
  have z0: "0 \<le> z" by (simp add: z_def)
  have "\<bar>valof x * s - valof x * t\<bar> = \<bar>valof x\<bar> * \<bar>s - t\<bar>"
    by (simp add: abs_mult flip: right_diff_distrib)
  also have "\<dots> \<le> \<bar>valof x\<bar> * (\<bar>t\<bar> * k)" using cr(2)
      by (intro mult_left_mono) simp_all
  also have "\<dots> = z * k" by (simp add: z_def abs_mult)
  finally have d: "\<bar>valof x * s - valof x * t\<bar> \<le> z * k" .
  have "\<bar>valof x * s\<bar> \<le> z + z * k" using d unfolding z_def by linarith
  then have "\<bar>valof x * s\<bar> / 2 ^ 53 \<le> (z + z * k) / 2 ^ 53"
    by (intro divide_right_mono) simp_all
  moreover have "(z + z * k) / 2 ^ 53 + z * k = z * ((1 + k) / 2 ^ 53 + k)"
    by (simp add: algebra_simps add_divide_distrib)
  moreover have "z * ((1 + k) / 2 ^ 53 + k) \<le> z * (1 / 2 ^ 50)"
    using z0 clamp_constants(4) unfolding k_def by (rule mult_left_mono[rotated])
  ultimately have "\<bar>valof (js_mul x r) - valof x * t\<bar> \<le> z * (1 / 2 ^ 50) + 1 / 2 ^
      1075"
    using v d by linarith
  then show ?thesis by (simp add: z_def t_def)
qed

subsection \<open>Stored components and shorter vectors\<close>

text \<open>
  The constructor stores a component with the value it was given, and a vector of two or
  three components has the magnitude of the vector of four that ends in zeros.
\<close>

lemma valof_stored: "valof (init_field js_zero (Some q)) = valof q"
  by (cases q) (simp_all add: js_zero_def)

lemma is_finite_stored:
  "is_finite d \<Longrightarrow> is_finite q \<Longrightarrow> is_finite (init_field d (Some q))"
  by simp

lemma stored_value:
  "valof (init_field js_zero (Some q)) = valof q
    \<and> (is_finite q \<longrightarrow> is_finite (init_field js_zero (Some q)))"
  by (cases q) (simp_all add: js_zero_def)

lemma stored_truthy_value:
  "truthy q \<Longrightarrow> valof (init_field d (Some q)) = valof q
    \<and> (is_finite q \<longrightarrow> is_finite (init_field d (Some q)))"
  by simp

lemma valof_div_zero: "valof (js_div js_zero M) = 0"
  by (cases M) (simp_all add: js_zero_def div_sticky_def fround_0)

lemma valof_mul_zero: "valof (js_mul js_zero r) = 0"
  by (cases r) (simp_all add: js_zero_def fround_0)

lemma zero_quotient_value:
  "valof js_zero = valof (js_div js_zero M)
    \<and> (is_finite (js_div js_zero M) \<longrightarrow> is_finite js_zero)"
  by (simp add: valof_div_zero) (simp add: js_zero_def)

lemma zero_product_value:
  "valof js_zero = valof (js_mul js_zero r)
    \<and> (is_finite (js_mul js_zero r) \<longrightarrow> is_finite js_zero)"
  by (simp add: valof_mul_zero) (simp add: js_zero_def)

lemma square_sign: "isNaN (js_mul a a) \<or> nonneg (js_mul a a)"
  using nonneg_square[of a] isNaN_square[of a] by blast

lemma add_sign:
  "isNaN x \<or> nonneg x \<Longrightarrow> isNaN y \<or> nonneg y
      \<Longrightarrow> isNaN (js_add x y) \<or> nonneg (js_add x y)"
  using nonneg_add[of x y] isNaN_add_left[of x y] isNaN_add_right[of y x] by blast

lemma js_add_zero_nonneg:
  assumes s: "isNaN t \<or> nonneg t" and d: "is_double t"
  shows "js_add t js_zero = t"
proof (cases t)
  case (Finite s m e)
  show ?thesis
  proof (cases "m = 0")
    case True
    with d Finite have "e = 0" by (simp add: is_double_def)
    moreover from s Finite have "\<not> s" by (simp add: nonneg_def)
    ultimately show ?thesis using True Finite by (simp add: js_zero_def sum_result_def signed_def)
  next
    case False
    with Finite have "truthy t" by simp
    with d show ?thesis unfolding js_zero_def by (rule js_add_zero_right)
  qed
qed (simp_all add: js_zero_def)

lemma js_gt_zero_of_valof: "0 < valof x \<Longrightarrow> js_gt x js_zero"
proof (cases x)
  case (Finite s m e)
  assume p: "0 < valof x"
  have "\<not> s"
  proof
    assume s
    then have "valof x = - (real m * 2 powi e)" by (simp add: Finite)
    moreover have "0 \<le> real m * 2 powi e" by simp
    ultimately show False using p by linarith
  qed
  moreover have "m \<noteq> 0" using p Finite by (rule_tac ccontr) simp
  ultimately show ?thesis by (simp add: Finite js_gt_def js_zero_def signed_def)
qed simp_all

lemma Vector2_magnitude_as_4:
  "Vector2_magnitude v
   = Vector4_magnitude \<lparr>x4 = x2 v, y4 = y2 v, z4 = js_zero, w4 = js_zero\<rparr>"
proof -
  define t where "t = js_add (js_mul (x2 v) (x2 v)) (js_mul (y2 v) (y2 v))"
  have s: "isNaN t \<or> nonneg t" unfolding t_def by (intro add_sign square_sign)
  have d: "is_double t" by (simp add: t_def)
  have "js_add (js_add t js_zero) js_zero = t"
    by (simp only: js_add_zero_nonneg[OF s d])
  then show ?thesis
    by (simp add: Vector2_magnitude_def Vector4_magnitude_def mul_zero_zero flip: t_def)
qed

lemma Vector3_magnitude_as_4:
  "Vector3_magnitude v
   = Vector4_magnitude \<lparr>x4 = x3 v, y4 = y3 v, z4 = z3 v, w4 = js_zero\<rparr>"
proof -
  define t where "t = js_add (js_add (js_mul (x3 v) (x3 v)) (js_mul (y3 v) (y3 v))) (js_mul (z3 v)
      (z3 v))"
  have s: "isNaN t \<or> nonneg t" unfolding t_def by (intro add_sign square_sign)
  have d: "is_double t" by (simp add: t_def)
  have "js_add t js_zero = t"
    by (simp only: js_add_zero_nonneg[OF s d])
  then show ?thesis
    by (simp add: Vector3_magnitude_def Vector4_magnitude_def mul_zero_zero flip: t_def)
qed

section \<open>normalized\<close>

lemma not_gt_zero_of_zero: "is_zero m \<Longrightarrow> \<not> js_gt m js_zero"
  by (cases m) (simp_all add: js_gt_def js_zero_def signed_def)

lemma quotient_not_NaN:
  "\<not> isNaN x \<Longrightarrow> is_finite m \<Longrightarrow> truthy m
      \<Longrightarrow> \<not> isNaN (js_div x m)"
  by (cases x; cases m) simp_all

lemma js_eq_stored: "\<not> isNaN q \<Longrightarrow> js_eq (init_field js_zero (Some q)) q"
  by (simp add: js_eq_refl js_eq_zero_any)

lemma stored_quotient:
  "\<not> isNaN x \<Longrightarrow> is_finite m \<Longrightarrow> truthy m \<Longrightarrow>
   js_eq (init_field js_zero (Some (js_div x m))) (js_div x m)"
  by (rule js_eq_stored) (rule quotient_not_NaN)

lemma isNaN_Vector2_magnitude: "isNaN (x2 v) \<or> isNaN (y2 v)
    \<Longrightarrow> isNaN (Vector2_magnitude v)"
  by (auto simp: Vector2_magnitude_def isNaN_sqrt isNaN_add_left isNaN_add_right isNaN_square)

lemma Vector2_magnitude_NaN: "\<not> isNaN (Vector2_magnitude v) \<Longrightarrow> no_NaN2 v"
  using isNaN_Vector2_magnitude[of v] by (auto simp: no_NaN2_def)

lemma isNaN_Vector3_magnitude: "isNaN (x3 v) \<or> isNaN (y3 v) \<or> isNaN (z3 v)
    \<Longrightarrow> isNaN (Vector3_magnitude v)"
  by (auto simp: Vector3_magnitude_def isNaN_sqrt isNaN_add_left isNaN_add_right isNaN_square)

lemma Vector3_magnitude_NaN: "\<not> isNaN (Vector3_magnitude v) \<Longrightarrow> no_NaN3 v"
  using isNaN_Vector3_magnitude[of v] by (auto simp: no_NaN3_def)

lemma isNaN_Vector4_magnitude: "isNaN (x4 v) \<or> isNaN (y4 v) \<or> isNaN (z4 v)
    \<or> isNaN (w4 v) \<Longrightarrow> isNaN (Vector4_magnitude v)"
  by (auto simp: Vector4_magnitude_def isNaN_sqrt isNaN_add_left isNaN_add_right isNaN_square)

lemma Vector4_magnitude_NaN: "\<not> isNaN (Vector4_magnitude v) \<Longrightarrow> no_NaN4 v"
  using isNaN_Vector4_magnitude[of v] by (auto simp: no_NaN4_def)


lemma Vector2_normalized_facts:
  "((js_gt (Vector2_magnitude v2) js_zero \<longrightarrow>
        Vector2_normalized v2
        = new_Vector2
            (Some (js_div (x2 v2) (Vector2_magnitude v2)))
            (Some (js_div (y2 v2) (Vector2_magnitude v2))))
   \<and> (js_gt (Vector2_magnitude v2) js_zero \<and> is_finite (Vector2_magnitude v2)
       \<longrightarrow>
        js_eq (x2 (Vector2_normalized v2)) (js_div (x2 v2) (Vector2_magnitude v2))
        \<and> js_eq (y2 (Vector2_normalized v2)) (js_div (y2 v2) (Vector2_magnitude v2)))
   \<and> (\<not> js_gt (Vector2_magnitude q2) js_zero \<longrightarrow>
        Vector2_normalized q2 = Vector2_zero)
   \<and> (is_zero (Vector2_magnitude q2) \<longrightarrow>
        Vector2_normalized q2 = Vector2_zero)
   \<and> no_NaN2 (Vector2_normalized v2)
   \<and> Vector2_zero = \<lparr>x2 = js_zero, y2 = js_zero\<rparr>)"
proof -
  have p0: "js_gt (Vector2_magnitude v2) js_zero \<Longrightarrow>
      Vector2_normalized v2
        = new_Vector2
            (Some (js_div (x2 v2) (Vector2_magnitude v2)))
            (Some (js_div (y2 v2) (Vector2_magnitude v2)))"
    by (simp add: Vector2_normalized_def Let_def del: init_field_Some)
  have p1: "js_gt (Vector2_magnitude v2) js_zero
      \<Longrightarrow> is_finite (Vector2_magnitude v2) \<Longrightarrow>
      js_eq (x2 (Vector2_normalized v2)) (js_div (x2 v2) (Vector2_magnitude v2))
        \<and> js_eq (y2 (Vector2_normalized v2)) (js_div (y2 v2) (Vector2_magnitude v2))"
  proof -
    assume g: "js_gt (Vector2_magnitude v2) js_zero" and f: "is_finite (Vector2_magnitude v2)"
    from g have t: "truthy (Vector2_magnitude v2)" by (simp add: js_gt_zero_positive)
    then have "\<not> isNaN (Vector2_magnitude v2)" by (rule truthy_not_NaN)
    then have "no_NaN2 v2" by (rule Vector2_magnitude_NaN)
    then show ?thesis
      using g f t by (simp add: Vector2_normalized_def Let_def new_Vector2_def no_NaN2_def
          stored_quotient del: init_field_Some)
  qed
  have p2: "\<not> js_gt (Vector2_magnitude q2) js_zero \<Longrightarrow>
      Vector2_normalized q2 = Vector2_zero"
    by (simp add: Vector2_normalized_def Let_def)
  have p3: "is_zero (Vector2_magnitude q2) \<Longrightarrow>
      Vector2_normalized q2 = Vector2_zero"
    using not_gt_zero_of_zero[of "Vector2_magnitude q2"]
        by (simp add: Vector2_normalized_def Let_def)
  have p4: "no_NaN2 (Vector2_normalized v2)"
    by simp
  have p5: "Vector2_zero = \<lparr>x2 = js_zero, y2 = js_zero\<rparr>"
    by (simp add: Vector2_zero_def new_Vector2_def js_zero_def)
  from p0 p1 p2 p3 p4 p5 show ?thesis by blast
qed

lemma Vector3_normalized_facts:
  "((js_gt (Vector3_magnitude v3) js_zero \<longrightarrow>
        Vector3_normalized v3
        = new_Vector3
            (Some (js_div (x3 v3) (Vector3_magnitude v3)))
            (Some (js_div (y3 v3) (Vector3_magnitude v3)))
            (Some (js_div (z3 v3) (Vector3_magnitude v3))))
   \<and> (js_gt (Vector3_magnitude v3) js_zero \<and> is_finite (Vector3_magnitude v3)
       \<longrightarrow>
        js_eq (x3 (Vector3_normalized v3)) (js_div (x3 v3) (Vector3_magnitude v3))
        \<and> js_eq (y3 (Vector3_normalized v3)) (js_div (y3 v3) (Vector3_magnitude v3))
        \<and> js_eq (z3 (Vector3_normalized v3)) (js_div (z3 v3) (Vector3_magnitude v3)))
   \<and> (\<not> js_gt (Vector3_magnitude q3) js_zero \<longrightarrow>
        Vector3_normalized q3 = Vector3_zero)
   \<and> (is_zero (Vector3_magnitude q3) \<longrightarrow>
        Vector3_normalized q3 = Vector3_zero)
   \<and> no_NaN3 (Vector3_normalized v3)
   \<and> Vector3_zero = \<lparr>x3 = js_zero, y3 = js_zero, z3 = js_zero\<rparr>)"
proof -
  have p0: "js_gt (Vector3_magnitude v3) js_zero \<Longrightarrow>
      Vector3_normalized v3
        = new_Vector3
            (Some (js_div (x3 v3) (Vector3_magnitude v3)))
            (Some (js_div (y3 v3) (Vector3_magnitude v3)))
            (Some (js_div (z3 v3) (Vector3_magnitude v3)))"
    by (simp add: Vector3_normalized_def Let_def del: init_field_Some)
  have p1: "js_gt (Vector3_magnitude v3) js_zero
      \<Longrightarrow> is_finite (Vector3_magnitude v3) \<Longrightarrow>
      js_eq (x3 (Vector3_normalized v3)) (js_div (x3 v3) (Vector3_magnitude v3))
        \<and> js_eq (y3 (Vector3_normalized v3)) (js_div (y3 v3) (Vector3_magnitude v3))
        \<and> js_eq (z3 (Vector3_normalized v3)) (js_div (z3 v3) (Vector3_magnitude v3))"
  proof -
    assume g: "js_gt (Vector3_magnitude v3) js_zero" and f: "is_finite (Vector3_magnitude v3)"
    from g have t: "truthy (Vector3_magnitude v3)" by (simp add: js_gt_zero_positive)
    then have "\<not> isNaN (Vector3_magnitude v3)" by (rule truthy_not_NaN)
    then have "no_NaN3 v3" by (rule Vector3_magnitude_NaN)
    then show ?thesis
      using g f t by (simp add: Vector3_normalized_def Let_def new_Vector3_def no_NaN3_def
          stored_quotient del: init_field_Some)
  qed
  have p2: "\<not> js_gt (Vector3_magnitude q3) js_zero \<Longrightarrow>
      Vector3_normalized q3 = Vector3_zero"
    by (simp add: Vector3_normalized_def Let_def)
  have p3: "is_zero (Vector3_magnitude q3) \<Longrightarrow>
      Vector3_normalized q3 = Vector3_zero"
    using not_gt_zero_of_zero[of "Vector3_magnitude q3"]
        by (simp add: Vector3_normalized_def Let_def)
  have p4: "no_NaN3 (Vector3_normalized v3)"
    by simp
  have p5: "Vector3_zero = \<lparr>x3 = js_zero, y3 = js_zero, z3 = js_zero\<rparr>"
    by (simp add: Vector3_zero_def new_Vector3_def js_zero_def)
  from p0 p1 p2 p3 p4 p5 show ?thesis by blast
qed

lemma Vector4_normalized_facts:
  "((js_gt (Vector4_magnitude v4) js_zero \<longrightarrow>
        Vector4_normalized v4
        = new_Vector4
            (Some (js_div (x4 v4) (Vector4_magnitude v4)))
            (Some (js_div (y4 v4) (Vector4_magnitude v4)))
            (Some (js_div (z4 v4) (Vector4_magnitude v4)))
            (Some (js_div (w4 v4) (Vector4_magnitude v4))))
   \<and> (js_gt (Vector4_magnitude v4) js_zero \<and> is_finite (Vector4_magnitude v4)
       \<longrightarrow>
        js_eq (x4 (Vector4_normalized v4)) (js_div (x4 v4) (Vector4_magnitude v4))
        \<and> js_eq (y4 (Vector4_normalized v4)) (js_div (y4 v4) (Vector4_magnitude v4))
        \<and> js_eq (z4 (Vector4_normalized v4)) (js_div (z4 v4) (Vector4_magnitude v4)))
   \<and> (\<not> js_gt (Vector4_magnitude q4) js_zero \<longrightarrow>
        Vector4_normalized q4 = Vector4_zero)
   \<and> (is_zero (Vector4_magnitude q4) \<longrightarrow>
        Vector4_normalized q4 = Vector4_zero)
   \<and> no_NaN4 (Vector4_normalized v4))"
proof -
  have p0: "js_gt (Vector4_magnitude v4) js_zero \<Longrightarrow>
      Vector4_normalized v4
        = new_Vector4
            (Some (js_div (x4 v4) (Vector4_magnitude v4)))
            (Some (js_div (y4 v4) (Vector4_magnitude v4)))
            (Some (js_div (z4 v4) (Vector4_magnitude v4)))
            (Some (js_div (w4 v4) (Vector4_magnitude v4)))"
    by (simp add: Vector4_normalized_def Let_def del: init_field_Some)
  have p1: "js_gt (Vector4_magnitude v4) js_zero
      \<Longrightarrow> is_finite (Vector4_magnitude v4) \<Longrightarrow>
      js_eq (x4 (Vector4_normalized v4)) (js_div (x4 v4) (Vector4_magnitude v4))
        \<and> js_eq (y4 (Vector4_normalized v4)) (js_div (y4 v4) (Vector4_magnitude v4))
        \<and> js_eq (z4 (Vector4_normalized v4)) (js_div (z4 v4) (Vector4_magnitude v4))"
  proof -
    assume g: "js_gt (Vector4_magnitude v4) js_zero" and f: "is_finite (Vector4_magnitude v4)"
    from g have t: "truthy (Vector4_magnitude v4)" by (simp add: js_gt_zero_positive)
    then have "\<not> isNaN (Vector4_magnitude v4)" by (rule truthy_not_NaN)
    then have "no_NaN4 v4" by (rule Vector4_magnitude_NaN)
    then show ?thesis
      using g f t by (simp add: Vector4_normalized_def Let_def new_Vector4_def no_NaN4_def
          stored_quotient del: init_field_Some)
  qed
  have p2: "\<not> js_gt (Vector4_magnitude q4) js_zero \<Longrightarrow>
      Vector4_normalized q4 = Vector4_zero"
    by (simp add: Vector4_normalized_def Let_def)
  have p3: "is_zero (Vector4_magnitude q4) \<Longrightarrow>
      Vector4_normalized q4 = Vector4_zero"
    using not_gt_zero_of_zero[of "Vector4_magnitude q4"]
        by (simp add: Vector4_normalized_def Let_def)
  have p4: "no_NaN4 (Vector4_normalized v4)"
    by simp
  from p0 p1 p2 p3 p4 show ?thesis by blast
qed


text \<open>
  C6 as stated fails for a vector whose squares overflow: \<open>(2^600, 0)\<close> has the magnitude
  \<open>+Infinity\<close>, which is above 0, every quotient is 0, and the normalised vector is
  \<open>(0, 0)\<close>, of magnitude 0.
\<close>

theorem normalized_of_large_vector_is_zero:
  "doubles2 \<lparr>x2 = Finite False 1 600, y2 = js_zero\<rparr>
   \<and> Vector2_magnitude \<lparr>x2 = Finite False 1 600, y2 = js_zero\<rparr> = Infinity False
   \<and> js_gt (Vector2_magnitude \<lparr>x2 = Finite False 1 600, y2 = js_zero\<rparr>) js_zero
   \<and> Vector2_normalized \<lparr>x2 = Finite False 1 600, y2 = js_zero\<rparr>
       = \<lparr>x2 = js_zero, y2 = js_zero\<rparr>
   \<and> Vector2_magnitude (Vector2_normalized \<lparr>x2 = Finite False 1 600, y2
       = js_zero\<rparr>)
       = js_zero"
  by (simp add: doubles2_def is_double_def Vector2_magnitude_def Vector2_normalized_def
      new_Vector2_def Let_def number_eval)

lemma normalized_example:
  "Vector3_normalized \<lparr>x3 = Finite False 3 0, y3 = Finite False 1 2, z3 = js_zero\<rparr>
   = \<lparr>x3 = Finite False 5404319552844595 (- 53), y3 = Finite False 3602879701896397 (- 52),
      z3 = js_zero\<rparr>
   \<and> Vector3_magnitude
        (Vector3_normalized
           \<lparr>x3 = Finite False 3 0, y3 = Finite False 1 2, z3 = js_zero\<rparr>)
       = js_one"
  by (simp add: Vector3_magnitude_def Vector3_normalized_def new_Vector3_def Let_def number_eval)

lemma Vector2_normalized_magnitude:
  assumes f: "is_finite (Vector2_magnitude v)"
    and lo: "1 / 2 ^ 511 \<le> valof (Vector2_magnitude v)"
  shows "is_finite (Vector2_magnitude (Vector2_normalized v))
    \<and> \<bar>valof (Vector2_magnitude (Vector2_normalized v)) - 1\<bar> \<le> 1 / 2 ^ 48
    \<and> \<bar>valof (x2 (Vector2_normalized v)) - valof (x2 v) / valof (Vector2_magnitude
        v)\<bar>
        \<le> \<bar>valof (x2 v) / valof (Vector2_magnitude v)\<bar> / 2 ^ 52 + 1 / 2 ^ 1075
    \<and> \<bar>valof (y2 (Vector2_normalized v)) - valof (y2 v) / valof (Vector2_magnitude
        v)\<bar>
        \<le> \<bar>valof (y2 v) / valof (Vector2_magnitude v)\<bar> / 2 ^ 52 + 1 / 2 ^ 1075"
proof -
  define M where "M = Vector2_magnitude v"
  define pa where "pa = init_field js_zero (Some (js_div (x2 v) M))"
  define pb where "pb = init_field js_zero (Some (js_div (y2 v) M))"
  have M4: "M = Vector4_magnitude \<lparr>x4 = x2 v, y4 = y2 v, z4 = js_zero, w4 = js_zero\<rparr>"
    unfolding M_def by (rule Vector2_magnitude_as_4)
  have "0 < valof M" using lo unfolding M_def by (rule less_le_trans[rotated]) simp
  then have gt: "js_gt M js_zero" by (rule js_gt_zero_of_valof)
  have n: "Vector2_normalized v = \<lparr>x2 = pa, y2 = pb\<rparr>"
    using gt by (simp add: Vector2_normalized_def Let_def new_Vector2_def pa_def pb_def
        flip: M_def del: init_field_Some)
  have R4: "Vector2_magnitude (Vector2_normalized v)
      = Vector4_magnitude \<lparr>x4 = pa, y4 = pb, z4 = js_zero, w4 = js_zero\<rparr>"
    by (simp add: n Vector2_magnitude_as_4)
  have va: "valof pa = valof (js_div (x2 v) M)
      \<and> (is_finite (js_div (x2 v) M) \<longrightarrow> is_finite pa)"
    unfolding pa_def by (rule stored_value)
  have vb: "valof pb = valof (js_div (y2 v) M)
      \<and> (is_finite (js_div (y2 v) M) \<longrightarrow> is_finite pb)"
    unfolding pb_def by (rule stored_value)
  note core = normalized_core[of "x2 v" "y2 v" js_zero js_zero pa pb js_zero js_zero,
      folded M4, OF f[folded M_def] lo[folded M_def] va vb zero_quotient_value zero_quotient_value,
      folded R4]
  have sel: "x2 (Vector2_normalized v) = pa" "y2 (Vector2_normalized v) = pb"
    by (simp_all add: n)
  from core(1) core(2)[folded va[THEN conjunct1]] core(3)[folded vb[THEN conjunct1]]
  show ?thesis unfolding sel M_def by blast
qed

lemma Vector3_normalized_magnitude:
  assumes f: "is_finite (Vector3_magnitude v)"
    and lo: "1 / 2 ^ 511 \<le> valof (Vector3_magnitude v)"
  shows "is_finite (Vector3_magnitude (Vector3_normalized v))
    \<and> \<bar>valof (Vector3_magnitude (Vector3_normalized v)) - 1\<bar> \<le> 1 / 2 ^ 48
    \<and> \<bar>valof (x3 (Vector3_normalized v)) - valof (x3 v) / valof (Vector3_magnitude
        v)\<bar>
        \<le> \<bar>valof (x3 v) / valof (Vector3_magnitude v)\<bar> / 2 ^ 52 + 1 / 2 ^ 1075
    \<and> \<bar>valof (y3 (Vector3_normalized v)) - valof (y3 v) / valof (Vector3_magnitude
        v)\<bar>
        \<le> \<bar>valof (y3 v) / valof (Vector3_magnitude v)\<bar> / 2 ^ 52 + 1 / 2 ^ 1075
    \<and> \<bar>valof (z3 (Vector3_normalized v)) - valof (z3 v) / valof (Vector3_magnitude
        v)\<bar>
        \<le> \<bar>valof (z3 v) / valof (Vector3_magnitude v)\<bar> / 2 ^ 52 + 1 / 2 ^ 1075"
proof -
  define M where "M = Vector3_magnitude v"
  define pa where "pa = init_field js_zero (Some (js_div (x3 v) M))"
  define pb where "pb = init_field js_zero (Some (js_div (y3 v) M))"
  define pc where "pc = init_field js_zero (Some (js_div (z3 v) M))"
  have M4: "M = Vector4_magnitude \<lparr>x4 = x3 v, y4 = y3 v, z4 = z3 v, w4 = js_zero\<rparr>"
    unfolding M_def by (rule Vector3_magnitude_as_4)
  have "0 < valof M" using lo unfolding M_def by (rule less_le_trans[rotated]) simp
  then have gt: "js_gt M js_zero" by (rule js_gt_zero_of_valof)
  have n: "Vector3_normalized v = \<lparr>x3 = pa, y3 = pb, z3 = pc\<rparr>"
    using gt by (simp add: Vector3_normalized_def Let_def new_Vector3_def pa_def pb_def pc_def
        flip: M_def del: init_field_Some)
  have R4: "Vector3_magnitude (Vector3_normalized v)
      = Vector4_magnitude \<lparr>x4 = pa, y4 = pb, z4 = pc, w4 = js_zero\<rparr>"
    by (simp add: n Vector3_magnitude_as_4)
  have va: "valof pa = valof (js_div (x3 v) M)
      \<and> (is_finite (js_div (x3 v) M) \<longrightarrow> is_finite pa)"
    unfolding pa_def by (rule stored_value)
  have vb: "valof pb = valof (js_div (y3 v) M)
      \<and> (is_finite (js_div (y3 v) M) \<longrightarrow> is_finite pb)"
    unfolding pb_def by (rule stored_value)
  have vc: "valof pc = valof (js_div (z3 v) M)
      \<and> (is_finite (js_div (z3 v) M) \<longrightarrow> is_finite pc)"
    unfolding pc_def by (rule stored_value)
  note core = normalized_core[of "x3 v" "y3 v" "z3 v" js_zero pa pb pc js_zero,
      folded M4, OF f[folded M_def] lo[folded M_def] va vb vc zero_quotient_value,
      folded R4]
  have sel: "x3 (Vector3_normalized v) = pa" "y3 (Vector3_normalized v)
      = pb" "z3 (Vector3_normalized v) = pc"
    by (simp_all add: n)
  from core(1) core(2)[folded va[THEN conjunct1]] core(3)[folded vb[THEN conjunct1]]
      core(4)[folded vc[THEN conjunct1]]
  show ?thesis unfolding sel M_def by blast
qed

lemma Vector4_normalized_magnitude:
  assumes f: "is_finite (Vector4_magnitude v)"
    and lo: "1 / 2 ^ 511 \<le> valof (Vector4_magnitude v)"
    and tw: "truthy (js_div (w4 v) (Vector4_magnitude v))"
  shows "is_finite (Vector4_magnitude (Vector4_normalized v))
    \<and> \<bar>valof (Vector4_magnitude (Vector4_normalized v)) - 1\<bar> \<le> 1 / 2 ^ 48
    \<and> \<bar>valof (x4 (Vector4_normalized v)) - valof (x4 v) / valof (Vector4_magnitude
        v)\<bar>
        \<le> \<bar>valof (x4 v) / valof (Vector4_magnitude v)\<bar> / 2 ^ 52 + 1 / 2 ^ 1075
    \<and> \<bar>valof (y4 (Vector4_normalized v)) - valof (y4 v) / valof (Vector4_magnitude
        v)\<bar>
        \<le> \<bar>valof (y4 v) / valof (Vector4_magnitude v)\<bar> / 2 ^ 52 + 1 / 2 ^ 1075
    \<and> \<bar>valof (z4 (Vector4_normalized v)) - valof (z4 v) / valof (Vector4_magnitude
        v)\<bar>
        \<le> \<bar>valof (z4 v) / valof (Vector4_magnitude v)\<bar> / 2 ^ 52 + 1 / 2 ^ 1075
    \<and> \<bar>valof (w4 (Vector4_normalized v)) - valof (w4 v) / valof (Vector4_magnitude
        v)\<bar>
        \<le> \<bar>valof (w4 v) / valof (Vector4_magnitude v)\<bar> / 2 ^ 52 + 1 / 2 ^ 1075"
proof -
  define M where "M = Vector4_magnitude v"
  define pa where "pa = init_field js_zero (Some (js_div (x4 v) M))"
  define pb where "pb = init_field js_zero (Some (js_div (y4 v) M))"
  define pc where "pc = init_field js_zero (Some (js_div (z4 v) M))"
  define pd where "pd = init_field js_one (Some (js_div (w4 v) M))"
  have M4: "M = Vector4_magnitude \<lparr>x4 = x4 v, y4 = y4 v, z4 = z4 v, w4 = w4 v\<rparr>"
    unfolding M_def by (simp add: Vector4_magnitude_def)
  have "0 < valof M" using lo unfolding M_def by (rule less_le_trans[rotated]) simp
  then have gt: "js_gt M js_zero" by (rule js_gt_zero_of_valof)
  have n: "Vector4_normalized v = \<lparr>x4 = pa, y4 = pb, z4 = pc, w4 = pd\<rparr>"
    using gt by (simp add: Vector4_normalized_def Let_def new_Vector4_def pa_def pb_def pc_def
        pd_def
        flip: M_def del: init_field_Some)
  have R4: "Vector4_magnitude (Vector4_normalized v)
      = Vector4_magnitude \<lparr>x4 = pa, y4 = pb, z4 = pc, w4 = pd\<rparr>"
    by (simp only: n)
  have va: "valof pa = valof (js_div (x4 v) M)
      \<and> (is_finite (js_div (x4 v) M) \<longrightarrow> is_finite pa)"
    unfolding pa_def by (rule stored_value)
  have vb: "valof pb = valof (js_div (y4 v) M)
      \<and> (is_finite (js_div (y4 v) M) \<longrightarrow> is_finite pb)"
    unfolding pb_def by (rule stored_value)
  have vc: "valof pc = valof (js_div (z4 v) M)
      \<and> (is_finite (js_div (z4 v) M) \<longrightarrow> is_finite pc)"
    unfolding pc_def by (rule stored_value)
  have vd: "valof pd = valof (js_div (w4 v) M)
      \<and> (is_finite (js_div (w4 v) M) \<longrightarrow> is_finite pd)"
    unfolding pd_def using tw[folded M_def] by (rule stored_truthy_value)
  note core = normalized_core[of "x4 v" "y4 v" "z4 v" "w4 v" pa pb pc pd,
      folded M4, OF f[folded M_def] lo[folded M_def] va vb vc vd,
      folded R4]
  have sel: "x4 (Vector4_normalized v) = pa" "y4 (Vector4_normalized v)
      = pb" "z4 (Vector4_normalized v) = pc" "w4 (Vector4_normalized v) = pd"
    by (simp_all add: n)
  from core(1) core(2)[folded va[THEN conjunct1]] core(3)[folded vb[THEN conjunct1]]
      core(4)[folded vc[THEN conjunct1]] core(5)[folded vd[THEN conjunct1]]
  show ?thesis unfolding sel M_def by blast
qed

text \<open>
  Below that range the bound fails as well.  The square of \<open>3 * 2^-538\<close> is
  \<open>2.25 * 2^-1074\<close>, which is stored as \<open>2 * 2^-1074\<close>; the magnitude is too small by the
  factor 1.06, and so the normalised vector is too long by it.
\<close>

lemma normalized_of_tiny_vector:
  "Vector2_magnitude \<lparr>x2 = Finite False 3 (- 538), y2 = js_zero\<rparr>
     = Finite False 6369051672525773 (- 589)
   \<and> Vector2_magnitude (Vector2_normalized \<lparr>x2 = Finite False 3 (- 538), y2
       = js_zero\<rparr>)
     = Finite False 4776788754394329 (- 52)
   \<and> 1 + 1 / 2 ^ 5 < valof (Finite False 4776788754394329 (- 52))"
  by (simp add: Vector2_magnitude_def Vector2_normalized_def new_Vector2_def Let_def number_eval)

text \<open>
  C6, amended.  For the three classes: if the magnitude of \<open>v\<close> is above 0, \<open>v.normalized\<close> is
  the vector the constructor builds from the components divided by the magnitude, and
  where the magnitude is finite its \<open>x\<close>, \<open>y\<close>, \<open>z\<close> compare equal to those quotients;
  if the magnitude is not above 0, so if it is 0, \<open>v.normalized\<close> is the value of the \<open>zero\<close>
  accessor, which is all zeros for \<open>Vector2\<close> and \<open>Vector3\<close>.  The
      accessor is a total
  function, with no error case, and its result has no \<open>NaN\<close> component.  Where the
  magnitude of \<open>v\<close> is finite and at least \<open>2^-511\<close>, so that its square
      has neither
  overflowed nor lost bits to underflow, the magnitude of \<open>v.normalized\<close> is finite and
  within \<open>2^-48\<close> of 1, and every component of \<open>v.normalized\<close> is within
      the fraction
  \<open>2^-52\<close>, and \<open>2^-1075\<close>, of the exact quotient of the component of
      \<open>v\<close> by the magnitude;
  for \<open>Vector4\<close> this is under the condition that the quotient for \<open>w\<close> is
      not zero, a zero
  being replaced by the default 1.  \<open>Vector3(3, 4, 0)\<close> normalises to \<open>(0.6,
      0.8, 0)\<close>, of
  magnitude exactly 1.
\<close>

theorem normalized_cases:
  "((js_gt (Vector2_magnitude v2) js_zero \<longrightarrow>
         Vector2_normalized v2
         = new_Vector2
             (Some (js_div (x2 v2) (Vector2_magnitude v2)))
             (Some (js_div (y2 v2) (Vector2_magnitude v2))))
    \<and> (js_gt (Vector2_magnitude v2) js_zero \<and> is_finite (Vector2_magnitude v2)
        \<longrightarrow>
         js_eq (x2 (Vector2_normalized v2)) (js_div (x2 v2) (Vector2_magnitude v2))
         \<and> js_eq (y2 (Vector2_normalized v2)) (js_div (y2 v2) (Vector2_magnitude v2)))
    \<and> (\<not> js_gt (Vector2_magnitude q2) js_zero \<longrightarrow>
         Vector2_normalized q2 = Vector2_zero)
    \<and> (is_zero (Vector2_magnitude q2) \<longrightarrow>
         Vector2_normalized q2 = Vector2_zero)
    \<and> no_NaN2 (Vector2_normalized v2)
    \<and> Vector2_zero = \<lparr>x2 = js_zero, y2 = js_zero\<rparr>)
   \<and> ((js_gt (Vector3_magnitude v3) js_zero \<longrightarrow>
         Vector3_normalized v3
         = new_Vector3
             (Some (js_div (x3 v3) (Vector3_magnitude v3)))
             (Some (js_div (y3 v3) (Vector3_magnitude v3)))
             (Some (js_div (z3 v3) (Vector3_magnitude v3))))
    \<and> (js_gt (Vector3_magnitude v3) js_zero \<and> is_finite (Vector3_magnitude v3)
        \<longrightarrow>
         js_eq (x3 (Vector3_normalized v3)) (js_div (x3 v3) (Vector3_magnitude v3))
         \<and> js_eq (y3 (Vector3_normalized v3)) (js_div (y3 v3) (Vector3_magnitude v3))
         \<and> js_eq (z3 (Vector3_normalized v3)) (js_div (z3 v3) (Vector3_magnitude v3)))
    \<and> (\<not> js_gt (Vector3_magnitude q3) js_zero \<longrightarrow>
         Vector3_normalized q3 = Vector3_zero)
    \<and> (is_zero (Vector3_magnitude q3) \<longrightarrow>
         Vector3_normalized q3 = Vector3_zero)
    \<and> no_NaN3 (Vector3_normalized v3)
    \<and> Vector3_zero = \<lparr>x3 = js_zero, y3 = js_zero, z3 = js_zero\<rparr>)
   \<and> ((js_gt (Vector4_magnitude v4) js_zero \<longrightarrow>
         Vector4_normalized v4
         = new_Vector4
             (Some (js_div (x4 v4) (Vector4_magnitude v4)))
             (Some (js_div (y4 v4) (Vector4_magnitude v4)))
             (Some (js_div (z4 v4) (Vector4_magnitude v4)))
             (Some (js_div (w4 v4) (Vector4_magnitude v4))))
    \<and> (js_gt (Vector4_magnitude v4) js_zero \<and> is_finite (Vector4_magnitude v4)
        \<longrightarrow>
         js_eq (x4 (Vector4_normalized v4)) (js_div (x4 v4) (Vector4_magnitude v4))
         \<and> js_eq (y4 (Vector4_normalized v4)) (js_div (y4 v4) (Vector4_magnitude v4))
         \<and> js_eq (z4 (Vector4_normalized v4)) (js_div (z4 v4) (Vector4_magnitude v4)))
    \<and> (\<not> js_gt (Vector4_magnitude q4) js_zero \<longrightarrow>
         Vector4_normalized q4 = Vector4_zero)
    \<and> (is_zero (Vector4_magnitude q4) \<longrightarrow>
         Vector4_normalized q4 = Vector4_zero)
    \<and> no_NaN4 (Vector4_normalized v4))
   \<and> (is_finite (Vector2_magnitude v2)
    \<and> 1 / 2 ^ 511 \<le> valof (Vector2_magnitude v2)
    \<longrightarrow>
      is_finite (Vector2_magnitude (Vector2_normalized v2))
      \<and> \<bar>valof (Vector2_magnitude (Vector2_normalized v2)) - 1\<bar> \<le> 1 / 2 ^ 48
      \<and> \<bar>valof (x2 (Vector2_normalized v2)) - valof (x2 v2) / valof (Vector2_magnitude
          v2)\<bar>
        \<le> \<bar>valof (x2 v2) / valof (Vector2_magnitude v2)\<bar> / 2 ^ 52 + 1 / 2 ^ 1075
      \<and> \<bar>valof (y2 (Vector2_normalized v2)) - valof (y2 v2) / valof (Vector2_magnitude
          v2)\<bar>
        \<le> \<bar>valof (y2 v2) / valof (Vector2_magnitude v2)\<bar> / 2 ^ 52 + 1 / 2 ^ 1075)
   \<and> (is_finite (Vector3_magnitude v3)
    \<and> 1 / 2 ^ 511 \<le> valof (Vector3_magnitude v3)
    \<longrightarrow>
      is_finite (Vector3_magnitude (Vector3_normalized v3))
      \<and> \<bar>valof (Vector3_magnitude (Vector3_normalized v3)) - 1\<bar> \<le> 1 / 2 ^ 48
      \<and> \<bar>valof (x3 (Vector3_normalized v3)) - valof (x3 v3) / valof (Vector3_magnitude
          v3)\<bar>
        \<le> \<bar>valof (x3 v3) / valof (Vector3_magnitude v3)\<bar> / 2 ^ 52 + 1 / 2 ^ 1075
      \<and> \<bar>valof (y3 (Vector3_normalized v3)) - valof (y3 v3) / valof (Vector3_magnitude
          v3)\<bar>
        \<le> \<bar>valof (y3 v3) / valof (Vector3_magnitude v3)\<bar> / 2 ^ 52 + 1 / 2 ^ 1075
      \<and> \<bar>valof (z3 (Vector3_normalized v3)) - valof (z3 v3) / valof (Vector3_magnitude
          v3)\<bar>
        \<le> \<bar>valof (z3 v3) / valof (Vector3_magnitude v3)\<bar> / 2 ^ 52 + 1 / 2 ^ 1075)
   \<and> (is_finite (Vector4_magnitude v4)
    \<and> 1 / 2 ^ 511 \<le> valof (Vector4_magnitude v4)
    \<and> truthy (js_div (w4 v4) (Vector4_magnitude v4))
    \<longrightarrow>
      is_finite (Vector4_magnitude (Vector4_normalized v4))
      \<and> \<bar>valof (Vector4_magnitude (Vector4_normalized v4)) - 1\<bar> \<le> 1 / 2 ^ 48
      \<and> \<bar>valof (x4 (Vector4_normalized v4)) - valof (x4 v4) / valof (Vector4_magnitude
          v4)\<bar>
        \<le> \<bar>valof (x4 v4) / valof (Vector4_magnitude v4)\<bar> / 2 ^ 52 + 1 / 2 ^ 1075
      \<and> \<bar>valof (y4 (Vector4_normalized v4)) - valof (y4 v4) / valof (Vector4_magnitude
          v4)\<bar>
        \<le> \<bar>valof (y4 v4) / valof (Vector4_magnitude v4)\<bar> / 2 ^ 52 + 1 / 2 ^ 1075
      \<and> \<bar>valof (z4 (Vector4_normalized v4)) - valof (z4 v4) / valof (Vector4_magnitude
          v4)\<bar>
        \<le> \<bar>valof (z4 v4) / valof (Vector4_magnitude v4)\<bar> / 2 ^ 52 + 1 / 2 ^ 1075
      \<and> \<bar>valof (w4 (Vector4_normalized v4)) - valof (w4 v4) / valof (Vector4_magnitude
          v4)\<bar>
        \<le> \<bar>valof (w4 v4) / valof (Vector4_magnitude v4)\<bar> / 2 ^ 52 + 1 / 2 ^ 1075)
   \<and> (Vector3_normalized \<lparr>x3 = Finite False 3 0, y3 = Finite False 1 2, z3
       = js_zero\<rparr>
       = \<lparr>x3 = Finite False 5404319552844595 (- 53),
          y3 = Finite False 3602879701896397 (- 52), z3 = js_zero\<rparr>
    \<and> Vector3_magnitude
         (Vector3_normalized \<lparr>x3 = Finite False 3 0, y3 = Finite False 1 2, z3
             = js_zero\<rparr>)
        = js_one)"
proof -
  have b2: "(is_finite (Vector2_magnitude v2)
      \<and> 1 / 2 ^ 511 \<le> valof (Vector2_magnitude v2)
      \<longrightarrow>
        is_finite (Vector2_magnitude (Vector2_normalized v2))
        \<and> \<bar>valof (Vector2_magnitude (Vector2_normalized v2)) - 1\<bar> \<le> 1 / 2 ^ 48
        \<and> \<bar>valof (x2 (Vector2_normalized v2)) - valof (x2 v2) / valof (Vector2_magnitude
            v2)\<bar>
         \<le> \<bar>valof (x2 v2) / valof (Vector2_magnitude v2)\<bar> / 2 ^ 52 + 1 / 2 ^ 1075
        \<and> \<bar>valof (y2 (Vector2_normalized v2)) - valof (y2 v2) / valof (Vector2_magnitude
            v2)\<bar>
         \<le> \<bar>valof (y2 v2) / valof (Vector2_magnitude v2)\<bar> / 2 ^ 52 + 1 / 2 ^ 1075)"
    using Vector2_normalized_magnitude[of v2] by blast
  have b3: "(is_finite (Vector3_magnitude v3)
      \<and> 1 / 2 ^ 511 \<le> valof (Vector3_magnitude v3)
      \<longrightarrow>
        is_finite (Vector3_magnitude (Vector3_normalized v3))
        \<and> \<bar>valof (Vector3_magnitude (Vector3_normalized v3)) - 1\<bar> \<le> 1 / 2 ^ 48
        \<and> \<bar>valof (x3 (Vector3_normalized v3)) - valof (x3 v3) / valof (Vector3_magnitude
            v3)\<bar>
         \<le> \<bar>valof (x3 v3) / valof (Vector3_magnitude v3)\<bar> / 2 ^ 52 + 1 / 2 ^ 1075
        \<and> \<bar>valof (y3 (Vector3_normalized v3)) - valof (y3 v3) / valof (Vector3_magnitude
            v3)\<bar>
         \<le> \<bar>valof (y3 v3) / valof (Vector3_magnitude v3)\<bar> / 2 ^ 52 + 1 / 2 ^ 1075
        \<and> \<bar>valof (z3 (Vector3_normalized v3)) - valof (z3 v3) / valof (Vector3_magnitude
            v3)\<bar>
         \<le> \<bar>valof (z3 v3) / valof (Vector3_magnitude v3)\<bar> / 2 ^ 52 + 1 / 2 ^ 1075)"
    using Vector3_normalized_magnitude[of v3] by blast
  have b4: "(is_finite (Vector4_magnitude v4)
      \<and> 1 / 2 ^ 511 \<le> valof (Vector4_magnitude v4)
      \<and> truthy (js_div (w4 v4) (Vector4_magnitude v4))
      \<longrightarrow>
        is_finite (Vector4_magnitude (Vector4_normalized v4))
        \<and> \<bar>valof (Vector4_magnitude (Vector4_normalized v4)) - 1\<bar> \<le> 1 / 2 ^ 48
        \<and> \<bar>valof (x4 (Vector4_normalized v4)) - valof (x4 v4) / valof (Vector4_magnitude
            v4)\<bar>
         \<le> \<bar>valof (x4 v4) / valof (Vector4_magnitude v4)\<bar> / 2 ^ 52 + 1 / 2 ^ 1075
        \<and> \<bar>valof (y4 (Vector4_normalized v4)) - valof (y4 v4) / valof (Vector4_magnitude
            v4)\<bar>
         \<le> \<bar>valof (y4 v4) / valof (Vector4_magnitude v4)\<bar> / 2 ^ 52 + 1 / 2 ^ 1075
        \<and> \<bar>valof (z4 (Vector4_normalized v4)) - valof (z4 v4) / valof (Vector4_magnitude
            v4)\<bar>
         \<le> \<bar>valof (z4 v4) / valof (Vector4_magnitude v4)\<bar> / 2 ^ 52 + 1 / 2 ^ 1075
        \<and> \<bar>valof (w4 (Vector4_normalized v4)) - valof (w4 v4) / valof (Vector4_magnitude
            v4)\<bar>
         \<le> \<bar>valof (w4 v4) / valof (Vector4_magnitude v4)\<bar> / 2 ^ 52 + 1 / 2 ^ 1075)"
    using Vector4_normalized_magnitude[of v4] by blast
  show ?thesis
    by (rule conjI[OF Vector2_normalized_facts
        conjI[OF Vector3_normalized_facts
        conjI[OF Vector4_normalized_facts
        conjI[OF b2
        conjI[OF b3
        conjI[OF b4
        normalized_example]]]]]])
qed

theorem normalized_cases_witness:
  "js_gt (Vector2_magnitude (\<lparr>x2 = Finite False 3 0, y2 = Finite False 1 2\<rparr>)) js_zero
   \<and> is_finite (Vector2_magnitude (\<lparr>x2 = Finite False 3 0, y2
       = Finite False 1 2\<rparr>))
   \<and> \<not> js_gt (Vector2_magnitude (\<lparr>x2 = js_zero, y2 = js_zero\<rparr>)) js_zero
   \<and> is_zero (Vector2_magnitude (\<lparr>x2 = js_zero, y2 = js_zero\<rparr>))
   \<and> js_gt (Vector3_magnitude (\<lparr>x3 = Finite False 3 0, y3 = Finite False 1 2, z3
       = js_zero\<rparr>)) js_zero
   \<and> is_finite (Vector3_magnitude (\<lparr>x3 = Finite False 3 0, y3 = Finite False 1 2, z3
       = js_zero\<rparr>))
   \<and> \<not> js_gt (Vector3_magnitude (\<lparr>x3 = js_zero, y3 = js_zero, z3
       = js_zero\<rparr>)) js_zero
   \<and> is_zero (Vector3_magnitude (\<lparr>x3 = js_zero, y3 = js_zero, z3 = js_zero\<rparr>))
   \<and> js_gt (Vector4_magnitude (\<lparr>x4 = js_one, y4 = js_one, z4 = js_one, w4
       = js_one\<rparr>)) js_zero
   \<and> is_finite (Vector4_magnitude (\<lparr>x4 = js_one, y4 = js_one, z4 = js_one, w4
       = js_one\<rparr>))
   \<and> \<not> js_gt (Vector4_magnitude (\<lparr>x4 = js_zero, y4 = js_zero, z4 = js_zero, w4
       = js_zero\<rparr>)) js_zero
   \<and> is_zero (Vector4_magnitude (\<lparr>x4 = js_zero, y4 = js_zero, z4 = js_zero, w4
       = js_zero\<rparr>))
   \<and> 1 / 2 ^ 511 \<le> valof (Vector2_magnitude (\<lparr>x2 = Finite False 3 0, y2
       = Finite False 1 2\<rparr>))
   \<and> 1 / 2 ^ 511 \<le> valof (Vector3_magnitude (\<lparr>x3 = Finite False 3 0, y3
       = Finite False 1 2, z3 = js_zero\<rparr>))
   \<and> 1 / 2 ^ 511 \<le> valof (Vector4_magnitude (\<lparr>x4 = js_one, y4 = js_one, z4
       = js_one, w4 = js_one\<rparr>))
   \<and> truthy (js_div (w4 (\<lparr>x4 = js_one, y4 = js_one, z4 = js_one, w4
       = js_one\<rparr>)) (Vector4_magnitude (\<lparr>x4 = js_one, y4 = js_one, z4 = js_one, w4
           = js_one\<rparr>)))
   \<and> Vector2_normalized (\<lparr>x2 = Finite False 3 0, y2 = Finite False 1 2\<rparr>)
       = new_Vector2
           (Some (js_div (x2 (\<lparr>x2 = Finite False 3 0, y2
               = Finite False 1 2\<rparr>)) (Vector2_magnitude (\<lparr>x2 = Finite False 3 0, y2
                   = Finite False 1 2\<rparr>))))
           (Some (js_div (y2 (\<lparr>x2 = Finite False 3 0, y2
               = Finite False 1 2\<rparr>)) (Vector2_magnitude (\<lparr>x2 = Finite False 3 0, y2
                   = Finite False 1 2\<rparr>))))
   \<and> js_eq (x2 (Vector2_normalized (\<lparr>x2 = Finite False 3 0, y2
       = Finite False 1 2\<rparr>))) (js_div (x2 (\<lparr>x2 = Finite False 3 0, y2
           = Finite False 1 2\<rparr>)) (Vector2_magnitude (\<lparr>x2 = Finite False 3 0, y2
               = Finite False 1 2\<rparr>)))
   \<and> js_eq (y2 (Vector2_normalized (\<lparr>x2 = Finite False 3 0, y2
       = Finite False 1 2\<rparr>))) (js_div (y2 (\<lparr>x2 = Finite False 3 0, y2
           = Finite False 1 2\<rparr>)) (Vector2_magnitude (\<lparr>x2 = Finite False 3 0, y2
               = Finite False 1 2\<rparr>)))
   \<and> Vector2_normalized (\<lparr>x2 = js_zero, y2 = js_zero\<rparr>) = Vector2_zero
   \<and> Vector3_normalized (\<lparr>x3 = Finite False 3 0, y3 = Finite False 1 2, z3
       = js_zero\<rparr>)
       = new_Vector3
           (Some (js_div (x3 (\<lparr>x3 = Finite False 3 0, y3 = Finite False 1 2, z3
               = js_zero\<rparr>)) (Vector3_magnitude (\<lparr>x3 = Finite False 3 0, y3
                   = Finite False 1 2, z3 = js_zero\<rparr>))))
           (Some (js_div (y3 (\<lparr>x3 = Finite False 3 0, y3 = Finite False 1 2, z3
               = js_zero\<rparr>)) (Vector3_magnitude (\<lparr>x3 = Finite False 3 0, y3
                   = Finite False 1 2, z3 = js_zero\<rparr>))))
           (Some (js_div (z3 (\<lparr>x3 = Finite False 3 0, y3 = Finite False 1 2, z3
               = js_zero\<rparr>)) (Vector3_magnitude (\<lparr>x3 = Finite False 3 0, y3
                   = Finite False 1 2, z3 = js_zero\<rparr>))))
   \<and> js_eq (x3 (Vector3_normalized (\<lparr>x3 = Finite False 3 0, y3 = Finite False 1 2, z3
       = js_zero\<rparr>))) (js_div (x3 (\<lparr>x3 = Finite False 3 0, y3 = Finite False 1 2, z3
           = js_zero\<rparr>)) (Vector3_magnitude (\<lparr>x3 = Finite False 3 0, y3
               = Finite False 1 2, z3 = js_zero\<rparr>)))
   \<and> js_eq (y3 (Vector3_normalized (\<lparr>x3 = Finite False 3 0, y3 = Finite False 1 2, z3
       = js_zero\<rparr>))) (js_div (y3 (\<lparr>x3 = Finite False 3 0, y3 = Finite False 1 2, z3
           = js_zero\<rparr>)) (Vector3_magnitude (\<lparr>x3 = Finite False 3 0, y3
               = Finite False 1 2, z3 = js_zero\<rparr>)))
   \<and> js_eq (z3 (Vector3_normalized (\<lparr>x3 = Finite False 3 0, y3 = Finite False 1 2, z3
       = js_zero\<rparr>))) (js_div (z3 (\<lparr>x3 = Finite False 3 0, y3 = Finite False 1 2, z3
           = js_zero\<rparr>)) (Vector3_magnitude (\<lparr>x3 = Finite False 3 0, y3
               = Finite False 1 2, z3 = js_zero\<rparr>)))
   \<and> Vector3_normalized (\<lparr>x3 = js_zero, y3 = js_zero, z3 = js_zero\<rparr>)
       = Vector3_zero
   \<and> Vector4_normalized (\<lparr>x4 = js_one, y4 = js_one, z4 = js_one, w4 = js_one\<rparr>)
       = new_Vector4
           (Some (js_div (x4 (\<lparr>x4 = js_one, y4 = js_one, z4 = js_one, w4
               = js_one\<rparr>)) (Vector4_magnitude (\<lparr>x4 = js_one, y4 = js_one, z4
                   = js_one, w4 = js_one\<rparr>))))
           (Some (js_div (y4 (\<lparr>x4 = js_one, y4 = js_one, z4 = js_one, w4
               = js_one\<rparr>)) (Vector4_magnitude (\<lparr>x4 = js_one, y4 = js_one, z4
                   = js_one, w4 = js_one\<rparr>))))
           (Some (js_div (z4 (\<lparr>x4 = js_one, y4 = js_one, z4 = js_one, w4
               = js_one\<rparr>)) (Vector4_magnitude (\<lparr>x4 = js_one, y4 = js_one, z4
                   = js_one, w4 = js_one\<rparr>))))
           (Some (js_div (w4 (\<lparr>x4 = js_one, y4 = js_one, z4 = js_one, w4
               = js_one\<rparr>)) (Vector4_magnitude (\<lparr>x4 = js_one, y4 = js_one, z4
                   = js_one, w4 = js_one\<rparr>))))
   \<and> js_eq (x4 (Vector4_normalized (\<lparr>x4 = js_one, y4 = js_one, z4 = js_one, w4
       = js_one\<rparr>))) (js_div (x4 (\<lparr>x4 = js_one, y4 = js_one, z4 = js_one, w4
           = js_one\<rparr>)) (Vector4_magnitude (\<lparr>x4 = js_one, y4 = js_one, z4
               = js_one, w4 = js_one\<rparr>)))
   \<and> js_eq (y4 (Vector4_normalized (\<lparr>x4 = js_one, y4 = js_one, z4 = js_one, w4
       = js_one\<rparr>))) (js_div (y4 (\<lparr>x4 = js_one, y4 = js_one, z4 = js_one, w4
           = js_one\<rparr>)) (Vector4_magnitude (\<lparr>x4 = js_one, y4 = js_one, z4
               = js_one, w4 = js_one\<rparr>)))
   \<and> js_eq (z4 (Vector4_normalized (\<lparr>x4 = js_one, y4 = js_one, z4 = js_one, w4
       = js_one\<rparr>))) (js_div (z4 (\<lparr>x4 = js_one, y4 = js_one, z4 = js_one, w4
           = js_one\<rparr>)) (Vector4_magnitude (\<lparr>x4 = js_one, y4 = js_one, z4
               = js_one, w4 = js_one\<rparr>)))
   \<and> Vector4_normalized (\<lparr>x4 = js_zero, y4 = js_zero, z4 = js_zero, w4
       = js_zero\<rparr>) = Vector4_zero
   \<and> is_finite (Vector2_magnitude (Vector2_normalized (\<lparr>x2 = Finite False 3 0, y2
       = Finite False 1 2\<rparr>)))
   \<and> \<bar>valof (Vector2_magnitude (Vector2_normalized (\<lparr>x2 = Finite False 3 0, y2
       = Finite False 1 2\<rparr>))) - 1\<bar> \<le> 1 / 2 ^ 48
   \<and> \<bar>valof (x2 (Vector2_normalized (\<lparr>x2 = Finite False 3 0, y2
       = Finite False 1 2\<rparr>))) - valof (x2 (\<lparr>x2 = Finite False 3 0, y2
           = Finite False 1 2\<rparr>)) / valof (Vector2_magnitude (\<lparr>x2
               = Finite False 3 0, y2 = Finite False 1 2\<rparr>))\<bar>
      \<le> \<bar>valof (x2 (\<lparr>x2 = Finite False 3 0, y2
          = Finite False 1 2\<rparr>)) / valof (Vector2_magnitude (\<lparr>x2
              = Finite False 3 0, y2 = Finite False 1 2\<rparr>))\<bar> / 2 ^ 52 + 1 / 2 ^ 1075
   \<and> \<bar>valof (y2 (Vector2_normalized (\<lparr>x2 = Finite False 3 0, y2
       = Finite False 1 2\<rparr>))) - valof (y2 (\<lparr>x2 = Finite False 3 0, y2
           = Finite False 1 2\<rparr>)) / valof (Vector2_magnitude (\<lparr>x2
               = Finite False 3 0, y2 = Finite False 1 2\<rparr>))\<bar>
      \<le> \<bar>valof (y2 (\<lparr>x2 = Finite False 3 0, y2
          = Finite False 1 2\<rparr>)) / valof (Vector2_magnitude (\<lparr>x2
              = Finite False 3 0, y2 = Finite False 1 2\<rparr>))\<bar> / 2 ^ 52 + 1 / 2 ^ 1075
   \<and> is_finite (Vector3_magnitude (Vector3_normalized (\<lparr>x3 = Finite False 3 0, y3
       = Finite False 1 2, z3 = js_zero\<rparr>)))
   \<and> \<bar>valof (Vector3_magnitude (Vector3_normalized (\<lparr>x3 = Finite False 3 0, y3
       = Finite False 1 2, z3 = js_zero\<rparr>))) - 1\<bar> \<le> 1 / 2 ^ 48
   \<and> \<bar>valof (x3 (Vector3_normalized (\<lparr>x3 = Finite False 3 0, y3
       = Finite False 1 2, z3 = js_zero\<rparr>))) - valof (x3 (\<lparr>x3 = Finite False 3 0, y3
           = Finite False 1 2, z3 = js_zero\<rparr>)) / valof (Vector3_magnitude (\<lparr>x3
               = Finite False 3 0, y3 = Finite False 1 2, z3 = js_zero\<rparr>))\<bar>
      \<le> \<bar>valof (x3 (\<lparr>x3 = Finite False 3 0, y3 = Finite False 1 2, z3
          = js_zero\<rparr>)) / valof (Vector3_magnitude (\<lparr>x3 = Finite False 3 0, y3
              = Finite False 1 2, z3 = js_zero\<rparr>))\<bar> / 2 ^ 52 + 1 / 2 ^ 1075
   \<and> \<bar>valof (y3 (Vector3_normalized (\<lparr>x3 = Finite False 3 0, y3
       = Finite False 1 2, z3 = js_zero\<rparr>))) - valof (y3 (\<lparr>x3 = Finite False 3 0, y3
           = Finite False 1 2, z3 = js_zero\<rparr>)) / valof (Vector3_magnitude (\<lparr>x3
               = Finite False 3 0, y3 = Finite False 1 2, z3 = js_zero\<rparr>))\<bar>
      \<le> \<bar>valof (y3 (\<lparr>x3 = Finite False 3 0, y3 = Finite False 1 2, z3
          = js_zero\<rparr>)) / valof (Vector3_magnitude (\<lparr>x3 = Finite False 3 0, y3
              = Finite False 1 2, z3 = js_zero\<rparr>))\<bar> / 2 ^ 52 + 1 / 2 ^ 1075
   \<and> \<bar>valof (z3 (Vector3_normalized (\<lparr>x3 = Finite False 3 0, y3
       = Finite False 1 2, z3 = js_zero\<rparr>))) - valof (z3 (\<lparr>x3 = Finite False 3 0, y3
           = Finite False 1 2, z3 = js_zero\<rparr>)) / valof (Vector3_magnitude (\<lparr>x3
               = Finite False 3 0, y3 = Finite False 1 2, z3 = js_zero\<rparr>))\<bar>
      \<le> \<bar>valof (z3 (\<lparr>x3 = Finite False 3 0, y3 = Finite False 1 2, z3
          = js_zero\<rparr>)) / valof (Vector3_magnitude (\<lparr>x3 = Finite False 3 0, y3
              = Finite False 1 2, z3 = js_zero\<rparr>))\<bar> / 2 ^ 52 + 1 / 2 ^ 1075
   \<and> is_finite (Vector4_magnitude (Vector4_normalized (\<lparr>x4 = js_one, y4 = js_one, z4
       = js_one, w4 = js_one\<rparr>)))
   \<and> \<bar>valof (Vector4_magnitude (Vector4_normalized (\<lparr>x4 = js_one, y4 = js_one, z4
       = js_one, w4 = js_one\<rparr>))) - 1\<bar> \<le> 1 / 2 ^ 48
   \<and> \<bar>valof (x4 (Vector4_normalized (\<lparr>x4 = js_one, y4 = js_one, z4 = js_one, w4
       = js_one\<rparr>))) - valof (x4 (\<lparr>x4 = js_one, y4 = js_one, z4 = js_one, w4
           = js_one\<rparr>)) / valof (Vector4_magnitude (\<lparr>x4 = js_one, y4 = js_one, z4
               = js_one, w4 = js_one\<rparr>))\<bar>
      \<le> \<bar>valof (x4 (\<lparr>x4 = js_one, y4 = js_one, z4 = js_one, w4
          = js_one\<rparr>)) / valof (Vector4_magnitude (\<lparr>x4 = js_one, y4 = js_one, z4
              = js_one, w4 = js_one\<rparr>))\<bar> / 2 ^ 52 + 1 / 2 ^ 1075
   \<and> \<bar>valof (y4 (Vector4_normalized (\<lparr>x4 = js_one, y4 = js_one, z4 = js_one, w4
       = js_one\<rparr>))) - valof (y4 (\<lparr>x4 = js_one, y4 = js_one, z4 = js_one, w4
           = js_one\<rparr>)) / valof (Vector4_magnitude (\<lparr>x4 = js_one, y4 = js_one, z4
               = js_one, w4 = js_one\<rparr>))\<bar>
      \<le> \<bar>valof (y4 (\<lparr>x4 = js_one, y4 = js_one, z4 = js_one, w4
          = js_one\<rparr>)) / valof (Vector4_magnitude (\<lparr>x4 = js_one, y4 = js_one, z4
              = js_one, w4 = js_one\<rparr>))\<bar> / 2 ^ 52 + 1 / 2 ^ 1075
   \<and> \<bar>valof (z4 (Vector4_normalized (\<lparr>x4 = js_one, y4 = js_one, z4 = js_one, w4
       = js_one\<rparr>))) - valof (z4 (\<lparr>x4 = js_one, y4 = js_one, z4 = js_one, w4
           = js_one\<rparr>)) / valof (Vector4_magnitude (\<lparr>x4 = js_one, y4 = js_one, z4
               = js_one, w4 = js_one\<rparr>))\<bar>
      \<le> \<bar>valof (z4 (\<lparr>x4 = js_one, y4 = js_one, z4 = js_one, w4
          = js_one\<rparr>)) / valof (Vector4_magnitude (\<lparr>x4 = js_one, y4 = js_one, z4
              = js_one, w4 = js_one\<rparr>))\<bar> / 2 ^ 52 + 1 / 2 ^ 1075
   \<and> \<bar>valof (w4 (Vector4_normalized (\<lparr>x4 = js_one, y4 = js_one, z4 = js_one, w4
       = js_one\<rparr>))) - valof (w4 (\<lparr>x4 = js_one, y4 = js_one, z4 = js_one, w4
           = js_one\<rparr>)) / valof (Vector4_magnitude (\<lparr>x4 = js_one, y4 = js_one, z4
               = js_one, w4 = js_one\<rparr>))\<bar>
      \<le> \<bar>valof (w4 (\<lparr>x4 = js_one, y4 = js_one, z4 = js_one, w4
          = js_one\<rparr>)) / valof (Vector4_magnitude (\<lparr>x4 = js_one, y4 = js_one, z4
              = js_one, w4 = js_one\<rparr>))\<bar> / 2 ^ 52 + 1 / 2 ^ 1075"
proof -
  have hs:
    "js_gt (Vector2_magnitude (\<lparr>x2 = Finite False 3 0, y2
        = Finite False 1 2\<rparr>)) js_zero"
    "is_finite (Vector2_magnitude (\<lparr>x2 = Finite False 3 0, y2 = Finite False 1 2\<rparr>))"
    "\<not> js_gt (Vector2_magnitude (\<lparr>x2 = js_zero, y2 = js_zero\<rparr>)) js_zero"
    "is_zero (Vector2_magnitude (\<lparr>x2 = js_zero, y2 = js_zero\<rparr>))"
    "js_gt (Vector3_magnitude (\<lparr>x3 = Finite False 3 0, y3 = Finite False 1 2, z3
        = js_zero\<rparr>)) js_zero"
    "is_finite (Vector3_magnitude (\<lparr>x3 = Finite False 3 0, y3 = Finite False 1 2, z3
        = js_zero\<rparr>))"
    "\<not> js_gt (Vector3_magnitude (\<lparr>x3 = js_zero, y3 = js_zero, z3
        = js_zero\<rparr>)) js_zero"
    "is_zero (Vector3_magnitude (\<lparr>x3 = js_zero, y3 = js_zero, z3 = js_zero\<rparr>))"
    "js_gt (Vector4_magnitude (\<lparr>x4 = js_one, y4 = js_one, z4 = js_one, w4
        = js_one\<rparr>)) js_zero"
    "is_finite (Vector4_magnitude (\<lparr>x4 = js_one, y4 = js_one, z4 = js_one, w4
        = js_one\<rparr>))"
    "\<not> js_gt (Vector4_magnitude (\<lparr>x4 = js_zero, y4 = js_zero, z4 = js_zero, w4
        = js_zero\<rparr>)) js_zero"
    "is_zero (Vector4_magnitude (\<lparr>x4 = js_zero, y4 = js_zero, z4 = js_zero, w4
        = js_zero\<rparr>))"
    "1 / 2 ^ 511 \<le> valof (Vector2_magnitude (\<lparr>x2 = Finite False 3 0, y2
        = Finite False 1 2\<rparr>))"
    "1 / 2 ^ 511 \<le> valof (Vector3_magnitude (\<lparr>x3 = Finite False 3 0, y3
        = Finite False 1 2, z3 = js_zero\<rparr>))"
    "1 / 2 ^ 511 \<le> valof (Vector4_magnitude (\<lparr>x4 = js_one, y4 = js_one, z4 = js_one, w4
        = js_one\<rparr>))"
    "truthy (js_div (w4 (\<lparr>x4 = js_one, y4 = js_one, z4 = js_one, w4
        = js_one\<rparr>)) (Vector4_magnitude (\<lparr>x4 = js_one, y4 = js_one, z4 = js_one, w4
            = js_one\<rparr>)))"
    by (simp_all add: Vector2_magnitude_def Vector3_magnitude_def Vector4_magnitude_def number_eval)
  note w = normalized_cases[of "\<lparr>x2 = Finite False 3 0, y2 = Finite False 1 2\<rparr>"
      "\<lparr>x2 = js_zero, y2 = js_zero\<rparr>"
      "\<lparr>x3 = Finite False 3 0, y3 = Finite False 1 2, z3 = js_zero\<rparr>"
      "\<lparr>x3 = js_zero, y3 = js_zero, z3 = js_zero\<rparr>"
      "\<lparr>x4 = js_one, y4 = js_one, z4 = js_one, w4 = js_one\<rparr>"
      "\<lparr>x4 = js_zero, y4 = js_zero, z4 = js_zero, w4 = js_zero\<rparr>"]
  note w1 = w[THEN conjunct1]
  note w2 = w[THEN conjunct2, THEN conjunct1]
  note w3 = w[THEN conjunct2, THEN conjunct2, THEN conjunct1]
  note w4 = w[THEN conjunct2, THEN conjunct2, THEN conjunct2, THEN conjunct1]
  note w5 = w[THEN conjunct2, THEN conjunct2, THEN conjunct2, THEN conjunct2, THEN conjunct1]
  note w6 = w[THEN conjunct2, THEN conjunct2, THEN conjunct2,
              THEN conjunct2, THEN conjunct2, THEN conjunct1]
  have "Vector2_normalized (\<lparr>x2 = Finite False 3 0, y2 = Finite False 1 2\<rparr>)
       = new_Vector2
           (Some (js_div (x2 (\<lparr>x2 = Finite False 3 0, y2
               = Finite False 1 2\<rparr>)) (Vector2_magnitude (\<lparr>x2 = Finite False 3 0, y2
                   = Finite False 1 2\<rparr>))))
           (Some (js_div (y2 (\<lparr>x2 = Finite False 3 0, y2
               = Finite False 1 2\<rparr>)) (Vector2_magnitude (\<lparr>x2 = Finite False 3 0, y2
                   = Finite False 1 2\<rparr>))))"
    using hs w1[THEN conjunct1]
    by blast
  have "js_eq (x2 (Vector2_normalized (\<lparr>x2 = Finite False 3 0, y2
      = Finite False 1 2\<rparr>))) (js_div (x2 (\<lparr>x2 = Finite False 3 0, y2
          = Finite False 1 2\<rparr>)) (Vector2_magnitude (\<lparr>x2 = Finite False 3 0, y2
              = Finite False 1 2\<rparr>)))"
    using hs w1[THEN conjunct2, THEN conjunct1]
    by blast
  have "js_eq (y2 (Vector2_normalized (\<lparr>x2 = Finite False 3 0, y2
      = Finite False 1 2\<rparr>))) (js_div (y2 (\<lparr>x2 = Finite False 3 0, y2
          = Finite False 1 2\<rparr>)) (Vector2_magnitude (\<lparr>x2 = Finite False 3 0, y2
              = Finite False 1 2\<rparr>)))"
    using hs w1[THEN conjunct2, THEN conjunct1]
    by blast
  have "Vector2_normalized (\<lparr>x2 = js_zero, y2 = js_zero\<rparr>) = Vector2_zero"
    using hs w1[THEN conjunct2, THEN conjunct2, THEN conjunct1]
    by blast
  have "Vector3_normalized (\<lparr>x3 = Finite False 3 0, y3 = Finite False 1 2, z3
      = js_zero\<rparr>)
       = new_Vector3
           (Some (js_div (x3 (\<lparr>x3 = Finite False 3 0, y3 = Finite False 1 2, z3
               = js_zero\<rparr>)) (Vector3_magnitude (\<lparr>x3 = Finite False 3 0, y3
                   = Finite False 1 2, z3 = js_zero\<rparr>))))
           (Some (js_div (y3 (\<lparr>x3 = Finite False 3 0, y3 = Finite False 1 2, z3
               = js_zero\<rparr>)) (Vector3_magnitude (\<lparr>x3 = Finite False 3 0, y3
                   = Finite False 1 2, z3 = js_zero\<rparr>))))
           (Some (js_div (z3 (\<lparr>x3 = Finite False 3 0, y3 = Finite False 1 2, z3
               = js_zero\<rparr>)) (Vector3_magnitude (\<lparr>x3 = Finite False 3 0, y3
                   = Finite False 1 2, z3 = js_zero\<rparr>))))"
    using hs w2[THEN conjunct1]
    by blast
  have "js_eq (x3 (Vector3_normalized (\<lparr>x3 = Finite False 3 0, y3 = Finite False 1 2, z3
      = js_zero\<rparr>))) (js_div (x3 (\<lparr>x3 = Finite False 3 0, y3 = Finite False 1 2, z3
          = js_zero\<rparr>)) (Vector3_magnitude (\<lparr>x3 = Finite False 3 0, y3
              = Finite False 1 2, z3 = js_zero\<rparr>)))"
    using hs w2[THEN conjunct2, THEN conjunct1]
    by blast
  have "js_eq (y3 (Vector3_normalized (\<lparr>x3 = Finite False 3 0, y3 = Finite False 1 2, z3
      = js_zero\<rparr>))) (js_div (y3 (\<lparr>x3 = Finite False 3 0, y3 = Finite False 1 2, z3
          = js_zero\<rparr>)) (Vector3_magnitude (\<lparr>x3 = Finite False 3 0, y3
              = Finite False 1 2, z3 = js_zero\<rparr>)))"
    using hs w2[THEN conjunct2, THEN conjunct1]
    by blast
  have "js_eq (z3 (Vector3_normalized (\<lparr>x3 = Finite False 3 0, y3 = Finite False 1 2, z3
      = js_zero\<rparr>))) (js_div (z3 (\<lparr>x3 = Finite False 3 0, y3 = Finite False 1 2, z3
          = js_zero\<rparr>)) (Vector3_magnitude (\<lparr>x3 = Finite False 3 0, y3
              = Finite False 1 2, z3 = js_zero\<rparr>)))"
    using hs w2[THEN conjunct2, THEN conjunct1]
    by blast
  have "Vector3_normalized (\<lparr>x3 = js_zero, y3 = js_zero, z3 = js_zero\<rparr>)
      = Vector3_zero"
    using hs w2[THEN conjunct2, THEN conjunct2, THEN conjunct1]
    by blast
  have "Vector4_normalized (\<lparr>x4 = js_one, y4 = js_one, z4 = js_one, w4 = js_one\<rparr>)
       = new_Vector4
           (Some (js_div (x4 (\<lparr>x4 = js_one, y4 = js_one, z4 = js_one, w4
               = js_one\<rparr>)) (Vector4_magnitude (\<lparr>x4 = js_one, y4 = js_one, z4
                   = js_one, w4 = js_one\<rparr>))))
           (Some (js_div (y4 (\<lparr>x4 = js_one, y4 = js_one, z4 = js_one, w4
               = js_one\<rparr>)) (Vector4_magnitude (\<lparr>x4 = js_one, y4 = js_one, z4
                   = js_one, w4 = js_one\<rparr>))))
           (Some (js_div (z4 (\<lparr>x4 = js_one, y4 = js_one, z4 = js_one, w4
               = js_one\<rparr>)) (Vector4_magnitude (\<lparr>x4 = js_one, y4 = js_one, z4
                   = js_one, w4 = js_one\<rparr>))))
           (Some (js_div (w4 (\<lparr>x4 = js_one, y4 = js_one, z4 = js_one, w4
               = js_one\<rparr>)) (Vector4_magnitude (\<lparr>x4 = js_one, y4 = js_one, z4
                   = js_one, w4 = js_one\<rparr>))))"
    using hs w3[THEN conjunct1]
    by blast
  have "js_eq (x4 (Vector4_normalized (\<lparr>x4 = js_one, y4 = js_one, z4 = js_one, w4
      = js_one\<rparr>))) (js_div (x4 (\<lparr>x4 = js_one, y4 = js_one, z4 = js_one, w4
          = js_one\<rparr>)) (Vector4_magnitude (\<lparr>x4 = js_one, y4 = js_one, z4 = js_one, w4
              = js_one\<rparr>)))"
    using hs w3[THEN conjunct2, THEN conjunct1]
    by blast
  have "js_eq (y4 (Vector4_normalized (\<lparr>x4 = js_one, y4 = js_one, z4 = js_one, w4
      = js_one\<rparr>))) (js_div (y4 (\<lparr>x4 = js_one, y4 = js_one, z4 = js_one, w4
          = js_one\<rparr>)) (Vector4_magnitude (\<lparr>x4 = js_one, y4 = js_one, z4 = js_one, w4
              = js_one\<rparr>)))"
    using hs w3[THEN conjunct2, THEN conjunct1]
    by blast
  have "js_eq (z4 (Vector4_normalized (\<lparr>x4 = js_one, y4 = js_one, z4 = js_one, w4
      = js_one\<rparr>))) (js_div (z4 (\<lparr>x4 = js_one, y4 = js_one, z4 = js_one, w4
          = js_one\<rparr>)) (Vector4_magnitude (\<lparr>x4 = js_one, y4 = js_one, z4 = js_one, w4
              = js_one\<rparr>)))"
    using hs w3[THEN conjunct2, THEN conjunct1]
    by blast
  have "Vector4_normalized (\<lparr>x4 = js_zero, y4 = js_zero, z4 = js_zero, w4
      = js_zero\<rparr>) = Vector4_zero"
    using hs w3[THEN conjunct2, THEN conjunct2, THEN conjunct1]
    by blast
  have "is_finite (Vector2_magnitude (Vector2_normalized (\<lparr>x2 = Finite False 3 0, y2
      = Finite False 1 2\<rparr>)))"
    using hs w4
    by blast
  have "\<bar>valof (Vector2_magnitude (Vector2_normalized (\<lparr>x2 = Finite False 3 0, y2
      = Finite False 1 2\<rparr>))) - 1\<bar> \<le> 1 / 2 ^ 48"
    using hs w4
    by blast
  have "\<bar>valof (x2 (Vector2_normalized (\<lparr>x2 = Finite False 3 0, y2
      = Finite False 1 2\<rparr>))) - valof (x2 (\<lparr>x2 = Finite False 3 0, y2
          = Finite False 1 2\<rparr>)) / valof (Vector2_magnitude (\<lparr>x2
              = Finite False 3 0, y2 = Finite False 1 2\<rparr>))\<bar>
      \<le> \<bar>valof (x2 (\<lparr>x2 = Finite False 3 0, y2
          = Finite False 1 2\<rparr>)) / valof (Vector2_magnitude (\<lparr>x2
              = Finite False 3 0, y2 = Finite False 1 2\<rparr>))\<bar> / 2 ^ 52 + 1 / 2 ^ 1075"
    using hs w4
    by blast
  have "\<bar>valof (y2 (Vector2_normalized (\<lparr>x2 = Finite False 3 0, y2
      = Finite False 1 2\<rparr>))) - valof (y2 (\<lparr>x2 = Finite False 3 0, y2
          = Finite False 1 2\<rparr>)) / valof (Vector2_magnitude (\<lparr>x2
              = Finite False 3 0, y2 = Finite False 1 2\<rparr>))\<bar>
      \<le> \<bar>valof (y2 (\<lparr>x2 = Finite False 3 0, y2
          = Finite False 1 2\<rparr>)) / valof (Vector2_magnitude (\<lparr>x2
              = Finite False 3 0, y2 = Finite False 1 2\<rparr>))\<bar> / 2 ^ 52 + 1 / 2 ^ 1075"
    using hs w4
    by blast
  have "is_finite (Vector3_magnitude (Vector3_normalized (\<lparr>x3 = Finite False 3 0, y3
      = Finite False 1 2, z3 = js_zero\<rparr>)))"
    using hs w5
    by blast
  have "\<bar>valof (Vector3_magnitude (Vector3_normalized (\<lparr>x3 = Finite False 3 0, y3
      = Finite False 1 2, z3 = js_zero\<rparr>))) - 1\<bar> \<le> 1 / 2 ^ 48"
    using hs w5
    by blast
  have "\<bar>valof (x3 (Vector3_normalized (\<lparr>x3 = Finite False 3 0, y3
      = Finite False 1 2, z3 = js_zero\<rparr>))) - valof (x3 (\<lparr>x3 = Finite False 3 0, y3
          = Finite False 1 2, z3 = js_zero\<rparr>)) / valof (Vector3_magnitude (\<lparr>x3
              = Finite False 3 0, y3 = Finite False 1 2, z3 = js_zero\<rparr>))\<bar>
      \<le> \<bar>valof (x3 (\<lparr>x3 = Finite False 3 0, y3 = Finite False 1 2, z3
          = js_zero\<rparr>)) / valof (Vector3_magnitude (\<lparr>x3 = Finite False 3 0, y3
              = Finite False 1 2, z3 = js_zero\<rparr>))\<bar> / 2 ^ 52 + 1 / 2 ^ 1075"
    using hs w5
    by blast
  have "\<bar>valof (y3 (Vector3_normalized (\<lparr>x3 = Finite False 3 0, y3
      = Finite False 1 2, z3 = js_zero\<rparr>))) - valof (y3 (\<lparr>x3 = Finite False 3 0, y3
          = Finite False 1 2, z3 = js_zero\<rparr>)) / valof (Vector3_magnitude (\<lparr>x3
              = Finite False 3 0, y3 = Finite False 1 2, z3 = js_zero\<rparr>))\<bar>
      \<le> \<bar>valof (y3 (\<lparr>x3 = Finite False 3 0, y3 = Finite False 1 2, z3
          = js_zero\<rparr>)) / valof (Vector3_magnitude (\<lparr>x3 = Finite False 3 0, y3
              = Finite False 1 2, z3 = js_zero\<rparr>))\<bar> / 2 ^ 52 + 1 / 2 ^ 1075"
    using hs w5
    by blast
  have "\<bar>valof (z3 (Vector3_normalized (\<lparr>x3 = Finite False 3 0, y3
      = Finite False 1 2, z3 = js_zero\<rparr>))) - valof (z3 (\<lparr>x3 = Finite False 3 0, y3
          = Finite False 1 2, z3 = js_zero\<rparr>)) / valof (Vector3_magnitude (\<lparr>x3
              = Finite False 3 0, y3 = Finite False 1 2, z3 = js_zero\<rparr>))\<bar>
      \<le> \<bar>valof (z3 (\<lparr>x3 = Finite False 3 0, y3 = Finite False 1 2, z3
          = js_zero\<rparr>)) / valof (Vector3_magnitude (\<lparr>x3 = Finite False 3 0, y3
              = Finite False 1 2, z3 = js_zero\<rparr>))\<bar> / 2 ^ 52 + 1 / 2 ^ 1075"
    using hs w5
    by blast
  have "is_finite (Vector4_magnitude (Vector4_normalized (\<lparr>x4 = js_one, y4 = js_one, z4
      = js_one, w4 = js_one\<rparr>)))"
    using hs w6
    by blast
  have "\<bar>valof (Vector4_magnitude (Vector4_normalized (\<lparr>x4 = js_one, y4 = js_one, z4
      = js_one, w4 = js_one\<rparr>))) - 1\<bar> \<le> 1 / 2 ^ 48"
    using hs w6
    by blast
  have "\<bar>valof (x4 (Vector4_normalized (\<lparr>x4 = js_one, y4 = js_one, z4 = js_one, w4
      = js_one\<rparr>))) - valof (x4 (\<lparr>x4 = js_one, y4 = js_one, z4 = js_one, w4
          = js_one\<rparr>)) / valof (Vector4_magnitude (\<lparr>x4 = js_one, y4 = js_one, z4
              = js_one, w4 = js_one\<rparr>))\<bar>
      \<le> \<bar>valof (x4 (\<lparr>x4 = js_one, y4 = js_one, z4 = js_one, w4
          = js_one\<rparr>)) / valof (Vector4_magnitude (\<lparr>x4 = js_one, y4 = js_one, z4
              = js_one, w4 = js_one\<rparr>))\<bar> / 2 ^ 52 + 1 / 2 ^ 1075"
    using hs w6
    by blast
  have "\<bar>valof (y4 (Vector4_normalized (\<lparr>x4 = js_one, y4 = js_one, z4 = js_one, w4
      = js_one\<rparr>))) - valof (y4 (\<lparr>x4 = js_one, y4 = js_one, z4 = js_one, w4
          = js_one\<rparr>)) / valof (Vector4_magnitude (\<lparr>x4 = js_one, y4 = js_one, z4
              = js_one, w4 = js_one\<rparr>))\<bar>
      \<le> \<bar>valof (y4 (\<lparr>x4 = js_one, y4 = js_one, z4 = js_one, w4
          = js_one\<rparr>)) / valof (Vector4_magnitude (\<lparr>x4 = js_one, y4 = js_one, z4
              = js_one, w4 = js_one\<rparr>))\<bar> / 2 ^ 52 + 1 / 2 ^ 1075"
    using hs w6
    by blast
  have "\<bar>valof (z4 (Vector4_normalized (\<lparr>x4 = js_one, y4 = js_one, z4 = js_one, w4
      = js_one\<rparr>))) - valof (z4 (\<lparr>x4 = js_one, y4 = js_one, z4 = js_one, w4
          = js_one\<rparr>)) / valof (Vector4_magnitude (\<lparr>x4 = js_one, y4 = js_one, z4
              = js_one, w4 = js_one\<rparr>))\<bar>
      \<le> \<bar>valof (z4 (\<lparr>x4 = js_one, y4 = js_one, z4 = js_one, w4
          = js_one\<rparr>)) / valof (Vector4_magnitude (\<lparr>x4 = js_one, y4 = js_one, z4
              = js_one, w4 = js_one\<rparr>))\<bar> / 2 ^ 52 + 1 / 2 ^ 1075"
    using hs w6
    by blast
  have "\<bar>valof (w4 (Vector4_normalized (\<lparr>x4 = js_one, y4 = js_one, z4 = js_one, w4
      = js_one\<rparr>))) - valof (w4 (\<lparr>x4 = js_one, y4 = js_one, z4 = js_one, w4
          = js_one\<rparr>)) / valof (Vector4_magnitude (\<lparr>x4 = js_one, y4 = js_one, z4
              = js_one, w4 = js_one\<rparr>))\<bar>
      \<le> \<bar>valof (w4 (\<lparr>x4 = js_one, y4 = js_one, z4 = js_one, w4
          = js_one\<rparr>)) / valof (Vector4_magnitude (\<lparr>x4 = js_one, y4 = js_one, z4
              = js_one, w4 = js_one\<rparr>))\<bar> / 2 ^ 52 + 1 / 2 ^ 1075"
    using hs w6
    by blast
  show ?thesis
    by (intro conjI) fact+
qed

section \<open>ClampMagnitude\<close>

lemma js_le_not_NaN: "js_le a b \<Longrightarrow> \<not> isNaN a"
  by (cases a) (simp_all add: js_le_def)

lemma js_lt_not_NaN_right: "js_lt a b \<Longrightarrow> \<not> isNaN b"
  by (cases b) simp_all

lemma negative_js_mul:
  "\<not> isNaN (js_mul x r) \<Longrightarrow> negative (js_mul x r)
      = (negative x \<noteq> negative r)"
  by (cases x; cases r) (simp_all add: negative_fround split: if_splits)

lemma negative_js_div:
  "\<not> isNaN (js_div a b) \<Longrightarrow> negative (js_div a b)
      = (negative a \<noteq> negative b)"
  by (cases a; cases b) (simp_all add: negative_fround split: if_splits)

lemma js_lt_zero_negative:
  assumes "js_lt k js_zero"
  shows "truthy k \<and> negative k"
proof (cases k)
  case (Finite s m e)
  with assms have "signed s (m * 2 ^ nat (e - min e 0)) < signed False 0"
    by (simp add: js_zero_def)
  moreover have "signed False 0 = 0" by (simp add: signed_def)
  ultimately have neg: "signed s (m * 2 ^ nat (e - min e 0)) < 0" by simp
  then have "s" by (rule signed_neg_sign)
  moreover have "m \<noteq> 0"
  proof
    assume "m = 0"
    with neg show False by (cases s) (simp_all add: signed_def)
  qed
  ultimately show ?thesis using Finite by simp
qed (use assms in \<open>simp_all add: js_zero_def\<close>)

lemma js_lt_negative_nonneg:
  assumes "js_lt k js_zero" and "nonneg z"
  shows "js_lt k z"
proof -
  from assms(1) have k: "truthy k" "negative k" by (simp_all add: js_lt_zero_negative)
  from nonneg_cases[OF assms(2)] show ?thesis
  proof (elim disjE exE)
    assume "z = Infinity False"
    with k show ?thesis by (cases k) simp_all
  next
    fix m e
    assume z: "z = Finite False m e"
    show ?thesis
    proof (cases k)
      case (Finite s n f)
      with k have "s" and "n \<noteq> 0" by simp_all
      then have "signed s (n * 2 ^ nat (f - min f e)) < 0" by (simp add: signed_def)
      also have "0 \<le> signed False (m * 2 ^ nat (e - min f e))" by (rule signed_False_nonneg)
      finally show ?thesis using Finite z by simp
    qed (use k z in simp_all)
  qed
qed

lemma negative_ratio:
  assumes "js_lt k js_zero" and "nonneg z"
  shows "isNaN (js_div k z) \<or> negative (js_div k z)"
proof (cases "isNaN (js_div k z)")
  case False
  moreover from assms have "negative k" and "\<not> negative z"
    by (simp_all add: js_lt_zero_negative nonneg_def)
  ultimately show ?thesis by (simp add: negative_js_div)
qed simp

lemma nonneg_ratio:
  assumes "nonneg m" and "nonneg z"
  shows "isNaN (js_div m z) \<or> \<not> negative (js_div m z)"
proof (cases "isNaN (js_div m z)")
  case False
  moreover from assms have "\<not> negative m" and "\<not> negative z"
    by (simp_all add: nonneg_def)
  ultimately show ?thesis by (simp add: negative_js_div)
qed simp

lemma js_eq_stored_truthy: "truthy q \<Longrightarrow> js_eq (init_field d (Some q)) q"
  by (simp add: js_eq_refl truthy_not_NaN)

lemma stored_scaled_negative:
  assumes "isNaN r \<or> negative r"
    and "truthy (init_field js_zero (Some (js_mul x r)))"
  shows "negative (init_field js_zero (Some (js_mul x r))) = (\<not> negative x)"
proof -
  from assms(2) have t: "truthy (js_mul x r)"
    by (simp add: js_zero_def split: if_splits)
  then have n: "\<not> isNaN (js_mul x r)" by (rule truthy_not_NaN)
  then have "\<not> isNaN r" by (cases r) simp_all
  with assms(1) have "negative r" by simp
  with t n show ?thesis by (simp add: negative_js_mul)
qed

lemma stored_scaled_nonneg:
  assumes "isNaN r \<or> \<not> negative r"
    and "truthy (init_field js_zero (Some (js_mul x r)))"
  shows "negative (init_field js_zero (Some (js_mul x r))) = negative x"
proof -
  from assms(2) have t: "truthy (js_mul x r)"
    by (simp add: js_zero_def split: if_splits)
  then have n: "\<not> isNaN (js_mul x r)" by (rule truthy_not_NaN)
  then have "\<not> isNaN r" by (cases r) simp_all
  with assms(1) have "\<not> negative r" by simp
  with t n show ?thesis by (simp add: negative_js_mul)
qed

lemma Vector2_ClampMagnitude_facts:
  "(Vector2_ClampMagnitude_ref h2 r m
      = (length h2, h2 @ [Vector2_ClampMagnitude (h2 ! r) m])
   \<and> (\<not> js_gt (Vector2_magnitude p2) m \<longrightarrow>
        Vector2_ClampMagnitude p2 m
        = new_Vector2
            (Some (js_mul (x2 p2) js_one))
            (Some (js_mul (y2 p2) js_one)))
   \<and> (js_le (Vector2_magnitude p2) m \<and> doubles2 p2 \<longrightarrow>
        js_eq (x2 (Vector2_ClampMagnitude p2 m)) (x2 p2)
        \<and> js_eq (y2 (Vector2_ClampMagnitude p2 m)) (y2 p2))
   \<and> (js_gt (Vector2_magnitude p2) k \<longrightarrow>
        Vector2_ClampMagnitude p2 k
        = new_Vector2
            (Some (js_mul (x2 p2) (js_div k (Vector2_magnitude p2))))
            (Some (js_mul (y2 p2) (js_div k (Vector2_magnitude p2)))))
   \<and> (js_lt k js_zero \<and> no_NaN2 p2 \<longrightarrow>
        js_gt (Vector2_magnitude p2) k)
   \<and> (js_lt k js_zero \<and> no_NaN2 p2 \<and> truthy (x2 (Vector2_ClampMagnitude p2 k))
       \<longrightarrow>
        negative (x2 (Vector2_ClampMagnitude p2 k)) = (\<not> negative (x2 p2)))
   \<and> (js_lt k js_zero \<and> no_NaN2 p2 \<and> truthy (y2 (Vector2_ClampMagnitude p2 k))
       \<longrightarrow>
        negative (y2 (Vector2_ClampMagnitude p2 k)) = (\<not> negative (y2 p2)))
   \<and> (js_gt (Vector2_magnitude p2) m \<and> nonneg m
       \<and> truthy (x2 (Vector2_ClampMagnitude p2 m)) \<longrightarrow>
        negative (x2 (Vector2_ClampMagnitude p2 m)) = negative (x2 p2))
   \<and> (js_gt (Vector2_magnitude p2) m \<and> nonneg m
       \<and> truthy (y2 (Vector2_ClampMagnitude p2 m)) \<longrightarrow>
        negative (y2 (Vector2_ClampMagnitude p2 m)) = negative (y2 p2)))"
proof -
  have nn: "no_NaN2 p2" if "\<not> isNaN (Vector2_magnitude p2)"
    using that by (rule Vector2_magnitude_NaN)
  have up: "Vector2_ClampMagnitude p2 m
      = new_Vector2
          (Some (js_mul (x2 p2) js_one))
          (Some (js_mul (y2 p2) js_one))"
    if "\<not> js_gt (Vector2_magnitude p2) m"
    using that by (simp add: Vector2_ClampMagnitude_def Let_def del: init_field_Some)
  have down: "Vector2_ClampMagnitude p2 c
      = new_Vector2
          (Some (js_mul (x2 p2) (js_div c (Vector2_magnitude p2))))
          (Some (js_mul (y2 p2) (js_div c (Vector2_magnitude p2))))"
    if "js_gt (Vector2_magnitude p2) c" for c
    using that by (simp add: Vector2_ClampMagnitude_def Let_def del: init_field_Some)
  have q0: "Vector2_ClampMagnitude_ref h2 r m
      = (length h2, h2 @ [Vector2_ClampMagnitude (h2 ! r) m])"
    by (simp add: Vector2_ClampMagnitude_ref_def alloc_def)
  have q1: "\<not> js_gt (Vector2_magnitude p2) m \<Longrightarrow>
      Vector2_ClampMagnitude p2 m
        = new_Vector2
            (Some (js_mul (x2 p2) js_one))
            (Some (js_mul (y2 p2) js_one))"
    by (rule up)
  have q2: "js_le (Vector2_magnitude p2) m \<Longrightarrow> doubles2 p2 \<Longrightarrow>
      js_eq (x2 (Vector2_ClampMagnitude p2 m)) (x2 p2)
        \<and> js_eq (y2 (Vector2_ClampMagnitude p2 m)) (y2 p2)"
  proof -
    assume le: "js_le (Vector2_magnitude p2) m" and d: "doubles2 p2"
    from le have ng: "\<not> js_gt (Vector2_magnitude p2) m" by (simp add: js_gt_def js_le_not_gt)
    from le have "\<not> isNaN (Vector2_magnitude p2)" by (rule js_le_not_NaN)
    then have "no_NaN2 p2" by (rule nn)
    then show ?thesis
      using d by (simp add: up[OF ng] new_Vector2_def no_NaN2_def doubles2_def js_mul_one
          js_eq_stored js_eq_stored_truthy del: init_field_Some)
  qed
  have q3: "js_gt (Vector2_magnitude p2) k \<Longrightarrow>
      Vector2_ClampMagnitude p2 k
        = new_Vector2
            (Some (js_mul (x2 p2) (js_div k (Vector2_magnitude p2))))
            (Some (js_mul (y2 p2) (js_div k (Vector2_magnitude p2))))"
    by (rule down)
  have q4: "js_lt k js_zero \<Longrightarrow> no_NaN2 p2 \<Longrightarrow>
      js_gt (Vector2_magnitude p2) k"
  proof -
    assume l: "js_lt k js_zero" and n: "no_NaN2 p2"
    from n have "nonneg (Vector2_magnitude p2)" by (rule nonneg_Vector2_magnitude)
    with l show ?thesis by (simp add: js_gt_def js_lt_negative_nonneg)
  qed
  have q5: "js_lt k js_zero \<Longrightarrow> no_NaN2 p2
      \<Longrightarrow> truthy (x2 (Vector2_ClampMagnitude p2 k)) \<Longrightarrow>
      negative (x2 (Vector2_ClampMagnitude p2 k)) = (\<not> negative (x2 p2))"
  proof -
    assume l: "js_lt k js_zero" and n: "no_NaN2 p2"
      and t: "truthy (x2 (Vector2_ClampMagnitude p2 k))"
    from n have nm: "nonneg (Vector2_magnitude p2)" by (rule nonneg_Vector2_magnitude)
    with l have g: "js_gt (Vector2_magnitude p2) k" by (simp add: js_gt_def js_lt_negative_nonneg)
    from l nm have "isNaN (js_div k (Vector2_magnitude p2))
        \<or> negative (js_div k (Vector2_magnitude p2))"
      by (rule negative_ratio)
    then show ?thesis
      using t by (simp add: down[OF g] new_Vector2_def stored_scaled_negative del: init_field_Some)
  qed
  have q6: "js_lt k js_zero \<Longrightarrow> no_NaN2 p2
      \<Longrightarrow> truthy (y2 (Vector2_ClampMagnitude p2 k)) \<Longrightarrow>
      negative (y2 (Vector2_ClampMagnitude p2 k)) = (\<not> negative (y2 p2))"
  proof -
    assume l: "js_lt k js_zero" and n: "no_NaN2 p2"
      and t: "truthy (y2 (Vector2_ClampMagnitude p2 k))"
    from n have nm: "nonneg (Vector2_magnitude p2)" by (rule nonneg_Vector2_magnitude)
    with l have g: "js_gt (Vector2_magnitude p2) k" by (simp add: js_gt_def js_lt_negative_nonneg)
    from l nm have "isNaN (js_div k (Vector2_magnitude p2))
        \<or> negative (js_div k (Vector2_magnitude p2))"
      by (rule negative_ratio)
    then show ?thesis
      using t by (simp add: down[OF g] new_Vector2_def stored_scaled_negative del: init_field_Some)
  qed
  have q7: "js_gt (Vector2_magnitude p2) m \<Longrightarrow> nonneg m
      \<Longrightarrow> truthy (x2 (Vector2_ClampMagnitude p2 m)) \<Longrightarrow>
      negative (x2 (Vector2_ClampMagnitude p2 m)) = negative (x2 p2)"
  proof -
    assume g: "js_gt (Vector2_magnitude p2) m" and n: "nonneg m"
      and t: "truthy (x2 (Vector2_ClampMagnitude p2 m))"
    from g have "\<not> isNaN (Vector2_magnitude p2)" by (simp add: js_gt_def js_lt_not_NaN_right)
    then have "nonneg (Vector2_magnitude p2)" by (intro nonneg_Vector2_magnitude nn)
    with n have "isNaN (js_div m (Vector2_magnitude p2))
        \<or> \<not> negative (js_div m (Vector2_magnitude p2))"
      by (rule nonneg_ratio)
    then show ?thesis
      using t by (simp add: down[OF g] new_Vector2_def stored_scaled_nonneg del: init_field_Some)
  qed
  have q8: "js_gt (Vector2_magnitude p2) m \<Longrightarrow> nonneg m
      \<Longrightarrow> truthy (y2 (Vector2_ClampMagnitude p2 m)) \<Longrightarrow>
      negative (y2 (Vector2_ClampMagnitude p2 m)) = negative (y2 p2)"
  proof -
    assume g: "js_gt (Vector2_magnitude p2) m" and n: "nonneg m"
      and t: "truthy (y2 (Vector2_ClampMagnitude p2 m))"
    from g have "\<not> isNaN (Vector2_magnitude p2)" by (simp add: js_gt_def js_lt_not_NaN_right)
    then have "nonneg (Vector2_magnitude p2)" by (intro nonneg_Vector2_magnitude nn)
    with n have "isNaN (js_div m (Vector2_magnitude p2))
        \<or> \<not> negative (js_div m (Vector2_magnitude p2))"
      by (rule nonneg_ratio)
    then show ?thesis
      using t by (simp add: down[OF g] new_Vector2_def stored_scaled_nonneg del: init_field_Some)
  qed
  have o1: "(\<not> js_gt (Vector2_magnitude p2) m \<longrightarrow>
      Vector2_ClampMagnitude p2 m
        = new_Vector2
            (Some (js_mul (x2 p2) js_one))
            (Some (js_mul (y2 p2) js_one)))"
    using q1 by blast
  have o2: "(js_le (Vector2_magnitude p2) m \<and> doubles2 p2 \<longrightarrow>
      js_eq (x2 (Vector2_ClampMagnitude p2 m)) (x2 p2)
        \<and> js_eq (y2 (Vector2_ClampMagnitude p2 m)) (y2 p2))"
    using q2 by blast
  have o3: "(js_gt (Vector2_magnitude p2) k \<longrightarrow>
      Vector2_ClampMagnitude p2 k
        = new_Vector2
            (Some (js_mul (x2 p2) (js_div k (Vector2_magnitude p2))))
            (Some (js_mul (y2 p2) (js_div k (Vector2_magnitude p2)))))"
    using q3 by blast
  have o4: "(js_lt k js_zero \<and> no_NaN2 p2 \<longrightarrow>
      js_gt (Vector2_magnitude p2) k)"
    using q4 by blast
  have o5: "(js_lt k js_zero \<and> no_NaN2 p2 \<and> truthy (x2 (Vector2_ClampMagnitude p2 k))
      \<longrightarrow>
      negative (x2 (Vector2_ClampMagnitude p2 k)) = (\<not> negative (x2 p2)))"
    using q5 by blast
  have o6: "(js_lt k js_zero \<and> no_NaN2 p2 \<and> truthy (y2 (Vector2_ClampMagnitude p2 k))
      \<longrightarrow>
      negative (y2 (Vector2_ClampMagnitude p2 k)) = (\<not> negative (y2 p2)))"
    using q6 by blast
  have o7: "(js_gt (Vector2_magnitude p2) m \<and> nonneg m
      \<and> truthy (x2 (Vector2_ClampMagnitude p2 m)) \<longrightarrow>
      negative (x2 (Vector2_ClampMagnitude p2 m)) = negative (x2 p2))"
    using q7 by blast
  have o8: "(js_gt (Vector2_magnitude p2) m \<and> nonneg m
      \<and> truthy (y2 (Vector2_ClampMagnitude p2 m)) \<longrightarrow>
      negative (y2 (Vector2_ClampMagnitude p2 m)) = negative (y2 p2))"
    using q8 by blast
  show ?thesis
    by (intro conjI q0 o1 o2 o3 o4 o5 o6 o7 o8)
qed

lemma Vector3_ClampMagnitude_facts:
  "(Vector3_ClampMagnitude_ref h3 r m
      = (length h3, h3 @ [Vector3_ClampMagnitude (h3 ! r) m])
   \<and> (\<not> js_gt (Vector3_magnitude p3) m \<longrightarrow>
        Vector3_ClampMagnitude p3 m
        = new_Vector3
            (Some (js_mul (x3 p3) js_one))
            (Some (js_mul (y3 p3) js_one))
            (Some (js_mul (z3 p3) js_one)))
   \<and> (js_le (Vector3_magnitude p3) m \<and> doubles3 p3 \<longrightarrow>
        js_eq (x3 (Vector3_ClampMagnitude p3 m)) (x3 p3)
        \<and> js_eq (y3 (Vector3_ClampMagnitude p3 m)) (y3 p3)
        \<and> js_eq (z3 (Vector3_ClampMagnitude p3 m)) (z3 p3))
   \<and> (js_gt (Vector3_magnitude p3) k \<longrightarrow>
        Vector3_ClampMagnitude p3 k
        = new_Vector3
            (Some (js_mul (x3 p3) (js_div k (Vector3_magnitude p3))))
            (Some (js_mul (y3 p3) (js_div k (Vector3_magnitude p3))))
            (Some (js_mul (z3 p3) (js_div k (Vector3_magnitude p3)))))
   \<and> (js_lt k js_zero \<and> no_NaN3 p3 \<longrightarrow>
        js_gt (Vector3_magnitude p3) k)
   \<and> (js_lt k js_zero \<and> no_NaN3 p3 \<and> truthy (x3 (Vector3_ClampMagnitude p3 k))
       \<longrightarrow>
        negative (x3 (Vector3_ClampMagnitude p3 k)) = (\<not> negative (x3 p3)))
   \<and> (js_lt k js_zero \<and> no_NaN3 p3 \<and> truthy (y3 (Vector3_ClampMagnitude p3 k))
       \<longrightarrow>
        negative (y3 (Vector3_ClampMagnitude p3 k)) = (\<not> negative (y3 p3)))
   \<and> (js_lt k js_zero \<and> no_NaN3 p3 \<and> truthy (z3 (Vector3_ClampMagnitude p3 k))
       \<longrightarrow>
        negative (z3 (Vector3_ClampMagnitude p3 k)) = (\<not> negative (z3 p3)))
   \<and> (js_gt (Vector3_magnitude p3) m \<and> nonneg m
       \<and> truthy (x3 (Vector3_ClampMagnitude p3 m)) \<longrightarrow>
        negative (x3 (Vector3_ClampMagnitude p3 m)) = negative (x3 p3))
   \<and> (js_gt (Vector3_magnitude p3) m \<and> nonneg m
       \<and> truthy (y3 (Vector3_ClampMagnitude p3 m)) \<longrightarrow>
        negative (y3 (Vector3_ClampMagnitude p3 m)) = negative (y3 p3))
   \<and> (js_gt (Vector3_magnitude p3) m \<and> nonneg m
       \<and> truthy (z3 (Vector3_ClampMagnitude p3 m)) \<longrightarrow>
        negative (z3 (Vector3_ClampMagnitude p3 m)) = negative (z3 p3)))"
proof -
  have nn: "no_NaN3 p3" if "\<not> isNaN (Vector3_magnitude p3)"
    using that by (rule Vector3_magnitude_NaN)
  have up: "Vector3_ClampMagnitude p3 m
      = new_Vector3
          (Some (js_mul (x3 p3) js_one))
          (Some (js_mul (y3 p3) js_one))
          (Some (js_mul (z3 p3) js_one))"
    if "\<not> js_gt (Vector3_magnitude p3) m"
    using that by (simp add: Vector3_ClampMagnitude_def Let_def del: init_field_Some)
  have down: "Vector3_ClampMagnitude p3 c
      = new_Vector3
          (Some (js_mul (x3 p3) (js_div c (Vector3_magnitude p3))))
          (Some (js_mul (y3 p3) (js_div c (Vector3_magnitude p3))))
          (Some (js_mul (z3 p3) (js_div c (Vector3_magnitude p3))))"
    if "js_gt (Vector3_magnitude p3) c" for c
    using that by (simp add: Vector3_ClampMagnitude_def Let_def del: init_field_Some)
  have q0: "Vector3_ClampMagnitude_ref h3 r m
      = (length h3, h3 @ [Vector3_ClampMagnitude (h3 ! r) m])"
    by (simp add: Vector3_ClampMagnitude_ref_def alloc_def)
  have q1: "\<not> js_gt (Vector3_magnitude p3) m \<Longrightarrow>
      Vector3_ClampMagnitude p3 m
        = new_Vector3
            (Some (js_mul (x3 p3) js_one))
            (Some (js_mul (y3 p3) js_one))
            (Some (js_mul (z3 p3) js_one))"
    by (rule up)
  have q2: "js_le (Vector3_magnitude p3) m \<Longrightarrow> doubles3 p3 \<Longrightarrow>
      js_eq (x3 (Vector3_ClampMagnitude p3 m)) (x3 p3)
        \<and> js_eq (y3 (Vector3_ClampMagnitude p3 m)) (y3 p3)
        \<and> js_eq (z3 (Vector3_ClampMagnitude p3 m)) (z3 p3)"
  proof -
    assume le: "js_le (Vector3_magnitude p3) m" and d: "doubles3 p3"
    from le have ng: "\<not> js_gt (Vector3_magnitude p3) m" by (simp add: js_gt_def js_le_not_gt)
    from le have "\<not> isNaN (Vector3_magnitude p3)" by (rule js_le_not_NaN)
    then have "no_NaN3 p3" by (rule nn)
    then show ?thesis
      using d by (simp add: up[OF ng] new_Vector3_def no_NaN3_def doubles3_def js_mul_one
          js_eq_stored js_eq_stored_truthy del: init_field_Some)
  qed
  have q3: "js_gt (Vector3_magnitude p3) k \<Longrightarrow>
      Vector3_ClampMagnitude p3 k
        = new_Vector3
            (Some (js_mul (x3 p3) (js_div k (Vector3_magnitude p3))))
            (Some (js_mul (y3 p3) (js_div k (Vector3_magnitude p3))))
            (Some (js_mul (z3 p3) (js_div k (Vector3_magnitude p3))))"
    by (rule down)
  have q4: "js_lt k js_zero \<Longrightarrow> no_NaN3 p3 \<Longrightarrow>
      js_gt (Vector3_magnitude p3) k"
  proof -
    assume l: "js_lt k js_zero" and n: "no_NaN3 p3"
    from n have "nonneg (Vector3_magnitude p3)" by (rule nonneg_Vector3_magnitude)
    with l show ?thesis by (simp add: js_gt_def js_lt_negative_nonneg)
  qed
  have q5: "js_lt k js_zero \<Longrightarrow> no_NaN3 p3
      \<Longrightarrow> truthy (x3 (Vector3_ClampMagnitude p3 k)) \<Longrightarrow>
      negative (x3 (Vector3_ClampMagnitude p3 k)) = (\<not> negative (x3 p3))"
  proof -
    assume l: "js_lt k js_zero" and n: "no_NaN3 p3"
      and t: "truthy (x3 (Vector3_ClampMagnitude p3 k))"
    from n have nm: "nonneg (Vector3_magnitude p3)" by (rule nonneg_Vector3_magnitude)
    with l have g: "js_gt (Vector3_magnitude p3) k" by (simp add: js_gt_def js_lt_negative_nonneg)
    from l nm have "isNaN (js_div k (Vector3_magnitude p3))
        \<or> negative (js_div k (Vector3_magnitude p3))"
      by (rule negative_ratio)
    then show ?thesis
      using t by (simp add: down[OF g] new_Vector3_def stored_scaled_negative del: init_field_Some)
  qed
  have q6: "js_lt k js_zero \<Longrightarrow> no_NaN3 p3
      \<Longrightarrow> truthy (y3 (Vector3_ClampMagnitude p3 k)) \<Longrightarrow>
      negative (y3 (Vector3_ClampMagnitude p3 k)) = (\<not> negative (y3 p3))"
  proof -
    assume l: "js_lt k js_zero" and n: "no_NaN3 p3"
      and t: "truthy (y3 (Vector3_ClampMagnitude p3 k))"
    from n have nm: "nonneg (Vector3_magnitude p3)" by (rule nonneg_Vector3_magnitude)
    with l have g: "js_gt (Vector3_magnitude p3) k" by (simp add: js_gt_def js_lt_negative_nonneg)
    from l nm have "isNaN (js_div k (Vector3_magnitude p3))
        \<or> negative (js_div k (Vector3_magnitude p3))"
      by (rule negative_ratio)
    then show ?thesis
      using t by (simp add: down[OF g] new_Vector3_def stored_scaled_negative del: init_field_Some)
  qed
  have q7: "js_lt k js_zero \<Longrightarrow> no_NaN3 p3
      \<Longrightarrow> truthy (z3 (Vector3_ClampMagnitude p3 k)) \<Longrightarrow>
      negative (z3 (Vector3_ClampMagnitude p3 k)) = (\<not> negative (z3 p3))"
  proof -
    assume l: "js_lt k js_zero" and n: "no_NaN3 p3"
      and t: "truthy (z3 (Vector3_ClampMagnitude p3 k))"
    from n have nm: "nonneg (Vector3_magnitude p3)" by (rule nonneg_Vector3_magnitude)
    with l have g: "js_gt (Vector3_magnitude p3) k" by (simp add: js_gt_def js_lt_negative_nonneg)
    from l nm have "isNaN (js_div k (Vector3_magnitude p3))
        \<or> negative (js_div k (Vector3_magnitude p3))"
      by (rule negative_ratio)
    then show ?thesis
      using t by (simp add: down[OF g] new_Vector3_def stored_scaled_negative del: init_field_Some)
  qed
  have q8: "js_gt (Vector3_magnitude p3) m \<Longrightarrow> nonneg m
      \<Longrightarrow> truthy (x3 (Vector3_ClampMagnitude p3 m)) \<Longrightarrow>
      negative (x3 (Vector3_ClampMagnitude p3 m)) = negative (x3 p3)"
  proof -
    assume g: "js_gt (Vector3_magnitude p3) m" and n: "nonneg m"
      and t: "truthy (x3 (Vector3_ClampMagnitude p3 m))"
    from g have "\<not> isNaN (Vector3_magnitude p3)" by (simp add: js_gt_def js_lt_not_NaN_right)
    then have "nonneg (Vector3_magnitude p3)" by (intro nonneg_Vector3_magnitude nn)
    with n have "isNaN (js_div m (Vector3_magnitude p3))
        \<or> \<not> negative (js_div m (Vector3_magnitude p3))"
      by (rule nonneg_ratio)
    then show ?thesis
      using t by (simp add: down[OF g] new_Vector3_def stored_scaled_nonneg del: init_field_Some)
  qed
  have q9: "js_gt (Vector3_magnitude p3) m \<Longrightarrow> nonneg m
      \<Longrightarrow> truthy (y3 (Vector3_ClampMagnitude p3 m)) \<Longrightarrow>
      negative (y3 (Vector3_ClampMagnitude p3 m)) = negative (y3 p3)"
  proof -
    assume g: "js_gt (Vector3_magnitude p3) m" and n: "nonneg m"
      and t: "truthy (y3 (Vector3_ClampMagnitude p3 m))"
    from g have "\<not> isNaN (Vector3_magnitude p3)" by (simp add: js_gt_def js_lt_not_NaN_right)
    then have "nonneg (Vector3_magnitude p3)" by (intro nonneg_Vector3_magnitude nn)
    with n have "isNaN (js_div m (Vector3_magnitude p3))
        \<or> \<not> negative (js_div m (Vector3_magnitude p3))"
      by (rule nonneg_ratio)
    then show ?thesis
      using t by (simp add: down[OF g] new_Vector3_def stored_scaled_nonneg del: init_field_Some)
  qed
  have q10: "js_gt (Vector3_magnitude p3) m \<Longrightarrow> nonneg m
      \<Longrightarrow> truthy (z3 (Vector3_ClampMagnitude p3 m)) \<Longrightarrow>
      negative (z3 (Vector3_ClampMagnitude p3 m)) = negative (z3 p3)"
  proof -
    assume g: "js_gt (Vector3_magnitude p3) m" and n: "nonneg m"
      and t: "truthy (z3 (Vector3_ClampMagnitude p3 m))"
    from g have "\<not> isNaN (Vector3_magnitude p3)" by (simp add: js_gt_def js_lt_not_NaN_right)
    then have "nonneg (Vector3_magnitude p3)" by (intro nonneg_Vector3_magnitude nn)
    with n have "isNaN (js_div m (Vector3_magnitude p3))
        \<or> \<not> negative (js_div m (Vector3_magnitude p3))"
      by (rule nonneg_ratio)
    then show ?thesis
      using t by (simp add: down[OF g] new_Vector3_def stored_scaled_nonneg del: init_field_Some)
  qed
  have o1: "(\<not> js_gt (Vector3_magnitude p3) m \<longrightarrow>
      Vector3_ClampMagnitude p3 m
        = new_Vector3
            (Some (js_mul (x3 p3) js_one))
            (Some (js_mul (y3 p3) js_one))
            (Some (js_mul (z3 p3) js_one)))"
    using q1 by blast
  have o2: "(js_le (Vector3_magnitude p3) m \<and> doubles3 p3 \<longrightarrow>
      js_eq (x3 (Vector3_ClampMagnitude p3 m)) (x3 p3)
        \<and> js_eq (y3 (Vector3_ClampMagnitude p3 m)) (y3 p3)
        \<and> js_eq (z3 (Vector3_ClampMagnitude p3 m)) (z3 p3))"
    using q2 by blast
  have o3: "(js_gt (Vector3_magnitude p3) k \<longrightarrow>
      Vector3_ClampMagnitude p3 k
        = new_Vector3
            (Some (js_mul (x3 p3) (js_div k (Vector3_magnitude p3))))
            (Some (js_mul (y3 p3) (js_div k (Vector3_magnitude p3))))
            (Some (js_mul (z3 p3) (js_div k (Vector3_magnitude p3)))))"
    using q3 by blast
  have o4: "(js_lt k js_zero \<and> no_NaN3 p3 \<longrightarrow>
      js_gt (Vector3_magnitude p3) k)"
    using q4 by blast
  have o5: "(js_lt k js_zero \<and> no_NaN3 p3 \<and> truthy (x3 (Vector3_ClampMagnitude p3 k))
      \<longrightarrow>
      negative (x3 (Vector3_ClampMagnitude p3 k)) = (\<not> negative (x3 p3)))"
    using q5 by blast
  have o6: "(js_lt k js_zero \<and> no_NaN3 p3 \<and> truthy (y3 (Vector3_ClampMagnitude p3 k))
      \<longrightarrow>
      negative (y3 (Vector3_ClampMagnitude p3 k)) = (\<not> negative (y3 p3)))"
    using q6 by blast
  have o7: "(js_lt k js_zero \<and> no_NaN3 p3 \<and> truthy (z3 (Vector3_ClampMagnitude p3 k))
      \<longrightarrow>
      negative (z3 (Vector3_ClampMagnitude p3 k)) = (\<not> negative (z3 p3)))"
    using q7 by blast
  have o8: "(js_gt (Vector3_magnitude p3) m \<and> nonneg m
      \<and> truthy (x3 (Vector3_ClampMagnitude p3 m)) \<longrightarrow>
      negative (x3 (Vector3_ClampMagnitude p3 m)) = negative (x3 p3))"
    using q8 by blast
  have o9: "(js_gt (Vector3_magnitude p3) m \<and> nonneg m
      \<and> truthy (y3 (Vector3_ClampMagnitude p3 m)) \<longrightarrow>
      negative (y3 (Vector3_ClampMagnitude p3 m)) = negative (y3 p3))"
    using q9 by blast
  have o10: "(js_gt (Vector3_magnitude p3) m \<and> nonneg m
      \<and> truthy (z3 (Vector3_ClampMagnitude p3 m)) \<longrightarrow>
      negative (z3 (Vector3_ClampMagnitude p3 m)) = negative (z3 p3))"
    using q10 by blast
  show ?thesis
    by (intro conjI q0 o1 o2 o3 o4 o5 o6 o7 o8 o9 o10)
qed

lemma Vector4_ClampMagnitude_facts:
  "(Vector4_ClampMagnitude_ref h4 r m
      = (length h4, h4 @ [Vector4_ClampMagnitude (h4 ! r) m])
   \<and> (\<not> js_gt (Vector4_magnitude p4) m \<longrightarrow>
        Vector4_ClampMagnitude p4 m
        = new_Vector4
            (Some (js_mul (x4 p4) js_one))
            (Some (js_mul (y4 p4) js_one))
            (Some (js_mul (z4 p4) js_one))
            (Some (js_mul (w4 p4) js_one)))
   \<and> (js_le (Vector4_magnitude p4) m \<and> doubles4 p4 \<longrightarrow>
        js_eq (x4 (Vector4_ClampMagnitude p4 m)) (x4 p4)
        \<and> js_eq (y4 (Vector4_ClampMagnitude p4 m)) (y4 p4)
        \<and> js_eq (z4 (Vector4_ClampMagnitude p4 m)) (z4 p4))
   \<and> (js_le (Vector4_magnitude p4) m \<and> doubles4 p4 \<and> truthy (w4 p4) \<longrightarrow>
        js_eq (w4 (Vector4_ClampMagnitude p4 m)) (w4 p4))
   \<and> (js_gt (Vector4_magnitude p4) k \<longrightarrow>
        Vector4_ClampMagnitude p4 k
        = new_Vector4
            (Some (js_mul (x4 p4) (js_div k (Vector4_magnitude p4))))
            (Some (js_mul (y4 p4) (js_div k (Vector4_magnitude p4))))
            (Some (js_mul (z4 p4) (js_div k (Vector4_magnitude p4))))
            (Some (js_mul (w4 p4) (js_div k (Vector4_magnitude p4)))))
   \<and> (js_lt k js_zero \<and> no_NaN4 p4 \<longrightarrow>
        js_gt (Vector4_magnitude p4) k)
   \<and> (js_lt k js_zero \<and> no_NaN4 p4 \<and> truthy (x4 (Vector4_ClampMagnitude p4 k))
       \<longrightarrow>
        negative (x4 (Vector4_ClampMagnitude p4 k)) = (\<not> negative (x4 p4)))
   \<and> (js_lt k js_zero \<and> no_NaN4 p4 \<and> truthy (y4 (Vector4_ClampMagnitude p4 k))
       \<longrightarrow>
        negative (y4 (Vector4_ClampMagnitude p4 k)) = (\<not> negative (y4 p4)))
   \<and> (js_lt k js_zero \<and> no_NaN4 p4 \<and> truthy (z4 (Vector4_ClampMagnitude p4 k))
       \<longrightarrow>
        negative (z4 (Vector4_ClampMagnitude p4 k)) = (\<not> negative (z4 p4)))
   \<and> (js_gt (Vector4_magnitude p4) m \<and> nonneg m
       \<and> truthy (x4 (Vector4_ClampMagnitude p4 m)) \<longrightarrow>
        negative (x4 (Vector4_ClampMagnitude p4 m)) = negative (x4 p4))
   \<and> (js_gt (Vector4_magnitude p4) m \<and> nonneg m
       \<and> truthy (y4 (Vector4_ClampMagnitude p4 m)) \<longrightarrow>
        negative (y4 (Vector4_ClampMagnitude p4 m)) = negative (y4 p4))
   \<and> (js_gt (Vector4_magnitude p4) m \<and> nonneg m
       \<and> truthy (z4 (Vector4_ClampMagnitude p4 m)) \<longrightarrow>
        negative (z4 (Vector4_ClampMagnitude p4 m)) = negative (z4 p4)))"
proof -
  have nn: "no_NaN4 p4" if "\<not> isNaN (Vector4_magnitude p4)"
    using that by (rule Vector4_magnitude_NaN)
  have up: "Vector4_ClampMagnitude p4 m
      = new_Vector4
          (Some (js_mul (x4 p4) js_one))
          (Some (js_mul (y4 p4) js_one))
          (Some (js_mul (z4 p4) js_one))
          (Some (js_mul (w4 p4) js_one))"
    if "\<not> js_gt (Vector4_magnitude p4) m"
    using that by (simp add: Vector4_ClampMagnitude_def Let_def del: init_field_Some)
  have down: "Vector4_ClampMagnitude p4 c
      = new_Vector4
          (Some (js_mul (x4 p4) (js_div c (Vector4_magnitude p4))))
          (Some (js_mul (y4 p4) (js_div c (Vector4_magnitude p4))))
          (Some (js_mul (z4 p4) (js_div c (Vector4_magnitude p4))))
          (Some (js_mul (w4 p4) (js_div c (Vector4_magnitude p4))))"
    if "js_gt (Vector4_magnitude p4) c" for c
    using that by (simp add: Vector4_ClampMagnitude_def Let_def del: init_field_Some)
  have q0: "Vector4_ClampMagnitude_ref h4 r m
      = (length h4, h4 @ [Vector4_ClampMagnitude (h4 ! r) m])"
    by (simp add: Vector4_ClampMagnitude_ref_def alloc_def)
  have q1: "\<not> js_gt (Vector4_magnitude p4) m \<Longrightarrow>
      Vector4_ClampMagnitude p4 m
        = new_Vector4
            (Some (js_mul (x4 p4) js_one))
            (Some (js_mul (y4 p4) js_one))
            (Some (js_mul (z4 p4) js_one))
            (Some (js_mul (w4 p4) js_one))"
    by (rule up)
  have q2: "js_le (Vector4_magnitude p4) m \<Longrightarrow> doubles4 p4 \<Longrightarrow>
      js_eq (x4 (Vector4_ClampMagnitude p4 m)) (x4 p4)
        \<and> js_eq (y4 (Vector4_ClampMagnitude p4 m)) (y4 p4)
        \<and> js_eq (z4 (Vector4_ClampMagnitude p4 m)) (z4 p4)"
  proof -
    assume le: "js_le (Vector4_magnitude p4) m" and d: "doubles4 p4"
    from le have ng: "\<not> js_gt (Vector4_magnitude p4) m" by (simp add: js_gt_def js_le_not_gt)
    from le have "\<not> isNaN (Vector4_magnitude p4)" by (rule js_le_not_NaN)
    then have "no_NaN4 p4" by (rule nn)
    then show ?thesis
      using d by (simp add: up[OF ng] new_Vector4_def no_NaN4_def doubles4_def js_mul_one
          js_eq_stored js_eq_stored_truthy del: init_field_Some)
  qed
  have q3: "js_le (Vector4_magnitude p4) m \<Longrightarrow> doubles4 p4
      \<Longrightarrow> truthy (w4 p4) \<Longrightarrow>
      js_eq (w4 (Vector4_ClampMagnitude p4 m)) (w4 p4)"
  proof -
    assume le: "js_le (Vector4_magnitude p4) m" and d: "doubles4 p4" and w: "truthy (w4 p4)"
    from le have ng: "\<not> js_gt (Vector4_magnitude p4) m" by (simp add: js_gt_def js_le_not_gt)
    from le have "\<not> isNaN (Vector4_magnitude p4)" by (rule js_le_not_NaN)
    then have "no_NaN4 p4" by (rule nn)
    then show ?thesis
      using d w by (simp add: up[OF ng] new_Vector4_def no_NaN4_def doubles4_def js_mul_one
          js_eq_stored js_eq_stored_truthy del: init_field_Some)
  qed
  have q4: "js_gt (Vector4_magnitude p4) k \<Longrightarrow>
      Vector4_ClampMagnitude p4 k
        = new_Vector4
            (Some (js_mul (x4 p4) (js_div k (Vector4_magnitude p4))))
            (Some (js_mul (y4 p4) (js_div k (Vector4_magnitude p4))))
            (Some (js_mul (z4 p4) (js_div k (Vector4_magnitude p4))))
            (Some (js_mul (w4 p4) (js_div k (Vector4_magnitude p4))))"
    by (rule down)
  have q5: "js_lt k js_zero \<Longrightarrow> no_NaN4 p4 \<Longrightarrow>
      js_gt (Vector4_magnitude p4) k"
  proof -
    assume l: "js_lt k js_zero" and n: "no_NaN4 p4"
    from n have "nonneg (Vector4_magnitude p4)" by (rule nonneg_Vector4_magnitude)
    with l show ?thesis by (simp add: js_gt_def js_lt_negative_nonneg)
  qed
  have q6: "js_lt k js_zero \<Longrightarrow> no_NaN4 p4
      \<Longrightarrow> truthy (x4 (Vector4_ClampMagnitude p4 k)) \<Longrightarrow>
      negative (x4 (Vector4_ClampMagnitude p4 k)) = (\<not> negative (x4 p4))"
  proof -
    assume l: "js_lt k js_zero" and n: "no_NaN4 p4"
      and t: "truthy (x4 (Vector4_ClampMagnitude p4 k))"
    from n have nm: "nonneg (Vector4_magnitude p4)" by (rule nonneg_Vector4_magnitude)
    with l have g: "js_gt (Vector4_magnitude p4) k" by (simp add: js_gt_def js_lt_negative_nonneg)
    from l nm have "isNaN (js_div k (Vector4_magnitude p4))
        \<or> negative (js_div k (Vector4_magnitude p4))"
      by (rule negative_ratio)
    then show ?thesis
      using t by (simp add: down[OF g] new_Vector4_def stored_scaled_negative del: init_field_Some)
  qed
  have q7: "js_lt k js_zero \<Longrightarrow> no_NaN4 p4
      \<Longrightarrow> truthy (y4 (Vector4_ClampMagnitude p4 k)) \<Longrightarrow>
      negative (y4 (Vector4_ClampMagnitude p4 k)) = (\<not> negative (y4 p4))"
  proof -
    assume l: "js_lt k js_zero" and n: "no_NaN4 p4"
      and t: "truthy (y4 (Vector4_ClampMagnitude p4 k))"
    from n have nm: "nonneg (Vector4_magnitude p4)" by (rule nonneg_Vector4_magnitude)
    with l have g: "js_gt (Vector4_magnitude p4) k" by (simp add: js_gt_def js_lt_negative_nonneg)
    from l nm have "isNaN (js_div k (Vector4_magnitude p4))
        \<or> negative (js_div k (Vector4_magnitude p4))"
      by (rule negative_ratio)
    then show ?thesis
      using t by (simp add: down[OF g] new_Vector4_def stored_scaled_negative del: init_field_Some)
  qed
  have q8: "js_lt k js_zero \<Longrightarrow> no_NaN4 p4
      \<Longrightarrow> truthy (z4 (Vector4_ClampMagnitude p4 k)) \<Longrightarrow>
      negative (z4 (Vector4_ClampMagnitude p4 k)) = (\<not> negative (z4 p4))"
  proof -
    assume l: "js_lt k js_zero" and n: "no_NaN4 p4"
      and t: "truthy (z4 (Vector4_ClampMagnitude p4 k))"
    from n have nm: "nonneg (Vector4_magnitude p4)" by (rule nonneg_Vector4_magnitude)
    with l have g: "js_gt (Vector4_magnitude p4) k" by (simp add: js_gt_def js_lt_negative_nonneg)
    from l nm have "isNaN (js_div k (Vector4_magnitude p4))
        \<or> negative (js_div k (Vector4_magnitude p4))"
      by (rule negative_ratio)
    then show ?thesis
      using t by (simp add: down[OF g] new_Vector4_def stored_scaled_negative del: init_field_Some)
  qed
  have q9: "js_gt (Vector4_magnitude p4) m \<Longrightarrow> nonneg m
      \<Longrightarrow> truthy (x4 (Vector4_ClampMagnitude p4 m)) \<Longrightarrow>
      negative (x4 (Vector4_ClampMagnitude p4 m)) = negative (x4 p4)"
  proof -
    assume g: "js_gt (Vector4_magnitude p4) m" and n: "nonneg m"
      and t: "truthy (x4 (Vector4_ClampMagnitude p4 m))"
    from g have "\<not> isNaN (Vector4_magnitude p4)" by (simp add: js_gt_def js_lt_not_NaN_right)
    then have "nonneg (Vector4_magnitude p4)" by (intro nonneg_Vector4_magnitude nn)
    with n have "isNaN (js_div m (Vector4_magnitude p4))
        \<or> \<not> negative (js_div m (Vector4_magnitude p4))"
      by (rule nonneg_ratio)
    then show ?thesis
      using t by (simp add: down[OF g] new_Vector4_def stored_scaled_nonneg del: init_field_Some)
  qed
  have q10: "js_gt (Vector4_magnitude p4) m \<Longrightarrow> nonneg m
      \<Longrightarrow> truthy (y4 (Vector4_ClampMagnitude p4 m)) \<Longrightarrow>
      negative (y4 (Vector4_ClampMagnitude p4 m)) = negative (y4 p4)"
  proof -
    assume g: "js_gt (Vector4_magnitude p4) m" and n: "nonneg m"
      and t: "truthy (y4 (Vector4_ClampMagnitude p4 m))"
    from g have "\<not> isNaN (Vector4_magnitude p4)" by (simp add: js_gt_def js_lt_not_NaN_right)
    then have "nonneg (Vector4_magnitude p4)" by (intro nonneg_Vector4_magnitude nn)
    with n have "isNaN (js_div m (Vector4_magnitude p4))
        \<or> \<not> negative (js_div m (Vector4_magnitude p4))"
      by (rule nonneg_ratio)
    then show ?thesis
      using t by (simp add: down[OF g] new_Vector4_def stored_scaled_nonneg del: init_field_Some)
  qed
  have q11: "js_gt (Vector4_magnitude p4) m \<Longrightarrow> nonneg m
      \<Longrightarrow> truthy (z4 (Vector4_ClampMagnitude p4 m)) \<Longrightarrow>
      negative (z4 (Vector4_ClampMagnitude p4 m)) = negative (z4 p4)"
  proof -
    assume g: "js_gt (Vector4_magnitude p4) m" and n: "nonneg m"
      and t: "truthy (z4 (Vector4_ClampMagnitude p4 m))"
    from g have "\<not> isNaN (Vector4_magnitude p4)" by (simp add: js_gt_def js_lt_not_NaN_right)
    then have "nonneg (Vector4_magnitude p4)" by (intro nonneg_Vector4_magnitude nn)
    with n have "isNaN (js_div m (Vector4_magnitude p4))
        \<or> \<not> negative (js_div m (Vector4_magnitude p4))"
      by (rule nonneg_ratio)
    then show ?thesis
      using t by (simp add: down[OF g] new_Vector4_def stored_scaled_nonneg del: init_field_Some)
  qed
  have o1: "(\<not> js_gt (Vector4_magnitude p4) m \<longrightarrow>
      Vector4_ClampMagnitude p4 m
        = new_Vector4
            (Some (js_mul (x4 p4) js_one))
            (Some (js_mul (y4 p4) js_one))
            (Some (js_mul (z4 p4) js_one))
            (Some (js_mul (w4 p4) js_one)))"
    using q1 by blast
  have o2: "(js_le (Vector4_magnitude p4) m \<and> doubles4 p4 \<longrightarrow>
      js_eq (x4 (Vector4_ClampMagnitude p4 m)) (x4 p4)
        \<and> js_eq (y4 (Vector4_ClampMagnitude p4 m)) (y4 p4)
        \<and> js_eq (z4 (Vector4_ClampMagnitude p4 m)) (z4 p4))"
    using q2 by blast
  have o3: "(js_le (Vector4_magnitude p4) m \<and> doubles4 p4 \<and> truthy (w4 p4)
      \<longrightarrow>
      js_eq (w4 (Vector4_ClampMagnitude p4 m)) (w4 p4))"
    using q3 by blast
  have o4: "(js_gt (Vector4_magnitude p4) k \<longrightarrow>
      Vector4_ClampMagnitude p4 k
        = new_Vector4
            (Some (js_mul (x4 p4) (js_div k (Vector4_magnitude p4))))
            (Some (js_mul (y4 p4) (js_div k (Vector4_magnitude p4))))
            (Some (js_mul (z4 p4) (js_div k (Vector4_magnitude p4))))
            (Some (js_mul (w4 p4) (js_div k (Vector4_magnitude p4)))))"
    using q4 by blast
  have o5: "(js_lt k js_zero \<and> no_NaN4 p4 \<longrightarrow>
      js_gt (Vector4_magnitude p4) k)"
    using q5 by blast
  have o6: "(js_lt k js_zero \<and> no_NaN4 p4 \<and> truthy (x4 (Vector4_ClampMagnitude p4 k))
      \<longrightarrow>
      negative (x4 (Vector4_ClampMagnitude p4 k)) = (\<not> negative (x4 p4)))"
    using q6 by blast
  have o7: "(js_lt k js_zero \<and> no_NaN4 p4 \<and> truthy (y4 (Vector4_ClampMagnitude p4 k))
      \<longrightarrow>
      negative (y4 (Vector4_ClampMagnitude p4 k)) = (\<not> negative (y4 p4)))"
    using q7 by blast
  have o8: "(js_lt k js_zero \<and> no_NaN4 p4 \<and> truthy (z4 (Vector4_ClampMagnitude p4 k))
      \<longrightarrow>
      negative (z4 (Vector4_ClampMagnitude p4 k)) = (\<not> negative (z4 p4)))"
    using q8 by blast
  have o9: "(js_gt (Vector4_magnitude p4) m \<and> nonneg m
      \<and> truthy (x4 (Vector4_ClampMagnitude p4 m)) \<longrightarrow>
      negative (x4 (Vector4_ClampMagnitude p4 m)) = negative (x4 p4))"
    using q9 by blast
  have o10: "(js_gt (Vector4_magnitude p4) m \<and> nonneg m
      \<and> truthy (y4 (Vector4_ClampMagnitude p4 m)) \<longrightarrow>
      negative (y4 (Vector4_ClampMagnitude p4 m)) = negative (y4 p4))"
    using q10 by blast
  have o11: "(js_gt (Vector4_magnitude p4) m \<and> nonneg m
      \<and> truthy (z4 (Vector4_ClampMagnitude p4 m)) \<longrightarrow>
      negative (z4 (Vector4_ClampMagnitude p4 m)) = negative (z4 p4))"
    using q11 by blast
  show ?thesis
    by (intro conjI q0 o1 o2 o3 o4 o5 o6 o7 o8 o9 o10 o11)
qed


text \<open>
  C7 as stated fails for a vector whose squares overflow: \<open>(2^600, 0)\<close> has the magnitude
  \<open>+Infinity\<close>, above the limit 1, the multiplier is 0, and the result is \<open>(0, 0)\<close>: its
  magnitude is 0 and not about 1, and the direction of the vector is lost.
\<close>

theorem ClampMagnitude_of_large_vector_is_zero:
  "doubles2 \<lparr>x2 = Finite False 1 600, y2 = js_zero\<rparr>
   \<and> js_gt (Vector2_magnitude \<lparr>x2 = Finite False 1 600, y2 = js_zero\<rparr>) js_one
   \<and> Vector2_ClampMagnitude \<lparr>x2 = Finite False 1 600, y2 = js_zero\<rparr> js_one
       = \<lparr>x2 = js_zero, y2 = js_zero\<rparr>
   \<and> Vector2_magnitude (Vector2_ClampMagnitude \<lparr>x2 = Finite False 1 600, y2
       = js_zero\<rparr> js_one)
       = js_zero"
  by (simp add: doubles2_def is_double_def Vector2_magnitude_def Vector2_ClampMagnitude_def
      new_Vector2_def Let_def number_eval)

lemma Vector2_ClampMagnitude_magnitude:
  assumes f: "is_finite (Vector2_magnitude v)"
    and fm: "is_finite m"
    and gt: "js_gt (Vector2_magnitude v) m"
    and lo: "1 / 2 ^ 511 \<le> \<bar>valof m\<bar>"
    and hi: "\<bar>valof m\<bar> \<le> 2 ^ 511"
    and loM: "1 / 2 ^ 511 \<le> valof (Vector2_magnitude v)"
  shows "is_finite (Vector2_magnitude (Vector2_ClampMagnitude v m))
    \<and> \<bar>valof (Vector2_magnitude (Vector2_ClampMagnitude v m)) - \<bar>valof m\<bar>\<bar>
        \<le> \<bar>valof m\<bar> / 2 ^ 48
    \<and> \<bar>valof (x2 (Vector2_ClampMagnitude v m))
          - valof (x2 v) * (valof m / valof (Vector2_magnitude v))\<bar>
        \<le> \<bar>valof (x2 v) * (valof m / valof (Vector2_magnitude v))\<bar> / 2 ^ 50 + 1 / 2
            ^ 1075
    \<and> \<bar>valof (y2 (Vector2_ClampMagnitude v m))
          - valof (y2 v) * (valof m / valof (Vector2_magnitude v))\<bar>
        \<le> \<bar>valof (y2 v) * (valof m / valof (Vector2_magnitude v))\<bar> / 2 ^ 50 + 1 / 2
            ^ 1075"
proof -
  define M where "M = Vector2_magnitude v"
  define r where "r = js_div m M"
  define pa where "pa = init_field js_zero (Some (js_mul (x2 v) r))"
  define pb where "pb = init_field js_zero (Some (js_mul (y2 v) r))"
  have M4: "M = Vector4_magnitude \<lparr>x4 = x2 v, y4 = y2 v, z4 = js_zero, w4 = js_zero\<rparr>"
    unfolding M_def by (rule Vector2_magnitude_as_4)
  have n: "Vector2_ClampMagnitude v m = \<lparr>x2 = pa, y2 = pb\<rparr>"
    using gt by (simp add: Vector2_ClampMagnitude_def Let_def new_Vector2_def pa_def pb_def r_def
        flip: M_def del: init_field_Some)
  have R4: "Vector2_magnitude (Vector2_ClampMagnitude v m)
      = Vector4_magnitude \<lparr>x4 = pa, y4 = pb, z4 = js_zero, w4 = js_zero\<rparr>"
    by (simp add: n Vector2_magnitude_as_4)
  have va: "valof pa = valof (js_mul (x2 v) r)
      \<and> (is_finite (js_mul (x2 v) r) \<longrightarrow> is_finite pa)"
    unfolding pa_def by (rule stored_value)
  have vb: "valof pb = valof (js_mul (y2 v) r)
      \<and> (is_finite (js_mul (y2 v) r) \<longrightarrow> is_finite pb)"
    unfolding pb_def by (rule stored_value)
  note f' = f[folded M_def, unfolded M4]
  note lo' = loM[folded M_def, unfolded M4]
  note core = clamp_core[of "x2 v" "y2 v" js_zero js_zero m pa pb js_zero js_zero,
      OF f' fm lo hi lo' va[unfolded r_def M4] vb[unfolded r_def M4] zero_product_value
          zero_product_value,
      folded M4, folded r_def R4]
  note ca = clamp_component[OF f' fm lo hi lo', of "x2 v", folded M4, folded r_def]
  note cb = clamp_component[OF f' fm lo hi lo', of "y2 v", folded M4, folded r_def]
  have sel: "x2 (Vector2_ClampMagnitude v m) = pa" "y2 (Vector2_ClampMagnitude v m) = pb"
    by (simp_all add: n)
  from core(2) have fa: "is_finite (js_mul (x2 v) r)" and fb: "is_finite (js_mul (y2 v) r)"
    by simp_all
  from core(1) ca[OF fa, folded va[THEN conjunct1]] cb[OF fb, folded vb[THEN conjunct1]]
  show ?thesis unfolding sel M_def by blast
qed

lemma Vector3_ClampMagnitude_magnitude:
  assumes f: "is_finite (Vector3_magnitude v)"
    and fm: "is_finite m"
    and gt: "js_gt (Vector3_magnitude v) m"
    and lo: "1 / 2 ^ 511 \<le> \<bar>valof m\<bar>"
    and hi: "\<bar>valof m\<bar> \<le> 2 ^ 511"
    and loM: "1 / 2 ^ 511 \<le> valof (Vector3_magnitude v)"
  shows "is_finite (Vector3_magnitude (Vector3_ClampMagnitude v m))
    \<and> \<bar>valof (Vector3_magnitude (Vector3_ClampMagnitude v m)) - \<bar>valof m\<bar>\<bar>
        \<le> \<bar>valof m\<bar> / 2 ^ 48
    \<and> \<bar>valof (x3 (Vector3_ClampMagnitude v m))
          - valof (x3 v) * (valof m / valof (Vector3_magnitude v))\<bar>
        \<le> \<bar>valof (x3 v) * (valof m / valof (Vector3_magnitude v))\<bar> / 2 ^ 50 + 1 / 2
            ^ 1075
    \<and> \<bar>valof (y3 (Vector3_ClampMagnitude v m))
          - valof (y3 v) * (valof m / valof (Vector3_magnitude v))\<bar>
        \<le> \<bar>valof (y3 v) * (valof m / valof (Vector3_magnitude v))\<bar> / 2 ^ 50 + 1 / 2
            ^ 1075
    \<and> \<bar>valof (z3 (Vector3_ClampMagnitude v m))
          - valof (z3 v) * (valof m / valof (Vector3_magnitude v))\<bar>
        \<le> \<bar>valof (z3 v) * (valof m / valof (Vector3_magnitude v))\<bar> / 2 ^ 50 + 1 / 2
            ^ 1075"
proof -
  define M where "M = Vector3_magnitude v"
  define r where "r = js_div m M"
  define pa where "pa = init_field js_zero (Some (js_mul (x3 v) r))"
  define pb where "pb = init_field js_zero (Some (js_mul (y3 v) r))"
  define pc where "pc = init_field js_zero (Some (js_mul (z3 v) r))"
  have M4: "M = Vector4_magnitude \<lparr>x4 = x3 v, y4 = y3 v, z4 = z3 v, w4 = js_zero\<rparr>"
    unfolding M_def by (rule Vector3_magnitude_as_4)
  have n: "Vector3_ClampMagnitude v m = \<lparr>x3 = pa, y3 = pb, z3 = pc\<rparr>"
    using gt by (simp add: Vector3_ClampMagnitude_def Let_def new_Vector3_def pa_def pb_def pc_def
        r_def
        flip: M_def del: init_field_Some)
  have R4: "Vector3_magnitude (Vector3_ClampMagnitude v m)
      = Vector4_magnitude \<lparr>x4 = pa, y4 = pb, z4 = pc, w4 = js_zero\<rparr>"
    by (simp add: n Vector3_magnitude_as_4)
  have va: "valof pa = valof (js_mul (x3 v) r)
      \<and> (is_finite (js_mul (x3 v) r) \<longrightarrow> is_finite pa)"
    unfolding pa_def by (rule stored_value)
  have vb: "valof pb = valof (js_mul (y3 v) r)
      \<and> (is_finite (js_mul (y3 v) r) \<longrightarrow> is_finite pb)"
    unfolding pb_def by (rule stored_value)
  have vc: "valof pc = valof (js_mul (z3 v) r)
      \<and> (is_finite (js_mul (z3 v) r) \<longrightarrow> is_finite pc)"
    unfolding pc_def by (rule stored_value)
  note f' = f[folded M_def, unfolded M4]
  note lo' = loM[folded M_def, unfolded M4]
  note core = clamp_core[of "x3 v" "y3 v" "z3 v" js_zero m pa pb pc js_zero,
      OF f' fm lo hi lo' va[unfolded r_def M4] vb[unfolded r_def M4] vc[unfolded r_def M4]
          zero_product_value,
      folded M4, folded r_def R4]
  note ca = clamp_component[OF f' fm lo hi lo', of "x3 v", folded M4, folded r_def]
  note cb = clamp_component[OF f' fm lo hi lo', of "y3 v", folded M4, folded r_def]
  note cc = clamp_component[OF f' fm lo hi lo', of "z3 v", folded M4, folded r_def]
  have sel: "x3 (Vector3_ClampMagnitude v m) = pa" "y3 (Vector3_ClampMagnitude v m)
      = pb" "z3 (Vector3_ClampMagnitude v m) = pc"
    by (simp_all add: n)
  from core(2) have fa: "is_finite (js_mul (x3 v) r)" and fb: "is_finite (js_mul (y3 v) r)" and
      fc: "is_finite (js_mul (z3 v) r)"
    by simp_all
  from core(1) ca[OF fa, folded va[THEN conjunct1]] cb[OF fb, folded vb[THEN conjunct1]] cc[OF fc,
      folded vc[THEN conjunct1]]
  show ?thesis unfolding sel M_def by blast
qed

lemma Vector4_ClampMagnitude_magnitude:
  assumes f: "is_finite (Vector4_magnitude v)"
    and fm: "is_finite m"
    and gt: "js_gt (Vector4_magnitude v) m"
    and lo: "1 / 2 ^ 511 \<le> \<bar>valof m\<bar>"
    and hi: "\<bar>valof m\<bar> \<le> 2 ^ 511"
    and loM: "1 / 2 ^ 511 \<le> valof (Vector4_magnitude v)"
    and tw: "truthy (js_mul (w4 v) (js_div m (Vector4_magnitude v)))"
  shows "is_finite (Vector4_magnitude (Vector4_ClampMagnitude v m))
    \<and> \<bar>valof (Vector4_magnitude (Vector4_ClampMagnitude v m)) - \<bar>valof m\<bar>\<bar>
        \<le> \<bar>valof m\<bar> / 2 ^ 48
    \<and> \<bar>valof (x4 (Vector4_ClampMagnitude v m))
          - valof (x4 v) * (valof m / valof (Vector4_magnitude v))\<bar>
        \<le> \<bar>valof (x4 v) * (valof m / valof (Vector4_magnitude v))\<bar> / 2 ^ 50 + 1 / 2
            ^ 1075
    \<and> \<bar>valof (y4 (Vector4_ClampMagnitude v m))
          - valof (y4 v) * (valof m / valof (Vector4_magnitude v))\<bar>
        \<le> \<bar>valof (y4 v) * (valof m / valof (Vector4_magnitude v))\<bar> / 2 ^ 50 + 1 / 2
            ^ 1075
    \<and> \<bar>valof (z4 (Vector4_ClampMagnitude v m))
          - valof (z4 v) * (valof m / valof (Vector4_magnitude v))\<bar>
        \<le> \<bar>valof (z4 v) * (valof m / valof (Vector4_magnitude v))\<bar> / 2 ^ 50 + 1 / 2
            ^ 1075
    \<and> \<bar>valof (w4 (Vector4_ClampMagnitude v m))
          - valof (w4 v) * (valof m / valof (Vector4_magnitude v))\<bar>
        \<le> \<bar>valof (w4 v) * (valof m / valof (Vector4_magnitude v))\<bar> / 2 ^ 50 + 1 / 2
            ^ 1075"
proof -
  define M where "M = Vector4_magnitude v"
  define r where "r = js_div m M"
  define pa where "pa = init_field js_zero (Some (js_mul (x4 v) r))"
  define pb where "pb = init_field js_zero (Some (js_mul (y4 v) r))"
  define pc where "pc = init_field js_zero (Some (js_mul (z4 v) r))"
  define pd where "pd = init_field js_one (Some (js_mul (w4 v) r))"
  have M4: "M = Vector4_magnitude \<lparr>x4 = x4 v, y4 = y4 v, z4 = z4 v, w4 = w4 v\<rparr>"
    unfolding M_def by (simp add: Vector4_magnitude_def)
  have n: "Vector4_ClampMagnitude v m = \<lparr>x4 = pa, y4 = pb, z4 = pc, w4 = pd\<rparr>"
    using gt by (simp add: Vector4_ClampMagnitude_def Let_def new_Vector4_def pa_def pb_def pc_def
        pd_def r_def
        flip: M_def del: init_field_Some)
  have R4: "Vector4_magnitude (Vector4_ClampMagnitude v m)
      = Vector4_magnitude \<lparr>x4 = pa, y4 = pb, z4 = pc, w4 = pd\<rparr>"
    by (simp only: n)
  have va: "valof pa = valof (js_mul (x4 v) r)
      \<and> (is_finite (js_mul (x4 v) r) \<longrightarrow> is_finite pa)"
    unfolding pa_def by (rule stored_value)
  have vb: "valof pb = valof (js_mul (y4 v) r)
      \<and> (is_finite (js_mul (y4 v) r) \<longrightarrow> is_finite pb)"
    unfolding pb_def by (rule stored_value)
  have vc: "valof pc = valof (js_mul (z4 v) r)
      \<and> (is_finite (js_mul (z4 v) r) \<longrightarrow> is_finite pc)"
    unfolding pc_def by (rule stored_value)
  have vd: "valof pd = valof (js_mul (w4 v) r)
      \<and> (is_finite (js_mul (w4 v) r) \<longrightarrow> is_finite pd)"
    unfolding pd_def using tw[folded M_def, folded r_def] by (rule stored_truthy_value)
  note f' = f[folded M_def, unfolded M4]
  note lo' = loM[folded M_def, unfolded M4]
  note core = clamp_core[of "x4 v" "y4 v" "z4 v" "w4 v" m pa pb pc pd,
      OF f' fm lo hi lo' va[unfolded r_def M4] vb[unfolded r_def M4] vc[unfolded r_def M4]
          vd[unfolded r_def M4],
      folded M4, folded r_def R4]
  note ca = clamp_component[OF f' fm lo hi lo', of "x4 v", folded M4, folded r_def]
  note cb = clamp_component[OF f' fm lo hi lo', of "y4 v", folded M4, folded r_def]
  note cc = clamp_component[OF f' fm lo hi lo', of "z4 v", folded M4, folded r_def]
  note cd = clamp_component[OF f' fm lo hi lo', of "w4 v", folded M4, folded r_def]
  have sel: "x4 (Vector4_ClampMagnitude v m) = pa" "y4 (Vector4_ClampMagnitude v m)
      = pb" "z4 (Vector4_ClampMagnitude v m) = pc" "w4 (Vector4_ClampMagnitude v m) = pd"
    by (simp_all add: n)
  from core(2) have fa: "is_finite (js_mul (x4 v) r)" and fb: "is_finite (js_mul (y4 v) r)" and
      fc: "is_finite (js_mul (z4 v) r)" and fd: "is_finite (js_mul (w4 v) r)"
    by simp_all
  from core(1) ca[OF fa, folded va[THEN conjunct1]] cb[OF fb, folded vb[THEN conjunct1]] cc[OF fc,
      folded vc[THEN conjunct1]] cd[OF fd, folded vd[THEN conjunct1]]
  show ?thesis unfolding sel M_def by blast
qed

text \<open>
  Outside that range the bound fails as well.  The limit \<open>3 * 2^-1074\<close> is a subnormal
  number; the vector \<open>(1, 0)\<close> is scaled to it exactly, but the square of the result is
  below every number above 0 and the magnitude of the result is 0.  The square of the
  limit \<open>-2^600\<close> overflows, and the magnitude of the result is \<open>+Infinity\<close>.  The magnitude
  of the vector \<open>(3 * 2^-538, 0)\<close> is too small by the factor 1.06, and so is the divisor
  of the limit -1: the result is too long by that factor.
\<close>

lemma ClampMagnitude_of_tiny_length:
  "js_gt (Vector2_magnitude \<lparr>x2 = js_one, y2 = js_zero\<rparr>) (Finite False 3 (- 1074))
   \<and> Vector2_ClampMagnitude \<lparr>x2 = js_one, y2 = js_zero\<rparr> (Finite False 3 (- 1074))
     = \<lparr>x2 = Finite False 3 (- 1074), y2 = js_zero\<rparr>
   \<and> Vector2_magnitude
        (Vector2_ClampMagnitude \<lparr>x2 = js_one, y2 = js_zero\<rparr> (Finite False 3 (- 1074)))
     = js_zero"
  by (simp add: Vector2_magnitude_def Vector2_ClampMagnitude_def new_Vector2_def Let_def
      number_eval)

lemma ClampMagnitude_of_huge_length:
  "js_gt (Vector2_magnitude \<lparr>x2 = js_one, y2 = js_zero\<rparr>) (Finite True 1 600)
   \<and> Vector2_ClampMagnitude \<lparr>x2 = js_one, y2 = js_zero\<rparr> (Finite True 1 600)
     = \<lparr>x2 = Finite True 1 600, y2 = js_zero\<rparr>
   \<and> Vector2_magnitude
        (Vector2_ClampMagnitude \<lparr>x2 = js_one, y2 = js_zero\<rparr> (Finite True 1 600))
     = Infinity False"
  by (simp add: Vector2_magnitude_def Vector2_ClampMagnitude_def new_Vector2_def Let_def
      number_eval)

lemma ClampMagnitude_of_tiny_vector:
  "js_gt (Vector2_magnitude \<lparr>x2 = Finite False 3 (- 538), y2
      = js_zero\<rparr>) (js_neg js_one)
   \<and> Vector2_ClampMagnitude \<lparr>x2 = Finite False 3 (- 538), y2
       = js_zero\<rparr> (js_neg js_one)
     = \<lparr>x2 = Finite True 4776788754394329 (- 52), y2 = js_zero\<rparr>
   \<and> Vector2_magnitude
        (Vector2_ClampMagnitude \<lparr>x2 = Finite False 3 (- 538), y2
            = js_zero\<rparr> (js_neg js_one))
     = Finite False 4776788754394329 (- 52)
   \<and> 1 + 1 / 2 ^ 5 < valof (Finite False 4776788754394329 (- 52))"
  by (simp add: Vector2_magnitude_def Vector2_ClampMagnitude_def new_Vector2_def Let_def
      number_eval)

text \<open>
  C7, amended.  For the three classes \<open>ClampMagnitude(v, m)\<close> returns a new instance.  If the
  magnitude of \<open>v\<close> is not above \<open>m\<close> the multiplier is 1, and where the magnitude is at most
  \<open>m\<close> the \<open>x\<close>, \<open>y\<close>, \<open>z\<close> of the result (and a nonzero \<open>w\<close>) compare equal to those of
  \<open>v\<close>.  If the magnitude is above \<open>m\<close> the components are multiplied by \<open>m\<close> divided by the
  magnitude: for \<open>m\<close> not negative every nonzero \<open>x\<close>, \<open>y\<close>, \<open>z\<close> of the result has the sign
  it has in \<open>v\<close>; a negative \<open>m\<close> takes this branch for every \<open>v\<close> without \<open>NaN\<close>, and every
  nonzero \<open>x\<close>, \<open>y\<close>, \<open>z\<close> of the result has the opposite sign.  Where, in this branch, the
  magnitude of \<open>v\<close> is finite and at least \<open>2^-511\<close> and the absolute value of \<open>m\<close> lies
  between \<open>2^-511\<close> and \<open>2^511\<close>, the magnitude of the result is finite and within the
  fraction \<open>2^-48\<close> of the absolute value of \<open>m\<close>, and every component of the result is
  within the fraction \<open>2^-50\<close>, and \<open>2^-1075\<close>, of the component of \<open>v\<close> times the exact ratio
  of \<open>m\<close> to the magnitude, one factor for all components: the result points where \<open>v\<close>
  points for \<open>m\<close> above 0, and the opposite way for \<open>m\<close> below 0.  For
      \<open>Vector4\<close> this is
  under the condition that the product for \<open>w\<close> is not zero.
\<close>

theorem ClampMagnitude_cases:
  "(Vector2_ClampMagnitude_ref h2 r m
       = (length h2, h2 @ [Vector2_ClampMagnitude (h2 ! r) m])
    \<and> (\<not> js_gt (Vector2_magnitude p2) m \<longrightarrow>
         Vector2_ClampMagnitude p2 m
         = new_Vector2
             (Some (js_mul (x2 p2) js_one))
             (Some (js_mul (y2 p2) js_one)))
    \<and> (js_le (Vector2_magnitude p2) m \<and> doubles2 p2 \<longrightarrow>
         js_eq (x2 (Vector2_ClampMagnitude p2 m)) (x2 p2)
         \<and> js_eq (y2 (Vector2_ClampMagnitude p2 m)) (y2 p2))
    \<and> (js_gt (Vector2_magnitude p2) k \<longrightarrow>
         Vector2_ClampMagnitude p2 k
         = new_Vector2
             (Some (js_mul (x2 p2) (js_div k (Vector2_magnitude p2))))
             (Some (js_mul (y2 p2) (js_div k (Vector2_magnitude p2)))))
    \<and> (js_lt k js_zero \<and> no_NaN2 p2 \<longrightarrow>
         js_gt (Vector2_magnitude p2) k)
    \<and> (js_lt k js_zero \<and> no_NaN2 p2 \<and> truthy (x2 (Vector2_ClampMagnitude p2 k))
        \<longrightarrow>
         negative (x2 (Vector2_ClampMagnitude p2 k)) = (\<not> negative (x2 p2)))
    \<and> (js_lt k js_zero \<and> no_NaN2 p2 \<and> truthy (y2 (Vector2_ClampMagnitude p2 k))
        \<longrightarrow>
         negative (y2 (Vector2_ClampMagnitude p2 k)) = (\<not> negative (y2 p2)))
    \<and> (js_gt (Vector2_magnitude p2) m \<and> nonneg m
        \<and> truthy (x2 (Vector2_ClampMagnitude p2 m)) \<longrightarrow>
         negative (x2 (Vector2_ClampMagnitude p2 m)) = negative (x2 p2))
    \<and> (js_gt (Vector2_magnitude p2) m \<and> nonneg m
        \<and> truthy (y2 (Vector2_ClampMagnitude p2 m)) \<longrightarrow>
         negative (y2 (Vector2_ClampMagnitude p2 m)) = negative (y2 p2)))
   \<and> (Vector3_ClampMagnitude_ref h3 r m
       = (length h3, h3 @ [Vector3_ClampMagnitude (h3 ! r) m])
    \<and> (\<not> js_gt (Vector3_magnitude p3) m \<longrightarrow>
         Vector3_ClampMagnitude p3 m
         = new_Vector3
             (Some (js_mul (x3 p3) js_one))
             (Some (js_mul (y3 p3) js_one))
             (Some (js_mul (z3 p3) js_one)))
    \<and> (js_le (Vector3_magnitude p3) m \<and> doubles3 p3 \<longrightarrow>
         js_eq (x3 (Vector3_ClampMagnitude p3 m)) (x3 p3)
         \<and> js_eq (y3 (Vector3_ClampMagnitude p3 m)) (y3 p3)
         \<and> js_eq (z3 (Vector3_ClampMagnitude p3 m)) (z3 p3))
    \<and> (js_gt (Vector3_magnitude p3) k \<longrightarrow>
         Vector3_ClampMagnitude p3 k
         = new_Vector3
             (Some (js_mul (x3 p3) (js_div k (Vector3_magnitude p3))))
             (Some (js_mul (y3 p3) (js_div k (Vector3_magnitude p3))))
             (Some (js_mul (z3 p3) (js_div k (Vector3_magnitude p3)))))
    \<and> (js_lt k js_zero \<and> no_NaN3 p3 \<longrightarrow>
         js_gt (Vector3_magnitude p3) k)
    \<and> (js_lt k js_zero \<and> no_NaN3 p3 \<and> truthy (x3 (Vector3_ClampMagnitude p3 k))
        \<longrightarrow>
         negative (x3 (Vector3_ClampMagnitude p3 k)) = (\<not> negative (x3 p3)))
    \<and> (js_lt k js_zero \<and> no_NaN3 p3 \<and> truthy (y3 (Vector3_ClampMagnitude p3 k))
        \<longrightarrow>
         negative (y3 (Vector3_ClampMagnitude p3 k)) = (\<not> negative (y3 p3)))
    \<and> (js_lt k js_zero \<and> no_NaN3 p3 \<and> truthy (z3 (Vector3_ClampMagnitude p3 k))
        \<longrightarrow>
         negative (z3 (Vector3_ClampMagnitude p3 k)) = (\<not> negative (z3 p3)))
    \<and> (js_gt (Vector3_magnitude p3) m \<and> nonneg m
        \<and> truthy (x3 (Vector3_ClampMagnitude p3 m)) \<longrightarrow>
         negative (x3 (Vector3_ClampMagnitude p3 m)) = negative (x3 p3))
    \<and> (js_gt (Vector3_magnitude p3) m \<and> nonneg m
        \<and> truthy (y3 (Vector3_ClampMagnitude p3 m)) \<longrightarrow>
         negative (y3 (Vector3_ClampMagnitude p3 m)) = negative (y3 p3))
    \<and> (js_gt (Vector3_magnitude p3) m \<and> nonneg m
        \<and> truthy (z3 (Vector3_ClampMagnitude p3 m)) \<longrightarrow>
         negative (z3 (Vector3_ClampMagnitude p3 m)) = negative (z3 p3)))
   \<and> (Vector4_ClampMagnitude_ref h4 r m
       = (length h4, h4 @ [Vector4_ClampMagnitude (h4 ! r) m])
    \<and> (\<not> js_gt (Vector4_magnitude p4) m \<longrightarrow>
         Vector4_ClampMagnitude p4 m
         = new_Vector4
             (Some (js_mul (x4 p4) js_one))
             (Some (js_mul (y4 p4) js_one))
             (Some (js_mul (z4 p4) js_one))
             (Some (js_mul (w4 p4) js_one)))
    \<and> (js_le (Vector4_magnitude p4) m \<and> doubles4 p4 \<longrightarrow>
         js_eq (x4 (Vector4_ClampMagnitude p4 m)) (x4 p4)
         \<and> js_eq (y4 (Vector4_ClampMagnitude p4 m)) (y4 p4)
         \<and> js_eq (z4 (Vector4_ClampMagnitude p4 m)) (z4 p4))
    \<and> (js_le (Vector4_magnitude p4) m \<and> doubles4 p4 \<and> truthy (w4 p4)
        \<longrightarrow>
         js_eq (w4 (Vector4_ClampMagnitude p4 m)) (w4 p4))
    \<and> (js_gt (Vector4_magnitude p4) k \<longrightarrow>
         Vector4_ClampMagnitude p4 k
         = new_Vector4
             (Some (js_mul (x4 p4) (js_div k (Vector4_magnitude p4))))
             (Some (js_mul (y4 p4) (js_div k (Vector4_magnitude p4))))
             (Some (js_mul (z4 p4) (js_div k (Vector4_magnitude p4))))
             (Some (js_mul (w4 p4) (js_div k (Vector4_magnitude p4)))))
    \<and> (js_lt k js_zero \<and> no_NaN4 p4 \<longrightarrow>
         js_gt (Vector4_magnitude p4) k)
    \<and> (js_lt k js_zero \<and> no_NaN4 p4 \<and> truthy (x4 (Vector4_ClampMagnitude p4 k))
        \<longrightarrow>
         negative (x4 (Vector4_ClampMagnitude p4 k)) = (\<not> negative (x4 p4)))
    \<and> (js_lt k js_zero \<and> no_NaN4 p4 \<and> truthy (y4 (Vector4_ClampMagnitude p4 k))
        \<longrightarrow>
         negative (y4 (Vector4_ClampMagnitude p4 k)) = (\<not> negative (y4 p4)))
    \<and> (js_lt k js_zero \<and> no_NaN4 p4 \<and> truthy (z4 (Vector4_ClampMagnitude p4 k))
        \<longrightarrow>
         negative (z4 (Vector4_ClampMagnitude p4 k)) = (\<not> negative (z4 p4)))
    \<and> (js_gt (Vector4_magnitude p4) m \<and> nonneg m
        \<and> truthy (x4 (Vector4_ClampMagnitude p4 m)) \<longrightarrow>
         negative (x4 (Vector4_ClampMagnitude p4 m)) = negative (x4 p4))
    \<and> (js_gt (Vector4_magnitude p4) m \<and> nonneg m
        \<and> truthy (y4 (Vector4_ClampMagnitude p4 m)) \<longrightarrow>
         negative (y4 (Vector4_ClampMagnitude p4 m)) = negative (y4 p4))
    \<and> (js_gt (Vector4_magnitude p4) m \<and> nonneg m
        \<and> truthy (z4 (Vector4_ClampMagnitude p4 m)) \<longrightarrow>
         negative (z4 (Vector4_ClampMagnitude p4 m)) = negative (z4 p4)))
   \<and> (is_finite (Vector2_magnitude p2)
    \<and> is_finite m
    \<and> js_gt (Vector2_magnitude p2) m
    \<and> 1 / 2 ^ 511 \<le> \<bar>valof m\<bar>
    \<and> \<bar>valof m\<bar> \<le> 2 ^ 511
    \<and> 1 / 2 ^ 511 \<le> valof (Vector2_magnitude p2)
    \<longrightarrow>
      is_finite (Vector2_magnitude (Vector2_ClampMagnitude p2 m))
      \<and> \<bar>valof (Vector2_magnitude (Vector2_ClampMagnitude p2 m)) - \<bar>valof
          m\<bar>\<bar>
        \<le> \<bar>valof m\<bar> / 2 ^ 48
      \<and> \<bar>valof (x2 (Vector2_ClampMagnitude p2 m))
          - valof (x2 p2) * (valof m / valof (Vector2_magnitude p2))\<bar>
        \<le> \<bar>valof (x2 p2) * (valof m / valof (Vector2_magnitude p2))\<bar> / 2 ^ 50 + 1 /
            2 ^ 1075
      \<and> \<bar>valof (y2 (Vector2_ClampMagnitude p2 m))
          - valof (y2 p2) * (valof m / valof (Vector2_magnitude p2))\<bar>
        \<le> \<bar>valof (y2 p2) * (valof m / valof (Vector2_magnitude p2))\<bar> / 2 ^ 50 + 1 /
            2 ^ 1075)
   \<and> (is_finite (Vector3_magnitude p3)
    \<and> is_finite m
    \<and> js_gt (Vector3_magnitude p3) m
    \<and> 1 / 2 ^ 511 \<le> \<bar>valof m\<bar>
    \<and> \<bar>valof m\<bar> \<le> 2 ^ 511
    \<and> 1 / 2 ^ 511 \<le> valof (Vector3_magnitude p3)
    \<longrightarrow>
      is_finite (Vector3_magnitude (Vector3_ClampMagnitude p3 m))
      \<and> \<bar>valof (Vector3_magnitude (Vector3_ClampMagnitude p3 m)) - \<bar>valof
          m\<bar>\<bar>
        \<le> \<bar>valof m\<bar> / 2 ^ 48
      \<and> \<bar>valof (x3 (Vector3_ClampMagnitude p3 m))
          - valof (x3 p3) * (valof m / valof (Vector3_magnitude p3))\<bar>
        \<le> \<bar>valof (x3 p3) * (valof m / valof (Vector3_magnitude p3))\<bar> / 2 ^ 50 + 1 /
            2 ^ 1075
      \<and> \<bar>valof (y3 (Vector3_ClampMagnitude p3 m))
          - valof (y3 p3) * (valof m / valof (Vector3_magnitude p3))\<bar>
        \<le> \<bar>valof (y3 p3) * (valof m / valof (Vector3_magnitude p3))\<bar> / 2 ^ 50 + 1 /
            2 ^ 1075
      \<and> \<bar>valof (z3 (Vector3_ClampMagnitude p3 m))
          - valof (z3 p3) * (valof m / valof (Vector3_magnitude p3))\<bar>
        \<le> \<bar>valof (z3 p3) * (valof m / valof (Vector3_magnitude p3))\<bar> / 2 ^ 50 + 1 /
            2 ^ 1075)
   \<and> (is_finite (Vector4_magnitude p4)
    \<and> is_finite m
    \<and> js_gt (Vector4_magnitude p4) m
    \<and> 1 / 2 ^ 511 \<le> \<bar>valof m\<bar>
    \<and> \<bar>valof m\<bar> \<le> 2 ^ 511
    \<and> 1 / 2 ^ 511 \<le> valof (Vector4_magnitude p4)
    \<and> truthy (js_mul (w4 p4) (js_div m (Vector4_magnitude p4)))
    \<longrightarrow>
      is_finite (Vector4_magnitude (Vector4_ClampMagnitude p4 m))
      \<and> \<bar>valof (Vector4_magnitude (Vector4_ClampMagnitude p4 m)) - \<bar>valof
          m\<bar>\<bar>
        \<le> \<bar>valof m\<bar> / 2 ^ 48
      \<and> \<bar>valof (x4 (Vector4_ClampMagnitude p4 m))
          - valof (x4 p4) * (valof m / valof (Vector4_magnitude p4))\<bar>
        \<le> \<bar>valof (x4 p4) * (valof m / valof (Vector4_magnitude p4))\<bar> / 2 ^ 50 + 1 /
            2 ^ 1075
      \<and> \<bar>valof (y4 (Vector4_ClampMagnitude p4 m))
          - valof (y4 p4) * (valof m / valof (Vector4_magnitude p4))\<bar>
        \<le> \<bar>valof (y4 p4) * (valof m / valof (Vector4_magnitude p4))\<bar> / 2 ^ 50 + 1 /
            2 ^ 1075
      \<and> \<bar>valof (z4 (Vector4_ClampMagnitude p4 m))
          - valof (z4 p4) * (valof m / valof (Vector4_magnitude p4))\<bar>
        \<le> \<bar>valof (z4 p4) * (valof m / valof (Vector4_magnitude p4))\<bar> / 2 ^ 50 + 1 /
            2 ^ 1075
      \<and> \<bar>valof (w4 (Vector4_ClampMagnitude p4 m))
          - valof (w4 p4) * (valof m / valof (Vector4_magnitude p4))\<bar>
        \<le> \<bar>valof (w4 p4) * (valof m / valof (Vector4_magnitude p4))\<bar> / 2 ^ 50 + 1 /
            2 ^ 1075)"
proof -
  have b2: "(is_finite (Vector2_magnitude p2)
      \<and> is_finite m
      \<and> js_gt (Vector2_magnitude p2) m
      \<and> 1 / 2 ^ 511 \<le> \<bar>valof m\<bar>
      \<and> \<bar>valof m\<bar> \<le> 2 ^ 511
      \<and> 1 / 2 ^ 511 \<le> valof (Vector2_magnitude p2)
      \<longrightarrow>
        is_finite (Vector2_magnitude (Vector2_ClampMagnitude p2 m))
        \<and> \<bar>valof (Vector2_magnitude (Vector2_ClampMagnitude p2 m)) - \<bar>valof
            m\<bar>\<bar>
         \<le> \<bar>valof m\<bar> / 2 ^ 48
        \<and> \<bar>valof (x2 (Vector2_ClampMagnitude p2 m))
           - valof (x2 p2) * (valof m / valof (Vector2_magnitude p2))\<bar>
         \<le> \<bar>valof (x2 p2) * (valof m / valof (Vector2_magnitude p2))\<bar> / 2 ^ 50 + 1 /
             2 ^ 1075
        \<and> \<bar>valof (y2 (Vector2_ClampMagnitude p2 m))
           - valof (y2 p2) * (valof m / valof (Vector2_magnitude p2))\<bar>
         \<le> \<bar>valof (y2 p2) * (valof m / valof (Vector2_magnitude p2))\<bar> / 2 ^ 50 + 1 /
             2 ^ 1075)"
    using Vector2_ClampMagnitude_magnitude[of p2 m] by blast
  have b3: "(is_finite (Vector3_magnitude p3)
      \<and> is_finite m
      \<and> js_gt (Vector3_magnitude p3) m
      \<and> 1 / 2 ^ 511 \<le> \<bar>valof m\<bar>
      \<and> \<bar>valof m\<bar> \<le> 2 ^ 511
      \<and> 1 / 2 ^ 511 \<le> valof (Vector3_magnitude p3)
      \<longrightarrow>
        is_finite (Vector3_magnitude (Vector3_ClampMagnitude p3 m))
        \<and> \<bar>valof (Vector3_magnitude (Vector3_ClampMagnitude p3 m)) - \<bar>valof
            m\<bar>\<bar>
         \<le> \<bar>valof m\<bar> / 2 ^ 48
        \<and> \<bar>valof (x3 (Vector3_ClampMagnitude p3 m))
           - valof (x3 p3) * (valof m / valof (Vector3_magnitude p3))\<bar>
         \<le> \<bar>valof (x3 p3) * (valof m / valof (Vector3_magnitude p3))\<bar> / 2 ^ 50 + 1 /
             2 ^ 1075
        \<and> \<bar>valof (y3 (Vector3_ClampMagnitude p3 m))
           - valof (y3 p3) * (valof m / valof (Vector3_magnitude p3))\<bar>
         \<le> \<bar>valof (y3 p3) * (valof m / valof (Vector3_magnitude p3))\<bar> / 2 ^ 50 + 1 /
             2 ^ 1075
        \<and> \<bar>valof (z3 (Vector3_ClampMagnitude p3 m))
           - valof (z3 p3) * (valof m / valof (Vector3_magnitude p3))\<bar>
         \<le> \<bar>valof (z3 p3) * (valof m / valof (Vector3_magnitude p3))\<bar> / 2 ^ 50 + 1 /
             2 ^ 1075)"
    using Vector3_ClampMagnitude_magnitude[of p3 m] by blast
  have b4: "(is_finite (Vector4_magnitude p4)
      \<and> is_finite m
      \<and> js_gt (Vector4_magnitude p4) m
      \<and> 1 / 2 ^ 511 \<le> \<bar>valof m\<bar>
      \<and> \<bar>valof m\<bar> \<le> 2 ^ 511
      \<and> 1 / 2 ^ 511 \<le> valof (Vector4_magnitude p4)
      \<and> truthy (js_mul (w4 p4) (js_div m (Vector4_magnitude p4)))
      \<longrightarrow>
        is_finite (Vector4_magnitude (Vector4_ClampMagnitude p4 m))
        \<and> \<bar>valof (Vector4_magnitude (Vector4_ClampMagnitude p4 m)) - \<bar>valof
            m\<bar>\<bar>
         \<le> \<bar>valof m\<bar> / 2 ^ 48
        \<and> \<bar>valof (x4 (Vector4_ClampMagnitude p4 m))
           - valof (x4 p4) * (valof m / valof (Vector4_magnitude p4))\<bar>
         \<le> \<bar>valof (x4 p4) * (valof m / valof (Vector4_magnitude p4))\<bar> / 2 ^ 50 + 1 /
             2 ^ 1075
        \<and> \<bar>valof (y4 (Vector4_ClampMagnitude p4 m))
           - valof (y4 p4) * (valof m / valof (Vector4_magnitude p4))\<bar>
         \<le> \<bar>valof (y4 p4) * (valof m / valof (Vector4_magnitude p4))\<bar> / 2 ^ 50 + 1 /
             2 ^ 1075
        \<and> \<bar>valof (z4 (Vector4_ClampMagnitude p4 m))
           - valof (z4 p4) * (valof m / valof (Vector4_magnitude p4))\<bar>
         \<le> \<bar>valof (z4 p4) * (valof m / valof (Vector4_magnitude p4))\<bar> / 2 ^ 50 + 1 /
             2 ^ 1075
        \<and> \<bar>valof (w4 (Vector4_ClampMagnitude p4 m))
           - valof (w4 p4) * (valof m / valof (Vector4_magnitude p4))\<bar>
         \<le> \<bar>valof (w4 p4) * (valof m / valof (Vector4_magnitude p4))\<bar> / 2 ^ 50 + 1 /
             2 ^ 1075)"
    using Vector4_ClampMagnitude_magnitude[of p4 m] by blast
  show ?thesis
    by (rule conjI[OF Vector2_ClampMagnitude_facts
        conjI[OF Vector3_ClampMagnitude_facts
        conjI[OF Vector4_ClampMagnitude_facts
        conjI[OF b2
        conjI[OF b3
        b4]]]]])
qed

theorem ClampMagnitude_cases_witness:
  "\<not> js_gt (Vector2_magnitude Vector2_one) (Finite False 1 2)
   \<and> js_le (Vector2_magnitude Vector2_one) (Finite False 1 2)
   \<and> doubles2 Vector2_one
   \<and> js_gt (Vector2_magnitude Vector2_one) (js_neg js_one)
   \<and> js_lt (js_neg js_one) js_zero
   \<and> no_NaN2 Vector2_one
   \<and> truthy (x2 (Vector2_ClampMagnitude Vector2_one (js_neg js_one)))
   \<and> truthy (y2 (Vector2_ClampMagnitude Vector2_one (js_neg js_one)))
   \<and> \<not> js_gt (Vector3_magnitude Vector3_one) (Finite False 1 2)
   \<and> js_le (Vector3_magnitude Vector3_one) (Finite False 1 2)
   \<and> doubles3 Vector3_one
   \<and> js_gt (Vector3_magnitude Vector3_one) (js_neg js_one)
   \<and> no_NaN3 Vector3_one
   \<and> truthy (x3 (Vector3_ClampMagnitude Vector3_one (js_neg js_one)))
   \<and> truthy (y3 (Vector3_ClampMagnitude Vector3_one (js_neg js_one)))
   \<and> truthy (z3 (Vector3_ClampMagnitude Vector3_one (js_neg js_one)))
   \<and> \<not> js_gt (Vector4_magnitude Vector4_one) (Finite False 1 2)
   \<and> js_le (Vector4_magnitude Vector4_one) (Finite False 1 2)
   \<and> doubles4 Vector4_one
   \<and> truthy (w4 Vector4_one)
   \<and> js_gt (Vector4_magnitude Vector4_one) (js_neg js_one)
   \<and> no_NaN4 Vector4_one
   \<and> truthy (x4 (Vector4_ClampMagnitude Vector4_one (js_neg js_one)))
   \<and> truthy (y4 (Vector4_ClampMagnitude Vector4_one (js_neg js_one)))
   \<and> truthy (z4 (Vector4_ClampMagnitude Vector4_one (js_neg js_one)))
   \<and> js_gt (Vector2_magnitude Vector2_one) (Finite False 1 (- 1))
   \<and> nonneg (Finite False 1 (- 1))
   \<and> truthy (x2 (Vector2_ClampMagnitude Vector2_one (Finite False 1 (- 1))))
   \<and> truthy (y2 (Vector2_ClampMagnitude Vector2_one (Finite False 1 (- 1))))
   \<and> js_gt (Vector3_magnitude Vector3_one) (Finite False 1 (- 1))
   \<and> truthy (x3 (Vector3_ClampMagnitude Vector3_one (Finite False 1 (- 1))))
   \<and> truthy (y3 (Vector3_ClampMagnitude Vector3_one (Finite False 1 (- 1))))
   \<and> truthy (z3 (Vector3_ClampMagnitude Vector3_one (Finite False 1 (- 1))))
   \<and> js_gt (Vector4_magnitude Vector4_one) (Finite False 1 (- 1))
   \<and> truthy (x4 (Vector4_ClampMagnitude Vector4_one (Finite False 1 (- 1))))
   \<and> truthy (y4 (Vector4_ClampMagnitude Vector4_one (Finite False 1 (- 1))))
   \<and> truthy (z4 (Vector4_ClampMagnitude Vector4_one (Finite False 1 (- 1))))
   \<and> is_finite (Vector2_magnitude Vector2_one)
   \<and> is_finite (Finite False 1 (- 1))
   \<and> 1 / 2 ^ 511 \<le> \<bar>valof (Finite False 1 (- 1))\<bar>
   \<and> \<bar>valof (Finite False 1 (- 1))\<bar> \<le> 2 ^ 511
   \<and> 1 / 2 ^ 511 \<le> valof (Vector2_magnitude Vector2_one)
   \<and> is_finite (Vector3_magnitude Vector3_one)
   \<and> 1 / 2 ^ 511 \<le> valof (Vector3_magnitude Vector3_one)
   \<and> is_finite (Vector4_magnitude Vector4_one)
   \<and> 1 / 2 ^ 511 \<le> valof (Vector4_magnitude Vector4_one)
   \<and> truthy (js_mul (w4 Vector4_one) (js_div (Finite False 1 (- 1)) (Vector4_magnitude
       Vector4_one)))
   \<and> js_eq (x2 (Vector2_ClampMagnitude Vector2_one (Finite False 1 2))) (x2 Vector2_one)
   \<and> js_gt (Vector2_magnitude Vector2_one) (js_neg js_one)
   \<and> negative (x2 (Vector2_ClampMagnitude Vector2_one (js_neg js_one)))
       = (\<not> negative (x2 Vector2_one))
   \<and> negative (y2 (Vector2_ClampMagnitude Vector2_one (js_neg js_one)))
       = (\<not> negative (y2 Vector2_one))
   \<and> js_eq (x3 (Vector3_ClampMagnitude Vector3_one (Finite False 1 2))) (x3 Vector3_one)
   \<and> js_gt (Vector3_magnitude Vector3_one) (js_neg js_one)
   \<and> negative (x3 (Vector3_ClampMagnitude Vector3_one (js_neg js_one)))
       = (\<not> negative (x3 Vector3_one))
   \<and> negative (y3 (Vector3_ClampMagnitude Vector3_one (js_neg js_one)))
       = (\<not> negative (y3 Vector3_one))
   \<and> negative (z3 (Vector3_ClampMagnitude Vector3_one (js_neg js_one)))
       = (\<not> negative (z3 Vector3_one))
   \<and> js_eq (x4 (Vector4_ClampMagnitude Vector4_one (Finite False 1 2))) (x4 Vector4_one)
   \<and> js_eq (w4 (Vector4_ClampMagnitude Vector4_one (Finite False 1 2))) (w4 Vector4_one)
   \<and> js_gt (Vector4_magnitude Vector4_one) (js_neg js_one)
   \<and> negative (x4 (Vector4_ClampMagnitude Vector4_one (js_neg js_one)))
       = (\<not> negative (x4 Vector4_one))
   \<and> negative (y4 (Vector4_ClampMagnitude Vector4_one (js_neg js_one)))
       = (\<not> negative (y4 Vector4_one))
   \<and> negative (z4 (Vector4_ClampMagnitude Vector4_one (js_neg js_one)))
       = (\<not> negative (z4 Vector4_one))
   \<and> negative (x2 (Vector2_ClampMagnitude Vector2_one (Finite False 1 (- 1))))
       = negative (x2 Vector2_one)
   \<and> negative (y2 (Vector2_ClampMagnitude Vector2_one (Finite False 1 (- 1))))
       = negative (y2 Vector2_one)
   \<and> negative (x3 (Vector3_ClampMagnitude Vector3_one (Finite False 1 (- 1))))
       = negative (x3 Vector3_one)
   \<and> negative (y3 (Vector3_ClampMagnitude Vector3_one (Finite False 1 (- 1))))
       = negative (y3 Vector3_one)
   \<and> negative (z3 (Vector3_ClampMagnitude Vector3_one (Finite False 1 (- 1))))
       = negative (z3 Vector3_one)
   \<and> negative (x4 (Vector4_ClampMagnitude Vector4_one (Finite False 1 (- 1))))
       = negative (x4 Vector4_one)
   \<and> negative (y4 (Vector4_ClampMagnitude Vector4_one (Finite False 1 (- 1))))
       = negative (y4 Vector4_one)
   \<and> negative (z4 (Vector4_ClampMagnitude Vector4_one (Finite False 1 (- 1))))
       = negative (z4 Vector4_one)
   \<and> is_finite (Vector2_magnitude (Vector2_ClampMagnitude Vector2_one (Finite False 1 (- 1))))
   \<and> \<bar>valof (Vector2_magnitude (Vector2_ClampMagnitude Vector2_one (Finite False 1 (-
       1)))) - \<bar>valof (Finite False 1 (- 1))\<bar>\<bar>
      \<le> \<bar>valof (Finite False 1 (- 1))\<bar> / 2 ^ 48
   \<and> \<bar>valof (x2 (Vector2_ClampMagnitude Vector2_one (Finite False 1 (- 1))))
        - valof (x2 Vector2_one) * (valof (Finite False 1 (- 1)) / valof (Vector2_magnitude
            Vector2_one))\<bar>
      \<le> \<bar>valof (x2 Vector2_one) * (valof (Finite False 1 (- 1)) / valof
          (Vector2_magnitude Vector2_one))\<bar> / 2 ^ 50 + 1 / 2 ^ 1075
   \<and> \<bar>valof (y2 (Vector2_ClampMagnitude Vector2_one (Finite False 1 (- 1))))
        - valof (y2 Vector2_one) * (valof (Finite False 1 (- 1)) / valof (Vector2_magnitude
            Vector2_one))\<bar>
      \<le> \<bar>valof (y2 Vector2_one) * (valof (Finite False 1 (- 1)) / valof
          (Vector2_magnitude Vector2_one))\<bar> / 2 ^ 50 + 1 / 2 ^ 1075
   \<and> is_finite (Vector3_magnitude (Vector3_ClampMagnitude Vector3_one (Finite False 1 (- 1))))
   \<and> \<bar>valof (Vector3_magnitude (Vector3_ClampMagnitude Vector3_one (Finite False 1 (-
       1)))) - \<bar>valof (Finite False 1 (- 1))\<bar>\<bar>
      \<le> \<bar>valof (Finite False 1 (- 1))\<bar> / 2 ^ 48
   \<and> \<bar>valof (x3 (Vector3_ClampMagnitude Vector3_one (Finite False 1 (- 1))))
        - valof (x3 Vector3_one) * (valof (Finite False 1 (- 1)) / valof (Vector3_magnitude
            Vector3_one))\<bar>
      \<le> \<bar>valof (x3 Vector3_one) * (valof (Finite False 1 (- 1)) / valof
          (Vector3_magnitude Vector3_one))\<bar> / 2 ^ 50 + 1 / 2 ^ 1075
   \<and> \<bar>valof (y3 (Vector3_ClampMagnitude Vector3_one (Finite False 1 (- 1))))
        - valof (y3 Vector3_one) * (valof (Finite False 1 (- 1)) / valof (Vector3_magnitude
            Vector3_one))\<bar>
      \<le> \<bar>valof (y3 Vector3_one) * (valof (Finite False 1 (- 1)) / valof
          (Vector3_magnitude Vector3_one))\<bar> / 2 ^ 50 + 1 / 2 ^ 1075
   \<and> \<bar>valof (z3 (Vector3_ClampMagnitude Vector3_one (Finite False 1 (- 1))))
        - valof (z3 Vector3_one) * (valof (Finite False 1 (- 1)) / valof (Vector3_magnitude
            Vector3_one))\<bar>
      \<le> \<bar>valof (z3 Vector3_one) * (valof (Finite False 1 (- 1)) / valof
          (Vector3_magnitude Vector3_one))\<bar> / 2 ^ 50 + 1 / 2 ^ 1075
   \<and> is_finite (Vector4_magnitude (Vector4_ClampMagnitude Vector4_one (Finite False 1 (- 1))))
   \<and> \<bar>valof (Vector4_magnitude (Vector4_ClampMagnitude Vector4_one (Finite False 1 (-
       1)))) - \<bar>valof (Finite False 1 (- 1))\<bar>\<bar>
      \<le> \<bar>valof (Finite False 1 (- 1))\<bar> / 2 ^ 48
   \<and> \<bar>valof (x4 (Vector4_ClampMagnitude Vector4_one (Finite False 1 (- 1))))
        - valof (x4 Vector4_one) * (valof (Finite False 1 (- 1)) / valof (Vector4_magnitude
            Vector4_one))\<bar>
      \<le> \<bar>valof (x4 Vector4_one) * (valof (Finite False 1 (- 1)) / valof
          (Vector4_magnitude Vector4_one))\<bar> / 2 ^ 50 + 1 / 2 ^ 1075
   \<and> \<bar>valof (y4 (Vector4_ClampMagnitude Vector4_one (Finite False 1 (- 1))))
        - valof (y4 Vector4_one) * (valof (Finite False 1 (- 1)) / valof (Vector4_magnitude
            Vector4_one))\<bar>
      \<le> \<bar>valof (y4 Vector4_one) * (valof (Finite False 1 (- 1)) / valof
          (Vector4_magnitude Vector4_one))\<bar> / 2 ^ 50 + 1 / 2 ^ 1075
   \<and> \<bar>valof (z4 (Vector4_ClampMagnitude Vector4_one (Finite False 1 (- 1))))
        - valof (z4 Vector4_one) * (valof (Finite False 1 (- 1)) / valof (Vector4_magnitude
            Vector4_one))\<bar>
      \<le> \<bar>valof (z4 Vector4_one) * (valof (Finite False 1 (- 1)) / valof
          (Vector4_magnitude Vector4_one))\<bar> / 2 ^ 50 + 1 / 2 ^ 1075
   \<and> \<bar>valof (w4 (Vector4_ClampMagnitude Vector4_one (Finite False 1 (- 1))))
        - valof (w4 Vector4_one) * (valof (Finite False 1 (- 1)) / valof (Vector4_magnitude
            Vector4_one))\<bar>
      \<le> \<bar>valof (w4 Vector4_one) * (valof (Finite False 1 (- 1)) / valof
          (Vector4_magnitude Vector4_one))\<bar> / 2 ^ 50 + 1 / 2 ^ 1075"
proof -
  have hs:
    "\<not> js_gt (Vector2_magnitude Vector2_one) (Finite False 1 2)"
    "js_le (Vector2_magnitude Vector2_one) (Finite False 1 2)"
    "doubles2 Vector2_one"
    "js_gt (Vector2_magnitude Vector2_one) (js_neg js_one)"
    "js_lt (js_neg js_one) js_zero"
    "no_NaN2 Vector2_one"
    "truthy (x2 (Vector2_ClampMagnitude Vector2_one (js_neg js_one)))"
    "truthy (y2 (Vector2_ClampMagnitude Vector2_one (js_neg js_one)))"
    "\<not> js_gt (Vector3_magnitude Vector3_one) (Finite False 1 2)"
    "js_le (Vector3_magnitude Vector3_one) (Finite False 1 2)"
    "doubles3 Vector3_one"
    "js_gt (Vector3_magnitude Vector3_one) (js_neg js_one)"
    "no_NaN3 Vector3_one"
    "truthy (x3 (Vector3_ClampMagnitude Vector3_one (js_neg js_one)))"
    "truthy (y3 (Vector3_ClampMagnitude Vector3_one (js_neg js_one)))"
    "truthy (z3 (Vector3_ClampMagnitude Vector3_one (js_neg js_one)))"
    "\<not> js_gt (Vector4_magnitude Vector4_one) (Finite False 1 2)"
    "js_le (Vector4_magnitude Vector4_one) (Finite False 1 2)"
    "doubles4 Vector4_one"
    "truthy (w4 Vector4_one)"
    "js_gt (Vector4_magnitude Vector4_one) (js_neg js_one)"
    "no_NaN4 Vector4_one"
    "truthy (x4 (Vector4_ClampMagnitude Vector4_one (js_neg js_one)))"
    "truthy (y4 (Vector4_ClampMagnitude Vector4_one (js_neg js_one)))"
    "truthy (z4 (Vector4_ClampMagnitude Vector4_one (js_neg js_one)))"
    "js_gt (Vector2_magnitude Vector2_one) (Finite False 1 (- 1))"
    "nonneg (Finite False 1 (- 1))"
    "truthy (x2 (Vector2_ClampMagnitude Vector2_one (Finite False 1 (- 1))))"
    "truthy (y2 (Vector2_ClampMagnitude Vector2_one (Finite False 1 (- 1))))"
    "js_gt (Vector3_magnitude Vector3_one) (Finite False 1 (- 1))"
    "truthy (x3 (Vector3_ClampMagnitude Vector3_one (Finite False 1 (- 1))))"
    "truthy (y3 (Vector3_ClampMagnitude Vector3_one (Finite False 1 (- 1))))"
    "truthy (z3 (Vector3_ClampMagnitude Vector3_one (Finite False 1 (- 1))))"
    "js_gt (Vector4_magnitude Vector4_one) (Finite False 1 (- 1))"
    "truthy (x4 (Vector4_ClampMagnitude Vector4_one (Finite False 1 (- 1))))"
    "truthy (y4 (Vector4_ClampMagnitude Vector4_one (Finite False 1 (- 1))))"
    "truthy (z4 (Vector4_ClampMagnitude Vector4_one (Finite False 1 (- 1))))"
    "is_finite (Vector2_magnitude Vector2_one)"
    "is_finite (Finite False 1 (- 1))"
    "1 / 2 ^ 511 \<le> \<bar>valof (Finite False 1 (- 1))\<bar>"
    "\<bar>valof (Finite False 1 (- 1))\<bar> \<le> 2 ^ 511"
    "1 / 2 ^ 511 \<le> valof (Vector2_magnitude Vector2_one)"
    "is_finite (Vector3_magnitude Vector3_one)"
    "1 / 2 ^ 511 \<le> valof (Vector3_magnitude Vector3_one)"
    "is_finite (Vector4_magnitude Vector4_one)"
    "1 / 2 ^ 511 \<le> valof (Vector4_magnitude Vector4_one)"
    "truthy (js_mul (w4 Vector4_one) (js_div (Finite False 1 (- 1)) (Vector4_magnitude
        Vector4_one)))"
    by (simp_all add: Vector2_magnitude_def Vector3_magnitude_def Vector4_magnitude_def
        Vector2_ClampMagnitude_def Vector3_ClampMagnitude_def Vector4_ClampMagnitude_def
        Vector2_one_def Vector3_one_def Vector4_one_def
        new_Vector2_def new_Vector3_def new_Vector4_def no_NaN2_def no_NaN3_def no_NaN4_def
        doubles2_def doubles3_def doubles4_def is_double_def nonneg_def Let_def number_eval)
  note big = ClampMagnitude_cases[of "[Vector2_one]" 0 "Finite False 1 2" Vector2_one "js_neg
      js_one"
      "[Vector3_one]" Vector3_one "[Vector4_one]" Vector4_one]
  note big1 = big[THEN conjunct1]
  note big2 = big[THEN conjunct2, THEN conjunct1]
  note big3 = big[THEN conjunct2, THEN conjunct2, THEN conjunct1]
  note small = ClampMagnitude_cases[of "[Vector2_one]" 0 "Finite False 1 (- 1)" Vector2_one
      "js_neg js_one"
      "[Vector3_one]" Vector3_one "[Vector4_one]" Vector4_one]
  note small1 = small[THEN conjunct1]
  note small2 = small[THEN conjunct2, THEN conjunct1]
  note small3 = small[THEN conjunct2, THEN conjunct2, THEN conjunct1]
  note small4 = small[THEN conjunct2, THEN conjunct2, THEN conjunct2, THEN conjunct1]
  note small5 = small[THEN conjunct2, THEN conjunct2, THEN conjunct2,
              THEN conjunct2, THEN conjunct1]
  note small6 = small[THEN conjunct2, THEN conjunct2, THEN conjunct2,
              THEN conjunct2, THEN conjunct2]
  have "js_eq (x2 (Vector2_ClampMagnitude Vector2_one (Finite False 1 2))) (x2 Vector2_one)"
    using hs big1[THEN conjunct2, THEN conjunct2, THEN conjunct1]
    by blast
  have "js_gt (Vector2_magnitude Vector2_one) (js_neg js_one)"
    using hs big1[THEN conjunct2, THEN conjunct2, THEN conjunct2, THEN conjunct2, THEN conjunct1]
    by blast
  have "negative (x2 (Vector2_ClampMagnitude Vector2_one (js_neg js_one)))
      = (\<not> negative (x2 Vector2_one))"
    using hs big1[THEN conjunct2, THEN conjunct2, THEN conjunct2,
            THEN conjunct2, THEN conjunct2, THEN conjunct1]
    by blast
  have "negative (y2 (Vector2_ClampMagnitude Vector2_one (js_neg js_one)))
      = (\<not> negative (y2 Vector2_one))"
    using hs big1[THEN conjunct2, THEN conjunct2, THEN conjunct2,
            THEN conjunct2, THEN conjunct2, THEN conjunct2,
            THEN conjunct1]
    by blast
  have "js_eq (x3 (Vector3_ClampMagnitude Vector3_one (Finite False 1 2))) (x3 Vector3_one)"
    using hs big2[THEN conjunct2, THEN conjunct2, THEN conjunct1]
    by blast
  have "js_gt (Vector3_magnitude Vector3_one) (js_neg js_one)"
    using hs big2[THEN conjunct2, THEN conjunct2, THEN conjunct2, THEN conjunct2, THEN conjunct1]
    by blast
  have "negative (x3 (Vector3_ClampMagnitude Vector3_one (js_neg js_one)))
      = (\<not> negative (x3 Vector3_one))"
    using hs big2[THEN conjunct2, THEN conjunct2, THEN conjunct2,
            THEN conjunct2, THEN conjunct2, THEN conjunct1]
    by blast
  have "negative (y3 (Vector3_ClampMagnitude Vector3_one (js_neg js_one)))
      = (\<not> negative (y3 Vector3_one))"
    using hs big2[THEN conjunct2, THEN conjunct2, THEN conjunct2,
            THEN conjunct2, THEN conjunct2, THEN conjunct2,
            THEN conjunct1]
    by blast
  have "negative (z3 (Vector3_ClampMagnitude Vector3_one (js_neg js_one)))
      = (\<not> negative (z3 Vector3_one))"
    using hs big2[THEN conjunct2, THEN conjunct2, THEN conjunct2,
            THEN conjunct2, THEN conjunct2, THEN conjunct2,
            THEN conjunct2, THEN conjunct1]
    by blast
  have "js_eq (x4 (Vector4_ClampMagnitude Vector4_one (Finite False 1 2))) (x4 Vector4_one)"
    using hs big3[THEN conjunct2, THEN conjunct2, THEN conjunct1]
    by blast
  have "js_eq (w4 (Vector4_ClampMagnitude Vector4_one (Finite False 1 2))) (w4 Vector4_one)"
    using hs big3[THEN conjunct2, THEN conjunct2, THEN conjunct2, THEN conjunct1]
    by blast
  have "js_gt (Vector4_magnitude Vector4_one) (js_neg js_one)"
    using hs big3[THEN conjunct2, THEN conjunct2, THEN conjunct2,
            THEN conjunct2, THEN conjunct2, THEN conjunct1]
    by blast
  have "negative (x4 (Vector4_ClampMagnitude Vector4_one (js_neg js_one)))
      = (\<not> negative (x4 Vector4_one))"
    using hs big3[THEN conjunct2, THEN conjunct2, THEN conjunct2,
            THEN conjunct2, THEN conjunct2, THEN conjunct2,
            THEN conjunct1]
    by blast
  have "negative (y4 (Vector4_ClampMagnitude Vector4_one (js_neg js_one)))
      = (\<not> negative (y4 Vector4_one))"
    using hs big3[THEN conjunct2, THEN conjunct2, THEN conjunct2,
            THEN conjunct2, THEN conjunct2, THEN conjunct2,
            THEN conjunct2, THEN conjunct1]
    by blast
  have "negative (z4 (Vector4_ClampMagnitude Vector4_one (js_neg js_one)))
      = (\<not> negative (z4 Vector4_one))"
    using hs big3[THEN conjunct2, THEN conjunct2, THEN conjunct2,
            THEN conjunct2, THEN conjunct2, THEN conjunct2,
            THEN conjunct2, THEN conjunct2, THEN conjunct1]
    by blast
  have "negative (x2 (Vector2_ClampMagnitude Vector2_one (Finite False 1 (- 1))))
      = negative (x2 Vector2_one)"
    using hs small1[THEN conjunct2, THEN conjunct2, THEN conjunct2,
            THEN conjunct2, THEN conjunct2, THEN conjunct2,
            THEN conjunct2, THEN conjunct1]
    by blast
  have "negative (y2 (Vector2_ClampMagnitude Vector2_one (Finite False 1 (- 1))))
      = negative (y2 Vector2_one)"
    using hs small1[THEN conjunct2, THEN conjunct2, THEN conjunct2,
            THEN conjunct2, THEN conjunct2, THEN conjunct2,
            THEN conjunct2, THEN conjunct2]
    by blast
  have "negative (x3 (Vector3_ClampMagnitude Vector3_one (Finite False 1 (- 1))))
      = negative (x3 Vector3_one)"
    using hs small2[THEN conjunct2, THEN conjunct2, THEN conjunct2,
            THEN conjunct2, THEN conjunct2, THEN conjunct2,
            THEN conjunct2, THEN conjunct2, THEN conjunct1]
    by blast
  have "negative (y3 (Vector3_ClampMagnitude Vector3_one (Finite False 1 (- 1))))
      = negative (y3 Vector3_one)"
    using hs small2[THEN conjunct2, THEN conjunct2, THEN conjunct2,
            THEN conjunct2, THEN conjunct2, THEN conjunct2,
            THEN conjunct2, THEN conjunct2, THEN conjunct2,
            THEN conjunct1]
    by blast
  have "negative (z3 (Vector3_ClampMagnitude Vector3_one (Finite False 1 (- 1))))
      = negative (z3 Vector3_one)"
    using hs small2[THEN conjunct2, THEN conjunct2, THEN conjunct2,
            THEN conjunct2, THEN conjunct2, THEN conjunct2,
            THEN conjunct2, THEN conjunct2, THEN conjunct2,
            THEN conjunct2]
    by blast
  have "negative (x4 (Vector4_ClampMagnitude Vector4_one (Finite False 1 (- 1))))
      = negative (x4 Vector4_one)"
    using hs small3[THEN conjunct2, THEN conjunct2, THEN conjunct2,
            THEN conjunct2, THEN conjunct2, THEN conjunct2,
            THEN conjunct2, THEN conjunct2, THEN conjunct2,
            THEN conjunct1]
    by blast
  have "negative (y4 (Vector4_ClampMagnitude Vector4_one (Finite False 1 (- 1))))
      = negative (y4 Vector4_one)"
    using hs small3[THEN conjunct2, THEN conjunct2, THEN conjunct2,
            THEN conjunct2, THEN conjunct2, THEN conjunct2,
            THEN conjunct2, THEN conjunct2, THEN conjunct2,
            THEN conjunct2, THEN conjunct1]
    by blast
  have "negative (z4 (Vector4_ClampMagnitude Vector4_one (Finite False 1 (- 1))))
      = negative (z4 Vector4_one)"
    using hs small3[THEN conjunct2, THEN conjunct2, THEN conjunct2,
            THEN conjunct2, THEN conjunct2, THEN conjunct2,
            THEN conjunct2, THEN conjunct2, THEN conjunct2,
            THEN conjunct2, THEN conjunct2]
    by blast
  have "is_finite (Vector2_magnitude (Vector2_ClampMagnitude Vector2_one (Finite False 1 (- 1))))"
    using hs small4
    by blast
  have "\<bar>valof (Vector2_magnitude (Vector2_ClampMagnitude Vector2_one (Finite False 1 (-
      1)))) - \<bar>valof (Finite False 1 (- 1))\<bar>\<bar>
      \<le> \<bar>valof (Finite False 1 (- 1))\<bar> / 2 ^ 48"
    using hs small4
    by blast
  have "\<bar>valof (x2 (Vector2_ClampMagnitude Vector2_one (Finite False 1 (- 1))))
        - valof (x2 Vector2_one) * (valof (Finite False 1 (- 1)) / valof (Vector2_magnitude
            Vector2_one))\<bar>
      \<le> \<bar>valof (x2 Vector2_one) * (valof (Finite False 1 (- 1)) / valof
          (Vector2_magnitude Vector2_one))\<bar> / 2 ^ 50 + 1 / 2 ^ 1075"
    using hs small4
    by blast
  have "\<bar>valof (y2 (Vector2_ClampMagnitude Vector2_one (Finite False 1 (- 1))))
        - valof (y2 Vector2_one) * (valof (Finite False 1 (- 1)) / valof (Vector2_magnitude
            Vector2_one))\<bar>
      \<le> \<bar>valof (y2 Vector2_one) * (valof (Finite False 1 (- 1)) / valof
          (Vector2_magnitude Vector2_one))\<bar> / 2 ^ 50 + 1 / 2 ^ 1075"
    using hs small4
    by blast
  have "is_finite (Vector3_magnitude (Vector3_ClampMagnitude Vector3_one (Finite False 1 (- 1))))"
    using hs small5
    by blast
  have "\<bar>valof (Vector3_magnitude (Vector3_ClampMagnitude Vector3_one (Finite False 1 (-
      1)))) - \<bar>valof (Finite False 1 (- 1))\<bar>\<bar>
      \<le> \<bar>valof (Finite False 1 (- 1))\<bar> / 2 ^ 48"
    using hs small5
    by blast
  have "\<bar>valof (x3 (Vector3_ClampMagnitude Vector3_one (Finite False 1 (- 1))))
        - valof (x3 Vector3_one) * (valof (Finite False 1 (- 1)) / valof (Vector3_magnitude
            Vector3_one))\<bar>
      \<le> \<bar>valof (x3 Vector3_one) * (valof (Finite False 1 (- 1)) / valof
          (Vector3_magnitude Vector3_one))\<bar> / 2 ^ 50 + 1 / 2 ^ 1075"
    using hs small5
    by blast
  have "\<bar>valof (y3 (Vector3_ClampMagnitude Vector3_one (Finite False 1 (- 1))))
        - valof (y3 Vector3_one) * (valof (Finite False 1 (- 1)) / valof (Vector3_magnitude
            Vector3_one))\<bar>
      \<le> \<bar>valof (y3 Vector3_one) * (valof (Finite False 1 (- 1)) / valof
          (Vector3_magnitude Vector3_one))\<bar> / 2 ^ 50 + 1 / 2 ^ 1075"
    using hs small5
    by blast
  have "\<bar>valof (z3 (Vector3_ClampMagnitude Vector3_one (Finite False 1 (- 1))))
        - valof (z3 Vector3_one) * (valof (Finite False 1 (- 1)) / valof (Vector3_magnitude
            Vector3_one))\<bar>
      \<le> \<bar>valof (z3 Vector3_one) * (valof (Finite False 1 (- 1)) / valof
          (Vector3_magnitude Vector3_one))\<bar> / 2 ^ 50 + 1 / 2 ^ 1075"
    using hs small5
    by blast
  have "is_finite (Vector4_magnitude (Vector4_ClampMagnitude Vector4_one (Finite False 1 (- 1))))"
    using hs small6
    by blast
  have "\<bar>valof (Vector4_magnitude (Vector4_ClampMagnitude Vector4_one (Finite False 1 (-
      1)))) - \<bar>valof (Finite False 1 (- 1))\<bar>\<bar>
      \<le> \<bar>valof (Finite False 1 (- 1))\<bar> / 2 ^ 48"
    using hs small6
    by blast
  have "\<bar>valof (x4 (Vector4_ClampMagnitude Vector4_one (Finite False 1 (- 1))))
        - valof (x4 Vector4_one) * (valof (Finite False 1 (- 1)) / valof (Vector4_magnitude
            Vector4_one))\<bar>
      \<le> \<bar>valof (x4 Vector4_one) * (valof (Finite False 1 (- 1)) / valof
          (Vector4_magnitude Vector4_one))\<bar> / 2 ^ 50 + 1 / 2 ^ 1075"
    using hs small6
    by blast
  have "\<bar>valof (y4 (Vector4_ClampMagnitude Vector4_one (Finite False 1 (- 1))))
        - valof (y4 Vector4_one) * (valof (Finite False 1 (- 1)) / valof (Vector4_magnitude
            Vector4_one))\<bar>
      \<le> \<bar>valof (y4 Vector4_one) * (valof (Finite False 1 (- 1)) / valof
          (Vector4_magnitude Vector4_one))\<bar> / 2 ^ 50 + 1 / 2 ^ 1075"
    using hs small6
    by blast
  have "\<bar>valof (z4 (Vector4_ClampMagnitude Vector4_one (Finite False 1 (- 1))))
        - valof (z4 Vector4_one) * (valof (Finite False 1 (- 1)) / valof (Vector4_magnitude
            Vector4_one))\<bar>
      \<le> \<bar>valof (z4 Vector4_one) * (valof (Finite False 1 (- 1)) / valof
          (Vector4_magnitude Vector4_one))\<bar> / 2 ^ 50 + 1 / 2 ^ 1075"
    using hs small6
    by blast
  have "\<bar>valof (w4 (Vector4_ClampMagnitude Vector4_one (Finite False 1 (- 1))))
        - valof (w4 Vector4_one) * (valof (Finite False 1 (- 1)) / valof (Vector4_magnitude
            Vector4_one))\<bar>
      \<le> \<bar>valof (w4 Vector4_one) * (valof (Finite False 1 (- 1)) / valof
          (Vector4_magnitude Vector4_one))\<bar> / 2 ^ 50 + 1 / 2 ^ 1075"
    using hs small6
    by blast
  show ?thesis
    by (intro conjI) fact+
qed

section \<open>The arithmetic against known values\<close>

text \<open>
  Sums, quotients and square roots whose correctly rounded value is known, among them a
  tie, an overflow and two underflows.
\<close>

lemma arithmetic_spot_checks:
  "js_add (js_div js_one (Finite False 5 1)) (js_div js_one (Finite False 5 0))
   = Finite False 1351079888211149 (- 52)"
  "js_div js_one (Finite False 3 0) = Finite False 6004799503160661 (- 54)"
  "Math_sqrt (Finite False 1 1) = Finite False 6369051672525773 (- 52)"
  "js_add (Finite False 1 53) js_one = Finite False 1 53"
  "js_add (Finite False 9007199254740991 971) (Finite False 1 970) = Infinity False"
  "js_mul (Finite False 1 (- 600)) (Finite False 1 (- 600)) = js_zero"
  "js_div (Finite False 1 (- 1074)) (Finite False 1 1) = js_zero"
  "js_div (Finite False 3 (- 1074)) (Finite False 1 1) = Finite False 1 (- 1073)"
  "js_sub js_one (Finite False 1 54) = Finite True 1 54"
  by (simp_all add: number_eval)

text \<open>The scenarios the documentation of the library gives.\<close>

lemma scenario_magnitude:
  "Vector3_magnitude \<lparr>x3 = Finite False 3 0, y3 = Finite False 1 2, z3 = js_zero\<rparr>
   = Finite False 5 0"
  by (simp add: Vector3_magnitude_def number_eval)

lemma scenario_Cross: "Vector3_Cross Vector3_right Vector3_up = Vector3_forward"
  by (simp add: Vector3_Cross_def Vector3_right_def Vector3_up_def Vector3_forward_def
      new_Vector3_def number_eval)

lemma scenario_Dot: "Vector2_Dot Vector2_right Vector2_up = js_zero"
  by (simp add: Vector2_Dot_def Vector2_right_def Vector2_up_def new_Vector2_def number_eval)

lemma scenario_Add_method:
  "Vector2_Add_method
     [\<lparr>x2 = js_one, y2 = js_one\<rparr>, \<lparr>x2 = Finite False 1 1, y2
         = Finite False 3 0\<rparr>]
     0 (RefArg 1)
   = [\<lparr>x2 = Finite False 3 0, y2 = Finite False 1 2\<rparr>,
      \<lparr>x2 = Finite False 1 1, y2 = Finite False 3 0\<rparr>]"
  by (simp add: Vector2_Add_method_def Let_def number_eval)

lemma scenario_default_w: "w4 (new_Vector4 None None None None) = js_one"
  by (simp add: new_Vector4_def)

end
